(* ===== verification/Prelude.thy ===== *)
theory Prelude
  imports Complex_Main "HOL-Library.Multiset"
begin

text \<open>
  Shared vocabulary of the development: the types that name the program's values
  (JavaScript numbers as \<open>real\<close>, \<open>Date\<close> values as millisecond \<open>int\<close>s, symbols as
  strings), the JavaScript library operations the sources call (\<open>Math.max(...xs)\<close>,
  \<open>Math.round\<close>, \<open>Array.findIndex\<close>, \<open>Array.lastIndexOf\<close>, the decimal string of a
  number), and their laws, declared into the collection \<open>js_simps\<close> so that the
  component theories can use them with \<open>simp add: js_simps\<close>.
\<close>

type_synonym millis = int
type_synonym sym = string

named_theorems js_simps "laws of the JavaScript library operations used by the model"

subsection \<open>JavaScript library operations\<close>

text \<open>
  \<open>Math.max()\<close> of no argument is \<open>-Infinity\<close> and \<open>Math.min()\<close> is \<open>Infinity\<close>; the code
  tests the result with \<open>isFinite\<close>. The model returns \<open>None\<close> for the infinite result.
\<close>

fun js_max_list :: "real list \<Rightarrow> real option" where
  "js_max_list [] = None"
| "js_max_list (x # xs) = Some (fold max xs x)"

fun js_min_list :: "real list \<Rightarrow> real option" where
  "js_min_list [] = None"
| "js_min_list (x # xs) = Some (fold min xs x)"

text \<open>\<open>Math.round(x)\<close> is the integer nearest to \<open>x\<close>, halves rounded up.\<close>

definition js_round :: "real \<Rightarrow> int" where
  "js_round x = \<lfloor>x + 1/2\<rfloor>"

text \<open>\<open>Array.prototype.findIndex\<close> and \<open>lastIndexOf\<close>: \<open>-1\<close> for "not found" is \<open>None\<close>.\<close>

fun find_index_js :: "('a \<Rightarrow> bool) \<Rightarrow> 'a list \<Rightarrow> nat option" where
  "find_index_js P [] = None"
| "find_index_js P (x # xs) =
     (if P x then Some 0 else map_option Suc (find_index_js P xs))"

fun last_index_of :: "'a \<Rightarrow> 'a list \<Rightarrow> nat option" where
  "last_index_of a [] = None"
| "last_index_of a (x # xs) =
     (case last_index_of a xs of
        Some i \<Rightarrow> Some (Suc i)
      | None \<Rightarrow> (if x = a then Some 0 else None))"

text \<open>\<open>String.prototype.endsWith\<close> and \<open>startsWith\<close>.\<close>

definition js_ends_with :: "string \<Rightarrow> string \<Rightarrow> bool" where
  "js_ends_with s suf \<longleftrightarrow> length suf \<le> length s \<and> drop (length s - length suf) s = suf"

definition js_starts_with :: "string \<Rightarrow> string \<Rightarrow> bool" where
  "js_starts_with s pre \<longleftrightarrow> take (length pre) s = pre"

text \<open>\<open>s.replace(pat, r)\<close> with a string pattern replaces its first occurrence only.\<close>

fun js_replace_first :: "string \<Rightarrow> string \<Rightarrow> string \<Rightarrow> string" where
  "js_replace_first pat r [] = (if pat = [] then r else [])"
| "js_replace_first pat r (c # cs) =
     (if take (length pat) (c # cs) = pat then r @ drop (length pat) (c # cs)
      else c # js_replace_first pat r cs)"

text \<open>
  \<open>s + n\<close> with a string \<open>s\<close> and a non-negative integer \<open>n\<close> appends the decimal digits
  of \<open>n\<close> (no leading zero, \<open>''0''\<close> for zero), as \<open>Number.prototype.toString\<close> does.
\<close>

fun nat_digits :: "nat \<Rightarrow> string" where
  "nat_digits n =
     (if n < 10 then [''0123456789'' ! n] else nat_digits (n div 10) @ [''0123456789'' ! (n mod 10)])"

definition js_int_string :: "int \<Rightarrow> string" where
  "js_int_string k = (if k < 0 then CHR ''-'' # nat_digits (nat (- k)) else nat_digits (nat k))"

text \<open>Reading a decimal string back (\<open>parseInt\<close> on what \<open>toString\<close> printed).\<close>

definition digit_value :: "char \<Rightarrow> nat" where
  "digit_value c = of_char c - 48"

definition digits_value :: "string \<Rightarrow> nat" where
  "digits_value s = foldl (\<lambda>acc c. 10 * acc + digit_value c) 0 s"

definition int_value :: "string \<Rightarrow> int" where
  "int_value s = (if s \<noteq> [] \<and> hd s = CHR ''-'' then - int (digits_value (tl s)) else int (digits_value s))"

text \<open>The Latin-1 letters of the Portuguese messages of the sources (one UTF-16 unit each).\<close>

abbreviation a_acute :: char where "a_acute \<equiv> char_of (225::nat)"
abbreviation a_tilde :: char where "a_tilde \<equiv> char_of (227::nat)"
abbreviation c_cedil :: char where "c_cedil \<equiv> char_of (231::nat)"
abbreviation e_acute :: char where "e_acute \<equiv> char_of (233::nat)"
abbreviation e_circ :: char where "e_circ \<equiv> char_of (234::nat)"
abbreviation i_acute :: char where "i_acute \<equiv> char_of (237::nat)"
abbreviation o_acute :: char where "o_acute \<equiv> char_of (243::nat)"

declare nat_digits.simps [simp del]

subsection \<open>Laws\<close>

lemma fold_max_ge: "a \<le> fold max xs (a::real) \<and> (\<forall>x\<in>set xs. x \<le> fold max xs a)"
proof (induction xs arbitrary: a)
  case (Cons y ys)
  from Cons.IH [of "max y a"] show ?case by (auto intro: order_trans [of _ "max y a"])
qed simp

lemma fold_max_mem: "fold max xs (a::real) \<in> insert a (set xs)"
  by (induction xs arbitrary: a) (auto simp: max_def)

lemma fold_min_le: "fold min xs (a::real) \<le> a \<and> (\<forall>x\<in>set xs. fold min xs a \<le> x)"
proof (induction xs arbitrary: a)
  case (Cons y ys)
  from Cons.IH [of "min y a"] show ?case by (auto intro: order_trans [of _ "min y a"])
qed simp

lemma fold_min_mem: "fold min xs (a::real) \<in> insert a (set xs)"
  by (induction xs arbitrary: a) (auto simp: min_def)

lemma js_max_list_None [js_simps]: "js_max_list xs = None \<longleftrightarrow> xs = []"
  by (cases xs) auto

lemma js_min_list_None [js_simps]: "js_min_list xs = None \<longleftrightarrow> xs = []"
  by (cases xs) auto

lemma js_max_list_Some:
  assumes "js_max_list xs = Some m"
  shows "m \<in> set xs" and "\<forall>x\<in>set xs. x \<le> m"
  using assms fold_max_mem fold_max_ge by (cases xs; fastforce)+

lemma js_min_list_Some:
  assumes "js_min_list xs = Some m"
  shows "m \<in> set xs" and "\<forall>x\<in>set xs. m \<le> x"
  using assms fold_min_mem fold_min_le by (cases xs; fastforce)+

lemma ex_from_index: "(\<exists>i. j \<le> i \<and> i < n \<and> P i) \<longleftrightarrow> (j < n \<and> P j) \<or> (\<exists>i. Suc j \<le> i \<and> i < n \<and> P i)"
  using le_eq_less_or_eq Suc_le_eq by (metis less_or_eq_imp_le Suc_leD)

lemma js_round_mono: "x \<le> y \<Longrightarrow> js_round x \<le> js_round y"
  by (simp add: js_round_def floor_mono)

lemma js_round_of_int [js_simps]: "js_round (of_int k) = k"
  by (simp add: js_round_def)

lemma js_round_bounds:
  assumes "of_int lo \<le> x" and "x \<le> of_int hi"
  shows "lo \<le> js_round x \<and> js_round x \<le> hi"
  using js_round_mono [OF assms(1)] js_round_mono [OF assms(2)] by (simp add: js_round_of_int)

lemma find_index_js_None [js_simps]: "find_index_js P xs = None \<longleftrightarrow> (\<forall>x\<in>set xs. \<not> P x)"
  by (induction xs) auto

lemma find_index_js_Some:
  "find_index_js P xs = Some i \<Longrightarrow> i < length xs \<and> P (xs ! i) \<and> (\<forall>j<i. \<not> P (xs ! j))"
proof (induction xs arbitrary: i)
  case Nil
  then show ?case by simp
next
  case (Cons x xs)
  then show ?case
    by (auto split: if_splits simp: nth_Cons' less_Suc_eq_0_disj)
qed

lemma last_index_of_None [js_simps]: "last_index_of a xs = None \<longleftrightarrow> a \<notin> set xs"
  by (induction xs) (auto split: option.splits)

lemma last_index_of_Some:
  "last_index_of a xs = Some i \<Longrightarrow> i < length xs \<and> xs ! i = a \<and> (\<forall>j. i < j \<and> j < length xs \<longrightarrow> xs ! j \<noteq> a)"
proof (induction xs arbitrary: i)
  case Nil
  then show ?case by simp
next
  case (Cons x xs)
  show ?case
  proof (cases "last_index_of a xs")
    case None
    with Cons.prems have "i = 0" "x = a" by (auto split: if_splits)
    moreover from None have "a \<notin> set xs" by (simp add: last_index_of_None)
    ultimately show ?thesis by (auto simp: nth_Cons' dest: nth_mem)
  next
    case (Some k)
    with Cons.prems have i: "i = Suc k" by simp
    have "(x # xs) ! j \<noteq> a" if "Suc k < j" "j < length (x # xs)" for j
    proof -
      from that have "k < j - 1" "j - 1 < length xs" "(x # xs) ! j = xs ! (j - 1)" by auto
      with Cons.IH [OF Some] show ?thesis by auto
    qed
    with Cons.IH [OF Some] i show ?thesis by auto
  qed
qed

lemma nat_digits_nonempty [js_simps]: "nat_digits n \<noteq> []"
  by (subst nat_digits.simps) simp

text \<open>Generic facts on lists and maps.\<close>

lemma append_sep_eq:
  assumes "c \<notin> set a1" and "c \<notin> set a2" and "a1 @ c # b1 = a2 @ c # b2"
  shows "a1 = a2 \<and> b1 = b2"
  using assms
proof (induction a1 arbitrary: a2)
  case Nil
  then show ?case by (cases a2) auto
next
  case (Cons x a1)
  then show ?case by (cases a2) auto
qed

lemma map_le_Some: "m1 \<subseteq>\<^sub>m m2 \<Longrightarrow> m1 k = Some v \<Longrightarrow> m2 k = Some v"
  by (force simp: map_le_def)

lemma replicate_numeral_Cons: "replicate (numeral n) x = x # replicate (pred_numeral n) x"
  by (simp add: numeral_eq_Suc)

lemma digits_value_snoc [simp]: "digits_value (s @ [c]) = 10 * digits_value s + digit_value c"
  by (simp add: digits_value_def)

lemma digit_value_nth: "n < 10 \<Longrightarrow> digit_value (''0123456789'' ! n) = n"
  by (auto simp: digit_value_def numeral_eq_Suc less_Suc_eq)

lemma digits_value_nat_digits [simp]: "digits_value (nat_digits n) = n"
proof (induction n rule: nat_digits.induct)
  case (1 n)
  show ?case
  proof (cases "n < 10")
    case True
    then show ?thesis
      using digit_value_nth [OF True] by (subst nat_digits.simps) (simp add: digits_value_def)
  next
    case False
    then show ?thesis
      using "1.IH" digit_value_nth [of "n mod 10"] by (subst nat_digits.simps) simp
  qed
qed

lemma set_nat_digits: "set (nat_digits n) \<subseteq> set ''0123456789''"
proof (induction n rule: nat_digits.induct)
  case (1 n)
  have "''0123456789'' ! (n mod 10) \<in> set ''0123456789''" by (rule nth_mem) simp
  moreover have "n < 10 \<Longrightarrow> ''0123456789'' ! n \<in> set ''0123456789''" by (rule nth_mem) simp
  ultimately show ?case using "1.IH" by (subst nat_digits.simps) auto
qed

lemma int_value_js_int_string [simp]: "int_value (js_int_string k) = k"
proof (cases "k < 0")
  case True
  then show ?thesis by (simp add: js_int_string_def int_value_def)
next
  case False
  have "hd (nat_digits (nat k)) \<in> set ''0123456789''"
    using set_nat_digits [of "nat k"] hd_in_set [OF nat_digits_nonempty [of "nat k"]] by blast
  then have "hd (nat_digits (nat k)) \<noteq> CHR ''-''" by auto
  with False show ?thesis by (simp add: js_int_string_def int_value_def)
qed


lemma digits_value_zeros: "digits_value (replicate k (CHR ''0'') @ s) = digits_value s"
proof -
  have "foldl (\<lambda>acc c. 10 * acc + digit_value c) 0 (replicate k (CHR ''0'')) = 0"
    by (induction k) (simp_all add: digit_value_def replicate_append_same [symmetric])
  then show ?thesis by (simp add: digits_value_def)
qed

end
