(* ===== verification/Types.thy ===== *)
theory Types
  imports Prelude
begin

text \<open>
  The data model of \<open>src/types.ts\<close> and the exchange records of
  \<open>src/services/mockSignalService.ts\<close>: the enums as datatypes, the \<open>TradingSignal\<close>
  interface as a record, and \<open>HistoricalSignal\<close> (which \<open>extends TradingSignal\<close>) as an
  extension of that record. The TypeScript tuples \<open>[number, number]\<close> and
  \<open>[boolean, boolean, boolean, boolean, boolean]\<close> are a pair and a list; that the lists
  have length five is the type invariant \<open>wf_signal\<close>. Optional fields (\<open>tpsHit?\<close>,
  \<open>quoteVolume?\<close>) are options: \<open>None\<close> is \<open>undefined\<close>.
\<close>

datatype signal_direction = LONG | SHORT

datatype signal_status = WIN | LOSS | PARTIAL_WIN

datatype market_sentiment = BULLISH | BEARISH | NEUTRAL

datatype history_filter = HDay | HWeek | HMonth | HYear | HAll | HCustom

record trading_signal =
  sig_id :: sym
  symbol :: string
  pair :: string
  change24h :: real
  price :: real
  direction :: signal_direction
  probability :: int
  entryZone :: "real \<times> real"
  stopLoss :: real
  takeProfit :: "real list"
  confidence :: string
  riskNotes :: string
  timestamp :: millis
  tpsHit :: "bool list option"
  safeLeverage :: int
  quoteVolume :: "real option"

record historical_signal = trading_signal +
  status :: signal_status
  resultPercent :: real
  resolvedAt :: millis

text \<open>\<open>BinanceTicker\<close>: the fields are decimal strings the code reads with \<open>parseFloat\<close>;
  the model holds the parsed numbers.\<close>

record binance_ticker =
  tk_symbol :: sym
  priceChangePercent :: real
  lastPrice :: real
  tk_quoteVolume :: real

text \<open>
  \<open>CachedSignalParameters\<close> is \<open>Omit<TradingSignal, 'price' | 'change24h' | 'tpsHit' |
  'resolution'>\<close>: the plan of a signal without its live fields.
\<close>

record cached_params =
  cp_id :: sym
  cp_symbol :: string
  cp_pair :: string
  cp_direction :: signal_direction
  cp_probability :: int
  cp_entryZone :: "real \<times> real"
  cp_stopLoss :: real
  cp_takeProfit :: "real list"
  cp_confidence :: string
  cp_riskNotes :: string
  cp_timestamp :: millis
  cp_safeLeverage :: int

text \<open>\<open>getAllFuturesTickers\<close>: the 24h ticker response (\<open>None\<close> when the fetch fails or
  answers non-2xx, which the code turns into a thrown error) filtered to \<open>USDT\<close> symbols.\<close>

definition getAllFuturesTickers :: "binance_ticker list option \<Rightarrow> binance_ticker list option" where
  "getAllFuturesTickers resp = map_option (filter (\<lambda>t. js_ends_with (tk_symbol t) ''USDT'')) resp"

text \<open>The TypeScript tuple types: five take-profits, five hit flags.\<close>

definition wf_signal :: "('a) trading_signal_scheme \<Rightarrow> bool" where
  "wf_signal s \<longleftrightarrow> length (takeProfit s) = 5 \<and> (case tpsHit s of None \<Rightarrow> True | Some h \<Rightarrow> length h = 5)"

text \<open>A historical record keeps the signal's fields: the snapshot \<open>{...signal, status, ...}\<close>.\<close>

definition mk_historical :: "trading_signal \<Rightarrow> signal_status \<Rightarrow> real \<Rightarrow> millis \<Rightarrow> historical_signal" where
  "mk_historical s st r t = trading_signal.extend s (historical_signal.fields st r t)"

lemma mk_historical_sel [simp]:
  "sig_id (mk_historical s st r t) = sig_id s"
  "timestamp (mk_historical s st r t) = timestamp s"
  "tpsHit (mk_historical s st r t) = tpsHit s"
  "takeProfit (mk_historical s st r t) = takeProfit s"
  "direction (mk_historical s st r t) = direction s"
  "price (mk_historical s st r t) = price s"
  "status (mk_historical s st r t) = st"
  "resultPercent (mk_historical s st r t) = r"
  "resolvedAt (mk_historical s st r t) = t"
  by (simp_all add: mk_historical_def trading_signal.defs historical_signal.defs)

end
