(* ===== verification/Lifecycle.thy ===== *)
theory Lifecycle
  imports Types
begin

text \<open>
  The lifecycle engine of \<open>src/src/App.tsx\<close>: the body of \<open>fetchSignals\<close> (lines 49-264),
  which every five seconds re-prices the active board, evicts signals older than two
  hours, resolves stop-loss and take-profit hits, writes the history, and asks the
  signal service for replacements. The signal service is the interface of this theory:
  \<open>rm\<close> is \<open>removeSignalFromCache\<close> and \<open>get\<close> is \<open>getTradingSignals\<close>, both acting
  on the service state \<open>'c\<close>; \<open>Engine\<close> instantiates them with the models of
  \<open>mockSignalService.ts\<close>. \<open>get\<close> returns \<open>Inl\<close> with the message when it throws, and the
  service state in both cases: a module-level cache refreshed before the throw stays refreshed.
\<close>

definition TWO_HOURS_IN_MS :: millis where
  "TWO_HOURS_IN_MS = 2 * 60 * 60 * 1000"

text \<open>The entries of \<open>priceMap\<close>, built from the ticker snapshot by \<open>new Map(...)\<close>:
  a later ticker of the same symbol overwrites an earlier one.\<close>

record price_info =
  pi_price :: real
  pi_change :: real
  pi_volume :: real

type_synonym price_map = "sym \<Rightarrow> price_info option"

definition build_price_map :: "binance_ticker list \<Rightarrow> price_map" where
  "build_price_map ts =
     fold (\<lambda>t m. m(tk_symbol t \<mapsto>
       \<lparr>pi_price = lastPrice t, pi_change = priceChangePercent t, pi_volume = tk_quoteVolume t\<rparr>)) ts Map.empty"

subsection \<open>The exit rules\<close>

definition stop_hit :: "signal_direction \<Rightarrow> real \<Rightarrow> real \<Rightarrow> bool" where
  "stop_hit d p sl \<longleftrightarrow> (d = LONG \<and> p \<le> sl) \<or> (d = SHORT \<and> p \<ge> sl)"

definition target_hit :: "signal_direction \<Rightarrow> real \<Rightarrow> real \<Rightarrow> bool" where
  "target_hit d p tp \<longleftrightarrow> (d = LONG \<and> p \<ge> tp) \<or> (d = SHORT \<and> p \<le> tp)"

text \<open>The loop \<open>for (let j = 0; j < 5; j++)\<close> over the hit flags (lines 144-153): it
  returns the new flags and \<open>hasNewTp\<close>.\<close>

function tp_scan :: "signal_direction \<Rightarrow> real \<Rightarrow> real list \<Rightarrow> nat \<Rightarrow> bool list \<Rightarrow> bool \<Rightarrow> bool list \<times> bool" where
  "tp_scan d p tps j hits hasNew =
     (if j < 5 then
        (if \<not> hits ! j \<and> target_hit d p (tps ! j)
         then tp_scan d p tps (Suc j) (hits[j := True]) True
         else tp_scan d p tps (Suc j) hits hasNew)
      else (hits, hasNew))"
  by pat_completeness auto
termination
  by (relation "measure (\<lambda>(d, p, tps, j, hits, hasNew). 5 - j)") auto

declare tp_scan.simps [simp del]

text \<open>The percentage move from the entry midpoint to a level, in the trade's favour
  (lines 170-181 and 197-204); leverage is not applied.\<close>

definition entry_price :: "('a) trading_signal_scheme \<Rightarrow> real" where
  "entry_price s = (fst (entryZone s) + snd (entryZone s)) / 2"

definition move_percent :: "signal_direction \<Rightarrow> real \<Rightarrow> real \<Rightarrow> real" where
  "move_percent d entry level =
     (if d = LONG then ((level - entry) / entry) * 100 else ((entry - level) / entry) * 100)"

definition terminal_result :: "signal_status \<Rightarrow> trading_signal \<Rightarrow> real" where
  "terminal_result rs s =
     (if rs = LOSS then move_percent (direction s) (entry_price s) (stopLoss s)
      else move_percent (direction s) (entry_price s) (takeProfit s ! 4))"

text \<open>\<open>uniqueSignalId\<close>: \<open>signal.id + signal.timestamp.getTime()\<close>, a string.\<close>

definition signal_key :: "('a) trading_signal_scheme \<Rightarrow> string" where
  "signal_key s = sig_id s @ js_int_string (timestamp s)"

text \<open>Writing a record at the index \<open>findIndex\<close> returned, or \<open>unshift\<close>ing it.\<close>

definition hist_put :: "historical_signal list \<Rightarrow> nat option \<Rightarrow> historical_signal \<Rightarrow> historical_signal list" where
  "hist_put hs idx r = (case idx of Some i \<Rightarrow> hs[i := r] | None \<Rightarrow> r # hs)"

subsection \<open>One signal of the loop\<close>

text \<open>The mutable locals of the loop: \<open>newHistoricalSignals\<close>,
  \<open>signalsToRemoveFromActive\<close>, the parameter cache (through \<open>removeSignalFromCache\<close>)
  and \<open>historyChanged\<close>. \<open>newActiveSignals[i]\<close> is read and written only at step \<open>i\<close>,
  so the step returns the value it leaves in that slot.\<close>

record 'c tick_state =
  ts_history :: "historical_signal list"
  ts_remove :: "sym list"
  ts_cache :: 'c
  ts_changed :: bool

definition old_hits :: "('a) trading_signal_scheme \<Rightarrow> bool list" where
  "old_hits s = (case tpsHit s of None \<Rightarrow> replicate 5 False | Some h \<Rightarrow> h)"

definition retire :: "(sym \<Rightarrow> 'c \<Rightarrow> 'c) \<Rightarrow> sym \<Rightarrow> 'c tick_state \<Rightarrow> 'c tick_state" where
  "retire rm x st = st\<lparr>ts_remove := ts_remove st @ [x], ts_cache := rm x (ts_cache st)\<rparr>"

text \<open>Lines 125-130: \<open>updatedSignal\<close>, the signal with the live fields of the ticker.\<close>

definition reprice :: "trading_signal \<Rightarrow> price_info \<Rightarrow> trading_signal" where
  "reprice s td = s\<lparr>price := pi_price td, change24h := pi_change td, quoteVolume := Some (pi_volume td)\<rparr>"

text \<open>Lines 140-153: the hit flags after this tick's price and \<open>hasNewTp\<close>; the
  loop reads \<open>updatedSignal\<close>, whose direction and targets are the signal's.\<close>

definition scan_hits :: "trading_signal \<Rightarrow> price_info \<Rightarrow> bool list \<times> bool" where
  "scan_hits s td = tp_scan (direction s) (pi_price td) (takeProfit s) 0 (old_hits s) False"

text \<open>Lines 155-157: the flags are stored only when one of them is new.\<close>

definition updated_signal :: "trading_signal \<Rightarrow> price_info \<Rightarrow> trading_signal" where
  "updated_signal s td =
     (if snd (scan_hits s td) then (reprice s td)\<lparr>tpsHit := Some (fst (scan_hits s td))\<rparr>
      else reprice s td)"

text \<open>Lines 133-162: \<open>resolutionStatus\<close>; the stop-loss sets \<open>LOSS\<close> first and a hit on
  the fifth target then overwrites it with \<open>WIN\<close>.\<close>

definition resolution :: "trading_signal \<Rightarrow> price_info \<Rightarrow> signal_status option" where
  "resolution s td =
     (if fst (scan_hits s td) ! 4 then Some WIN
      else if stop_hit (direction s) (pi_price td) (stopLoss s) then Some LOSS else None)"

text \<open>Lines 164-225, for a signal that has a fresh price.\<close>

definition eval_priced ::
  "(sym \<Rightarrow> 'c \<Rightarrow> 'c) \<Rightarrow> millis \<Rightarrow> trading_signal \<Rightarrow> price_info \<Rightarrow> 'c tick_state \<Rightarrow> trading_signal \<times> 'c tick_state" where
  "eval_priced rm now s td st =
     (let u = updated_signal s td;
          newHits = fst (scan_hits s td);
          hasNewTp = snd (scan_hits s td);
          idx = find_index_js (\<lambda>h. signal_key h = signal_key s) (ts_history st)
      in case resolution s td of
           Some rs \<Rightarrow>
             (s, (retire rm (sig_id s) st)\<lparr>ts_history :=
                    hist_put (ts_history st) idx (mk_historical u rs (terminal_result rs s) now),
                  ts_changed := True\<rparr>)
         | None \<Rightarrow>
             (if hasNewTp \<or> (tpsHit u \<noteq> None \<and> idx = None) then
                (case last_index_of True newHits of
                   None \<Rightarrow> (s, st)
                 | Some j \<Rightarrow>
                     (let partial = mk_historical u PARTIAL_WIN
                            (move_percent (direction s) (entry_price s) (takeProfit s ! j)) now
                      in case idx of
                           Some i \<Rightarrow>
                             (if tpsHit (ts_history st ! i) \<noteq> Some newHits
                              then (u, st\<lparr>ts_history := (ts_history st)[i := partial], ts_changed := True\<rparr>)
                              else (u, st))
                         | None \<Rightarrow> (u, st\<lparr>ts_history := partial # ts_history st, ts_changed := True\<rparr>)))
              else (u, st)))"

text \<open>Lines 107-123: the time limit first, unconditionally; then no price, no check.\<close>

definition eval_signal ::
  "(sym \<Rightarrow> 'c \<Rightarrow> 'c) \<Rightarrow> millis \<Rightarrow> price_map option \<Rightarrow> trading_signal \<Rightarrow> 'c tick_state \<Rightarrow> trading_signal \<times> 'c tick_state" where
  "eval_signal rm now pm s st =
     (if now - timestamp s > TWO_HOURS_IN_MS then (s, retire rm (sig_id s) st)
      else case (case pm of None \<Rightarrow> None | Some m \<Rightarrow> m (sig_id s)) of
             None \<Rightarrow> (s, st)
           | Some td \<Rightarrow> eval_priced rm now s td st)"

fun eval_signals ::
  "(sym \<Rightarrow> 'c \<Rightarrow> 'c) \<Rightarrow> millis \<Rightarrow> price_map option \<Rightarrow> trading_signal list \<Rightarrow> 'c tick_state \<Rightarrow> trading_signal list \<times> 'c tick_state" where
  "eval_signals rm now pm [] st = ([], st)"
| "eval_signals rm now pm (s # ss) st =
     (let r = eval_signal rm now pm s st;
          rest = eval_signals rm now pm ss (snd r)
      in (fst r # fst rest, snd rest))"

subsection \<open>The whole tick\<close>

text \<open>The component's state: \<open>signals\<close> and \<open>historicalSignals\<close> (React state, persisted
  by \<open>activeSignalService\<close> and \<open>historyService\<close>) and the service state.\<close>

record 'c app_state =
  signals :: "trading_signal list"
  historicalSignals :: "historical_signal list"
  services :: 'c

datatype board_error = ConnectionError | NoActiveSignals

text \<open>\<open>Published e\<close>: \<open>setSignals\<close> ran and \<open>setError(e)\<close>; \<open>Rejected msg\<close>: the awaited
  \<open>getTradingSignals\<close> threw, so the promise of \<open>fetchSignals\<close> rejected after
  \<open>setHistoricalSignals\<close> and before \<open>setSignals\<close>.\<close>

datatype tick_outcome = Published "board_error option" | Rejected string

definition BOARD_SIZE :: nat where
  "BOARD_SIZE = 8"

definition publish :: "trading_signal list \<Rightarrow> historical_signal list \<Rightarrow> 'c \<Rightarrow> bool \<Rightarrow> 'c app_state \<times> tick_outcome" where
  "publish fs hist c connErr =
     (let final = sort_key (\<lambda>s. - timestamp s) fs
      in (\<lparr>signals = final, historicalSignals = hist, services = c\<rparr>,
          Published (if connErr then Some ConnectionError
                     else if final \<noteq> [] then None else Some NoActiveSignals)))"

text \<open>Lines 99-226: the loop over the board, starting from empty locals.\<close>

definition evaluate_board ::
  "(sym \<Rightarrow> 'c \<Rightarrow> 'c) \<Rightarrow> millis \<Rightarrow> price_map option \<Rightarrow> 'c app_state \<Rightarrow> trading_signal list \<times> 'c tick_state" where
  "evaluate_board rm now pm a =
     eval_signals rm now pm (signals a)
       \<lparr>ts_history = historicalSignals a, ts_remove = [], ts_cache = services a, ts_changed = False\<rparr>"

text \<open>Lines 83-89 with 99-226: the loop run on the \<open>priceMap\<close> of the ticker snapshot,
  or on no map when the fetch threw.\<close>

definition board_eval ::
  "(sym \<Rightarrow> 'c \<Rightarrow> 'c) \<Rightarrow> millis \<Rightarrow> binance_ticker list option \<Rightarrow> 'c app_state \<Rightarrow> trading_signal list \<times> 'c tick_state" where
  "board_eval rm now resp a = evaluate_board rm now (map_option build_price_map (getAllFuturesTickers resp)) a"

text \<open>Line 232: \<open>stillActiveSignals\<close>, every slot whose symbol was not marked for removal.\<close>

definition still_active :: "trading_signal list \<times> 'c tick_state \<Rightarrow> trading_signal list" where
  "still_active r = filter (\<lambda>s. sig_id s \<notin> set (ts_remove (snd r))) (fst r)"

text \<open>Lines 228-230: \<open>setHistoricalSignals\<close> only when the loop changed the history.\<close>

definition written_history :: "'c app_state \<Rightarrow> 'c tick_state \<Rightarrow> historical_signal list" where
  "written_history a st = (if ts_changed st then ts_history st else historicalSignals a)"

text \<open>Lines 54-94 and 228-262: the ticker fetch (\<open>None\<close>: it threw, \<open>connectionHasError\<close>),
  the history written when it changed, and the replenishment up to eight signals.\<close>

definition fetch_signals ::
  "(sym \<Rightarrow> 'c \<Rightarrow> 'c) \<Rightarrow> (nat \<Rightarrow> sym list \<Rightarrow> 'c \<Rightarrow> (string + trading_signal list) \<times> 'c) \<Rightarrow>
   millis \<Rightarrow> binance_ticker list option \<Rightarrow> 'c app_state \<Rightarrow> 'c app_state \<times> tick_outcome" where
  "fetch_signals rm get now resp a =
     (let tickers = getAllFuturesTickers resp;
          connErr = (tickers = None);
          r = board_eval rm now resp a;
          st = snd r;
          hist = written_history a st;
          still = still_active r;
          needed = int BOARD_SIZE - int (length still)
      in if \<not> connErr \<and> needed > 0 then
           (case get (nat needed) (map sig_id still) (ts_cache st) of
              (Inl e, c) \<Rightarrow> (a\<lparr>historicalSignals := hist, services := c\<rparr>, Rejected e)
            | (Inr new, c) \<Rightarrow> publish (still @ new) hist c False)
         else publish still hist (ts_cache st) connErr)"

subsection \<open>Specification vocabulary\<close>

text \<open>Whether target \<open>k\<close> of a signal is marked hit (an absent vector marks none).\<close>

definition flag :: "('a) trading_signal_scheme \<Rightarrow> nat \<Rightarrow> bool" where
  "flag s k = (case tpsHit s of None \<Rightarrow> False | Some h \<Rightarrow> h ! k)"

text \<open>What the service promises the lifecycle, for service states satisfying an invariant
  \<open>I\<close>: \<open>getTradingSignals(n, exclude)\<close> keeps the invariant, and when it returns, it
  returns at most \<open>n\<close> well-formed signals, none for an excluded symbol;
  \<open>removeSignalFromCache\<close> keeps the invariant.\<close>

definition get_contract ::
  "('c \<Rightarrow> bool) \<Rightarrow> (nat \<Rightarrow> sym list \<Rightarrow> 'c \<Rightarrow> (string + trading_signal list) \<times> 'c) \<Rightarrow> bool" where
  "get_contract I get \<longleftrightarrow>
     (\<forall>n ex c r c'. I c \<longrightarrow> get n ex c = (r, c') \<longrightarrow>
        I c' \<and> (\<forall>new. r = Inr new \<longrightarrow> length new \<le> n \<and> (\<forall>x\<in>set new. wf_signal x \<and> sig_id x \<notin> set ex)))"

definition rm_contract :: "('c \<Rightarrow> bool) \<Rightarrow> (sym \<Rightarrow> 'c \<Rightarrow> 'c) \<Rightarrow> bool" where
  "rm_contract I rm \<longleftrightarrow> (\<forall>x c. I c \<longrightarrow> I (rm x c))"

subsection \<open>Example signals\<close>

text \<open>A LONG plan on BTCUSDT created at time 0: entry zone 99-101, stop 95, targets
  103 to 125; and the empty locals of the loop.\<close>

definition demo_long :: trading_signal where
  "demo_long = \<lparr>sig_id = ''BTCUSDT'', symbol = ''BTC'', pair = ''USDT'', change24h = 0, price = 100,
     direction = LONG, probability = 90, entryZone = (99, 101), stopLoss = 95,
     takeProfit = [103, 106, 110, 117.5, 125], confidence = ''Alta'', riskNotes = '''',
     timestamp = 0, tpsHit = None, safeLeverage = 5, quoteVolume = None\<rparr>"

definition demo_tick :: "unit tick_state" where
  "demo_tick = \<lparr>ts_history = [], ts_remove = [], ts_cache = (), ts_changed = False\<rparr>"

subsection \<open>The target scan\<close>


lemma tp_scan_length: "length (fst (tp_scan d p tps j hits h)) = length hits"
  by (induction d p tps j hits h rule: tp_scan.induct) (subst tp_scan.simps; simp)

lemma tp_scan_spec:
  assumes "5 \<le> length hits" and "i < 5"
  shows "fst (tp_scan d p tps j hits h) ! i = (hits ! i \<or> (j \<le> i \<and> target_hit d p (tps ! i)))"
  using assms
proof (induction d p tps j hits h rule: tp_scan.induct)
  case (1 d p tps j hits hasNew)
  show ?case
  proof (cases "j < 5")
    case False
    with "1.prems" show ?thesis by (subst tp_scan.simps) auto
  next
    case True
    show ?thesis
    proof (cases "\<not> hits ! j \<and> target_hit d p (tps ! j)")
      case hit: True
      with True "1.IH"(1) [OF True hit] "1.prems" show ?thesis
        by (subst tp_scan.simps) (auto simp: nth_list_update)
    next
      case nohit: False
      with True "1.IH"(2) [OF True nohit] "1.prems" show ?thesis
        by (subst tp_scan.simps) (cases "i = j"; auto simp: Suc_le_eq)
    qed
  qed
qed

lemma tp_scan_new:
  assumes "5 \<le> length hits"
  shows "snd (tp_scan d p tps j hits h) = (h \<or> (\<exists>i. j \<le> i \<and> i < 5 \<and> \<not> hits ! i \<and> target_hit d p (tps ! i)))"
  using assms
proof (induction d p tps j hits h rule: tp_scan.induct)
  case (1 d p tps j hits hasNew)
  show ?case
  proof (cases "j < 5")
    case False
    then show ?thesis by (subst tp_scan.simps) auto
  next
    case True
    note ex = ex_from_index [of j 5 "\<lambda>i. \<not> hits ! i \<and> target_hit d p (tps ! i)"]
    show ?thesis
    proof (cases "\<not> hits ! j \<and> target_hit d p (tps ! j)")
      case hit: True
      with True "1.IH"(1) [OF True hit] "1.prems" ex show ?thesis
        by (subst tp_scan.simps) auto
    next
      case nohit: False
      with True "1.IH"(2) [OF True nohit] "1.prems" ex show ?thesis
        by (subst tp_scan.simps) auto
    qed
  qed
qed

subsection \<open>One step of the loop\<close>


lemma reprice_sel [simp]:
  "sig_id (reprice s td) = sig_id s" "timestamp (reprice s td) = timestamp s"
  "tpsHit (reprice s td) = tpsHit s" "takeProfit (reprice s td) = takeProfit s"
  "stopLoss (reprice s td) = stopLoss s" "entryZone (reprice s td) = entryZone s"
  "direction (reprice s td) = direction s" "price (reprice s td) = pi_price td"
  by (simp_all add: reprice_def)

lemma signal_key_upd [simp]:
  "signal_key (reprice s td) = signal_key s"
  "signal_key (s\<lparr>tpsHit := x\<rparr>) = signal_key s"
  "signal_key (mk_historical u rs r t) = signal_key u"
  by (simp_all add: signal_key_def)

lemma flag_reprice [simp]: "flag (reprice s td) k = flag s k"
  by (simp add: flag_def)

lemma wf_old_hits: "wf_signal s \<Longrightarrow> length (old_hits s) = 5"
  by (auto simp: wf_signal_def old_hits_def split: option.splits)

lemma old_hits_flag: "k < 5 \<Longrightarrow> old_hits s ! k = flag s k"
  by (simp add: old_hits_def flag_def split: option.splits)

lemma scan_hits_flag:
  assumes "wf_signal s" and "k < 5"
  shows "fst (scan_hits s td) ! k = (flag s k \<or> target_hit (direction s) (pi_price td) (takeProfit s ! k))"
proof -
  have "5 \<le> length (old_hits s)" using wf_old_hits [OF assms(1)] by simp
  from tp_scan_spec [OF this assms(2)] show ?thesis
    by (simp add: scan_hits_def old_hits_flag [OF assms(2)])
qed

lemma updated_signal_sel [simp]:
  "sig_id (updated_signal s td) = sig_id s" "timestamp (updated_signal s td) = timestamp s"
  "takeProfit (updated_signal s td) = takeProfit s" "stopLoss (updated_signal s td) = stopLoss s"
  "entryZone (updated_signal s td) = entryZone s" "direction (updated_signal s td) = direction s"
  "signal_key (updated_signal s td) = signal_key s"
  by (simp_all add: updated_signal_def signal_key_def)

lemma updated_signal_flag:
  assumes "wf_signal s" and "k < 5"
  shows "flag (updated_signal s td) k = (flag s k \<or> target_hit (direction s) (pi_price td) (takeProfit s ! k))"
proof (cases "snd (scan_hits s td)")
  case True
  then show ?thesis using scan_hits_flag [OF assms] by (simp add: updated_signal_def flag_def)
next
  case False
  have "5 \<le> length (old_hits s)" using wf_old_hits [OF assms(1)] by simp
  from tp_scan_new [OF this] False have "\<not> (\<not> old_hits s ! k \<and> target_hit (direction s) (pi_price td) (takeProfit s ! k))"
    using assms(2) by (auto simp: scan_hits_def)
  with False show ?thesis by (auto simp: updated_signal_def old_hits_flag [OF assms(2)])
qed

lemma updated_signal_wf: "wf_signal s \<Longrightarrow> wf_signal (updated_signal s td)"
  by (auto simp: updated_signal_def wf_signal_def scan_hits_def tp_scan_length
      wf_old_hits [unfolded wf_signal_def] reprice_def)

lemma eval_priced_slot: "fst (eval_priced rm now s td st) \<in> {s, updated_signal s td}"
  unfolding eval_priced_def Let_def by (auto split: option.splits)

lemma eval_signal_slot:
  "fst (eval_signal rm now pm s st) = s \<or> (\<exists>td. fst (eval_signal rm now pm s st) = updated_signal s td)"
proof (cases "(case pm of None \<Rightarrow> None | Some m \<Rightarrow> m (sig_id s))")
  case None
  then show ?thesis by (simp add: eval_signal_def)
next
  case (Some td)
  then show ?thesis using eval_priced_slot [of rm now s td st] by (auto simp: eval_signal_def)
qed

lemma eval_signal_frame:
  "sig_id (fst (eval_signal rm now pm s st)) = sig_id s \<and>
   signal_key (fst (eval_signal rm now pm s st)) = signal_key s \<and>
   takeProfit (fst (eval_signal rm now pm s st)) = takeProfit s \<and>
   stopLoss (fst (eval_signal rm now pm s st)) = stopLoss s \<and>
   entryZone (fst (eval_signal rm now pm s st)) = entryZone s \<and>
   direction (fst (eval_signal rm now pm s st)) = direction s \<and>
   timestamp (fst (eval_signal rm now pm s st)) = timestamp s"
  using eval_signal_slot [of rm now pm s st] by auto

lemma eval_signal_wf: "wf_signal s \<Longrightarrow> wf_signal (fst (eval_signal rm now pm s st))"
  using eval_signal_slot [of rm now pm s st] updated_signal_wf by auto

lemma eval_signal_sticky:
  "wf_signal s \<Longrightarrow> k < 5 \<Longrightarrow> flag s k \<Longrightarrow> flag (fst (eval_signal rm now pm s st)) k"
  using eval_signal_slot [of rm now pm s st] updated_signal_flag by auto

lemma resolution_spec:
  assumes "wf_signal s"
  shows "resolution s td =
    (if flag s 4 \<or> target_hit (direction s) (pi_price td) (takeProfit s ! 4) then Some WIN
     else if stop_hit (direction s) (pi_price td) (stopLoss s) then Some LOSS else None)"
  using scan_hits_flag [OF assms, of 4] by (simp add: resolution_def)

lemma hist_put_distinct:
  assumes "distinct (map signal_key hs)"
    and "find_index_js (\<lambda>h. signal_key h = signal_key r) hs = idx"
  shows "distinct (map signal_key (hist_put hs idx r))"
proof (cases idx)
  case None
  with assms show ?thesis by (auto simp: hist_put_def find_index_js_None)
next
  case (Some i)
  with assms(2) have "i < length hs" "signal_key (hs ! i) = signal_key r"
    using find_index_js_Some by blast+
  then have "map signal_key (hs[i := r]) = map signal_key hs"
    by (metis list_update_id map_update)
  with assms(1) Some show ?thesis by (simp add: hist_put_def)
qed

lemma hist_put_mem:
  "find_index_js (\<lambda>h. signal_key h = signal_key r) hs = idx \<Longrightarrow> r \<in> set (hist_put hs idx r)"
  using find_index_js_Some [of _ hs]
  by (auto simp: hist_put_def set_update_memI split: option.splits)

lemma eval_priced_distinct:
  assumes "distinct (map signal_key (ts_history st))"
  shows "distinct (map signal_key (ts_history (snd (eval_priced rm now s td st))))"
proof -
  let ?idx = "find_index_js (\<lambda>h. signal_key h = signal_key s) (ts_history st)"
  have put: "distinct (map signal_key (hist_put (ts_history st) ?idx r))" if "signal_key r = signal_key s" for r
    using hist_put_distinct [OF assms, of r] that by simp
  have upd: "distinct (map signal_key ((ts_history st)[i := r]))"
    if "?idx = Some i" "signal_key r = signal_key s" for i r
    using put [OF that(2)] that(1) by (simp add: hist_put_def)
  have cons: "distinct (map signal_key (r # ts_history st))"
    if "?idx = None" "signal_key r = signal_key s" for r
    using put [OF that(2)] that(1) by (simp add: hist_put_def)
  show ?thesis
    unfolding eval_priced_def Let_def
    using assms upd cons put by (auto simp: retire_def find_index_js_None split: option.splits)
qed

lemma eval_priced_resolved:
  assumes "resolution s td = Some rs"
  shows "eval_priced rm now s td st =
    (s, (retire rm (sig_id s) st)\<lparr>ts_history :=
       hist_put (ts_history st) (find_index_js (\<lambda>h. signal_key h = signal_key s) (ts_history st))
         (mk_historical (updated_signal s td) rs (terminal_result rs s) now),
       ts_changed := True\<rparr>)"
  using assms by (simp add: eval_priced_def Let_def)

lemma eval_priced_resolves:
  assumes "resolution s td = Some rs"
  shows "sig_id s \<in> set (ts_remove (snd (eval_priced rm now s td st))) \<and>
         ts_cache (snd (eval_priced rm now s td st)) = rm (sig_id s) (ts_cache st) \<and>
         (\<exists>h\<in>set (ts_history (snd (eval_priced rm now s td st))). signal_key h = signal_key s \<and>
            status h = rs \<and> resultPercent h = terminal_result rs s \<and> resolvedAt h = now)"
  using hist_put_mem [of "mk_historical (updated_signal s td) rs (terminal_result rs s) now" "ts_history st"]
  by (force simp: eval_priced_resolved [OF assms] retire_def)



subsection \<open>The loop\<close>


lemma retire_sel [simp]:
  "ts_history (retire rm x st) = ts_history st" "ts_remove (retire rm x st) = ts_remove st @ [x]"
  "ts_changed (retire rm x st) = ts_changed st" "ts_cache (retire rm x st) = rm x (ts_cache st)"
  by (simp_all add: retire_def)

lemma eval_signal_distinct:
  "distinct (map signal_key (ts_history st)) \<Longrightarrow>
   distinct (map signal_key (ts_history (snd (eval_signal rm now pm s st))))"
  using eval_priced_distinct by (auto simp: eval_signal_def split: option.splits)

lemma eval_signal_remove:
  "\<exists>xs. ts_remove (snd (eval_signal rm now pm s st)) = ts_remove st @ xs \<and> set xs \<subseteq> {sig_id s}"
  unfolding eval_signal_def eval_priced_def Let_def
  by (auto split: option.splits intro: exI [of _ "[]"])

lemma eval_signal_evicts:
  "TWO_HOURS_IN_MS < now - timestamp s \<Longrightarrow> sig_id s \<in> set (ts_remove (snd (eval_signal rm now pm s st)))"
  by (simp add: eval_signal_def)

lemma eval_signals_length [simp]: "length (fst (eval_signals rm now pm ss st)) = length ss"
  by (induction ss arbitrary: st) (simp_all add: Let_def)

lemma eval_signals_step:
  "i < length ss \<Longrightarrow> \<exists>st'. fst (eval_signals rm now pm ss st) ! i = fst (eval_signal rm now pm (ss ! i) st')"
proof (induction ss arbitrary: st i)
  case Nil
  then show ?case by simp
next
  case (Cons s ss)
  then show ?case by (cases i) (auto simp: Let_def)
qed

lemma eval_signals_distinct:
  "distinct (map signal_key (ts_history st)) \<Longrightarrow>
   distinct (map signal_key (ts_history (snd (eval_signals rm now pm ss st))))"
  by (induction ss arbitrary: st) (simp_all add: Let_def eval_signal_distinct)

lemma eval_signals_remove:
  "set (ts_remove st) \<subseteq> set (ts_remove (snd (eval_signals rm now pm ss st))) \<and>
   set (ts_remove (snd (eval_signals rm now pm ss st))) \<subseteq> set (ts_remove st) \<union> sig_id ` set ss"
proof (induction ss arbitrary: st)
  case Nil
  then show ?case by simp
next
  case (Cons s ss)
  obtain xs where "ts_remove (snd (eval_signal rm now pm s st)) = ts_remove st @ xs" "set xs \<subseteq> {sig_id s}"
    using eval_signal_remove by blast
  with Cons.IH [of "snd (eval_signal rm now pm s st)"] show ?case by (auto simp: Let_def)
qed

lemma eval_signals_evicts:
  "s \<in> set ss \<Longrightarrow> TWO_HOURS_IN_MS < now - timestamp s \<Longrightarrow>
   sig_id s \<in> set (ts_remove (snd (eval_signals rm now pm ss st)))"
proof (induction ss arbitrary: st)
  case Nil
  then show ?case by simp
next
  case (Cons s' ss)
  show ?case
  proof (cases "s' = s")
    case True
    with Cons.prems eval_signal_evicts [of now s rm pm st]
      eval_signals_remove [of "snd (eval_signal rm now pm s st)" rm now pm ss]
    show ?thesis by (auto simp: Let_def)
  next
    case False
    with Cons show ?thesis by (auto simp: Let_def)
  qed
qed


subsection \<open>The tick\<close>


lemma publish_fst [simp]:
  "fst (publish fs hist c e) = \<lparr>signals = sort_key (\<lambda>s. - timestamp s) fs, historicalSignals = hist, services = c\<rparr>"
  by (simp add: publish_def Let_def)

lemma sort_key_Nil_iff [simp]: "sort_key f xs = [] \<longleftrightarrow> xs = []"
  by (metis length_0_conv length_sort)

lemma publish_snd:
  "snd (publish fs hist c e) = Published (if e then Some ConnectionError
     else if fs \<noteq> [] then None else Some NoActiveSignals)"
  by (simp add: publish_def Let_def)

lemma still_active_ids: "sig_id ` set (still_active r) \<inter> set (ts_remove (snd r)) = {}"
  by (auto simp: still_active_def)

lemma still_active_subset: "set (still_active r) \<subseteq> set (fst r)"
  by (auto simp: still_active_def)

lemma evaluate_board_distinct:
  "distinct (map signal_key (historicalSignals a)) \<Longrightarrow>
   distinct (map signal_key (ts_history (snd (evaluate_board rm now pm a))))"
  by (simp add: evaluate_board_def eval_signals_distinct)

text \<open>Every outcome of the tick, as a case rule the tick lemmas share.\<close>

lemma fetch_signals_cases:
  fixes rm get now resp a
  obtains (rejected) e c where
      "fetch_signals rm get now resp a = (a\<lparr>historicalSignals := written_history a (snd (board_eval rm now resp a)), services := c\<rparr>, Rejected e)"
      "getAllFuturesTickers resp \<noteq> None" "length (still_active (board_eval rm now resp a)) < BOARD_SIZE"
      "get (BOARD_SIZE - length (still_active (board_eval rm now resp a))) (map sig_id (still_active (board_eval rm now resp a))) (ts_cache (snd (board_eval rm now resp a))) = (Inl e, c)"
  | (refilled) new c where "fetch_signals rm get now resp a = publish (still_active (board_eval rm now resp a) @ new) (written_history a (snd (board_eval rm now resp a))) c False"
      "getAllFuturesTickers resp \<noteq> None" "length (still_active (board_eval rm now resp a)) < BOARD_SIZE"
      "get (BOARD_SIZE - length (still_active (board_eval rm now resp a))) (map sig_id (still_active (board_eval rm now resp a))) (ts_cache (snd (board_eval rm now resp a))) = (Inr new, c)"
  | (kept) "fetch_signals rm get now resp a = publish (still_active (board_eval rm now resp a)) (written_history a (snd (board_eval rm now resp a))) (ts_cache (snd (board_eval rm now resp a))) (getAllFuturesTickers resp = None)"
proof -
  have nat_eq: "nat (int BOARD_SIZE - int (length (still_active (board_eval rm now resp a)))) = BOARD_SIZE - length (still_active (board_eval rm now resp a))"
    by simp
  show ?thesis
  proof (cases "getAllFuturesTickers resp \<noteq> None \<and> length (still_active (board_eval rm now resp a)) < BOARD_SIZE")
    case True
    obtain r c where g: "get (BOARD_SIZE - length (still_active (board_eval rm now resp a))) (map sig_id (still_active (board_eval rm now resp a))) (ts_cache (snd (board_eval rm now resp a))) = (r, c)"
      by (metis surj_pair)
    show ?thesis
    proof (cases r)
      case (Inl e)
      with True g show ?thesis
        by (intro rejected [of c e]) (simp_all add: fetch_signals_def Let_def board_eval_def [symmetric] nat_eq)
    next
      case (Inr new)
      with True g show ?thesis
        by (intro refilled [of new c]) (simp_all add: fetch_signals_def Let_def board_eval_def [symmetric] nat_eq)
    qed
  next
    case False
    then show ?thesis
      by (intro kept) (auto simp: fetch_signals_def Let_def board_eval_def [symmetric] )
  qed
qed

lemma fetch_signals_history_distinct:
  assumes "distinct (map signal_key (historicalSignals a))"
  shows "distinct (map signal_key (historicalSignals (fst (fetch_signals rm get now resp a))))"
proof -
  let ?r = "board_eval rm now resp a"
  have h: "distinct (map signal_key (written_history a (snd ?r)))"
    using evaluate_board_distinct [OF assms] assms by (simp add: written_history_def board_eval_def)
  show ?thesis
    by (cases rule: fetch_signals_cases [of rm get now resp a]) (simp_all add: h)
qed

lemma fetch_signals_sorted:
  "snd (fetch_signals rm get now resp a) = Published e \<Longrightarrow>
   sorted (map (\<lambda>s. - timestamp s) (signals (fst (fetch_signals rm get now resp a))))"
  by (cases rule: fetch_signals_cases [of rm get now resp a]) (simp_all add: sorted_sort_key)

lemma fetch_signals_rejected:
  "snd (fetch_signals rm get now resp a) = Rejected e \<Longrightarrow>
   signals (fst (fetch_signals rm get now resp a)) = signals a"
  by (cases rule: fetch_signals_cases [of rm get now resp a]) (simp_all add: publish_snd)

lemma evicted_not_still_active:
  assumes "s \<in> set (signals a)" and "TWO_HOURS_IN_MS < now - timestamp s"
  shows "sig_id s \<notin> sig_id ` set (still_active (evaluate_board rm now pm a))"
proof -
  have "sig_id s \<in> set (ts_remove (snd (evaluate_board rm now pm a)))"
    using eval_signals_evicts [OF assms] by (simp add: evaluate_board_def)
  then show ?thesis using still_active_ids [of "evaluate_board rm now pm a"] by blast
qed

lemma eval_signal_retire_or_keep:
  "(ts_remove (snd (eval_signal rm now pm s st)) = ts_remove st \<and> ts_cache (snd (eval_signal rm now pm s st)) = ts_cache st)
   \<or> (ts_remove (snd (eval_signal rm now pm s st)) = ts_remove st @ [sig_id s]
      \<and> ts_cache (snd (eval_signal rm now pm s st)) = rm (sig_id s) (ts_cache st))"
  by (auto simp: eval_signal_def eval_priced_def retire_def Let_def split: option.splits if_splits)

lemma eval_signal_cache:
  "ts_cache (snd (eval_signal rm now pm s st)) \<in> {ts_cache st, rm (sig_id s) (ts_cache st)}"
  using eval_signal_retire_or_keep [of rm now pm s st] by auto

lemma eval_signals_cache:
  assumes "rm_contract I rm" and "I (ts_cache st)"
  shows "I (ts_cache (snd (eval_signals rm now pm ss st)))"
  using assms(2)
proof (induction ss arbitrary: st)
  case (Cons s ss)
  have "I (ts_cache (snd (eval_signal rm now pm s st)))"
    using eval_signal_cache [of rm now pm s st] Cons.prems assms(1) by (auto simp: rm_contract_def)
  then show ?case using Cons.IH by (simp add: Let_def)
qed simp

lemma board_eval_cache:
  "rm_contract I rm \<Longrightarrow> I (services a) \<Longrightarrow> I (ts_cache (snd (board_eval rm now resp a)))"
  unfolding board_eval_def evaluate_board_def by (rule eval_signals_cache) simp_all

text \<open>Keys of a cache that \<open>rm x\<close> deletes: the loop deletes exactly the keys it marks
  for removal, and adds none.\<close>

lemma eval_signals_keys:
  assumes "\<forall>x c. K (rm x c) \<subseteq> K c - {x}"
  shows "K (ts_cache (snd (eval_signals rm now pm ss st))) \<subseteq>
           K (ts_cache st) - (set (ts_remove (snd (eval_signals rm now pm ss st))) - set (ts_remove st))"
proof (induction ss arbitrary: st)
  case (Cons s ss)
  let ?st1 = "snd (eval_signal rm now pm s st)"
  have "K (rm (sig_id s) (ts_cache st)) \<subseteq> K (ts_cache st) - {sig_id s}" using assms by blast
  then have "K (ts_cache ?st1) \<subseteq> K (ts_cache st) - (set (ts_remove ?st1) - set (ts_remove st))"
    using eval_signal_retire_or_keep [of rm now pm s st] by auto
  with Cons.IH [of ?st1] show ?case by (auto simp: Let_def)
qed simp

lemma eval_signals_ids: "map sig_id (fst (eval_signals rm now pm ss st)) = map sig_id ss"
  by (induction ss arbitrary: st) (simp_all add: Let_def eval_signal_frame)

lemma fetch_signals_inv:
  assumes "get_contract I get" and "rm_contract I rm" and "I (services a)"
  shows "I (services (fst (fetch_signals rm get now resp a)))"
proof -
  have c: "I (ts_cache (snd (board_eval rm now resp a)))" using board_eval_cache assms(2,3) .
  show ?thesis
  proof (cases rule: fetch_signals_cases [of rm get now resp a])
    case (rejected c' e)
    with assms(1) c show ?thesis unfolding get_contract_def by auto
  next
    case (refilled new c')
    with assms(1) c show ?thesis unfolding get_contract_def by (auto simp: publish_def Let_def)
  next
    case kept
    with c show ?thesis by (simp add: publish_def Let_def)
  qed
qed

lemma fetch_signals_board:
  fixes rm get now resp a
  assumes "get_contract I get" and "rm_contract I rm" and "I (services a)"
    and "snd (fetch_signals rm get now resp a) = Published e"
  shows "\<exists>new. mset (signals (fst (fetch_signals rm get now resp a))) = mset (still_active (board_eval rm now resp a) @ new)
         \<and> (\<forall>x\<in>set new. wf_signal x \<and> sig_id x \<notin> sig_id ` set (still_active (board_eval rm now resp a)))
         \<and> length (still_active (board_eval rm now resp a) @ new) \<le> max BOARD_SIZE (length (still_active (board_eval rm now resp a)))
         \<and> (getAllFuturesTickers resp = None \<longrightarrow> new = [] \<and> e = Some ConnectionError)"
proof (cases rule: fetch_signals_cases [of rm get now resp a])
  case (rejected e')
  with assms(4) show ?thesis by simp
next
  case (refilled new c)
  have c: "I (ts_cache (snd (board_eval rm now resp a)))" using board_eval_cache assms(2,3) .
  from refilled(4) assms(1) c
  have "length new \<le> BOARD_SIZE - length (still_active (board_eval rm now resp a))"
    and "\<forall>x\<in>set new. wf_signal x \<and> sig_id x \<notin> set (map sig_id (still_active (board_eval rm now resp a)))"
    unfolding get_contract_def by blast+
  with refilled(1-3) show ?thesis
    by (intro exI [of _ new]) (auto simp: mset_sort)
next
  case kept
  with assms(4) show ?thesis
    by (intro exI [of _ "[]"]) (auto simp: publish_snd)
qed

subsection \<open>Properties of the lifecycle\<close>

lemma eval_signal_priced:
  "\<not> TWO_HOURS_IN_MS < now - timestamp s \<Longrightarrow> m (sig_id s) = Some td \<Longrightarrow>
   eval_signal rm now (Some m) s st = eval_priced rm now s td st"
  by (simp add: eval_signal_def)

text \<open>C2: a signal whose fifth target is reached resolves as WIN, is removed from the board
  and its cache entry, and its WIN record with the full ladder's result is in the history,
  whether or not the stop-loss was crossed too.\<close>

theorem win_on_final_target:
  assumes "wf_signal s" and "\<not> TWO_HOURS_IN_MS < now - timestamp s" and "m (sig_id s) = Some td"
    and "target_hit (direction s) (pi_price td) (takeProfit s ! 4)"
  shows "sig_id s \<in> set (ts_remove (snd (eval_signal rm now (Some m) s st))) \<and>
         ts_cache (snd (eval_signal rm now (Some m) s st)) = rm (sig_id s) (ts_cache st) \<and>
         (\<exists>h\<in>set (ts_history (snd (eval_signal rm now (Some m) s st))).
            signal_key h = signal_key s \<and> status h = WIN \<and> resultPercent h = terminal_result WIN s)"
proof -
  have "resolution s td = Some WIN" using resolution_spec [OF assms(1)] assms(4) by simp
  from eval_priced_resolves [OF this] show ?thesis
    by (simp add: eval_signal_priced [of now s m td, OF assms(2,3)]) blast
qed

theorem win_on_final_target_witness:
  "wf_signal demo_long \<and> \<not> TWO_HOURS_IN_MS < 1000 - timestamp demo_long \<and>
   (\<lambda>x. if x = ''BTCUSDT'' then Some \<lparr>pi_price = 130, pi_change = 3, pi_volume = 1\<rparr> else None) (sig_id demo_long)
     = Some \<lparr>pi_price = 130, pi_change = 3, pi_volume = 1\<rparr> \<and>
   target_hit (direction demo_long) 130 (takeProfit demo_long ! 4) \<and>
   (\<exists>h\<in>set (ts_history (snd (eval_signal (\<lambda>x c. c) 1000
        (Some (\<lambda>x. if x = ''BTCUSDT'' then Some \<lparr>pi_price = 130, pi_change = 3, pi_volume = 1\<rparr> else None))
        demo_long demo_tick))). status h = WIN \<and> resultPercent h = 25)"
proof -
  have "terminal_result WIN demo_long = 25"
    by (simp add: terminal_result_def move_percent_def entry_price_def demo_long_def)
  moreover have "wf_signal demo_long" "\<not> TWO_HOURS_IN_MS < 1000 - timestamp demo_long"
      "target_hit (direction demo_long) 130 (takeProfit demo_long ! 4)"
    by (simp_all add: demo_long_def wf_signal_def TWO_HOURS_IN_MS_def target_hit_def)
  ultimately show ?thesis
    using win_on_final_target [of demo_long 1000
        "\<lambda>x. if x = ''BTCUSDT'' then Some \<lparr>pi_price = 130, pi_change = 3, pi_volume = 1\<rparr> else None"
        "\<lparr>pi_price = 130, pi_change = 3, pi_volume = 1\<rparr>" "\<lambda>x c. c" demo_tick]
    by (auto simp: demo_long_def)
qed

text \<open>The result of a LOSS is the raw percentage move from the entry midpoint to the
  stop; a LONG with entry midpoint 100 and stop 95 records exactly -5.\<close>

theorem loss_result_percent:
  "terminal_result LOSS (s\<lparr>direction := LONG, entryZone := (99, 101), stopLoss := 95\<rparr>) = -5"
  by (simp add: terminal_result_def move_percent_def entry_price_def)

text \<open>For a ladder in order (LONG: stop below the fifth target; SHORT: above it) no single
  price reaches both the stop and the fifth target, so WIN's precedence over LOSS decides
  only for a fifth flag set on an earlier tick.\<close>

theorem no_simultaneous_stop_and_final_target:
  assumes "(d = LONG \<and> sl < tp) \<or> (d = SHORT \<and> tp < sl)"
  shows "\<not> (stop_hit d p sl \<and> target_hit d p tp)"
  using assms by (auto simp: stop_hit_def target_hit_def)

theorem no_simultaneous_stop_and_final_target_witness:
  "(LONG = LONG \<and> (95::real) < 125 \<or> LONG = SHORT \<and> 125 < (95::real)) \<and>
   \<not> (stop_hit LONG 100 95 \<and> target_hit LONG 100 125)"
  using no_simultaneous_stop_and_final_target [of LONG 95 125 100] by simp

lemma eval_signals_wf:
  "\<forall>s\<in>set ss. wf_signal s \<Longrightarrow> \<forall>s\<in>set (fst (eval_signals rm now pm ss st)). wf_signal s"
  by (induction ss arbitrary: st) (simp_all add: Let_def eval_signal_wf)

text \<open>C1: a take-profit flag, once set, is still set after the signal's step in the tick.\<close>

theorem target_flags_sticky:
  assumes "wf_signal s" and "k < 5" and "flag s k"
  shows "flag (fst (eval_signal rm now pm s st)) k"
  using eval_signal_sticky [OF assms] .

theorem target_flags_sticky_witness:
  "wf_signal (demo_long\<lparr>tpsHit := Some [True, False, False, False, False]\<rparr>) \<and> (0::nat) < 5 \<and>
   flag (demo_long\<lparr>tpsHit := Some [True, False, False, False, False]\<rparr>) 0 \<and>
   flag (fst (eval_signal (\<lambda>x c. c) 1000
     (Some (\<lambda>x. Some \<lparr>pi_price = 96, pi_change = 0, pi_volume = 0\<rparr>))
     (demo_long\<lparr>tpsHit := Some [True, False, False, False, False]\<rparr>) demo_tick)) 0"
proof -
  have "wf_signal (demo_long\<lparr>tpsHit := Some [True, False, False, False, False]\<rparr>)"
    and "flag (demo_long\<lparr>tpsHit := Some [True, False, False, False, False]\<rparr>) 0"
    by (simp_all add: demo_long_def wf_signal_def flag_def)
  with target_flags_sticky [of "demo_long\<lparr>tpsHit := Some [True, False, False, False, False]\<rparr>" 0
      "\<lambda>x c. c" 1000 "Some (\<lambda>x. Some \<lparr>pi_price = 96, pi_change = 0, pi_volume = 0\<rparr>)" demo_tick]
  show ?thesis by simp
qed

text \<open>C4: a signal older than two hours leaves the board on that tick, priced or not.\<close>

theorem expired_signal_evicted:
  assumes "s \<in> set (signals a)" and "TWO_HOURS_IN_MS < now - timestamp s"
  shows "sig_id s \<notin> sig_id ` set (still_active (evaluate_board rm now pm a))"
  using evicted_not_still_active [OF assms] .

theorem expired_signal_evicted_witness:
  "demo_long \<in> set (signals \<lparr>signals = [demo_long], historicalSignals = [], services = ()\<rparr>) \<and>
   TWO_HOURS_IN_MS < 7200001 - timestamp demo_long \<and>
   sig_id demo_long \<notin> sig_id ` set (still_active (evaluate_board (\<lambda>x c. c) 7200001 None
      \<lparr>signals = [demo_long], historicalSignals = [], services = ()\<rparr>))"
proof -
  have "TWO_HOURS_IN_MS < 7200001 - timestamp demo_long"
    by (simp add: TWO_HOURS_IN_MS_def demo_long_def)
  with expired_signal_evicted [of demo_long "\<lparr>signals = [demo_long], historicalSignals = [], services = ()\<rparr>"
      7200001 "\<lambda>x c. c" None]
  show ?thesis by simp
qed

text \<open>C5: the history holds at most one record per signal (symbol and creation time): a
  tick overwrites a signal's record in place and never adds a second one.\<close>

theorem history_one_record_per_signal:
  assumes "distinct (map signal_key (historicalSignals a))"
  shows "distinct (map signal_key (historicalSignals (fst (fetch_signals rm get now resp a))))"
  using fetch_signals_history_distinct [OF assms] .

theorem history_one_record_per_signal_witness:
  "distinct (map signal_key (historicalSignals \<lparr>signals = [demo_long], historicalSignals = [], services = ()\<rparr>)) \<and>
   distinct (map signal_key (historicalSignals (fst (fetch_signals (\<lambda>x c. c) (\<lambda>n ex c. (Inr [], c)) 1000 None
     \<lparr>signals = [demo_long], historicalSignals = [], services = ()\<rparr>))))"
  using history_one_record_per_signal [of "\<lparr>signals = [demo_long], historicalSignals = [], services = ()\<rparr>"
      "\<lambda>x c. c" "\<lambda>n ex c. (Inr [], c)" 1000 None]
  by simp

text \<open>A published board is ordered by creation time, newest first.\<close>

theorem board_newest_first:
  assumes "snd (fetch_signals rm get now resp a) = Published e"
  shows "sorted (map (\<lambda>s. - timestamp s) (signals (fst (fetch_signals rm get now resp a))))"
  using fetch_signals_sorted [OF assms] .

theorem board_newest_first_witness:
  "snd (fetch_signals (\<lambda>x c. c) (\<lambda>n ex c. (Inr [], c)) 1000 None
      \<lparr>signals = [], historicalSignals = [], services = ()\<rparr>) = Published (Some ConnectionError) \<and>
   sorted (map (\<lambda>s. - timestamp s) (signals (fst (fetch_signals (\<lambda>x c. c) (\<lambda>n ex c. (Inr [], c)) 1000 None
      \<lparr>signals = [], historicalSignals = [], services = ()\<rparr>))))"
proof -
  have "snd (fetch_signals (\<lambda>x c. c) (\<lambda>n ex c. (Inr [], c)) 1000 None
      \<lparr>signals = [], historicalSignals = [], services = ()\<rparr>) = Published (Some ConnectionError)"
    by (simp add: fetch_signals_def board_eval_def evaluate_board_def still_active_def publish_def
        getAllFuturesTickers_def)
  with board_newest_first [OF this] show ?thesis by simp
qed

text \<open>C7: a published board holds the surviving signals and at most enough new ones to
  reach eight (never more than the larger of eight and the survivors), each well-formed
  and for a symbol not already on the board; when the ticker fetch failed nothing is
  added and the connectivity error is reported, while the evictions still apply.\<close>

theorem board_refill_bounded:
  assumes "get_contract I get" and "rm_contract I rm" and "I (services a)"
    and "snd (fetch_signals rm get now resp a) = Published e"
  shows "\<exists>new. mset (signals (fst (fetch_signals rm get now resp a))) = mset (still_active (board_eval rm now resp a) @ new)
         \<and> (\<forall>x\<in>set new. wf_signal x \<and> sig_id x \<notin> sig_id ` set (still_active (board_eval rm now resp a)))
         \<and> length (still_active (board_eval rm now resp a) @ new) \<le> max BOARD_SIZE (length (still_active (board_eval rm now resp a)))
         \<and> (getAllFuturesTickers resp = None \<longrightarrow> new = [] \<and> e = Some ConnectionError)"
  using fetch_signals_board [OF assms] .

theorem board_refill_bounded_witness:
  "get_contract (\<lambda>c::unit. True) (\<lambda>n ex c. (Inr [], c)) \<and> rm_contract (\<lambda>c::unit. True) (\<lambda>x c. c) \<and>
   snd (fetch_signals (\<lambda>x c. c) (\<lambda>n ex c. (Inr [], c)) 1000 None
      \<lparr>signals = [], historicalSignals = [], services = ()\<rparr>) = Published (Some ConnectionError) \<and>
   length (signals (fst (fetch_signals (\<lambda>x c. c) (\<lambda>n ex c. (Inr [], c)) 1000 None
      \<lparr>signals = [], historicalSignals = [], services = ()\<rparr>))) \<le> BOARD_SIZE"
proof -
  have g: "get_contract (\<lambda>c::unit. True) (\<lambda>n ex c. (Inr [], c))" by (simp add: get_contract_def)
  have r: "rm_contract (\<lambda>c::unit. True) (\<lambda>x c. c)" by (simp add: rm_contract_def)
  have p: "snd (fetch_signals (\<lambda>x c. c) (\<lambda>n ex c. (Inr [], c)) 1000 None
      \<lparr>signals = [], historicalSignals = [], services = ()\<rparr>) = Published (Some ConnectionError)"
    by (simp add: fetch_signals_def board_eval_def evaluate_board_def still_active_def publish_def
        getAllFuturesTickers_def)
  from board_refill_bounded [OF g r TrueI p] obtain new where
    "mset (signals (fst (fetch_signals (\<lambda>x c. c) (\<lambda>n ex c. (Inr [], c)) 1000 None
      \<lparr>signals = [], historicalSignals = [], services = ()\<rparr>))) = mset (still_active (board_eval (\<lambda>x c. c) 1000 None
      \<lparr>signals = [], historicalSignals = [], services = ()\<rparr>) @ new)"
    "length (still_active (board_eval (\<lambda>x c. c) 1000 None
      \<lparr>signals = [], historicalSignals = [], services = ()\<rparr>) @ new) \<le> max BOARD_SIZE (length (still_active (board_eval (\<lambda>x c. c) 1000 None
      \<lparr>signals = [], historicalSignals = [], services = ()\<rparr>)))"
    by blast
  then have "length (signals (fst (fetch_signals (\<lambda>x c. c) (\<lambda>n ex c. (Inr [], c)) 1000 None
      \<lparr>signals = [], historicalSignals = [], services = ()\<rparr>))) \<le> BOARD_SIZE"
    by (metis size_mset board_eval_def evaluate_board_def still_active_def eval_signals.simps(1)
        app_state.select_convs(1) filter.simps(1) fst_conv list.size(3) max_0R append_Nil)
  with g r p show ?thesis by simp
qed

text \<open>When \<open>getTradingSignals\<close> throws, \<open>fetchSignals\<close> rejects before \<open>setSignals\<close>: the
  board is left as it was, with the evictions and resolutions of the tick unpublished.\<close>

theorem rejected_tick_keeps_board:
  assumes "snd (fetch_signals rm get now resp a) = Rejected e"
  shows "signals (fst (fetch_signals rm get now resp a)) = signals a"
  using fetch_signals_rejected [OF assms] .

theorem rejected_tick_keeps_board_witness:
  "snd (fetch_signals (\<lambda>x c. c) (\<lambda>n ex c. (Inl ''exchangeInfo'', c)) 8000000 (Some [])
      \<lparr>signals = [demo_long], historicalSignals = [], services = ()\<rparr>) = Rejected ''exchangeInfo'' \<and>
   signals (fst (fetch_signals (\<lambda>x c. c) (\<lambda>n ex c. (Inl ''exchangeInfo'', c)) 8000000 (Some [])
      \<lparr>signals = [demo_long], historicalSignals = [], services = ()\<rparr>)) = [demo_long] \<and>
   TWO_HOURS_IN_MS < 8000000 - timestamp demo_long"
proof -
  have r: "snd (fetch_signals (\<lambda>x c. c) (\<lambda>n ex c. (Inl ''exchangeInfo'', c)) 8000000 (Some [])
      \<lparr>signals = [demo_long], historicalSignals = [], services = ()\<rparr>) = Rejected ''exchangeInfo''"
    by (simp add: fetch_signals_def board_eval_def evaluate_board_def still_active_def eval_signal_def
        retire_def getAllFuturesTickers_def demo_long_def TWO_HOURS_IN_MS_def BOARD_SIZE_def)
  with rejected_tick_keeps_board [OF r] show ?thesis
    by (simp add: TWO_HOURS_IN_MS_def demo_long_def)
qed

end
