(* ===== verification/Indicators.thy ===== *)
theory Indicators
  imports Types
begin

text \<open>
  The technical-analysis helpers of \<open>src/services/mockSignalService.ts\<close> (lines 116-230):
  \<open>calculateEMA\<close>, \<open>calculateATR\<close>, \<open>calculateMACD\<close> with its inner
  \<open>calculateEMASeries\<close>, and \<open>calculateRSI\<close>. The candles are the \<open>Kline\<close> tuples of the
  exchange, with the decimal strings already read by \<open>parseFloat\<close>. The \<open>for\<close> loops that
  update an accumulator are \<open>foldl\<close>s, the loops that push to an array are recursions
  that build the list. The lemmas show that the single-value EMA and the last element of
  the EMA series agree, that an EMA stays within the range of its inputs, that ATR is
  non-negative and bounded by the largest true range, and that RSI lies in [0, 100].
\<close>

record kline =
  k_openTime :: int
  k_open :: real
  k_high :: real
  k_low :: real
  k_close :: real
  k_volume :: real
  k_closeTime :: int
  k_quoteVolume :: real
  k_trades :: int

subsection \<open>Exponential moving average\<close>

definition ema_factor :: "nat \<Rightarrow> real" where
  "ema_factor period = 2 / (real period + 1)"

text \<open>One step of the smoothing: \<open>ema = (closePrices[i] * k) + (ema * (1 - k))\<close>.\<close>

definition ema_step :: "real \<Rightarrow> real \<Rightarrow> real \<Rightarrow> real" where
  "ema_step k ema p = p * k + ema * (1 - k)"

text \<open>Lines 124-132. \<open>closePrices[length - 1] || 0\<close> is \<open>0\<close> for an empty list. (With
  period 0 and no prices the code returns \<open>undefined\<close>, no number; the model returns 0
  there, and every caller passes a positive period.)\<close>

definition calculateEMA :: "real list \<Rightarrow> nat \<Rightarrow> real" where
  "calculateEMA closePrices period =
     (if length closePrices < period then (if closePrices = [] then 0 else last closePrices)
      else case closePrices of
             [] \<Rightarrow> 0
           | c # cs \<Rightarrow> foldl (ema_step (ema_factor period)) c cs)"

text \<open>Lines 173-180, \<open>calculateEMASeries\<close>: \<open>emas.push(prices[i] * k + emas[i-1] * (1-k))\<close>.\<close>

fun ema_tail :: "real \<Rightarrow> real \<Rightarrow> real list \<Rightarrow> real list" where
  "ema_tail k prev [] = []"
| "ema_tail k prev (p # ps) = ema_step k prev p # ema_tail k (ema_step k prev p) ps"

definition calculateEMASeries :: "real list \<Rightarrow> nat \<Rightarrow> real list" where
  "calculateEMASeries prices period =
     (case prices of [] \<Rightarrow> [] | p # ps \<Rightarrow> p # ema_tail (ema_factor period) p ps)"

subsection \<open>MACD\<close>

record macd_result =
  macdLine :: real
  signalLine :: real
  histogram :: real

text \<open>Lines 167-202.\<close>

definition calculateMACD :: "real list \<Rightarrow> macd_result" where
  "calculateMACD closePrices =
     (if length closePrices < 35 then \<lparr>macdLine = 0, signalLine = 0, histogram = 0\<rparr>
      else
        (let ema12Series = calculateEMASeries closePrices 12;
             ema26Series = calculateEMASeries closePrices 26;
             macdSeries = map2 (-) ema12Series ema26Series;
             signalSeries = calculateEMASeries macdSeries 9;
             lastMacd = last macdSeries;
             lastSignal = last signalSeries
         in \<lparr>macdLine = lastMacd, signalLine = lastSignal, histogram = lastMacd - lastSignal\<rparr>))"

subsection \<open>Average true range\<close>

text \<open>Lines 143-149: the true range of candle \<open>i\<close> against the close of candle \<open>i - 1\<close>.\<close>

definition true_range :: "kline \<Rightarrow> kline \<Rightarrow> real" where
  "true_range prev k =
     max (k_high k - k_low k) (max \<bar>k_high k - k_close prev\<bar> \<bar>k_low k - k_close prev\<bar>)"

definition true_ranges :: "kline list \<Rightarrow> real list" where
  "true_ranges klines = map2 true_range klines (tl klines)"

definition wilder_step :: "nat \<Rightarrow> real \<Rightarrow> real \<Rightarrow> real" where
  "wilder_step period avg x = (avg * (real period - 1) + x) / real period"

text \<open>Lines 140-160: a simple average of the first \<open>period\<close> true ranges, then Wilder's
  smoothing over the rest.\<close>

definition calculateATR :: "kline list \<Rightarrow> nat \<Rightarrow> real" where
  "calculateATR klines period =
     (if length klines < period + 1 then 0
      else
        (let trueRanges = true_ranges klines;
             atr = sum_list (take period trueRanges) / real period
         in foldl (wilder_step period) atr (drop period trueRanges)))"

subsection \<open>Relative strength index\<close>

text \<open>Lines 211-230.\<close>

definition calculateRSI :: "real list \<Rightarrow> nat \<Rightarrow> real" where
  "calculateRSI closePrices period =
     (if length closePrices \<le> period then 50
      else
        (let changes = map2 (\<lambda>prev price. price - prev) closePrices (tl closePrices);
             gains = map (\<lambda>c. if c > 0 then c else 0) changes;
             losses = map (\<lambda>c. if c < 0 then - c else 0) changes;
             avgGain0 = sum_list (take period gains) / real period;
             avgLoss0 = sum_list (take period losses) / real period;
             avgGain = foldl (wilder_step period) avgGain0 (drop period gains);
             avgLoss = foldl (wilder_step period) avgLoss0 (drop period losses)
         in if avgLoss = 0 then 100 else 100 - 100 / (1 + avgGain / avgLoss)))"

subsection \<open>Lemmas\<close>


lemma last_ema_tail: "last (c # ema_tail k c cs) = foldl (ema_step k) c cs"
  by (induction cs arbitrary: c) simp_all

lemma ema_series_last_eq:
  assumes "closePrices \<noteq> []" and "period \<le> length closePrices"
  shows "last (calculateEMASeries closePrices period) = calculateEMA closePrices period"
  using assms last_ema_tail
  by (auto simp: calculateEMASeries_def calculateEMA_def split: list.splits)

lemma ema_factor_bounds: "0 < period \<Longrightarrow> 0 < ema_factor period \<and> ema_factor period \<le> 1"
  by (simp add: ema_factor_def)

lemma ema_step_between:
  assumes "0 \<le> k" "k \<le> 1" "lo \<le> e" "e \<le> hi" "lo \<le> p" "p \<le> hi"
  shows "lo \<le> ema_step k e p \<and> ema_step k e p \<le> hi"
proof -
  have "ema_step k e p = k * p + (1 - k) * e" by (simp add: ema_step_def algebra_simps)
  moreover have "k * p + (1 - k) * e \<le> hi"
    using assms by (intro convex_bound_le) auto
  moreover have "lo \<le> k * p + (1 - k) * e"
  proof -
    have "k * lo \<le> k * p" "(1 - k) * lo \<le> (1 - k) * e"
      using assms by (simp_all add: mult_left_mono)
    then show ?thesis by (simp add: algebra_simps)
  qed
  ultimately show ?thesis by simp
qed

lemma foldl_ema_between:
  assumes "0 \<le> k" "k \<le> 1" "lo \<le> e" "e \<le> hi" "\<forall>x\<in>set xs. lo \<le> x \<and> x \<le> hi"
  shows "lo \<le> foldl (ema_step k) e xs \<and> foldl (ema_step k) e xs \<le> hi"
  using assms
proof (induction xs arbitrary: e)
  case (Cons x xs)
  then have "lo \<le> ema_step k e x \<and> ema_step k e x \<le> hi" by (intro ema_step_between) auto
  with Cons show ?case by simp
qed simp

lemma ema_between:
  assumes "0 < period" and "\<forall>x\<in>set closePrices. lo \<le> x \<and> x \<le> hi" and "closePrices \<noteq> []"
  shows "lo \<le> calculateEMA closePrices period \<and> calculateEMA closePrices period \<le> hi"
proof (cases closePrices)
  case (Cons c cs)
  with assms(2) have c: "lo \<le> c \<and> c \<le> hi" and cs: "\<forall>x\<in>set cs. lo \<le> x \<and> x \<le> hi" by auto
  have "lo \<le> last closePrices \<and> last closePrices \<le> hi" using assms(2,3) by simp
  moreover have "lo \<le> foldl (ema_step (ema_factor period)) c cs \<and> foldl (ema_step (ema_factor period)) c cs \<le> hi"
    using ema_factor_bounds [OF assms(1)] c cs by (intro foldl_ema_between) auto
  ultimately show ?thesis using Cons by (simp add: calculateEMA_def)
qed (use assms in simp)

lemma true_range_nonneg: "0 \<le> true_range prev k"
  by (simp add: true_range_def)

lemma foldl_wilder_nonneg:
  "0 < period \<Longrightarrow> 0 \<le> a \<Longrightarrow> \<forall>x\<in>set xs. 0 \<le> x \<Longrightarrow> 0 \<le> foldl (wilder_step period) a xs"
proof (induction xs arbitrary: a)
  case (Cons x xs)
  have "0 \<le> wilder_step period a x"
    using Cons.prems by (simp add: wilder_step_def)
  with Cons show ?case by simp
qed simp

lemma foldl_wilder_le:
  "0 < period \<Longrightarrow> a \<le> hi \<Longrightarrow> \<forall>x\<in>set xs. x \<le> hi \<Longrightarrow> foldl (wilder_step period) a xs \<le> hi"
proof (induction xs arbitrary: a)
  case (Cons x xs)
  have "a * (real period - 1) \<le> hi * (real period - 1)"
    using Cons.prems by (intro mult_right_mono) auto
  then have "wilder_step period a x \<le> hi"
    using Cons.prems by (simp add: wilder_step_def field_simps)
  with Cons show ?case by simp
qed simp

lemma seed_average_nonneg:
  assumes "\<forall>x\<in>set xs. (0::real) \<le> x"
  shows "0 \<le> sum_list (take period xs) / real period"
proof -
  have "0 \<le> sum_list (take period xs)" using assms by (auto intro: sum_list_nonneg dest: in_set_takeD)
  then show ?thesis by simp
qed

lemma true_ranges_nonneg: "\<forall>x\<in>set (true_ranges ks). 0 \<le> x"
  by (auto simp: true_ranges_def true_range_nonneg)

lemma atr_nonneg:
  assumes "0 < period"
  shows "0 \<le> calculateATR klines period"
proof -
  have tr: "\<forall>x\<in>set (true_ranges klines). 0 \<le> x" by (rule true_ranges_nonneg)
  with seed_average_nonneg [OF tr, of period] assms show ?thesis
    by (auto simp: calculateATR_def Let_def intro!: foldl_wilder_nonneg dest: in_set_dropD)
qed

lemma sum_list_le_length_mult: "\<forall>x\<in>set xs. x \<le> (hi::real) \<Longrightarrow> sum_list xs \<le> real (length xs) * hi"
  by (induction xs) (auto simp: algebra_simps)

lemma atr_upper:
  assumes "0 < period" and "\<forall>x\<in>set (true_ranges klines). x \<le> hi"
  shows "calculateATR klines period \<le> max 0 hi"
proof (cases "length klines < period + 1")
  case True
  then show ?thesis by (simp add: calculateATR_def)
next
  case False
  then have len: "length (take period (true_ranges klines)) = period"
    by (simp add: true_ranges_def)
  have "sum_list (take period (true_ranges klines)) \<le> real period * hi"
    using sum_list_le_length_mult [of "take period (true_ranges klines)" hi] assms(2) len
    by (auto dest: in_set_takeD)
  then have "sum_list (take period (true_ranges klines)) / real period \<le> hi"
    using assms(1) by (simp add: divide_le_eq mult.commute)
  then have "foldl (wilder_step period) (sum_list (take period (true_ranges klines)) / real period)
               (drop period (true_ranges klines)) \<le> hi"
    using assms by (intro foldl_wilder_le) (auto dest: in_set_dropD)
  with False show ?thesis by (simp add: calculateATR_def Let_def)
qed

lemma rsi_value_bounds:
  assumes "0 \<le> g" and "0 < l"
  shows "0 \<le> 100 - 100 / (1 + g / l) \<and> 100 - 100 / (1 + g / l) \<le> (100::real)"
proof -
  have "1 \<le> 1 + g / l" using assms by simp
  then have "100 / (1 + g / l) \<le> 100" and "0 < 100 / (1 + g / l)"
    by (simp_all add: divide_le_eq)
  then show ?thesis by simp
qed

lemma rsi_between:
  assumes "0 < period"
  shows "0 \<le> calculateRSI closePrices period \<and> calculateRSI closePrices period \<le> 100"
proof (cases "length closePrices \<le> period")
  case True
  then show ?thesis by (simp add: calculateRSI_def)
next
  case False
  define changes where "changes = map2 (\<lambda>prev price. price - prev) closePrices (tl closePrices)"
  define gains where "gains = map (\<lambda>c. if c > 0 then c else 0) changes"
  define losses where "losses = map (\<lambda>c. if c < 0 then - c else 0) changes"
  have gn: "\<forall>x\<in>set gains. (0::real) \<le> x" and ln: "\<forall>x\<in>set losses. (0::real) \<le> x"
    by (auto simp: gains_def losses_def)
  have avg: "0 \<le> foldl (wilder_step period) (sum_list (take period xs) / real period) (drop period xs)"
    if "\<forall>x\<in>set xs. (0::real) \<le> x" for xs
    using that assms
    by (intro foldl_wilder_nonneg seed_average_nonneg) (auto dest: in_set_dropD)
  show ?thesis
    using False avg [OF gn] avg [OF ln]
      rsi_value_bounds [of "foldl (wilder_step period) (sum_list (take period gains) / real period) (drop period gains)"
                           "foldl (wilder_step period) (sum_list (take period losses) / real period) (drop period losses)"]
    unfolding calculateRSI_def Let_def changes_def [symmetric] gains_def [symmetric] losses_def [symmetric]
    by auto
qed


subsection \<open>Properties of the indicators\<close>

text \<open>\<open>calculateMACD\<close>'s series EMA and \<open>calculateEMA\<close> compute the same value: the last
  element of \<open>calculateEMASeries\<close> is \<open>calculateEMA\<close> of the same prices and period, once
  the history is at least the period long.\<close>

theorem ema_series_last:
  assumes "closePrices \<noteq> []" and "period \<le> length closePrices"
  shows "last (calculateEMASeries closePrices period) = calculateEMA closePrices period"
  using ema_series_last_eq [OF assms] .

theorem ema_series_last_witness:
  "[1, 2, 4 :: real] \<noteq> [] \<and> 2 \<le> length [1, 2, 4 :: real] \<and>
   last (calculateEMASeries [1, 2, 4] 2) = calculateEMA [1, 2, 4] 2 \<and> calculateEMA [1, 2, 4] 2 = 29 / 9"
proof -
  have "calculateEMA [1, 2, 4] 2 = 29 / 9"
    by (simp add: calculateEMA_def ema_step_def ema_factor_def)
  with ema_series_last [of "[1, 2, 4]" 2] show ?thesis by simp
qed

text \<open>For a positive period, the EMA of a non-empty price list lies between any lower
  and upper bound of the prices (the smoothing is a convex combination).\<close>

theorem ema_within_range:
  assumes "0 < period" and "\<forall>x\<in>set closePrices. lo \<le> x \<and> x \<le> hi" and "closePrices \<noteq> []"
  shows "lo \<le> calculateEMA closePrices period \<and> calculateEMA closePrices period \<le> hi"
  using ema_between [OF assms] .

theorem ema_within_range_witness:
  "0 < (2::nat) \<and> [1, 2, 4 :: real] \<noteq> [] \<and>
   1 \<le> calculateEMA [1, 2, 4] 2 \<and> calculateEMA [1, 2, 4] 2 \<le> 4"
proof -
  have "\<forall>x\<in>set [1, 2, 4 :: real]. 1 \<le> x \<and> x \<le> 4" by simp
  with ema_within_range [of 2 "[1, 2, 4]" 1 4] show ?thesis by simp
qed

text \<open>ATR is never negative and never exceeds the largest true range of the candles.\<close>

theorem atr_bounds:
  assumes "0 < period" and "\<forall>x\<in>set (true_ranges klines). x \<le> hi"
  shows "0 \<le> calculateATR klines period \<and> calculateATR klines period \<le> max 0 hi"
  using atr_nonneg [OF assms(1)] atr_upper [OF assms] by simp

theorem atr_bounds_witness:
  "0 < (14::nat) \<and> true_ranges [] = [] \<and>
   0 \<le> calculateATR [] 14 \<and> calculateATR [] 14 \<le> max 0 0"
proof -
  have "true_ranges [] = []" by (simp add: true_ranges_def)
  with atr_bounds [of 14 "[]" 0] show ?thesis by simp
qed

text \<open>RSI lies in [0, 100] for every price list and positive period.\<close>

theorem rsi_bounds:
  assumes "0 < period"
  shows "0 \<le> calculateRSI closePrices period \<and> calculateRSI closePrices period \<le> 100"
  using rsi_between [OF assms] .

theorem rsi_bounds_witness:
  "0 < (14::nat) \<and> 0 \<le> calculateRSI [1, 2] 14 \<and> calculateRSI [1, 2] 14 \<le> 100"
  using rsi_bounds [of 14 "[1, 2]"] by simp

end
