(* ===== verification/PriceAction.thy ===== *)
theory PriceAction
  imports Indicators
begin

text \<open>
  The price-action helpers of \<open>src/services/mockSignalService.ts\<close> (lines 232-297):
  \<open>findFairValueGaps\<close>, which scans every triple of consecutive candles for a gap between
  the first and the third, and \<open>findSupportResistance\<close>, which keeps the highs and lows of
  the candles that dominate the eleven-candle window around them, deduplicated in order of
  first occurrence (\<open>[...new Set(xs)]\<close>) and sorted in descending order. The lemmas show
  that every gap is a proper interval on the side the code labels it, that every level is
  the high (low) of a pivot candle of the series, and that the level lists are free of
  duplicates and descending.
\<close>

record fvg =
  fvg_start :: real
  fvg_end :: real

text \<open>The loop \<open>for (let i = 2; i < klines.length; i++)\<close> over \<open>(candle1, candle3)\<close> =
  \<open>(klines[i - 2], klines[i])\<close>: one step per triple, bullish and bearish pushed in order.\<close>

fun fvg_scan :: "kline list \<Rightarrow> fvg list \<times> fvg list" where
  "fvg_scan (c1 # c2 # c3 # rest) =
     (let r = fvg_scan (c2 # c3 # rest);
          bull = (if k_low c1 > k_high c3 then [\<lparr>fvg_start = k_high c3, fvg_end = k_low c1\<rparr>] else []);
          bear = (if k_high c1 < k_low c3 then [\<lparr>fvg_start = k_high c1, fvg_end = k_low c3\<rparr>] else [])
      in (bull @ fst r, bear @ snd r))"
| "fvg_scan _ = ([], [])"

text \<open>Lines 241-263; the result is \<open>{ bullish, bearish }\<close> as a pair.\<close>

definition findFairValueGaps :: "kline list \<Rightarrow> fvg list \<times> fvg list" where
  "findFairValueGaps klines = (if length klines < 3 then ([], []) else fvg_scan klines)"

definition SR_LOOKBACK :: nat where
  "SR_LOOKBACK = 5"

text \<open>Lines 278-283: \<open>window = klines.slice(i - lookback, i + lookback + 1)\<close> and the two
  \<open>every\<close> tests against \<open>window[lookback]\<close>.\<close>

definition sr_window :: "kline list \<Rightarrow> nat \<Rightarrow> kline list" where
  "sr_window klines i = take (2 * SR_LOOKBACK + 1) (drop (i - SR_LOOKBACK) klines)"

definition is_pivot_high :: "kline list \<Rightarrow> nat \<Rightarrow> bool" where
  "is_pivot_high klines i =
     (let w = sr_window klines i in list_all (\<lambda>k. k_high k \<le> k_high (w ! SR_LOOKBACK)) w)"

definition is_pivot_low :: "kline list \<Rightarrow> nat \<Rightarrow> bool" where
  "is_pivot_low klines i =
     (let w = sr_window klines i in list_all (\<lambda>k. k_low k \<ge> k_low (w ! SR_LOOKBACK)) w)"

text \<open>\<open>[...new Set(xs)]\<close>: the first occurrence of each value, in order.\<close>

definition set_spread :: "'a list \<Rightarrow> 'a list" where
  "set_spread xs = rev (remdups (rev xs))"

text \<open>\<open>.sort((a, b) => b - a)\<close>: a stable sort, largest first.\<close>

definition sort_desc :: "real list \<Rightarrow> real list" where
  "sort_desc xs = sort_key uminus xs"

text \<open>Lines 270-297: the pivot indices run over \<open>[lookback, length - lookback)\<close>.\<close>

definition findSupportResistance :: "kline list \<Rightarrow> real list \<times> real list" where
  "findSupportResistance klines =
     (if length klines \<le> SR_LOOKBACK * 2 then ([], [])
      else
        (let idx = [SR_LOOKBACK..<length klines - SR_LOOKBACK];
             supports = map (\<lambda>i. k_low (sr_window klines i ! SR_LOOKBACK)) (filter (is_pivot_low klines) idx);
             resistances = map (\<lambda>i. k_high (sr_window klines i ! SR_LOOKBACK)) (filter (is_pivot_high klines) idx)
         in (sort_desc (set_spread supports), sort_desc (set_spread resistances))))"

subsection \<open>Example candles\<close>

definition candle :: "real \<Rightarrow> real \<Rightarrow> kline" where
  "candle h l = \<lparr>k_openTime = 0, k_open = l, k_high = h, k_low = l, k_close = h, k_volume = 0,
     k_closeTime = 0, k_quoteVolume = 0, k_trades = 0\<rparr>"

text \<open>Eleven candles rising to a high of 10 and falling back; the middle one also has the
  lowest low.\<close>

definition demo_peak :: "kline list" where
  "demo_peak = [candle 2 3, candle 3 4, candle 4 5, candle 5 6, candle 6 7, candle 10 1,
                candle 6 7, candle 5 6, candle 4 5, candle 3 4, candle 2 3]"

subsection \<open>Lemmas\<close>


lemma fvg_scan_proper:
  "(\<forall>f\<in>set (fst (fvg_scan ks)). fvg_start f < fvg_end f) \<and> (\<forall>f\<in>set (snd (fvg_scan ks)). fvg_start f < fvg_end f)"
  by (induction ks rule: fvg_scan.induct) (auto simp: Let_def)

lemma sr_window_nth:
  assumes "SR_LOOKBACK \<le> i" and "i + SR_LOOKBACK < length ks" and "j \<le> 2 * SR_LOOKBACK"
  shows "sr_window ks i ! j = ks ! (i - SR_LOOKBACK + j)"
  using assms by (simp add: sr_window_def)

lemma sr_window_length:
  "SR_LOOKBACK \<le> i \<Longrightarrow> i + SR_LOOKBACK < length ks \<Longrightarrow> length (sr_window ks i) = 2 * SR_LOOKBACK + 1"
  by (simp add: sr_window_def)

lemma pivot_high_dominates:
  assumes "is_pivot_high ks i" and "SR_LOOKBACK \<le> i" and "i + SR_LOOKBACK < length ks"
    and "i - SR_LOOKBACK \<le> j" and "j \<le> i + SR_LOOKBACK"
  shows "k_high (ks ! j) \<le> k_high (ks ! i)"
proof -
  let ?w = "sr_window ks i"
  have c: "?w ! SR_LOOKBACK = ks ! i" using sr_window_nth [OF assms(2,3), of SR_LOOKBACK] assms(2) by simp
  have "j - (i - SR_LOOKBACK) \<le> 2 * SR_LOOKBACK" using assms(4,5) by simp
  then have w: "?w ! (j - (i - SR_LOOKBACK)) = ks ! j" using sr_window_nth [OF assms(2,3)] assms(4) by simp
  have "j - (i - SR_LOOKBACK) < length ?w" using sr_window_length [OF assms(2,3)] assms(4,5) by simp
  with assms(1) have "k_high (?w ! (j - (i - SR_LOOKBACK))) \<le> k_high (?w ! SR_LOOKBACK)"
    by (auto simp: is_pivot_high_def list_all_length Let_def)
  with c w show ?thesis by simp
qed

lemma pivot_low_dominates:
  assumes "is_pivot_low ks i" and "SR_LOOKBACK \<le> i" and "i + SR_LOOKBACK < length ks"
    and "i - SR_LOOKBACK \<le> j" and "j \<le> i + SR_LOOKBACK"
  shows "k_low (ks ! i) \<le> k_low (ks ! j)"
proof -
  let ?w = "sr_window ks i"
  have c: "?w ! SR_LOOKBACK = ks ! i" using sr_window_nth [OF assms(2,3), of SR_LOOKBACK] assms(2) by simp
  have "j - (i - SR_LOOKBACK) \<le> 2 * SR_LOOKBACK" using assms(4,5) by simp
  then have w: "?w ! (j - (i - SR_LOOKBACK)) = ks ! j" using sr_window_nth [OF assms(2,3)] assms(4) by simp
  have "j - (i - SR_LOOKBACK) < length ?w" using sr_window_length [OF assms(2,3)] assms(4,5) by simp
  with assms(1) have "k_low (?w ! SR_LOOKBACK) \<le> k_low (?w ! (j - (i - SR_LOOKBACK)))"
    by (auto simp: is_pivot_low_def list_all_length Let_def)
  with c w show ?thesis by simp
qed

lemma set_set_spread [simp]: "set (set_spread xs) = set xs"
  by (simp add: set_spread_def)

lemma distinct_set_spread: "distinct (set_spread xs)"
  by (simp add: set_spread_def)

lemma sort_desc_props:
  "set (sort_desc xs) = set xs \<and> (distinct xs \<longrightarrow> distinct (sort_desc xs)) \<and> sorted_wrt (\<ge>) (sort_desc xs)"
proof -
  have "sorted (map uminus (sort_key uminus xs))" by (rule sorted_sort_key)
  then have "sorted_wrt (\<ge>) (sort_key uminus xs)" by (simp add: sorted_wrt_map)
  then show ?thesis by (simp add: sort_desc_def)
qed

lemma resistance_is_pivot:
  assumes "r \<in> set (snd (findSupportResistance ks))"
  shows "\<exists>i. SR_LOOKBACK \<le> i \<and> i + SR_LOOKBACK < length ks \<and> r = k_high (ks ! i) \<and>
             (\<forall>j. i - SR_LOOKBACK \<le> j \<and> j \<le> i + SR_LOOKBACK \<longrightarrow> k_high (ks ! j) \<le> r)"
proof -
  from assms obtain i where i: "SR_LOOKBACK \<le> i" "i < length ks - SR_LOOKBACK" "is_pivot_high ks i"
      "r = k_high (sr_window ks i ! SR_LOOKBACK)" and len: "\<not> length ks \<le> SR_LOOKBACK * 2"
    by (auto simp: findSupportResistance_def Let_def sort_desc_props split: if_splits)
  then have i2: "i + SR_LOOKBACK < length ks" by simp
  have "r = k_high (ks ! i)" using i(4) sr_window_nth [OF i(1) i2, of SR_LOOKBACK] i(1) by simp
  with pivot_high_dominates [OF i(3) i(1) i2] i(1) i2 show ?thesis by blast
qed

lemma levels_sorted:
  "distinct (fst (findSupportResistance ks)) \<and> sorted_wrt (\<ge>) (fst (findSupportResistance ks)) \<and>
   distinct (snd (findSupportResistance ks)) \<and> sorted_wrt (\<ge>) (snd (findSupportResistance ks))"
  by (simp add: findSupportResistance_def Let_def sort_desc_props distinct_set_spread)


lemma support_is_pivot:
  assumes "r \<in> set (fst (findSupportResistance ks))"
  shows "\<exists>i. SR_LOOKBACK \<le> i \<and> i + SR_LOOKBACK < length ks \<and> r = k_low (ks ! i) \<and>
             (\<forall>j. i - SR_LOOKBACK \<le> j \<and> j \<le> i + SR_LOOKBACK \<longrightarrow> r \<le> k_low (ks ! j))"
proof -
  from assms obtain i where i: "SR_LOOKBACK \<le> i" "i < length ks - SR_LOOKBACK" "is_pivot_low ks i"
      "r = k_low (sr_window ks i ! SR_LOOKBACK)" and len: "\<not> length ks \<le> SR_LOOKBACK * 2"
    by (auto simp: findSupportResistance_def Let_def sort_desc_props split: if_splits)
  then have i2: "i + SR_LOOKBACK < length ks" by simp
  have "r = k_low (ks ! i)" using i(4) sr_window_nth [OF i(1) i2, of SR_LOOKBACK] i(1) by simp
  with pivot_low_dominates [OF i(3) i(1) i2] i(1) i2 show ?thesis by blast
qed

subsection \<open>Properties of the price-action helpers\<close>

text \<open>Every fair value gap is a proper interval: a bullish gap runs from the third
  candle's high up to the first candle's low, a bearish one from the first candle's high
  up to the third candle's low, and in both the start lies strictly below the end.\<close>

theorem fair_value_gaps_proper:
  "(\<forall>f\<in>set (fst (findFairValueGaps ks)). fvg_start f < fvg_end f) \<and>
   (\<forall>f\<in>set (snd (findFairValueGaps ks)). fvg_start f < fvg_end f)"
  using fvg_scan_proper [of ks] by (simp add: findFairValueGaps_def)

theorem fair_value_gaps_proper_witness:
  "findFairValueGaps [candle 10 9, candle 8 7, candle 6 5] = ([\<lparr>fvg_start = 6, fvg_end = 9\<rparr>], []) \<and>
   fvg_start \<lparr>fvg_start = 6, fvg_end = 9 :: real\<rparr> < fvg_end \<lparr>fvg_start = 6, fvg_end = 9 :: real\<rparr>"
proof -
  have e: "findFairValueGaps [candle 10 9, candle 8 7, candle 6 5] = ([\<lparr>fvg_start = 6, fvg_end = 9\<rparr>], [])"
    by (simp add: findFairValueGaps_def candle_def)
  with fair_value_gaps_proper [of "[candle 10 9, candle 8 7, candle 6 5]"] show ?thesis by simp
qed

text \<open>C14: every support is the low, and every resistance the high, of a candle at least
  five candles from either end of the series that is the lowest (highest) of the eleven
  candles around it: no level comes from a non-pivot candle.\<close>

theorem levels_are_pivots:
  "(r \<in> set (snd (findSupportResistance ks)) \<longrightarrow>
     (\<exists>i. SR_LOOKBACK \<le> i \<and> i + SR_LOOKBACK < length ks \<and> r = k_high (ks ! i) \<and>
          (\<forall>j. i - SR_LOOKBACK \<le> j \<and> j \<le> i + SR_LOOKBACK \<longrightarrow> k_high (ks ! j) \<le> r))) \<and>
   (r \<in> set (fst (findSupportResistance ks)) \<longrightarrow>
     (\<exists>i. SR_LOOKBACK \<le> i \<and> i + SR_LOOKBACK < length ks \<and> r = k_low (ks ! i) \<and>
          (\<forall>j. i - SR_LOOKBACK \<le> j \<and> j \<le> i + SR_LOOKBACK \<longrightarrow> r \<le> k_low (ks ! j))))"
  using resistance_is_pivot support_is_pivot by blast

theorem levels_are_pivots_witness:
  "10 \<in> set (snd (findSupportResistance demo_peak)) \<and> 1 \<in> set (fst (findSupportResistance demo_peak)) \<and>
   (\<exists>i. SR_LOOKBACK \<le> i \<and> i + SR_LOOKBACK < length demo_peak \<and> 10 = k_high (demo_peak ! i))"
proof -
  have s: "findSupportResistance demo_peak = ([1], [10])"
    by (simp add: findSupportResistance_def demo_peak_def candle_def SR_LOOKBACK_def sr_window_def
        is_pivot_high_def is_pivot_low_def set_spread_def sort_desc_def upt_rec)
  with levels_are_pivots [of 10 demo_peak] show ?thesis by auto
qed

text \<open>Both level lists are free of duplicates and sorted in descending order.\<close>

theorem levels_distinct_desc:
  "distinct (fst (findSupportResistance ks)) \<and> sorted_wrt (\<ge>) (fst (findSupportResistance ks)) \<and>
   distinct (snd (findSupportResistance ks)) \<and> sorted_wrt (\<ge>) (snd (findSupportResistance ks))"
  using levels_sorted .

end
