(* ===== verification/PriceFormat.thy ===== *)
theory PriceFormat
  imports Prelude
begin

text \<open>
  \<open>formatPriceValue\<close>, the price rounding of \<open>generateSignalParameters\<close> in
  \<open>src/services/mockSignalService.ts\<close> (lines 502-544). \<open>parseFloat(value.toFixed(d))\<close>
  is the multiple of \<open>10^-d\<close> nearest to the value, the larger one on a tie (the rule of
  \<open>Number.prototype.toFixed\<close>, read on the exact real value rather than on the binary
  double). For prices below 1 the code prints the price with twenty decimals and counts the
  zeros that follow the decimal point; the model builds the same twenty-digit string. The
  lemmas show that a formatted price is never negative and lies within half a cent of the
  price, and that the rounding can move a price across another one: the finding that a
  take-profit checked before formatting can be stored below the current price.
\<close>

text \<open>\<open>parseFloat(value.toFixed(d))\<close> for a non-negative value.\<close>

definition to_fixed :: "nat \<Rightarrow> real \<Rightarrow> real" where
  "to_fixed d x = of_int \<lfloor>x * 10 ^ d + 1 / 2\<rfloor> / 10 ^ d"

text \<open>Lines 512-513: the twenty characters after the point of \<open>value.toFixed(20)\<close>.\<close>

definition fixed20_decimals :: "real \<Rightarrow> string" where
  "fixed20_decimals v =
     (let ds = nat_digits (nat \<lfloor>v * 10 ^ 20 + 1 / 2\<rfloor> mod 10 ^ 20)
      in replicate (20 - length ds) (CHR ''0'') @ ds)"

text \<open>Lines 515-522: the \<open>for ... of\<close> loop counting zeros up to the first other digit.\<close>

definition leading_zeros :: "string \<Rightarrow> nat" where
  "leading_zeros s = length (takeWhile (\<lambda>c. c = CHR ''0'') s)"

text \<open>Lines 524-541: the \<open>switch\<close> on the count.\<close>

definition decimal_places :: "nat \<Rightarrow> nat" where
  "decimal_places z =
     (if z = 0 then 4 else if z \<le> 2 then 5 else if z = 3 then 6 else if z = 4 then 7 else 8)"

definition formatPriceValue :: "real \<Rightarrow> real" where
  "formatPriceValue value =
     (if value \<le> 0 then 0
      else if value \<ge> 1 then to_fixed (if value > 100 then 2 else 4) value
      else to_fixed (decimal_places (leading_zeros (fixed20_decimals value))) value)"

subsection \<open>Lemmas\<close>

lemma to_fixed_nonneg: "0 \<le> x \<Longrightarrow> 0 \<le> to_fixed d x"
  by (simp add: to_fixed_def)

lemma to_fixed_error: "\<bar>to_fixed d x - x\<bar> \<le> 1 / (2 * 10 ^ d)"
proof -
  let ?y = "x * 10 ^ d + 1 / 2"
  have f: "real_of_int \<lfloor>?y\<rfloor> \<le> ?y" "?y < real_of_int \<lfloor>?y\<rfloor> + 1" by linarith+
  have "to_fixed d x - x = (real_of_int \<lfloor>?y\<rfloor> - x * 10 ^ d) / 10 ^ d"
    by (simp add: to_fixed_def field_simps)
  then have "\<bar>to_fixed d x - x\<bar> = \<bar>real_of_int \<lfloor>?y\<rfloor> - x * 10 ^ d\<bar> / 10 ^ d"
    by (simp add: abs_divide)
  also have "\<dots> \<le> (1 / 2) / 10 ^ d"
    using f by (intro divide_right_mono) (linarith, simp)
  finally show ?thesis by simp
qed

lemma decimal_places_ge: "4 \<le> decimal_places z"
  by (simp add: decimal_places_def)

lemma to_fixed_error_le: "2 \<le> d \<Longrightarrow> \<bar>to_fixed d x - x\<bar> \<le> 1 / 200"
proof -
  assume "2 \<le> d"
  then have "(10::real) ^ 2 \<le> 10 ^ d" by (intro power_increasing) auto
  then have "1 / (2 * 10 ^ d) \<le> (1::real) / 200" by (simp add: field_simps)
  with to_fixed_error [of d x] show ?thesis by linarith
qed

subsection \<open>Properties of the formatting\<close>

text \<open>A formatted price is never negative.\<close>

theorem format_nonneg: "0 \<le> formatPriceValue v"
  by (simp add: formatPriceValue_def to_fixed_nonneg)

text \<open>A positive price moves by at most half a cent when formatted (by at most half a
  unit of the last kept decimal, which is the second or a later one).\<close>

theorem format_error:
  assumes "0 < v"
  shows "\<bar>formatPriceValue v - v\<bar> \<le> 1 / 200"
proof -
  have "2 \<le> decimal_places (leading_zeros (fixed20_decimals v))"
    using decimal_places_ge [of "leading_zeros (fixed20_decimals v)"] by simp
  then show ?thesis
    using assms to_fixed_error_le [of 2 v] to_fixed_error_le [of 4 v]
      to_fixed_error_le [of "decimal_places (leading_zeros (fixed20_decimals v))" v]
    by (simp add: formatPriceValue_def)
qed

theorem format_error_witness:
  "0 < (1000045 / 1000000 :: real) \<and> formatPriceValue (1000045 / 1000000) = 1 \<and>
   \<bar>formatPriceValue (1000045 / 1000000) - 1000045 / 1000000\<bar> \<le> 1 / 200"
proof -
  have "formatPriceValue (1000045 / 1000000) = 1" by (simp add: formatPriceValue_def to_fixed_def)
  with format_error [of "1000045 / 1000000"] show ?thesis by simp
qed

text \<open>Formatting can carry a level across the current price: a raw first target of
  1.000045 above a price of 1.00004 is stored as 1, below that price.\<close>

theorem format_crosses_price:
  "(1.00004 :: real) < 1.000045 \<and> formatPriceValue 1.000045 < 1.00004"
  by (simp add: formatPriceValue_def to_fixed_def)

end
