(* ===== verification/SignalGen.thy ===== *)
theory SignalGen
  imports PriceAction PriceFormat
begin

text \<open>
  \<open>generateSignalParameters\<close> of \<open>src/services/mockSignalService.ts\<close> (lines 306-563): from a
  ticker and the hourly candles of its symbol to the plan of a signal, or \<open>null\<close>. The
  model splits the function where the code does: \<open>analyse\<close> computes the indicators and the
  price-action levels of the closed candles (lines 325-334, 369-370; computing the levels
  before the trend gate changes nothing, both are pure), and \<open>raw_plan\<close> is the decision
  part, lines 337-500: trend gate, entry target, entry zone and stop, risk gate, targets,
  freshness gate, leverage and probability. \<open>plan_signal\<close> applies \<open>formatPriceValue\<close> as
  the returned object does (lines 547-562). \<open>Math.random()\<close> is the parameter \<open>rnd\<close> and
  \<open>Date.now()\<close> the parameter \<open>now\<close>; a failed candle fetch is \<open>None\<close>. Numbers are reals:
  \<open>isFinite\<close> holds of every level and \<open>isNaN(safeLeverage)\<close> never does.
\<close>

subsection \<open>Messages\<close>

text \<open>Lines 351-360: the four confidence texts.\<close>

definition CONF_LONG_STRONG :: string where
  "CONF_LONG_STRONG = ''Muito Alta - Conflu'' @ [e_circ] @ ''ncia de tend'' @ [e_circ] @
     ''ncia de alta (EMAs + MACD) e RSI saud'' @ [a_acute] @ ''vel.''"

definition CONF_LONG :: string where
  "CONF_LONG = ''Alta - Tend'' @ [e_circ] @ ''ncia de alta prim'' @ [a_acute] @
     ''ria (EMAs) com RSI favor'' @ [a_acute] @ ''vel.''"

definition CONF_SHORT_STRONG :: string where
  "CONF_SHORT_STRONG = ''Muito Alta - Conflu'' @ [e_circ] @ ''ncia de tend'' @ [e_circ] @
     ''ncia de baixa (EMAs + MACD) e RSI saud'' @ [a_acute] @ ''vel.''"

definition CONF_SHORT :: string where
  "CONF_SHORT = ''Alta - Tend'' @ [e_circ] @ ''ncia de baixa prim'' @ [a_acute] @
     ''ria (EMAs) com RSI favor'' @ [a_acute] @ ''vel.''"

text \<open>Lines 387-400 and 415-428: the entry reasons.\<close>

definition REASON_LONG_ZONE :: string where
  "REASON_LONG_ZONE = ''Retra'' @ [c_cedil, a_tilde] @ ''o para a zona de suporte/demanda mais pr'' @
     [o_acute] @ ''xima.''"

definition REASON_LONG_ALL :: string where
  "REASON_LONG_ALL = ''Conflu'' @ [e_circ] @ ''ncia de Suporte, FVG e M'' @ [e_acute] @ ''dia M'' @
     [o_acute] @ ''vel.''"

definition REASON_LONG_EMA :: string where
  "REASON_LONG_EMA = ''Retra'' @ [c_cedil, a_tilde] @ ''o para M'' @ [e_acute] @ ''dia M'' @
     [o_acute] @ ''vel confluente com Suporte.''"

definition REASON_FVG :: string where
  "REASON_FVG = ''Retra'' @ [c_cedil, a_tilde] @ ''o para Fair Value Gap (FVG).''"

definition REASON_BREAKOUT :: string where
  "REASON_BREAKOUT = ''Reteste (pullback) de resist'' @ [e_circ] @ ''ncia rompida (breakout).''"

definition REASON_SHORT_ZONE :: string where
  "REASON_SHORT_ZONE = ''Retra'' @ [c_cedil, a_tilde] @ ''o para a zona de resist'' @ [e_circ] @
     ''ncia/oferta mais pr'' @ [o_acute] @ ''xima.''"

definition REASON_SHORT_ALL :: string where
  "REASON_SHORT_ALL = ''Conflu'' @ [e_circ] @ ''ncia de Resist'' @ [e_circ] @ ''ncia, FVG e M'' @
     [e_acute] @ ''dia M'' @ [o_acute] @ ''vel.''"

definition REASON_SHORT_EMA :: string where
  "REASON_SHORT_EMA = ''Retra'' @ [c_cedil, a_tilde] @ ''o para M'' @ [e_acute] @ ''dia M'' @
     [o_acute] @ ''vel confluente com Resist'' @ [e_circ] @ ''ncia.''"

definition REASON_BREAKDOWN :: string where
  "REASON_BREAKDOWN = ''Reteste (pullback) de suporte rompido (breakdown).''"

text \<open>Line 557: the text after the entry reason in \<open>riskNotes\<close>.\<close>

definition RISK_NOTES_SUFFIX :: string where
  "RISK_NOTES_SUFFIX = '' Stop-Loss posicionado com base na volatilidade (ATR).''"

subsection \<open>Indicators of a symbol\<close>

record ta_snapshot =
  ta_price :: real
  ta_atr :: real
  ta_ema21 :: real
  ta_ema50 :: real
  ta_macd :: macd_result
  ta_rsi :: real
  ta_levels :: "real list \<times> real list"
  ta_gaps :: "fvg list \<times> fvg list"

text \<open>Lines 325-334 and 369-370, on the candles without the last, incomplete one.\<close>

definition analyse :: "binance_ticker \<Rightarrow> kline list \<Rightarrow> ta_snapshot" where
  "analyse ticker klines =
     (let relevantKlines = butlast klines;
          closePrices = map k_close relevantKlines
      in \<lparr>ta_price = lastPrice ticker, ta_atr = calculateATR relevantKlines 14,
          ta_ema21 = calculateEMA closePrices 21, ta_ema50 = calculateEMA closePrices 50,
          ta_macd = calculateMACD closePrices, ta_rsi = calculateRSI closePrices 14,
          ta_levels = findSupportResistance relevantKlines,
          ta_gaps = findFairValueGaps relevantKlines\<rparr>)"

subsection \<open>The decision\<close>

text \<open>Lines 345-366: direction and confidence, or no signal.\<close>

definition trend_gate :: "ta_snapshot \<Rightarrow> (signal_direction \<times> string) option" where
  "trend_gate a =
     (let currentPrice = ta_price a; ema21 = ta_ema21 a; ema50 = ta_ema50 a; m = ta_macd a;
          isUptrend = currentPrice > ema21 \<and> ema21 > ema50;
          isDowntrend = currentPrice < ema21 \<and> ema21 < ema50
      in if isUptrend \<and> ta_rsi a < 75 then
           Some (LONG, if macdLine m > signalLine m \<and> histogram m > 0 then CONF_LONG_STRONG else CONF_LONG)
         else if isDowntrend \<and> ta_rsi a > 25 then
           Some (SHORT, if macdLine m < signalLine m \<and> histogram m < 0 then CONF_SHORT_STRONG else CONF_SHORT)
         else None)"

text \<open>\<open>Math.abs(x - ref) / ref < 0.005\<close>: a division by a zero average is \<open>Infinity\<close> or
  \<open>NaN\<close> in JavaScript, and neither is below the bound.\<close>

definition near_level :: "real \<Rightarrow> real \<Rightarrow> bool" where
  "near_level x ref \<longleftrightarrow> ref \<noteq> 0 \<and> \<bar>x - ref\<bar> / ref < 0.005"

text \<open>Lines 376-381 and 404-409: the candidate levels on the favourable side.\<close>

definition long_candidates :: "ta_snapshot \<Rightarrow> real list" where
  "long_candidates a =
     (let currentPrice = ta_price a
      in filter (\<lambda>s. s < currentPrice) (fst (ta_levels a)) @
         map (\<lambda>f. (fvg_start f + fvg_end f) / 2) (filter (\<lambda>f. fvg_end f < currentPrice) (fst (ta_gaps a))) @
         (if ta_ema21 a < currentPrice then [ta_ema21 a] else []) @
         (if ta_ema50 a < currentPrice then [ta_ema50 a] else []))"

definition short_candidates :: "ta_snapshot \<Rightarrow> real list" where
  "short_candidates a =
     (let currentPrice = ta_price a
      in filter (\<lambda>r. r > currentPrice) (snd (ta_levels a)) @
         map (\<lambda>f. (fvg_start f + fvg_end f) / 2) (filter (\<lambda>f. fvg_start f > currentPrice) (snd (ta_gaps a))) @
         (if ta_ema21 a > currentPrice then [ta_ema21 a] else []) @
         (if ta_ema50 a > currentPrice then [ta_ema50 a] else []))"

text \<open>Lines 390-394 and 418-422: the reason given for a chosen target.\<close>

definition confluence_reason ::
  "string \<Rightarrow> string \<Rightarrow> string \<Rightarrow> ta_snapshot \<Rightarrow> fvg list \<Rightarrow> real \<Rightarrow> string" where
  "confluence_reason zone both ema a gaps e =
     (let isNearEma = near_level e (ta_ema21 a) \<or> near_level e (ta_ema50 a);
          isInFVG = list_ex (\<lambda>f. e \<ge> fvg_start f \<and> e \<le> fvg_end f) gaps
      in if isNearEma \<and> isInFVG then both else if isNearEma then ema
         else if isInFVG then REASON_FVG else zone)"

text \<open>Lines 372-431: the entry target and its reason; \<open>None\<close> is \<open>entryTarget === null\<close>.\<close>

definition entry_target :: "signal_direction \<Rightarrow> ta_snapshot \<Rightarrow> (real \<times> string) option" where
  "entry_target dir a =
     (let currentPrice = ta_price a; atr = ta_atr a
      in if dir = LONG then
           (case js_max_list (long_candidates a) of
              Some e \<Rightarrow> Some (e, confluence_reason REASON_LONG_ZONE REASON_LONG_ALL REASON_LONG_EMA
                                  a (fst (ta_gaps a)) e)
            | None \<Rightarrow> map_option (\<lambda>r. (r, REASON_BREAKOUT))
                 (js_min_list (filter (\<lambda>r. r < currentPrice \<and> currentPrice - r < atr * 2) (snd (ta_levels a)))))
         else
           (case js_min_list (short_candidates a) of
              Some e \<Rightarrow> Some (e, confluence_reason REASON_SHORT_ZONE REASON_SHORT_ALL REASON_SHORT_EMA
                                  a (snd (ta_gaps a)) e)
            | None \<Rightarrow> map_option (\<lambda>s. (s, REASON_BREAKDOWN))
                 (js_max_list (filter (\<lambda>s. s > currentPrice \<and> s - currentPrice < atr * 2) (fst (ta_levels a))))))"

text \<open>Line 442.\<close>

definition stop_multiplier :: "string \<Rightarrow> real" where
  "stop_multiplier conf = (if js_starts_with conf ''Muito Alta'' then 1.25 else 1.75)"

text \<open>Lines 439-455: the entry zone (order fixed for SHORT) and the stop beyond it, both
  clamped at zero.\<close>

definition place_stop :: "signal_direction \<Rightarrow> real \<Rightarrow> real \<Rightarrow> real \<Rightarrow> (real \<times> real) \<times> real" where
  "place_stop dir entryTarget atr slMult =
     (let entryZoneSpread = atr * 0.25;
          z = (entryTarget - entryZoneSpread / 2, entryTarget + entryZoneSpread / 2);
          z' = (if dir = LONG then z else if fst z > snd z then (snd z, fst z) else z);
          sl = (if dir = LONG then fst z' - atr * slMult else snd z' + atr * slMult)
      in ((max 0 (fst z'), max 0 (snd z')), max 0 sl))"

definition RR_MULTIPLES :: "real list" where
  "RR_MULTIPLES = [0.6, 1.2, 2.0, 3.5, 5.0]"

text \<open>Lines 463-469.\<close>

definition take_profits :: "signal_direction \<Rightarrow> real \<Rightarrow> real \<Rightarrow> real list" where
  "take_profits dir entryTarget riskDistance =
     (if dir = LONG then map (\<lambda>k. entryTarget + riskDistance * k) RR_MULTIPLES
      else map (\<lambda>k. max 0 (entryTarget - riskDistance * k)) RR_MULTIPLES)"

text \<open>Lines 475-487: the price has already reached the first target.\<close>

definition too_late :: "signal_direction \<Rightarrow> real \<Rightarrow> real list \<Rightarrow> bool" where
  "too_late dir currentPrice tps =
     (if dir = LONG then currentPrice \<ge> tps ! 0 else currentPrice \<le> tps ! 0)"

text \<open>Lines 489-493.\<close>

definition leverage_of :: "real \<Rightarrow> real \<Rightarrow> int" where
  "leverage_of entryTarget sl =
     (let riskPercent = \<bar>(entryTarget - sl) / entryTarget\<bar> * 100
      in if riskPercent > 0 then js_round (min 25 (max 5 (20 / riskPercent))) else 5)"

text \<open>Lines 495-500, with \<open>rnd\<close> the value of \<open>Math.random()\<close>.\<close>

definition probability_of :: "string \<Rightarrow> real \<Rightarrow> int" where
  "probability_of conf rnd =
     (if js_starts_with conf ''Muito Alta'' then \<lfloor>rnd * (98 - 90 + 1)\<rfloor> + 90
      else \<lfloor>rnd * (89 - 80 + 1)\<rfloor> + 80)"

text \<open>Lines 337-500 and the object of lines 547-562 before formatting.\<close>

definition raw_plan :: "binance_ticker \<Rightarrow> ta_snapshot \<Rightarrow> real \<Rightarrow> millis \<Rightarrow> cached_params option" where
  "raw_plan ticker a rnd now =
     (if ta_atr a = 0 \<or> ta_ema21 a = 0 then None
      else case trend_gate a of
        None \<Rightarrow> None
      | Some (dir, conf) \<Rightarrow>
          (case entry_target dir a of
             None \<Rightarrow> None
           | Some (entryTarget, entryReason) \<Rightarrow>
               if entryTarget \<le> 0 then None
               else
                 (let zs = place_stop dir entryTarget (ta_atr a) (stop_multiplier conf);
                      sl = snd zs;
                      riskDistance = \<bar>entryTarget - sl\<bar>
                  in if riskDistance = 0 \<or> riskDistance / entryTarget < 0.001 then None
                     else
                       (let tps = take_profits dir entryTarget riskDistance
                        in if too_late dir (ta_price a) tps then None
                           else Some \<lparr>cp_id = tk_symbol ticker,
                             cp_symbol = js_replace_first ''USDT'' '''' (tk_symbol ticker),
                             cp_pair = ''USDT'', cp_direction = dir,
                             cp_probability = probability_of conf rnd,
                             cp_entryZone = fst zs, cp_stopLoss = sl,
                             cp_takeProfit = tps, cp_confidence = conf,
                             cp_riskNotes = entryReason @ RISK_NOTES_SUFFIX, cp_timestamp = now,
                             cp_safeLeverage = leverage_of entryTarget sl\<rparr>))))"

text \<open>Lines 553-555: the prices of the returned object.\<close>

definition format_params :: "cached_params \<Rightarrow> cached_params" where
  "format_params p =
     (let z = cp_entryZone p
      in p\<lparr>cp_entryZone := (formatPriceValue (min (fst z) (snd z)), formatPriceValue (max (fst z) (snd z))),
           cp_stopLoss := formatPriceValue (cp_stopLoss p),
           cp_takeProfit := map formatPriceValue (cp_takeProfit p)\<rparr>)"

definition plan_signal :: "binance_ticker \<Rightarrow> ta_snapshot \<Rightarrow> real \<Rightarrow> millis \<Rightarrow> cached_params option" where
  "plan_signal ticker a rnd now = map_option format_params (raw_plan ticker a rnd now)"

text \<open>Lines 306-563; \<open>klines\<close> is \<open>None\<close> when the candle fetch fails (lines 311-318).\<close>

definition generateSignalParameters ::
  "binance_ticker \<Rightarrow> kline list option \<Rightarrow> real \<Rightarrow> millis \<Rightarrow> cached_params option" where
  "generateSignalParameters ticker klines rnd now =
     (case klines of
        None \<Rightarrow> None
      | Some ks \<Rightarrow> if length ks < 51 then None else plan_signal ticker (analyse ticker ks) rnd now)"

subsection \<open>An example\<close>

text \<open>BTCUSDT at 100 above EMA21 98 above EMA50 96, ATR 2, RSI 60, no MACD confirmation and no
  levels or gaps: a LONG entry at EMA21.\<close>

definition demo_ticker :: binance_ticker where
  "demo_ticker = \<lparr>tk_symbol = ''BTCUSDT'', priceChangePercent = 3, lastPrice = 100, tk_quoteVolume = 1000\<rparr>"

definition demo_snapshot :: ta_snapshot where
  "demo_snapshot = \<lparr>ta_price = 100, ta_atr = 2, ta_ema21 = 98, ta_ema50 = 96,
     ta_macd = \<lparr>macdLine = 0, signalLine = 0, histogram = 0\<rparr>, ta_rsi = 60,
     ta_levels = ([], []), ta_gaps = ([], [])\<rparr>"

text \<open>Its plan for \<open>Math.random() = 0.5\<close> at time 7: zone 97.75-98.25, stop 94.25 (1.75 ATR
  below the zone), risk 3.75 and targets from 100.25 to 116.75.\<close>

definition demo_plan :: cached_params where
  "demo_plan = \<lparr>cp_id = ''BTCUSDT'', cp_symbol = ''BTC'', cp_pair = ''USDT'', cp_direction = LONG,
     cp_probability = 85, cp_entryZone = (97.75, 98.25), cp_stopLoss = 94.25,
     cp_takeProfit = [100.25, 102.5, 105.5, 111.125, 116.75], cp_confidence = CONF_LONG,
     cp_riskNotes = REASON_LONG_EMA @ RISK_NOTES_SUFFIX, cp_timestamp = 7, cp_safeLeverage = 5\<rparr>"

text \<open>The mirror image: price 100 below EMA21 102 below EMA50 104, RSI 40: a SHORT entry at
  EMA21, stop 105.75, targets from 99.75 down to 83.25.\<close>

definition demo_short_snapshot :: ta_snapshot where
  "demo_short_snapshot = demo_snapshot\<lparr>ta_ema21 := 102, ta_ema50 := 104, ta_rsi := 40\<rparr>"

definition demo_short_plan :: cached_params where
  "demo_short_plan = demo_plan\<lparr>cp_direction := SHORT, cp_entryZone := (101.75, 102.25),
     cp_stopLoss := 105.75, cp_takeProfit := [99.75, 97.5, 94.5, 88.875, 83.25],
     cp_confidence := CONF_SHORT, cp_riskNotes := REASON_SHORT_EMA @ RISK_NOTES_SUFFIX\<rparr>"


subsection \<open>Lemmas\<close>

lemma raw_plan_SomeE:
  assumes "raw_plan t a rnd now = Some p"
  obtains dir conf e reason where "trend_gate a = Some (dir, conf)" "entry_target dir a = Some (e, reason)"
    "0 < e" "ta_atr a \<noteq> 0"
    "0 < \<bar>e - snd (place_stop dir e (ta_atr a) (stop_multiplier conf))\<bar>"
    "\<not> too_late dir (ta_price a) (take_profits dir e \<bar>e - snd (place_stop dir e (ta_atr a) (stop_multiplier conf))\<bar>)"
    "p = \<lparr>cp_id = tk_symbol t, cp_symbol = js_replace_first ''USDT'' '''' (tk_symbol t),
          cp_pair = ''USDT'', cp_direction = dir, cp_probability = probability_of conf rnd,
          cp_entryZone = fst (place_stop dir e (ta_atr a) (stop_multiplier conf)),
          cp_stopLoss = snd (place_stop dir e (ta_atr a) (stop_multiplier conf)),
          cp_takeProfit = take_profits dir e \<bar>e - snd (place_stop dir e (ta_atr a) (stop_multiplier conf))\<bar>,
          cp_confidence = conf, cp_riskNotes = reason @ RISK_NOTES_SUFFIX, cp_timestamp = now,
          cp_safeLeverage = leverage_of e (snd (place_stop dir e (ta_atr a) (stop_multiplier conf)))\<rparr>"
  using assms unfolding raw_plan_def Let_def
  by (auto split: option.splits if_splits prod.splits)

lemma stop_multiplier_pos: "1 \<le> stop_multiplier c"
  by (simp add: stop_multiplier_def)

lemma place_stop_long:
  assumes "0 \<le> atr" "0 < m"
  shows "snd (place_stop LONG e atr m) = max 0 (e - atr / 8 - atr * m)"
    and "fst (place_stop LONG e atr m) = (max 0 (e - atr / 8), max 0 (e + atr / 8))"
  by (simp_all add: place_stop_def Let_def)

lemma place_stop_short:
  assumes "0 \<le> atr"
  shows "snd (place_stop SHORT e atr m) = max 0 (e + atr / 8 + atr * m)"
    and "fst (place_stop SHORT e atr m) = (max 0 (e - atr / 8), max 0 (e + atr / 8))"
  using assms by (simp_all add: place_stop_def Let_def)

lemma RR_MULTIPLES_sorted: "sorted_wrt (<) RR_MULTIPLES"
  by (simp add: RR_MULTIPLES_def)

lemma take_profits_long:
  assumes "0 < rd"
  shows "sorted_wrt (<) (take_profits LONG e rd) \<and> length (take_profits LONG e rd) = 5
     \<and> take_profits LONG e rd ! 0 = e + rd * 0.6"
proof -
  have "sorted_wrt (\<lambda>x y. e + rd * x < e + rd * y) RR_MULTIPLES"
    by (rule sorted_wrt_mono_rel [OF _ RR_MULTIPLES_sorted]) (simp add: assms)
  then show ?thesis by (simp add: take_profits_def sorted_wrt_map) (simp add: RR_MULTIPLES_def)
qed

lemma take_profits_short:
  assumes "0 < rd"
  shows "sorted_wrt (\<ge>) (take_profits SHORT e rd) \<and> length (take_profits SHORT e rd) = 5
     \<and> take_profits SHORT e rd ! 0 = max 0 (e - rd * 0.6) \<and> list_all (\<lambda>x. 0 \<le> x) (take_profits SHORT e rd)"
proof -
  have "sorted_wrt (\<lambda>x y. max 0 (e - rd * y) \<le> max 0 (e - rd * x)) RR_MULTIPLES"
  proof (rule sorted_wrt_mono_rel [OF _ RR_MULTIPLES_sorted])
    fix x y :: real
    assume "x < y"
    with assms have "rd * x \<le> rd * y" by simp
    then show "max 0 (e - rd * y) \<le> max 0 (e - rd * x)" by (intro max.mono) simp_all
  qed
  then show ?thesis
    by (simp add: take_profits_def sorted_wrt_map list_all_iff) (simp add: RR_MULTIPLES_def)
qed

lemma long_zone_arith:
  assumes "0 < (e::real)" "0 \<le> atr" "0 \<le> am" "0 < \<bar>e - max 0 (e - atr / 8 - am)\<bar>"
  shows "0 \<le> max 0 (e - atr / 8 - am) \<and> max 0 (e - atr / 8 - am) \<le> max 0 (e - atr / 8)
    \<and> max 0 (e - atr / 8) \<le> max 0 (e + atr / 8)
    \<and> max 0 (e - atr / 8) < e + \<bar>e - max 0 (e - atr / 8 - am)\<bar> * 0.6"
  using assms unfolding max_def abs_if by (auto; linarith)

lemma short_zone_arith:
  assumes "0 < (e::real)" "0 \<le> atr" "0 \<le> am" "0 < rd"
  shows "0 \<le> max 0 (e - atr / 8) \<and> max 0 (e - atr / 8) \<le> max 0 (e + atr / 8)
    \<and> max 0 (e + atr / 8) \<le> max 0 (e + atr / 8 + am) \<and> max 0 (e - rd * 0.6) < max 0 (e + atr / 8)"
  using assms unfolding max_def by (auto; linarith)

lemma confluence_reason_mem: "confluence_reason z b m a g e \<in> {z, b, m, REASON_FVG}"
  by (simp add: confluence_reason_def Let_def)

lemma chosen_reasons_not_fallback:
  "r \<in> {REASON_LONG_ZONE, REASON_LONG_ALL, REASON_LONG_EMA, REASON_SHORT_ZONE, REASON_SHORT_ALL,
          REASON_SHORT_EMA, REASON_FVG} \<Longrightarrow> r \<noteq> REASON_BREAKOUT \<and> r \<noteq> REASON_BREAKDOWN"
  by (elim insertE emptyE; simp only:; simp add: REASON_LONG_ZONE_def REASON_LONG_ALL_def REASON_LONG_EMA_def REASON_SHORT_ZONE_def
      REASON_SHORT_ALL_def REASON_SHORT_EMA_def REASON_FVG_def REASON_BREAKOUT_def REASON_BREAKDOWN_def)

lemma trend_gate_Some:
  "trend_gate a = Some (dir, conf) \<Longrightarrow>
     (dir = LONG \<and> ta_ema21 a < ta_price a \<and> ta_ema50 a < ta_ema21 a) \<or>
     (dir = SHORT \<and> ta_price a < ta_ema21 a \<and> ta_ema21 a < ta_ema50 a)"
  by (auto simp: trend_gate_def Let_def split: if_splits)

lemma long_candidates_ema: "ta_ema21 a < ta_price a \<Longrightarrow> ta_ema21 a \<in> set (long_candidates a)"
  by (simp add: long_candidates_def Let_def)

lemma short_candidates_ema: "ta_price a < ta_ema21 a \<Longrightarrow> ta_ema21 a \<in> set (short_candidates a)"
  by (simp add: short_candidates_def Let_def)

lemma leverage_of_bounds: "5 \<le> leverage_of e s \<and> leverage_of e s \<le> 25"
  using js_round_bounds [of 5 "min 25 (max 5 (20 / (\<bar>(e - s) / e\<bar> * 100)))" 25]
  by (simp add: leverage_of_def Let_def)

lemma probability_of_range:
  assumes "0 \<le> rnd" "rnd < 1"
  shows "if js_starts_with c ''Muito Alta'' then 90 \<le> probability_of c rnd \<and> probability_of c rnd \<le> 98
         else 80 \<le> probability_of c rnd \<and> probability_of c rnd \<le> 89"
proof -
  have "0 \<le> \<lfloor>rnd * 9\<rfloor> \<and> \<lfloor>rnd * 9\<rfloor> \<le> 8" "0 \<le> \<lfloor>rnd * 10\<rfloor> \<and> \<lfloor>rnd * 10\<rfloor> \<le> 9"
    using assms by (simp_all add: floor_le_iff)
  then show ?thesis by (simp add: probability_of_def)
qed

lemma plan_signal_SomeE:
  assumes "plan_signal t a rnd now = Some p"
  obtains q where "raw_plan t a rnd now = Some q" "p = format_params q"
  using assms by (auto simp: plan_signal_def)

lemma format_params_sel [simp]:
  "cp_safeLeverage (format_params q) = cp_safeLeverage q"
  "cp_probability (format_params q) = cp_probability q"
  "cp_confidence (format_params q) = cp_confidence q"
  "cp_direction (format_params q) = cp_direction q"
  "cp_id (format_params q) = cp_id q"
  "cp_timestamp (format_params q) = cp_timestamp q"
  "length (cp_takeProfit (format_params q)) = length (cp_takeProfit q)"
  by (simp_all add: format_params_def Let_def)

lemmas plan_eval_simps = raw_plan_def trend_gate_def entry_target_def long_candidates_def
  short_candidates_def confluence_reason_def near_level_def place_stop_def stop_multiplier_def
  take_profits_def RR_MULTIPLES_def too_late_def leverage_of_def probability_of_def js_round_def
  js_starts_with_def CONF_LONG_def CONF_SHORT_def Let_def

lemma demo_raw_plan: "raw_plan demo_ticker demo_snapshot (1/2) 7 = Some demo_plan"
  by (simp add: plan_eval_simps demo_ticker_def demo_snapshot_def demo_plan_def)

lemma demo_short_raw_plan: "raw_plan demo_ticker demo_short_snapshot (1/2) 7 = Some demo_short_plan"
  by (simp add: plan_eval_simps demo_ticker_def demo_short_snapshot_def demo_snapshot_def
      demo_short_plan_def demo_plan_def)

lemma analyse_atr_nonneg: "0 \<le> ta_atr (analyse t ks)"
  by (simp add: analyse_def Let_def atr_nonneg)

lemma generate_SomeE:
  assumes "generateSignalParameters t k rnd now = Some p"
  obtains ks q where "k = Some ks" "51 \<le> length ks" "raw_plan t (analyse t ks) rnd now = Some q"
    "p = format_params q"
  using assms by (auto simp: generateSignalParameters_def plan_signal_def split: option.splits if_splits)

lemma take_profits_length [simp]: "length (take_profits dir e rd) = 5"
  by (simp add: take_profits_def RR_MULTIPLES_def)

lemma generate_shape:
  assumes "generateSignalParameters t k rnd now = Some p"
  shows "cp_id p = tk_symbol t \<and> length (cp_takeProfit p) = 5"
  by (rule generate_SomeE [OF assms], erule raw_plan_SomeE) simp

subsection \<open>Properties of the plan\<close>

text \<open>C19: A LONG plan, for a non-negative ATR, has a stop at or below its entry zone, the zone below the first target, five strictly increasing targets, and the current price below the first target (the freshness gate, on the unformatted targets).\<close>

theorem long_plan_ladder:
  assumes "raw_plan t a rnd now = Some p" and "cp_direction p = LONG" and "0 \<le> ta_atr a"
  shows "0 \<le> cp_stopLoss p \<and> cp_stopLoss p \<le> fst (cp_entryZone p) \<and> fst (cp_entryZone p) \<le> snd (cp_entryZone p)
    \<and> fst (cp_entryZone p) < cp_takeProfit p ! 0 \<and> ta_price a < cp_takeProfit p ! 0
    \<and> length (cp_takeProfit p) = 5 \<and> sorted_wrt (<) (cp_takeProfit p)"
  apply (rule raw_plan_SomeE [OF assms(1)])
  subgoal premises prems for dir conf e reason
  proof -
    let ?atr = "ta_atr a" and ?m = "stop_multiplier conf"
    let ?S = "max 0 (e - ?atr / 8 - ?atr * ?m)"
    have dir: "dir = LONG" using prems(7) assms(2) by simp
    have m: "0 < ?m" using stop_multiplier_pos [of conf] by simp
    note ps = place_stop_long [OF assms(3) m, of e]
    have f: "cp_stopLoss p = ?S" "cp_entryZone p = (max 0 (e - ?atr / 8), max 0 (e + ?atr / 8))"
      "cp_takeProfit p = take_profits LONG e \<bar>e - ?S\<bar>"
      using prems(7) dir ps by simp_all
    have rd: "0 < \<bar>e - ?S\<bar>" using prems(5) dir ps by simp
    have late: "ta_price a < take_profits LONG e \<bar>e - ?S\<bar> ! 0"
      using prems(6) dir ps by (simp add: too_late_def)
    show ?thesis
      using f late take_profits_long [OF rd, of e]
        long_zone_arith [OF prems(3) assms(3) _ rd] assms(3) m
      by simp
  qed
  done

theorem long_plan_ladder_witness:
  "raw_plan demo_ticker demo_snapshot (1/2) 7 = Some demo_plan \<and> cp_direction demo_plan = LONG
   \<and> 0 \<le> ta_atr demo_snapshot
   \<and> 0 \<le> cp_stopLoss demo_plan \<and> cp_stopLoss demo_plan \<le> fst (cp_entryZone demo_plan)
   \<and> fst (cp_entryZone demo_plan) \<le> snd (cp_entryZone demo_plan)
   \<and> fst (cp_entryZone demo_plan) < cp_takeProfit demo_plan ! 0 \<and> ta_price demo_snapshot < cp_takeProfit demo_plan ! 0
   \<and> length (cp_takeProfit demo_plan) = 5 \<and> sorted_wrt (<) (cp_takeProfit demo_plan)"
proof -
  have d: "cp_direction demo_plan = LONG" "0 \<le> ta_atr demo_snapshot"
    by (simp_all add: demo_plan_def demo_snapshot_def)
  show ?thesis using long_plan_ladder [OF demo_raw_plan d] demo_raw_plan d by blast
qed

text \<open>A SHORT plan, for a non-negative ATR, has its entry zone ordered and at or below the stop, five non-increasing non-negative targets with the first below the zone, and the current price above the first target.\<close>

theorem short_plan_ladder:
  assumes "raw_plan t a rnd now = Some p" and "cp_direction p = SHORT" and "0 \<le> ta_atr a"
  shows "0 \<le> fst (cp_entryZone p) \<and> fst (cp_entryZone p) \<le> snd (cp_entryZone p) \<and> snd (cp_entryZone p) \<le> cp_stopLoss p
    \<and> cp_takeProfit p ! 0 < snd (cp_entryZone p) \<and> cp_takeProfit p ! 0 < ta_price a
    \<and> length (cp_takeProfit p) = 5 \<and> sorted_wrt (\<ge>) (cp_takeProfit p) \<and> list_all (\<lambda>x. 0 \<le> x) (cp_takeProfit p)"
  apply (rule raw_plan_SomeE [OF assms(1)])
  subgoal premises prems for dir conf e reason
  proof -
    let ?atr = "ta_atr a" and ?m = "stop_multiplier conf"
    let ?S = "max 0 (e + ?atr / 8 + ?atr * ?m)"
    have dir: "dir = SHORT" using prems(7) assms(2) by simp
    have m: "0 < ?m" using stop_multiplier_pos [of conf] by simp
    note ps = place_stop_short [OF assms(3), of e ?m]
    have f: "cp_stopLoss p = ?S" "cp_entryZone p = (max 0 (e - ?atr / 8), max 0 (e + ?atr / 8))"
      "cp_takeProfit p = take_profits SHORT e \<bar>e - ?S\<bar>"
      using prems(7) dir ps by simp_all
    have rd: "0 < \<bar>e - ?S\<bar>" using prems(5) dir ps by simp
    have late: "take_profits SHORT e \<bar>e - ?S\<bar> ! 0 < ta_price a"
      using prems(6) dir ps by (simp add: too_late_def)
    show ?thesis
      using f late take_profits_short [OF rd, of e]
        short_zone_arith [OF prems(3) assms(3) _ rd] assms(3) m
      by simp
  qed
  done

theorem short_plan_ladder_witness:
  "raw_plan demo_ticker demo_short_snapshot (1/2) 7 = Some demo_short_plan \<and> cp_direction demo_short_plan = SHORT
   \<and> 0 \<le> ta_atr demo_short_snapshot
   \<and> 0 \<le> fst (cp_entryZone demo_short_plan) \<and> fst (cp_entryZone demo_short_plan) \<le> snd (cp_entryZone demo_short_plan)
   \<and> snd (cp_entryZone demo_short_plan) \<le> cp_stopLoss demo_short_plan
   \<and> cp_takeProfit demo_short_plan ! 0 < snd (cp_entryZone demo_short_plan)
   \<and> cp_takeProfit demo_short_plan ! 0 < ta_price demo_short_snapshot
   \<and> length (cp_takeProfit demo_short_plan) = 5 \<and> sorted_wrt (\<ge>) (cp_takeProfit demo_short_plan)
   \<and> list_all (\<lambda>x. 0 \<le> x) (cp_takeProfit demo_short_plan)"
proof -
  have d: "cp_direction demo_short_plan = SHORT" "0 \<le> ta_atr demo_short_snapshot"
    by (simp_all add: demo_short_plan_def demo_plan_def demo_short_snapshot_def demo_snapshot_def)
  show ?thesis using short_plan_ladder [OF demo_short_raw_plan d] demo_short_raw_plan d by blast
qed

text \<open>C21: Whenever the trend gate lets a signal through, the entry target is the nearest candidate level: the pool always holds EMA21, so the breakout and breakdown fallbacks (lines 395-402 and 423-430) never decide.\<close>

theorem breakout_fallback_unreachable:
  assumes "trend_gate a = Some (dir, conf)"
  shows "\<exists>e r. entry_target dir a = Some (e, r) \<and> r \<noteq> REASON_BREAKOUT \<and> r \<noteq> REASON_BREAKDOWN"
  using trend_gate_Some [OF assms]
proof
  assume l: "dir = LONG \<and> ta_ema21 a < ta_price a \<and> ta_ema50 a < ta_ema21 a"
  then have "long_candidates a \<noteq> []" using long_candidates_ema [of a] by auto
  then obtain e where "js_max_list (long_candidates a) = Some e" by (cases "long_candidates a") auto
  with l have "entry_target dir a = Some (e, confluence_reason REASON_LONG_ZONE REASON_LONG_ALL
      REASON_LONG_EMA a (fst (ta_gaps a)) e)"
    by (simp add: entry_target_def Let_def)
  moreover have "confluence_reason REASON_LONG_ZONE REASON_LONG_ALL REASON_LONG_EMA a (fst (ta_gaps a)) e
      \<in> {REASON_LONG_ZONE, REASON_LONG_ALL, REASON_LONG_EMA, REASON_SHORT_ZONE, REASON_SHORT_ALL,
          REASON_SHORT_EMA, REASON_FVG}"
    using confluence_reason_mem by blast
  ultimately show ?thesis using chosen_reasons_not_fallback by blast
next
  assume s: "dir = SHORT \<and> ta_price a < ta_ema21 a \<and> ta_ema21 a < ta_ema50 a"
  then have "short_candidates a \<noteq> []" using short_candidates_ema [of a] by auto
  then obtain e where "js_min_list (short_candidates a) = Some e" by (cases "short_candidates a") auto
  with s have "entry_target dir a = Some (e, confluence_reason REASON_SHORT_ZONE REASON_SHORT_ALL
      REASON_SHORT_EMA a (snd (ta_gaps a)) e)"
    by (simp add: entry_target_def Let_def)
  moreover have "confluence_reason REASON_SHORT_ZONE REASON_SHORT_ALL REASON_SHORT_EMA a (snd (ta_gaps a)) e
      \<in> {REASON_LONG_ZONE, REASON_LONG_ALL, REASON_LONG_EMA, REASON_SHORT_ZONE, REASON_SHORT_ALL,
          REASON_SHORT_EMA, REASON_FVG}"
    using confluence_reason_mem by blast
  ultimately show ?thesis using chosen_reasons_not_fallback by blast
qed

theorem breakout_fallback_unreachable_witness:
  "trend_gate demo_snapshot = Some (LONG, CONF_LONG) \<and>
   (\<exists>e r. entry_target LONG demo_snapshot = Some (e, r) \<and> r \<noteq> REASON_BREAKOUT \<and> r \<noteq> REASON_BREAKDOWN)"
proof -
  have g: "trend_gate demo_snapshot = Some (LONG, CONF_LONG)"
    by (simp add: trend_gate_def demo_snapshot_def Let_def)
  show ?thesis using breakout_fallback_unreachable [OF g] g by blast
qed

text \<open>The leverage of a plan is between 5 and 25.\<close>

theorem leverage_bounds:
  assumes "plan_signal t a rnd now = Some p"
  shows "5 \<le> cp_safeLeverage p \<and> cp_safeLeverage p \<le> 25"
  by (rule plan_signal_SomeE [OF assms], erule raw_plan_SomeE) (simp add: leverage_of_bounds)

theorem leverage_bounds_witness:
  "plan_signal demo_ticker demo_snapshot (1/2) 7 = Some (format_params demo_plan)
   \<and> 5 \<le> cp_safeLeverage (format_params demo_plan) \<and> cp_safeLeverage (format_params demo_plan) \<le> 25"
proof -
  have h: "plan_signal demo_ticker demo_snapshot (1/2) 7 = Some (format_params demo_plan)"
    by (simp add: plan_signal_def demo_raw_plan)
  show ?thesis using leverage_bounds [OF h] h by blast
qed

text \<open>For a random draw in [0, 1) the probability of a plan is in 90..98 when its confidence is "Muito Alta" and in 80..89 otherwise.\<close>

theorem probability_range:
  assumes "plan_signal t a rnd now = Some p" and "0 \<le> rnd" and "rnd < 1"
  shows "if js_starts_with (cp_confidence p) ''Muito Alta'' then 90 \<le> cp_probability p \<and> cp_probability p \<le> 98
         else 80 \<le> cp_probability p \<and> cp_probability p \<le> 89"
  by (rule plan_signal_SomeE [OF assms(1)], erule raw_plan_SomeE)
    (simp add: probability_of_range [OF assms(2,3)])

theorem probability_range_witness:
  "plan_signal demo_ticker demo_snapshot (1/2) 7 = Some (format_params demo_plan) \<and> 0 \<le> (1/2::real) \<and> (1/2::real) < 1
   \<and> 80 \<le> cp_probability (format_params demo_plan) \<and> cp_probability (format_params demo_plan) \<le> 89"
proof -
  have h: "plan_signal demo_ticker demo_snapshot (1/2) 7 = Some (format_params demo_plan)"
    by (simp add: plan_signal_def demo_raw_plan)
  have c: "\<not> js_starts_with (cp_confidence (format_params demo_plan)) ''Muito Alta''"
    by (simp add: demo_plan_def CONF_LONG_def js_starts_with_def)
  show ?thesis using probability_range [OF h, of] c h by simp
qed

end
