(* ===== verification/Service.thy ===== *)
theory Service
  imports SignalGen
begin

text \<open>
  The signal service around \<open>generateSignalParameters\<close>: the parameter cache and
  \<open>removeSignalFromCache\<close> (\<open>src/services/mockSignalService.ts\<close>, lines 43-72), the
  one-hour cache of tradable symbols \<open>getTradableFuturesSymbols\<close> (lines 38-41, 79-114),
  the daily alert ledger of \<open>src/services/dailyAlertsService.ts\<close>, and
  \<open>getTradingSignals\<close> (lines 580-644). The three module-level or \<open>localStorage\<close> stores
  are the fields of \<open>service_state\<close>; everything fetched from the exchange is a field of
  \<open>market\<close>, read once per call. A UTC date string \<open>YYYY-MM-DD\<close> is its day number
  (\<open>Date.now()\<close> divided by the milliseconds of a day), one string per day. A thrown error
  is \<open>Inl\<close> with its message, paired with the service state at the throw.
\<close>

subsection \<open>The parameter cache\<close>

type_synonym param_cache = "sym \<rightharpoonup> cached_params"

text \<open>Lines 67-72.\<close>

definition removeSignalFromCache :: "sym \<Rightarrow> param_cache \<Rightarrow> param_cache" where
  "removeSignalFromCache sy cache = (if sy \<in> dom cache then cache(sy := None) else cache)"

subsection \<open>Tradable symbols\<close>

record exchange_symbol =
  ex_symbol :: sym
  ex_pair :: string
  ex_contractType :: string
  ex_status :: string
  ex_quoteAsset :: string

text \<open>Lines 38-41: \<open>tradableSymbolsCache\<close> and \<open>lastCacheTime\<close>, \<open>None\<close> for \<open>null\<close>.\<close>

record tradable_cache =
  tradableSymbolsCache :: "sym set option"
  lastCacheTime :: "millis option"

definition TRADABLE_TTL :: int where
  "TRADABLE_TTL = 3600000"

definition TRADABLE_ERROR :: string where
  "TRADABLE_ERROR = ''N'' @ [a_tilde] @ ''o foi poss'' @ [i_acute] @ ''vel obter a lista de s'' @
     [i_acute] @ ''mbolos negoci'' @ [a_acute] @ ''veis da Binance Futuros.''"

text \<open>Lines 86-112: the \<open>exchangeInfo\<close> request (\<open>None\<close> when it fails or is not ok).\<close>

definition fetch_tradable ::
  "millis \<Rightarrow> exchange_symbol list option \<Rightarrow> string + sym set \<times> tradable_cache" where
  "fetch_tradable now resp =
     (case resp of
        None \<Rightarrow> Inl TRADABLE_ERROR
      | Some symbols \<Rightarrow>
          (let perpetualUsdtSymbols = set (map ex_symbol (filter (\<lambda>s.
                 ex_contractType s = ''PERPETUAL'' \<and> ex_quoteAsset s = ''USDT'' \<and> ex_status s = ''TRADING'')
                 symbols))
           in Inr (perpetualUsdtSymbols,
                   \<lparr>tradableSymbolsCache = Some perpetualUsdtSymbols, lastCacheTime = Some now\<rparr>)))"

text \<open>Lines 79-114; \<open>lastCacheTime &&\<close> is false for a time of 0.\<close>

definition getTradableFuturesSymbols ::
  "millis \<Rightarrow> exchange_symbol list option \<Rightarrow> tradable_cache \<Rightarrow> string + sym set \<times> tradable_cache" where
  "getTradableFuturesSymbols now resp tc =
     (case (tradableSymbolsCache tc, lastCacheTime tc) of
        (Some syms, Some t) \<Rightarrow>
          if t \<noteq> 0 \<and> now - t < TRADABLE_TTL then Inr (syms, tc) else fetch_tradable now resp
      | _ \<Rightarrow> fetch_tradable now resp)"

subsection \<open>The daily alert ledger\<close>

definition MS_PER_DAY :: int where
  "MS_PER_DAY = 86400000"

text \<open>Lines 13-16 of \<open>dailyAlertsService.ts\<close>: the UTC day of a time.\<close>

definition getTodayUTCString :: "millis \<Rightarrow> int" where
  "getTodayUTCString now = now div MS_PER_DAY"

record daily_alerts =
  da_date :: int
  da_symbols :: "sym list"

text \<open>The \<open>localStorage\<close> slot: absent, holding text that does not parse, or the record.\<close>

datatype alerts_slot = SlotEmpty | SlotCorrupt | SlotStored daily_alerts

text \<open>Lines 23-46: the list of the day, clearing the slot when it is of another day or
  does not parse.\<close>

definition getAlertedSymbolsToday :: "int \<Rightarrow> alerts_slot \<Rightarrow> sym list \<times> alerts_slot" where
  "getAlertedSymbolsToday todayStr slot =
     (case slot of
        SlotEmpty \<Rightarrow> ([], SlotEmpty)
      | SlotCorrupt \<Rightarrow> ([], SlotEmpty)
      | SlotStored d \<Rightarrow> if da_date d = todayStr then (da_symbols d, slot) else ([], SlotEmpty))"

text \<open>Lines 53-73.\<close>

definition addAlertedSymbol :: "int \<Rightarrow> sym \<Rightarrow> alerts_slot \<Rightarrow> alerts_slot" where
  "addAlertedSymbol todayStr sy slot =
     (let r = getAlertedSymbolsToday todayStr slot; currentSymbols = fst r
      in if sy \<in> set currentSymbols then snd r
         else SlotStored \<lparr>da_date = todayStr, da_symbols = currentSymbols @ [sy]\<rparr>)"

subsection \<open>\<open>getTradingSignals\<close>\<close>

text \<open>What a call reads from the exchange: the time, \<open>exchangeInfo\<close>, the 24h tickers (and
  the message thrown when that request fails), the candles of each symbol and the
  \<open>Math.random()\<close> draw of each symbol.\<close>

record market =
  mk_now :: millis
  mk_exchange :: "exchange_symbol list option"
  mk_tickers :: "binance_ticker list option"
  mk_ticker_error :: string
  mk_klines :: "sym \<Rightarrow> kline list option"
  mk_random :: "sym \<Rightarrow> real"

record service_state =
  signalParametersCache :: param_cache
  tradable :: tradable_cache
  alerts :: alerts_slot

text \<open>Lines 624-629: the signal object, parameters spread with the live ticker fields;
  \<open>tpsHit\<close> is absent.\<close>

definition to_signal :: "cached_params \<Rightarrow> binance_ticker \<Rightarrow> trading_signal" where
  "to_signal p t =
     \<lparr>sig_id = cp_id p, symbol = cp_symbol p, pair = cp_pair p, change24h = priceChangePercent t,
      price = lastPrice t, direction = cp_direction p, probability = cp_probability p,
      entryZone = cp_entryZone p, stopLoss = cp_stopLoss p, takeProfit = cp_takeProfit p,
      confidence = cp_confidence p, riskNotes = cp_riskNotes p, timestamp = cp_timestamp p,
      tpsHit = None, safeLeverage = cp_safeLeverage p, quoteVolume = Some (tk_quoteVolume t)\<rparr>"

text \<open>Lines 609-618: the cached parameters of the symbol, or freshly generated ones, cached.\<close>

definition lookup_params :: "market \<Rightarrow> binance_ticker \<Rightarrow> service_state \<Rightarrow> cached_params option \<times> service_state" where
  "lookup_params mk t st =
     (case signalParametersCache st (tk_symbol t) of
        Some p \<Rightarrow> (Some p, st)
      | None \<Rightarrow>
          (case generateSignalParameters t (mk_klines mk (tk_symbol t)) (mk_random mk (tk_symbol t)) (mk_now mk) of
             None \<Rightarrow> (None, st)
           | Some p \<Rightarrow> (Some p, st\<lparr>signalParametersCache := (signalParametersCache st)(tk_symbol t \<mapsto> p)\<rparr>)))"

text \<open>Lines 601-631: the loop over the sorted tickers, stopping once \<open>count\<close> signals are found.\<close>

fun pick_signals ::
  "market \<Rightarrow> nat \<Rightarrow> binance_ticker list \<Rightarrow> service_state \<Rightarrow> trading_signal list \<Rightarrow> trading_signal list \<times> service_state" where
  "pick_signals mk n_wanted [] st finalSignals = (finalSignals, st)"
| "pick_signals mk n_wanted (t # ts) st finalSignals =
     (if n_wanted \<le> length finalSignals then (finalSignals, st)
      else (case lookup_params mk t st of
              (None, st') \<Rightarrow> pick_signals mk n_wanted ts st' finalSignals
            | (Some p, st') \<Rightarrow>
                pick_signals mk n_wanted ts
                  (st'\<lparr>alerts := addAlertedSymbol (getTodayUTCString (mk_now mk)) (tk_symbol t) (alerts st')\<rparr>)
                  (finalSignals @ [to_signal p t])))"

text \<open>Lines 589-599: tradable, not excluded, by absolute 24h change, largest first (the
  comparator sort of JavaScript is stable).\<close>

definition select_tickers :: "sym set \<Rightarrow> sym list \<Rightarrow> binance_ticker list \<Rightarrow> binance_ticker list" where
  "select_tickers tradableSymbols excludeSet tickers =
     sort_key (\<lambda>t. - \<bar>priceChangePercent t\<bar>)
       (filter (\<lambda>t. tk_symbol t \<in> tradableSymbols \<and> tk_symbol t \<notin> set excludeSet) tickers)"

text \<open>Lines 580-644.\<close>

definition getTradingSignals ::
  "market \<Rightarrow> nat \<Rightarrow> sym list \<Rightarrow> service_state \<Rightarrow> (string + trading_signal list) \<times> service_state" where
  "getTradingSignals mk n_wanted excludeSymbols st =
     (case getTradableFuturesSymbols (mk_now mk) (mk_exchange mk) (tradable st) of
        Inl e \<Rightarrow> (Inl e, st)
      | Inr (tradableSymbols, tc) \<Rightarrow>
          (let st1 = st\<lparr>tradable := tc\<rparr>
           in case getAllFuturesTickers (mk_tickers mk) of
                None \<Rightarrow> (Inl (mk_ticker_error mk), st1)
              | Some tickers \<Rightarrow>
                  (let r = getAlertedSymbolsToday (getTodayUTCString (mk_now mk)) (alerts st1);
                       st2 = st1\<lparr>alerts := snd r\<rparr>;
                       sortedTickers = select_tickers tradableSymbols (excludeSymbols @ fst r) tickers;
                       res = pick_signals mk n_wanted sortedTickers st2 []
                   in (Inr (fst res), snd res))))"

subsection \<open>Specification vocabulary\<close>

text \<open>The invariant of the parameter cache: an entry is the plan of its own symbol, with
  five targets (true of what \<open>generateSignalParameters\<close> returns).\<close>

definition service_inv :: "service_state \<Rightarrow> bool" where
  "service_inv st \<longleftrightarrow>
     (\<forall>sy p. signalParametersCache st sy = Some p \<longrightarrow> cp_id p = sy \<and> length (cp_takeProfit p) = 5)"

text \<open>The symbols the ledger holds for the day of a time.\<close>

definition alerted_today :: "millis \<Rightarrow> service_state \<Rightarrow> sym list" where
  "alerted_today now st = fst (getAlertedSymbolsToday (getTodayUTCString now) (alerts st))"

subsection \<open>An example\<close>

text \<open>One tradable perpetual, BTCUSDT, its ticker, no candles; a service whose cache holds
  the example plan of BTCUSDT, with no tradable symbols cached and an empty ledger.\<close>

definition demo_btc_info :: exchange_symbol where
  "demo_btc_info = \<lparr>ex_symbol = ''BTCUSDT'', ex_pair = ''BTCUSDT'', ex_contractType = ''PERPETUAL'',
     ex_status = ''TRADING'', ex_quoteAsset = ''USDT''\<rparr>"

definition demo_market :: market where
  "demo_market = \<lparr>mk_now = 1000, mk_exchange = Some [demo_btc_info], mk_tickers = Some [demo_ticker],
     mk_ticker_error = ''Failed to fetch'', mk_klines = (\<lambda>_. None), mk_random = (\<lambda>_. 1 / 2)\<rparr>"

definition demo_service :: service_state where
  "demo_service = \<lparr>signalParametersCache = [''BTCUSDT'' \<mapsto> demo_plan],
     tradable = \<lparr>tradableSymbolsCache = None, lastCacheTime = None\<rparr>, alerts = SlotEmpty\<rparr>"


subsection \<open>Lemmas\<close>

lemma alerted_set_add:
  "set (fst (getAlertedSymbolsToday d (addAlertedSymbol d sy slot))) = insert sy (set (fst (getAlertedSymbolsToday d slot)))"
  by (cases slot) (auto simp: addAlertedSymbol_def getAlertedSymbolsToday_def Let_def)

lemma lookup_params_spec:
  assumes "lookup_params mk t st = (r, st')" and "service_inv st"
  shows "service_inv st' \<and> alerts st' = alerts st
    \<and> (\<forall>p. r = Some p \<longrightarrow> cp_id p = tk_symbol t \<and> length (cp_takeProfit p) = 5)"
proof (cases "signalParametersCache st (tk_symbol t)")
  case (Some p)
  with assms show ?thesis by (auto simp: lookup_params_def service_inv_def)
next
  case None
  show ?thesis
  proof (cases "generateSignalParameters t (mk_klines mk (tk_symbol t)) (mk_random mk (tk_symbol t)) (mk_now mk)")
    case None
    with \<open>signalParametersCache st (tk_symbol t) = None\<close> assms show ?thesis
      by (auto simp: lookup_params_def)
  next
    case (Some p)
    note gen = this
    with \<open>signalParametersCache st (tk_symbol t) = None\<close>
    have "lookup_params mk t st = (Some p, st\<lparr>signalParametersCache := (signalParametersCache st)(tk_symbol t \<mapsto> p)\<rparr>)"
      by (simp add: lookup_params_def)
    then have "(r, st') = (Some p, st\<lparr>signalParametersCache := (signalParametersCache st)(tk_symbol t \<mapsto> p)\<rparr>)"
      unfolding assms(1) .
    then have "r = Some p" "st' = st\<lparr>signalParametersCache := (signalParametersCache st)(tk_symbol t \<mapsto> p)\<rparr>"
      by (simp_all only: prod.inject)
    with generate_shape [OF gen] assms(2) show ?thesis
      by (auto simp: service_inv_def)
  qed
qed

lemma to_signal_wf: "length (cp_takeProfit p) = 5 \<Longrightarrow> wf_signal (to_signal p t) \<and> sig_id (to_signal p t) = cp_id p"
  by (simp add: to_signal_def wf_signal_def)

lemma pick_signals_spec:
  assumes "pick_signals mk n ts st acc = (res, st')" and "service_inv st"
  shows "\<exists>new. res = acc @ new \<and> length res \<le> max n (length acc) \<and> service_inv st'
    \<and> (\<forall>x\<in>set new. wf_signal x \<and> sig_id x \<in> tk_symbol ` set ts \<and> sig_id x \<in> set (alerted_today (mk_now mk) st'))
    \<and> set (alerted_today (mk_now mk) st) \<subseteq> set (alerted_today (mk_now mk) st')"
  using assms
proof (induction ts arbitrary: st acc)
  case Nil
  then show ?case by simp
next
  case (Cons t ts)
  show ?case
  proof (cases "n \<le> length acc")
    case True
    with Cons.prems show ?thesis by simp
  next
    case False
    obtain r st1 where l: "lookup_params mk t st = (r, st1)" by (metis surj_pair)
    note lp = lookup_params_spec [OF l Cons.prems(2)]
    show ?thesis
    proof (cases r)
      case None
      with Cons.prems(1) False l have "pick_signals mk n ts st1 acc = (res, st')" by simp
      from Cons.IH [OF this] lp show ?thesis by (auto simp: alerted_today_def)
    next
      case (Some p)
      let ?st2 = "st1\<lparr>alerts := addAlertedSymbol (getTodayUTCString (mk_now mk)) (tk_symbol t) (alerts st1)\<rparr>"
      from Cons.prems(1) False l Some
      have rec: "pick_signals mk n ts ?st2 (acc @ [to_signal p t]) = (res, st')" by simp
      have inv2: "service_inv ?st2" using lp by (simp add: service_inv_def)
      have led: "set (alerted_today (mk_now mk) ?st2) = insert (tk_symbol t) (set (alerted_today (mk_now mk) st))"
        using lp by (simp add: alerted_today_def alerted_set_add)
      have w: "wf_signal (to_signal p t) \<and> sig_id (to_signal p t) = tk_symbol t"
        using lp Some to_signal_wf by simp
      from Cons.IH [OF rec inv2] obtain new where
        "res = (acc @ [to_signal p t]) @ new" "length res \<le> max n (length (acc @ [to_signal p t]))"
        "service_inv st'"
        "\<forall>x\<in>set new. wf_signal x \<and> sig_id x \<in> tk_symbol ` set ts \<and> sig_id x \<in> set (alerted_today (mk_now mk) st')"
        "set (alerted_today (mk_now mk) ?st2) \<subseteq> set (alerted_today (mk_now mk) st')"
        by blast
      with False led w show ?thesis
        by (intro exI [of _ "to_signal p t # new"]) auto
    qed
  qed
qed

lemma select_tickers_set:
  "set (select_tickers T ex ts) = {t \<in> set ts. tk_symbol t \<in> T \<and> tk_symbol t \<notin> set ex}"
  by (auto simp: select_tickers_def)

lemma getTradingSignals_Inr:
  assumes "getTradingSignals mk n ex st = (Inr new, st')"
  obtains T tc tickers where "getTradableFuturesSymbols (mk_now mk) (mk_exchange mk) (tradable st) = Inr (T, tc)"
    "getAllFuturesTickers (mk_tickers mk) = Some tickers"
    "pick_signals mk n (select_tickers T (ex @ alerted_today (mk_now mk) st) tickers)
       (st\<lparr>tradable := tc, alerts := snd (getAlertedSymbolsToday (getTodayUTCString (mk_now mk)) (alerts st))\<rparr>) []
     = (new, st')"
  using assms
  by (auto simp: getTradingSignals_def alerted_today_def Let_def split: sum.splits option.splits prod.splits)

lemma getTradable_cache:
  "getTradableFuturesSymbols now resp tc = Inr (S, tc') \<Longrightarrow> tradableSymbolsCache tc' = Some S"
  by (auto simp: getTradableFuturesSymbols_def fetch_tradable_def Let_def split: option.splits prod.splits if_splits)

lemma demo_trading_signals:
  "getTradingSignals demo_market 1 [] demo_service =
     (Inr [to_signal demo_plan demo_ticker],
      demo_service\<lparr>tradable := \<lparr>tradableSymbolsCache = Some {''BTCUSDT''}, lastCacheTime = Some 1000\<rparr>,
        alerts := SlotStored \<lparr>da_date = 0, da_symbols = [''BTCUSDT'']\<rparr>\<rparr>)"
  by (simp add: getTradingSignals_def getTradableFuturesSymbols_def fetch_tradable_def demo_market_def
      demo_service_def demo_btc_info_def getAllFuturesTickers_def js_ends_with_def demo_ticker_def
      getAlertedSymbolsToday_def getTodayUTCString_def MS_PER_DAY_def select_tickers_def lookup_params_def
      addAlertedSymbol_def Let_def)

lemma trading_signals_spec:
  assumes "getTradingSignals mk n ex st = (Inr new, st')" and "service_inv st"
  shows "length new \<le> n \<and> service_inv st' \<and>
    (\<forall>x\<in>set new. wf_signal x \<and> sig_id x \<notin> set ex \<and> sig_id x \<notin> set (alerted_today (mk_now mk) st)
       \<and> sig_id x \<in> set (alerted_today (mk_now mk) st'))"
proof (rule getTradingSignals_Inr [OF assms(1)])
  fix T tc tickers
  let ?st2 = "st\<lparr>tradable := tc, alerts := snd (getAlertedSymbolsToday (getTodayUTCString (mk_now mk)) (alerts st))\<rparr>"
  let ?ts = "select_tickers T (ex @ alerted_today (mk_now mk) st) tickers"
  assume "pick_signals mk n ?ts ?st2 [] = (new, st')"
  moreover have "service_inv ?st2" using assms(2) by (simp add: service_inv_def)
  ultimately obtain new' where "new = new'" "length new \<le> n" "service_inv st'"
    "\<forall>x\<in>set new'. wf_signal x \<and> sig_id x \<in> tk_symbol ` set ?ts \<and> sig_id x \<in> set (alerted_today (mk_now mk) st')"
    using pick_signals_spec by fastforce
  then show ?thesis by (auto simp: select_tickers_set)
qed

lemma lookup_params_dom:
  "lookup_params mk t st = (r, st') \<Longrightarrow>
     dom (signalParametersCache st') \<subseteq> insert (tk_symbol t) (dom (signalParametersCache st))
     \<and> alerts st' = alerts st \<and> (r = None \<longrightarrow> st' = st)"
  by (auto simp: lookup_params_def split: option.splits)

lemma pick_signals_dom:
  assumes "pick_signals mk n ts st acc = (res, st')" and "service_inv st"
  shows "dom (signalParametersCache st') \<subseteq> dom (signalParametersCache st) \<union> sig_id ` set res"
  using assms
proof (induction ts arbitrary: st acc)
  case (Cons t ts)
  show ?case
  proof (cases "n \<le> length acc")
    case True
    with Cons.prems show ?thesis by simp
  next
    case False
    obtain r st1 where l: "lookup_params mk t st = (r, st1)" by (metis surj_pair)
    note lp = lookup_params_spec [OF l Cons.prems(2)] and ld = lookup_params_dom [OF l]
    show ?thesis
    proof (cases r)
      case None
      with Cons.prems(1) False l have "pick_signals mk n ts st acc = (res, st')" using ld by simp
      from Cons.IH [OF this Cons.prems(2)] show ?thesis .
    next
      case (Some p)
      let ?st2 = "st1\<lparr>alerts := addAlertedSymbol (getTodayUTCString (mk_now mk)) (tk_symbol t) (alerts st1)\<rparr>"
      from Cons.prems(1) False l Some
      have rec: "pick_signals mk n ts ?st2 (acc @ [to_signal p t]) = (res, st')" by simp
      have inv2: "service_inv ?st2" using lp by (simp add: service_inv_def)
      from pick_signals_spec [OF rec inv2] have "to_signal p t \<in> set res" by auto
      moreover have "sig_id (to_signal p t) = tk_symbol t" using lp Some by (simp add: to_signal_def)
      ultimately have "tk_symbol t \<in> sig_id ` set res" by force
      have "dom (signalParametersCache st') \<subseteq> dom (signalParametersCache st1) \<union> sig_id ` set res"
        using Cons.IH [OF rec inv2] by simp
      also have "\<dots> \<subseteq> insert (tk_symbol t) (dom (signalParametersCache st)) \<union> sig_id ` set res"
        using ld by (intro Un_mono) simp_all
      also have "\<dots> \<subseteq> dom (signalParametersCache st) \<union> sig_id ` set res"
        using \<open>tk_symbol t \<in> sig_id ` set res\<close> by (simp add: insert_subset)
      finally show ?thesis .
    qed
  qed
qed simp

lemma getTradingSignals_Inl:
  "getTradingSignals mk n ex st = (Inl e, st') \<Longrightarrow>
     signalParametersCache st' = signalParametersCache st \<and> alerts st' = alerts st"
  by (auto simp: getTradingSignals_def Let_def split: sum.splits option.splits prod.splits)

lemma getTradingSignals_dom:
  assumes "getTradingSignals mk n ex st = (r, st')" and "service_inv st"
  shows "service_inv st' \<and> dom (signalParametersCache st') \<subseteq>
           dom (signalParametersCache st) \<union> (case r of Inl _ \<Rightarrow> {} | Inr new \<Rightarrow> sig_id ` set new)"
proof (cases r)
  case (Inl e)
  with assms getTradingSignals_Inl [of mk n ex st e st'] show ?thesis by (simp add: service_inv_def)
next
  case (Inr new)
  note ok = assms(1) [unfolded Inr]
  show ?thesis
  proof (rule getTradingSignals_Inr [OF ok])
    fix T tc tickers
    let ?st2 = "st\<lparr>tradable := tc, alerts := snd (getAlertedSymbolsToday (getTodayUTCString (mk_now mk)) (alerts st))\<rparr>"
    assume "pick_signals mk n (select_tickers T (ex @ alerted_today (mk_now mk) st) tickers) ?st2 [] = (new, st')"
    moreover have "service_inv ?st2" using assms(2) by (simp add: service_inv_def)
    ultimately show ?thesis
      using pick_signals_dom trading_signals_spec [OF ok assms(2)] Inr by fastforce
  qed
qed

lemma pick_signals_cache_irrelevant:
  assumes "distinct (map tk_symbol ts)"
    and "\<forall>t\<in>set ts. signalParametersCache st1 (tk_symbol t) = None"
    and "\<forall>t\<in>set ts. signalParametersCache st2 (tk_symbol t) = None"
    and "alerts st1 = alerts st2"
  shows "fst (pick_signals mk n ts st1 acc) = fst (pick_signals mk n ts st2 acc)"
  using assms
proof (induction ts arbitrary: st1 st2 acc)
  case (Cons t ts)
  let ?g = "generateSignalParameters t (mk_klines mk (tk_symbol t)) (mk_random mk (tk_symbol t)) (mk_now mk)"
  show ?case
  proof (cases ?g)
    case None
    with Cons.prems show ?thesis by (simp add: lookup_params_def Cons.IH)
  next
    case (Some p)
    let ?u1 = "st1\<lparr>signalParametersCache := (signalParametersCache st1)(tk_symbol t \<mapsto> p),
      alerts := addAlertedSymbol (getTodayUTCString (mk_now mk)) (tk_symbol t) (alerts st1)\<rparr>"
    let ?u2 = "st2\<lparr>signalParametersCache := (signalParametersCache st2)(tk_symbol t \<mapsto> p),
      alerts := addAlertedSymbol (getTodayUTCString (mk_now mk)) (tk_symbol t) (alerts st2)\<rparr>"
    have "\<forall>t'\<in>set ts. tk_symbol t' \<noteq> tk_symbol t" using Cons.prems(1) by (simp, metis image_eqI)
    then have "fst (pick_signals mk n ts ?u1 (acc @ [to_signal p t])) = fst (pick_signals mk n ts ?u2 (acc @ [to_signal p t]))"
      using Cons.prems by (intro Cons.IH) auto
    with Some Cons.prems show ?thesis by (simp add: lookup_params_def)
  qed
qed simp

lemma distinct_select_tickers:
  "distinct (map tk_symbol ts) \<Longrightarrow> distinct (map tk_symbol (select_tickers T ex ts))"
  by (simp add: select_tickers_def distinct_map inj_on_subset [of _ "set ts"])

lemma getTradingSignals_fst:
  "getTradableFuturesSymbols (mk_now mk) (mk_exchange mk) (tradable st) = Inr (T, tc) \<Longrightarrow>
   getAllFuturesTickers (mk_tickers mk) = Some tickers \<Longrightarrow>
   fst (getTradingSignals mk n ex st) =
     Inr (fst (pick_signals mk n (select_tickers T (ex @ alerted_today (mk_now mk) st) tickers)
       (st\<lparr>tradable := tc, alerts := snd (getAlertedSymbolsToday (getTodayUTCString (mk_now mk)) (alerts st))\<rparr>) []))"
  unfolding getTradingSignals_def alerted_today_def Let_def by simp

subsection \<open>Properties of the service\<close>

text \<open>C22: When getTradingSignals returns, it returns at most the requested number of signals, each well-formed, of a symbol neither excluded nor already alerted today, and recorded in the ledger of the day; the cache invariant is kept.\<close>

theorem trading_signals_contract:
  assumes "getTradingSignals mk n ex st = (Inr new, st')" and "service_inv st"
  shows "length new \<le> n \<and> service_inv st' \<and>
    (\<forall>x\<in>set new. wf_signal x \<and> sig_id x \<notin> set ex \<and> sig_id x \<notin> set (alerted_today (mk_now mk) st)
       \<and> sig_id x \<in> set (alerted_today (mk_now mk) st'))"
  using trading_signals_spec [OF assms] .

theorem trading_signals_contract_witness:
  "getTradingSignals demo_market 1 [] demo_service =
     (Inr [to_signal demo_plan demo_ticker],
      demo_service\<lparr>tradable := \<lparr>tradableSymbolsCache = Some {''BTCUSDT''}, lastCacheTime = Some 1000\<rparr>,
        alerts := SlotStored \<lparr>da_date = 0, da_symbols = [''BTCUSDT'']\<rparr>\<rparr>)
   \<and> service_inv demo_service \<and> wf_signal (to_signal demo_plan demo_ticker)
   \<and> sig_id (to_signal demo_plan demo_ticker) \<notin> set (alerted_today (mk_now demo_market) demo_service)
   \<and> sig_id (to_signal demo_plan demo_ticker) \<in> set (alerted_today (mk_now demo_market)
       (demo_service\<lparr>tradable := \<lparr>tradableSymbolsCache = Some {''BTCUSDT''}, lastCacheTime = Some 1000\<rparr>,
        alerts := SlotStored \<lparr>da_date = 0, da_symbols = [''BTCUSDT'']\<rparr>\<rparr>))"
proof -
  have i: "service_inv demo_service"
    by (simp add: service_inv_def demo_service_def demo_plan_def)
  show ?thesis using trading_signals_contract [OF demo_trading_signals i] demo_trading_signals i by simp
qed

text \<open>C23: Reading the ledger of a day after adding a symbol that day gives the list read before with the symbol appended, unless it was already there.\<close>

theorem ledger_roundtrip:
  "fst (getAlertedSymbolsToday d (addAlertedSymbol d sy slot)) =
     (let cur = fst (getAlertedSymbolsToday d slot) in if sy \<in> set cur then cur else cur @ [sy])"
  by (cases slot) (simp_all add: addAlertedSymbol_def getAlertedSymbolsToday_def Let_def)

text \<open>On any other day the ledger written by addAlertedSymbol reads as empty, and reading it clears the slot.\<close>

theorem ledger_resets_next_day:
  "d \<noteq> d' \<Longrightarrow> getAlertedSymbolsToday d' (addAlertedSymbol d sy slot) = ([], SlotEmpty)"
  by (cases slot) (auto simp: addAlertedSymbol_def getAlertedSymbolsToday_def Let_def)

theorem ledger_resets_next_day_witness:
  "(0::int) \<noteq> 1 \<and> getAlertedSymbolsToday 1 (addAlertedSymbol 0 ''BTCUSDT'' SlotCorrupt) = ([], SlotEmpty)"
  using ledger_resets_next_day [of 0 1 "''BTCUSDT''" SlotCorrupt] by simp

text \<open>C25: Once getTradableFuturesSymbols has returned a set with a non-zero cache time, every call within the hour returns that set from the cache, whatever the exchange answers.\<close>

theorem tradable_cache_served:
  assumes "getTradableFuturesSymbols now resp tc = Inr (S, tc')" and "lastCacheTime tc' = Some t"
    and "t \<noteq> 0" and "now' - t < TRADABLE_TTL"
  shows "getTradableFuturesSymbols now' resp' tc' = Inr (S, tc')"
  using getTradable_cache [OF assms(1)] assms(2-4) by (simp add: getTradableFuturesSymbols_def)

theorem tradable_cache_served_witness:
  "getTradableFuturesSymbols 5 (Some [demo_btc_info]) \<lparr>tradableSymbolsCache = None, lastCacheTime = None\<rparr>
     = Inr ({''BTCUSDT''}, \<lparr>tradableSymbolsCache = Some {''BTCUSDT''}, lastCacheTime = Some 5\<rparr>)
   \<and> (5::int) \<noteq> 0 \<and> 3600004 - 5 < TRADABLE_TTL
   \<and> getTradableFuturesSymbols 3600004 None \<lparr>tradableSymbolsCache = Some {''BTCUSDT''}, lastCacheTime = Some 5\<rparr>
     = Inr ({''BTCUSDT''}, \<lparr>tradableSymbolsCache = Some {''BTCUSDT''}, lastCacheTime = Some 5\<rparr>)"
proof -
  have h: "getTradableFuturesSymbols 5 (Some [demo_btc_info]) \<lparr>tradableSymbolsCache = None, lastCacheTime = None\<rparr>
     = Inr ({''BTCUSDT''}, \<lparr>tradableSymbolsCache = Some {''BTCUSDT''}, lastCacheTime = Some 5\<rparr>)"
    by (simp add: getTradableFuturesSymbols_def fetch_tradable_def demo_btc_info_def Let_def)
  have t: "3600004 - 5 < TRADABLE_TTL" by (simp add: TRADABLE_TTL_def)
  show ?thesis using tradable_cache_served [OF h _ _ t, of None] h t by simp
qed

text \<open>The parameter cache has no effect on the signals returned when it holds only
  excluded symbols and the ticker symbols are distinct: the result is the one of an empty
  cache. In the application this is always the case (see \<open>Engine\<close>), so the cache-hit
  branch of lines 611-612 never serves a signal.\<close>

theorem cache_never_consulted:
  assumes "dom (signalParametersCache st) \<subseteq> set ex"
    and "getAllFuturesTickers (mk_tickers mk) = Some tickers" and "distinct (map tk_symbol tickers)"
  shows "fst (getTradingSignals mk n ex st) = fst (getTradingSignals mk n ex (st\<lparr>signalParametersCache := Map.empty\<rparr>))"
proof (cases "getTradableFuturesSymbols (mk_now mk) (mk_exchange mk) (tradable st)")
  case (Inl e)
  then show ?thesis by (simp add: getTradingSignals_def)
next
  case (Inr v)
  obtain T tc where v: "v = (T, tc)" by (cases v)
  let ?st0 = "st\<lparr>signalParametersCache := Map.empty\<rparr>"
  let ?sel = "select_tickers T (ex @ alerted_today (mk_now mk) st) tickers"
  let ?al = "snd (getAlertedSymbolsToday (getTodayUTCString (mk_now mk)) (alerts st))"
  have t: "getTradableFuturesSymbols (mk_now mk) (mk_exchange mk) (tradable st) = Inr (T, tc)"
    using Inr v by simp
  have d: "distinct (map tk_symbol ?sel)" using distinct_select_tickers assms(3) .
  have miss: "\<forall>t\<in>set ?sel. signalParametersCache st (tk_symbol t) = None"
    using assms(1) by (auto simp: select_tickers_set)
  have p: "fst (pick_signals mk n ?sel (st\<lparr>tradable := tc, alerts := ?al\<rparr>) [])
      = fst (pick_signals mk n ?sel (?st0\<lparr>tradable := tc, alerts := ?al\<rparr>) [])"
    by (rule pick_signals_cache_irrelevant) (use d miss in simp_all)
  have e1: "fst (getTradingSignals mk n ex st) = Inr (fst (pick_signals mk n ?sel (st\<lparr>tradable := tc, alerts := ?al\<rparr>) []))"
    using getTradingSignals_fst [OF t assms(2)] .
  have "alerted_today (mk_now mk) ?st0 = alerted_today (mk_now mk) st"
    by (simp add: alerted_today_def)
  then have e2: "fst (getTradingSignals mk n ex ?st0) = Inr (fst (pick_signals mk n ?sel (?st0\<lparr>tradable := tc, alerts := ?al\<rparr>) []))"
    using getTradingSignals_fst [of mk ?st0 T tc tickers n ex] t assms(2) by simp
  show ?thesis by (simp only: e1 e2 p)
qed

theorem cache_never_consulted_witness:
  "dom (signalParametersCache demo_service) \<subseteq> set [''BTCUSDT'']
   \<and> getAllFuturesTickers (mk_tickers demo_market) = Some [demo_ticker]
   \<and> distinct (map tk_symbol [demo_ticker])
   \<and> fst (getTradingSignals demo_market 1 [''BTCUSDT''] demo_service)
       = fst (getTradingSignals demo_market 1 [''BTCUSDT''] (demo_service\<lparr>signalParametersCache := Map.empty\<rparr>))"
proof -
  have h: "dom (signalParametersCache demo_service) \<subseteq> set [''BTCUSDT'']"
    "getAllFuturesTickers (mk_tickers demo_market) = Some [demo_ticker]"
    "distinct (map tk_symbol [demo_ticker])"
    by (simp_all add: demo_service_def demo_market_def getAllFuturesTickers_def demo_ticker_def js_ends_with_def)
  show ?thesis using cache_never_consulted [OF h, of 1] h by simp
qed

end
