(* ===== verification/Engine.thy ===== *)
theory Engine
  imports Lifecycle Service
begin

text \<open>
  The application as it runs: \<open>fetchSignals\<close> of \<open>src/src/App.tsx\<close> (\<open>Lifecycle\<close>) with the
  signal service of \<open>mockSignalService.ts\<close> (\<open>Service\<close>) in place of its interface. The
  service state of the tick is \<open>service_state\<close>; \<open>removeSignalFromCache\<close> acts on its
  parameter cache, and \<open>getTradingSignals\<close> reads the market of the call. The lemmas show that
  the service meets the contract the lifecycle was verified against, and that the
  parameter cache only ever holds symbols of the board, so that the exclusion list passed by
  \<open>fetchSignals\<close> (line 240) always covers it.
\<close>

text \<open>Lines 113 and 169: \<open>removeSignalFromCache(signal.id)\<close> on the module's cache.\<close>

definition svc_remove :: "sym \<Rightarrow> service_state \<Rightarrow> service_state" where
  "svc_remove sy st = st\<lparr>signalParametersCache := removeSignalFromCache sy (signalParametersCache st)\<rparr>"

text \<open>One tick of the interval (lines 272-281): \<open>fetchSignals\<close> at time \<open>now\<close> on the ticker
  snapshot \<open>resp\<close>, its \<open>getTradingSignals\<close> call reading the market \<open>mk\<close>.\<close>

definition app_tick ::
  "millis \<Rightarrow> binance_ticker list option \<Rightarrow> market \<Rightarrow> service_state app_state \<Rightarrow> service_state app_state \<times> tick_outcome" where
  "app_tick now resp mk a = fetch_signals svc_remove (getTradingSignals mk) now resp a"

text \<open>The invariant of the application: the cache invariant of the service, and every
  cached symbol on the board.\<close>

definition engine_inv :: "service_state app_state \<Rightarrow> bool" where
  "engine_inv a \<longleftrightarrow>
     service_inv (services a) \<and> dom (signalParametersCache (services a)) \<subseteq> sig_id ` set (signals a)"

text \<open>The application at start-up (lines 18-19): the board and the history read back from
  \<open>localStorage\<close>, the module caches empty, and the ledger slot as stored.\<close>

definition initial_app :: "trading_signal list \<Rightarrow> historical_signal list \<Rightarrow> alerts_slot \<Rightarrow> service_state app_state" where
  "initial_app stored hist slot = \<lparr>signals = stored, historicalSignals = hist,
     services = \<lparr>signalParametersCache = Map.empty,
       tradable = \<lparr>tradableSymbolsCache = None, lastCacheTime = None\<rparr>, alerts = slot\<rparr>\<rparr>"

text \<open>The states the application reaches: a start, then any sequence of ticks, each with
  its own time, ticker snapshot and market.\<close>

inductive reachable :: "service_state app_state \<Rightarrow> bool" where
  start: "reachable (initial_app stored hist slot)"
| tick: "reachable a \<Longrightarrow> reachable (fst (app_tick now resp mk a))"

subsection \<open>Lemmas\<close>

lemma svc_remove_contract: "rm_contract service_inv svc_remove"
  by (simp add: rm_contract_def service_inv_def svc_remove_def removeSignalFromCache_def)

lemma svc_remove_keys:
  "\<forall>x c. dom (signalParametersCache (svc_remove x c)) \<subseteq> dom (signalParametersCache c) - {x}"
  by (simp add: svc_remove_def removeSignalFromCache_def)

lemma service_get_contract: "get_contract service_inv (getTradingSignals mk)"
  unfolding get_contract_def
proof (intro allI impI)
  fix n ex c r c'
  assume i: "service_inv c" and g: "getTradingSignals mk n ex c = (r, c')"
  show "service_inv c' \<and> (\<forall>new. r = Inr new \<longrightarrow> length new \<le> n \<and> (\<forall>x\<in>set new. wf_signal x \<and> sig_id x \<notin> set ex))"
    using getTradingSignals_dom [OF g i] trading_signals_spec [of mk n ex c _ c'] g i by auto
qed

lemma image_filter_key: "f ` set (filter (\<lambda>x. f x \<notin> R) xs) = f ` set xs - R"
  by auto

lemma board_keys:
  assumes "dom (signalParametersCache (services a)) \<subseteq> sig_id ` set (signals a)"
  shows "dom (signalParametersCache (ts_cache (snd (board_eval svc_remove now resp a))))
           \<subseteq> sig_id ` set (still_active (board_eval svc_remove now resp a))
         \<and> sig_id ` set (still_active (board_eval svc_remove now resp a)) \<subseteq> sig_id ` set (signals a)"
proof -
  let ?r = "board_eval svc_remove now resp a"
  have k: "dom (signalParametersCache (ts_cache (snd ?r))) \<subseteq>
             dom (signalParametersCache (services a)) - set (ts_remove (snd ?r))"
    using eval_signals_keys [OF svc_remove_keys, where st = "\<lparr>ts_history = historicalSignals a,
        ts_remove = [], ts_cache = services a, ts_changed = False\<rparr>"]
    by (simp add: board_eval_def evaluate_board_def)
  have "sig_id ` set (fst ?r) = sig_id ` set (signals a)"
    using eval_signals_ids by (metis board_eval_def evaluate_board_def list.set_map)
  then have "sig_id ` set (still_active ?r) = sig_id ` set (signals a) - set (ts_remove (snd ?r))"
    unfolding still_active_def image_filter_key by simp
  with k assms show ?thesis by blast
qed

lemma app_tick_engine_inv:
  assumes "engine_inv a"
  shows "engine_inv (fst (app_tick now resp mk a))"
proof -
  let ?get = "getTradingSignals mk" and ?r = "board_eval svc_remove now resp a"
  have i: "service_inv (services a)" and k: "dom (signalParametersCache (services a)) \<subseteq> sig_id ` set (signals a)"
    using assms by (simp_all add: engine_inv_def)
  have ci: "service_inv (ts_cache (snd ?r))" using board_eval_cache [OF svc_remove_contract i] .
  note bk = board_keys [OF k, of now resp]
  have bk2: "dom (signalParametersCache (ts_cache (snd ?r))) \<subseteq> sig_id ` set (signals a)"
    using bk by (elim conjE) (rule subset_trans)
  have inv': "service_inv (services (fst (fetch_signals svc_remove ?get now resp a)))"
    using fetch_signals_inv [OF service_get_contract svc_remove_contract i] .
  have "dom (signalParametersCache (services (fst (fetch_signals svc_remove ?get now resp a))))
          \<subseteq> sig_id ` set (signals (fst (fetch_signals svc_remove ?get now resp a)))"
  proof (cases rule: fetch_signals_cases [of svc_remove ?get now resp a])
    case (rejected c e)
    from rejected(1) getTradingSignals_Inl [OF rejected(4)]
    have "dom (signalParametersCache (services (fst (fetch_signals svc_remove ?get now resp a))))
            = dom (signalParametersCache (ts_cache (snd ?r)))"
      and "signals (fst (fetch_signals svc_remove ?get now resp a)) = signals a"
      by simp_all
    with bk2 show ?thesis by (simp only:)
  next
    case (refilled new c)
    from refilled(1)
    have "services (fst (fetch_signals svc_remove ?get now resp a)) = c"
      and "sig_id ` set (signals (fst (fetch_signals svc_remove ?get now resp a)))
             = sig_id ` set (still_active ?r) \<union> sig_id ` set new"
      by (simp_all add: image_Un)
    moreover have "dom (signalParametersCache c) \<subseteq> dom (signalParametersCache (ts_cache (snd ?r))) \<union> sig_id ` set new"
      using getTradingSignals_dom [OF refilled(4) ci] by simp
    moreover have "dom (signalParametersCache (ts_cache (snd ?r))) \<union> sig_id ` set new
        \<subseteq> sig_id ` set (still_active ?r) \<union> sig_id ` set new"
      using bk by (intro Un_mono) simp_all
    ultimately show ?thesis by (simp only:)
  next
    case kept
    then show ?thesis using bk by simp
  qed
  with inv' show ?thesis by (simp add: engine_inv_def app_tick_def)
qed

subsection \<open>Properties of the application\<close>

text \<open>The signal service refines the interface the lifecycle was verified against:
  \<open>getTradingSignals\<close> and \<open>removeSignalFromCache\<close> keep the cache invariant, and every
  returned batch is bounded by the request, well-formed and free of excluded symbols.\<close>

theorem service_refines_contract:
  "get_contract service_inv (getTradingSignals mk) \<and> rm_contract service_inv svc_remove"
  using service_get_contract svc_remove_contract by simp

theorem service_refines_contract_witness:
  "get_contract service_inv (getTradingSignals demo_market) \<and> rm_contract service_inv svc_remove"
  using service_refines_contract [of demo_market] .

text \<open>C27: in every state the application reaches, the cache invariant holds and every
  symbol with cached parameters is on the board (the published one, or the kept one after a
  rejected tick). Hence the exclusion list \<open>fetchSignals\<close> passes to \<open>getTradingSignals\<close>
  always covers the cache, the situation of \<open>cache_never_consulted\<close>: the cache never serves a signal.\<close>

theorem reachable_cache_on_board:
  assumes "reachable a"
  shows "engine_inv a"
  using assms
proof (induction rule: reachable.induct)
  case (start stored hist slot)
  then show ?case by (simp add: engine_inv_def initial_app_def service_inv_def)
next
  case (tick a now resp mk)
  then show ?case using app_tick_engine_inv by blast
qed

theorem reachable_cache_on_board_witness:
  "reachable (fst (app_tick 0 None demo_market (initial_app [] [] SlotEmpty)))
   \<and> engine_inv (fst (app_tick 0 None demo_market (initial_app [] [] SlotEmpty)))"
proof -
  have r: "reachable (fst (app_tick 0 None demo_market (initial_app [] [] SlotEmpty)))"
    by (intro reachable.tick reachable.start)
  show ?thesis using reachable_cache_on_board [OF r] r by simp
qed

end
