(* ===== verification/Clocks.thy ===== *)
theory Clocks
  imports Engine
begin

text \<open>
  Where the times of the application come from. A signal's \<open>timestamp\<close> is the
  \<open>Date.now()\<close> of the service call that generated its parameters (\<open>mockSignalService.ts\<close>
  line 561), kept through the parameter cache, the board and its history record; a record's
  \<open>resolvedAt\<close> is the \<open>Date.now()\<close> of the tick that wrote it (\<open>App.tsx\<close> line 102). The
  lemmas show, for any property \<open>P\<close> of times, that a tick whose clock readings satisfy
  \<open>P\<close> keeps every time on the board, in the history and in the cache satisfying \<open>P\<close>.
\<close>

text \<open>The property holds of every time of a history, a parameter cache, an application state.\<close>

definition hist_times :: "(millis \<Rightarrow> bool) \<Rightarrow> historical_signal list \<Rightarrow> bool" where
  "hist_times P hs \<longleftrightarrow> (\<forall>h\<in>set hs. P (timestamp h) \<and> P (resolvedAt h))"

definition cache_times :: "(millis \<Rightarrow> bool) \<Rightarrow> service_state \<Rightarrow> bool" where
  "cache_times P st \<longleftrightarrow> (\<forall>sy p. signalParametersCache st sy = Some p \<longrightarrow> P (cp_timestamp p))"

definition app_times :: "(millis \<Rightarrow> bool) \<Rightarrow> service_state app_state \<Rightarrow> bool" where
  "app_times P a \<longleftrightarrow> (\<forall>s\<in>set (signals a). P (timestamp s)) \<and> hist_times P (historicalSignals a)
     \<and> cache_times P (services a)"

section \<open>Lemmas\<close>

lemma hist_put_times:
  "hist_times P hs \<Longrightarrow> P (timestamp r) \<Longrightarrow> P (resolvedAt r) \<Longrightarrow> hist_times P (hist_put hs idx r)"
  using set_update_subset_insert [of hs _ r]
  by (auto simp: hist_times_def hist_put_def split: option.splits)

lemma hist_update_times:
  "hist_times P hs \<Longrightarrow> P (timestamp r) \<Longrightarrow> P (resolvedAt r) \<Longrightarrow> hist_times P (hs[i := r])"
  using set_update_subset_insert [of hs i r] by (auto simp: hist_times_def)

lemma updated_signal_timestamp [simp]: "timestamp (updated_signal s td) = timestamp s"
  by (simp add: updated_signal_def reprice_def)

lemma eval_priced_times:
  assumes "P (timestamp s)" and "P now" and "hist_times P (ts_history st)"
  shows "hist_times P (ts_history (snd (eval_priced rm now s td st)))"
proof (cases "resolution s td")
  case (Some rs)
  then show ?thesis
    using hist_put_times [OF assms(3)] assms(1,2) by (simp add: eval_priced_def Let_def retire_def)
next
  case None
  have p: "hist_times P (partial # ts_history st) \<and> hist_times P ((ts_history st)[i := partial])"
    if "partial = mk_historical (updated_signal s td) PARTIAL_WIN r now" for partial i r
  proof -
    have m: "P (timestamp partial)" "P (resolvedAt partial)" using that assms(1,2) by simp_all
    then show ?thesis using assms(3) hist_update_times [OF assms(3) m] by (simp add: hist_times_def)
  qed
  show ?thesis
    using None assms(3) p by (simp add: eval_priced_def Let_def split: option.split)
qed

lemma eval_signal_times:
  assumes "P (timestamp s)" and "P now" and "hist_times P (ts_history st)"
  shows "timestamp (fst (eval_signal rm now pm s st)) = timestamp s
    \<and> hist_times P (ts_history (snd (eval_signal rm now pm s st)))"
proof -
  have "timestamp (fst (eval_signal rm now pm s st)) = timestamp s"
    using eval_signal_slot [of rm now pm s st] by auto
  moreover have "hist_times P (ts_history (snd (eval_signal rm now pm s st)))"
    using assms eval_priced_times [OF assms]
    by (auto simp: eval_signal_def retire_def split: option.splits)
  ultimately show ?thesis by simp
qed

lemma eval_signals_times:
  assumes "\<forall>s\<in>set ss. P (timestamp s)" and "P now" and "hist_times P (ts_history st)"
  shows "(\<forall>s\<in>set (fst (eval_signals rm now pm ss st)). P (timestamp s))
    \<and> hist_times P (ts_history (snd (eval_signals rm now pm ss st)))"
  using assms
proof (induction ss arbitrary: st)
  case Nil
  then show ?case by simp
next
  case (Cons s ss)
  have ps: "P (timestamp s)" using Cons.prems(1) by simp
  note e = eval_signal_times [OF ps Cons.prems(2,3), of rm pm]
  have rest: "\<forall>x\<in>set ss. P (timestamp x)" using Cons.prems(1) by simp
  note ih = Cons.IH [OF rest Cons.prems(2) conjunct2 [OF e]]
  show ?case using e ih ps by (simp add: Let_def)
qed

lemma generate_timestamp:
  assumes "generateSignalParameters t k rnd now = Some p"
  shows "cp_timestamp p = now"
  by (rule generate_SomeE [OF assms], erule raw_plan_SomeE) simp

lemma cache_times_alerts [simp]: "cache_times P (st\<lparr>alerts := x\<rparr>) = cache_times P st"
  by (simp add: cache_times_def)

lemma cache_times_tradable [simp]: "cache_times P (st\<lparr>tradable := x\<rparr>) = cache_times P st"
  by (simp add: cache_times_def)

lemma lookup_params_times:
  assumes "lookup_params mk t st = (r, st')" and "cache_times P st" and "P (mk_now mk)"
  shows "cache_times P st' \<and> (\<forall>p. r = Some p \<longrightarrow> P (cp_timestamp p))"
proof (cases "signalParametersCache st (tk_symbol t)")
  case (Some p)
  then show ?thesis using assms(1,2) by (auto simp: lookup_params_def cache_times_def)
next
  case None
  show ?thesis
  proof (cases "generateSignalParameters t (mk_klines mk (tk_symbol t)) (mk_random mk (tk_symbol t)) (mk_now mk)")
    case None
    then show ?thesis using \<open>signalParametersCache st (tk_symbol t) = None\<close> assms(1,2)
      by (simp add: lookup_params_def)
  next
    case (Some p)
    have ts: "cp_timestamp p = mk_now mk" by (rule generate_timestamp [OF Some])
    have "lookup_params mk t st = (Some p, st\<lparr>signalParametersCache := (signalParametersCache st)(tk_symbol t \<mapsto> p)\<rparr>)"
      using Some \<open>signalParametersCache st (tk_symbol t) = None\<close> by (simp add: lookup_params_def)
    then show ?thesis using assms(1) ts assms(2,3) by (auto simp: cache_times_def)
  qed
qed

lemma pick_signals_times:
  assumes "cache_times P st" and "P (mk_now mk)" and "\<forall>x\<in>set acc. P (timestamp x)"
  shows "cache_times P (snd (pick_signals mk n ts st acc)) \<and> (\<forall>x\<in>set (fst (pick_signals mk n ts st acc)). P (timestamp x))"
  using assms(1,3)
proof (induction ts arbitrary: st acc)
  case Nil
  then show ?case by simp
next
  case (Cons t ts)
  show ?case
  proof (cases "n \<le> length acc")
    case True
    then show ?thesis using Cons.prems by simp
  next
    case False
    obtain r st' where l: "lookup_params mk t st = (r, st')" by (metis surj_pair)
    note lt = lookup_params_times [OF l Cons.prems(1) assms(2)]
    show ?thesis
    proof (cases r)
      case None
      have u: "pick_signals mk n (t # ts) st acc = pick_signals mk n ts st' acc"
        using False l None by simp
      have c: "cache_times P st'" using lt by simp
      show ?thesis unfolding u by (rule Cons.IH [OF c Cons.prems(2)])
    next
      case (Some p)
      let ?st3 = "st'\<lparr>alerts := addAlertedSymbol (getTodayUTCString (mk_now mk)) (tk_symbol t) (alerts st')\<rparr>"
      have u: "pick_signals mk n (t # ts) st acc = pick_signals mk n ts ?st3 (acc @ [to_signal p t])"
        using False l Some by simp
      have a: "\<forall>x\<in>set (acc @ [to_signal p t]). P (timestamp x)"
        using Cons.prems(2) lt Some by (simp add: to_signal_def)
      have c: "cache_times P ?st3" using lt by simp
      show ?thesis unfolding u by (rule Cons.IH [OF c a])
    qed
  qed
qed

lemma getTradingSignals_times:
  assumes "getTradingSignals mk n ex st = (r, st')" and "cache_times P st" and "P (mk_now mk)"
  shows "cache_times P st' \<and> (\<forall>new. r = Inr new \<longrightarrow> (\<forall>x\<in>set new. P (timestamp x)))"
proof -
  have p: "cache_times P (snd (pick_signals mk n ts st0 [])) \<and> (\<forall>x\<in>set (fst (pick_signals mk n ts st0 [])). P (timestamp x))"
    if "cache_times P st0" for ts st0
    using pick_signals_times [of P st0 mk "[]" n ts] that assms(3) by simp
  show ?thesis
  proof (cases "getTradableFuturesSymbols (mk_now mk) (mk_exchange mk) (tradable st)")
    case (Inl e)
    then show ?thesis using assms(1,2) by (auto simp: getTradingSignals_def)
  next
    case (Inr v)
    obtain T tc where v: "v = (T, tc)" by (cases v)
    show ?thesis
    proof (cases "getAllFuturesTickers (mk_tickers mk)")
      case None
      then show ?thesis using assms(1,2) Inr v by (auto simp: getTradingSignals_def)
    next
      case (Some tickers)
      let ?st2 = "st\<lparr>tradable := tc, alerts := snd (getAlertedSymbolsToday (getTodayUTCString (mk_now mk)) (alerts st))\<rparr>"
      let ?ts = "select_tickers T (ex @ fst (getAlertedSymbolsToday (getTodayUTCString (mk_now mk)) (alerts st))) tickers"
      have "cache_times P ?st2" using assms(2) by (simp add: cache_times_def)
      note q = p [OF this, of ?ts]
      have "getTradingSignals mk n ex st = (Inr (fst (pick_signals mk n ?ts ?st2 [])), snd (pick_signals mk n ?ts ?st2 []))"
        using Inr v Some by (simp add: getTradingSignals_def Let_def)
      then show ?thesis using assms(1) q by auto
    qed
  qed
qed

lemma svc_remove_times: "rm_contract (cache_times P) svc_remove"
  by (auto simp: rm_contract_def cache_times_def svc_remove_def removeSignalFromCache_def)

lemma app_tick_times:
  assumes "app_times P a" and "P now" and "P (mk_now mk)"
  shows "app_times P (fst (app_tick now resp mk a))"
proof -
  let ?r = "board_eval svc_remove now resp a"
  have b: "(\<forall>s\<in>set (fst ?r). P (timestamp s)) \<and> hist_times P (ts_history (snd ?r))"
    using eval_signals_times [where ss = "signals a" and P = P and now = now and rm = svc_remove
        and pm = "map_option build_price_map (getAllFuturesTickers resp)"
        and st = "\<lparr>ts_history = historicalSignals a, ts_remove = [], ts_cache = services a, ts_changed = False\<rparr>"]
      assms(1,2)
    by (simp add: app_times_def board_eval_def evaluate_board_def)
  have c: "cache_times P (ts_cache (snd ?r))"
    using board_eval_cache [OF svc_remove_times] assms(1) by (simp add: app_times_def)
  have still: "\<forall>s\<in>set (still_active ?r). P (timestamp s)" using b still_active_subset by blast
  have h: "hist_times P (written_history a (snd ?r))"
    using b assms(1) by (simp add: written_history_def app_times_def)
  show ?thesis
  proof (cases rule: fetch_signals_cases [of svc_remove "getTradingSignals mk" now resp a])
    case (rejected e c')
    then show ?thesis using getTradingSignals_times [OF rejected(4) c assms(3)] h assms(1)
      by (simp add: app_tick_def app_times_def)
  next
    case (refilled new c')
    then show ?thesis using getTradingSignals_times [OF refilled(4) c assms(3)] h still
      by (auto simp: app_tick_def app_times_def)
  next
    case kept
    then show ?thesis using h still c by (simp add: app_tick_def app_times_def)
  qed
qed

end
