(* ===== verification/Calendar.thy ===== *)
theory Calendar
  imports Prelude
begin

text \<open>
  The UTC calendar of JavaScript's \<open>Date\<close>, which the history report reads: the day number
  of a time value (\<open>Day(t)\<close> of ECMAScript), its civil date, the weekday, and \<open>Date.UTC\<close>.
  The proleptic Gregorian calendar is computed with Howard Hinnant's algorithms
  \<open>civil_from_days\<close> and \<open>days_from_civil\<close> (eras of 400 years starting on 1 March), on
  unbounded integers. The main lemma is the round trip from a day number to its date and
  back; it rests on a table of the 400 year boundaries of an era, checked by evaluation.
\<close>

definition msPerDay :: int where
  "msPerDay = 86400000"

text \<open>The civil date (year, month 1-12, day 1-31) of a day number counted from 1970-01-01.\<close>

definition civil_from_days :: "int \<Rightarrow> int \<times> int \<times> int" where
  "civil_from_days z0 =
     (let z = z0 + 719468;
          era = z div 146097;
          doe = z - era * 146097;
          yoe = (doe - doe div 1460 + doe div 36524 - doe div 146096) div 365;
          y = yoe + era * 400;
          doy = doe - (365 * yoe + yoe div 4 - yoe div 100);
          mp = (5 * doy + 2) div 153;
          d = doy - (153 * mp + 2) div 5 + 1;
          m = (if mp < 10 then mp + 3 else mp - 9)
      in (if m \<le> 2 then y + 1 else y, m, d))"

text \<open>The day number of a civil date; linear in the day of the month, so that a day outside
  the month counts on from its first day, as \<open>MakeDay\<close> does.\<close>

definition days_from_civil :: "int \<Rightarrow> int \<Rightarrow> int \<Rightarrow> int" where
  "days_from_civil y0 m d =
     (let y = (if m \<le> 2 then y0 - 1 else y0);
          era = y div 400;
          yoe = y - era * 400;
          doy = (153 * (if m > 2 then m - 3 else m + 9) + 2) div 5 + d - 1;
          doe = yoe * 365 + yoe div 4 - yoe div 100 + doy
      in era * 146097 + doe - 719468)"

text \<open>The \<open>Date\<close> operations in UTC: \<open>Day(t)\<close>, \<open>getUTCFullYear\<close>, \<open>getUTCMonth\<close> (from 0),
  \<open>getUTCDate\<close>, \<open>getUTCDay\<close> (0 for Sunday; 1970-01-01 was a Thursday) and
  \<open>Date.UTC(year, monthIndex, date)\<close>, which carries a month index outside 0-11 into the year.\<close>

definition utc_day :: "millis \<Rightarrow> int" where
  "utc_day t = t div msPerDay"

definition getUTCFullYear :: "millis \<Rightarrow> int" where
  "getUTCFullYear t = fst (civil_from_days (utc_day t))"

definition getUTCMonth :: "millis \<Rightarrow> int" where
  "getUTCMonth t = fst (snd (civil_from_days (utc_day t))) - 1"

definition getUTCDate :: "millis \<Rightarrow> int" where
  "getUTCDate t = snd (snd (civil_from_days (utc_day t)))"

definition getUTCDay :: "millis \<Rightarrow> int" where
  "getUTCDay t = (utc_day t + 4) mod 7"

definition Date_UTC :: "int \<Rightarrow> int \<Rightarrow> int \<Rightarrow> millis" where
  "Date_UTC year monthIndex date = days_from_civil (year + monthIndex div 12) (monthIndex mod 12 + 1) date * msPerDay"

text \<open>The time of day in UTC: \<open>getUTCHours\<close>, \<open>getUTCMinutes\<close>, \<open>getUTCSeconds\<close>,
  \<open>getUTCMilliseconds\<close>.\<close>

definition getUTCHours :: "millis \<Rightarrow> int" where
  "getUTCHours t = t mod msPerDay div 3600000"

definition getUTCMinutes :: "millis \<Rightarrow> int" where
  "getUTCMinutes t = t mod 3600000 div 60000"

definition getUTCSeconds :: "millis \<Rightarrow> int" where
  "getUTCSeconds t = t mod 60000 div 1000"

definition getUTCMilliseconds :: "millis \<Rightarrow> int" where
  "getUTCMilliseconds t = t mod 1000"

subsection \<open>The year boundaries of an era\<close>

text \<open>Within an era, the day on which year \<open>y\<close> (0-399) starts and the one on which it ends,
  and the year Hinnant's formula assigns to a day of the era.\<close>

definition year_start :: "int \<Rightarrow> int" where
  "year_start y = 365 * y + y div 4 - y div 100"

definition year_end :: "int \<Rightarrow> int" where
  "year_end y = (if y = 399 then 146096 else year_start (y + 1) - 1)"

definition yoe_of :: "int \<Rightarrow> int" where
  "yoe_of doe = (doe - doe div 1460 + doe div 36524 - doe div 146096) div 365"

definition year_table :: bool where
  "year_table \<longleftrightarrow>
     list_all (\<lambda>y. yoe_of (year_start y) = y \<and> yoe_of (year_end y) = y \<and> year_end y - year_start y \<le> 365) [0..399]"

subsection \<open>Lemmas\<close>

lemma year_table: year_table
  by code_simp

lemma sub_div_mono:
  fixes x y c :: int
  assumes "x \<le> y" and "1 \<le> c"
  shows "x - x div c \<le> y - y div c"
proof -
  have "y \<le> x + (y - x) * c"
    using mult_left_mono [of 1 c "y - x"] assms by simp
  then have "y div c \<le> (x + (y - x) * c) div c"
    using assms(2) by (intro zdiv_mono1) simp_all
  also have "\<dots> = x div c + (y - x)"
    using assms(2) by simp
  finally show ?thesis by linarith
qed

lemma yoe_of_mono:
  assumes "x \<le> y"
  shows "yoe_of x \<le> yoe_of y"
proof -
  have q: "a div 146096 = a div 36524 div 4" for a :: int
    using zdiv_zmult2_eq [of 4 a 36524] by simp
  have "x div 36524 \<le> y div 36524" using assms by (rule zdiv_mono1) simp
  then have "x div 36524 - x div 36524 div 4 \<le> y div 36524 - y div 36524 div 4"
    by (rule sub_div_mono) simp
  moreover have "x - x div 1460 \<le> y - y div 1460" using assms by (rule sub_div_mono) simp
  ultimately have "x - x div 1460 + x div 36524 - x div 146096 \<le> y - y div 1460 + y div 36524 - y div 146096"
    by (simp add: q)
  then show ?thesis unfolding yoe_of_def by (rule zdiv_mono1) simp
qed

lemma year_table_at:
  assumes "0 \<le> y" and "y \<le> 399"
  shows "yoe_of (year_start y) = y \<and> yoe_of (year_end y) = y \<and> year_end y - year_start y \<le> 365"
  using year_table assms unfolding year_table_def list_all_iff by simp

lemma yoe_of_bounds:
  assumes "0 \<le> doe" and "doe \<le> 146096"
  shows "0 \<le> yoe_of doe \<and> yoe_of doe \<le> 399 \<and> year_start (yoe_of doe) \<le> doe
         \<and> doe - year_start (yoe_of doe) \<le> 365"
proof -
  let ?y = "yoe_of doe"
  have lo: "0 \<le> ?y" using yoe_of_mono [OF assms(1)] year_table_at [of 0] by (simp add: year_start_def)
  have hi: "?y \<le> 399" using yoe_of_mono [OF assms(2)] year_table_at [of 399] by (simp add: year_end_def)
  have T: "yoe_of (year_start ?y) = ?y" "yoe_of (year_end ?y) = ?y" "year_end ?y - year_start ?y \<le> 365"
    using year_table_at [OF lo hi] by simp_all
  have start: "year_start ?y \<le> doe"
  proof (rule ccontr)
    assume "\<not> year_start ?y \<le> doe"
    then have lt: "doe < year_start ?y" by simp
    have "?y \<noteq> 0" using lt assms(1) by (auto simp: year_start_def)
    then have y1: "0 \<le> ?y - 1" "?y - 1 \<le> 399" "?y - 1 \<noteq> 399" using lo hi by simp_all
    have "year_end (?y - 1) = year_start ?y - 1" using y1(3) by (simp add: year_end_def)
    then have "doe \<le> year_end (?y - 1)" using lt by simp
    from yoe_of_mono [OF this] year_table_at [OF y1(1,2)] show False by simp
  qed
  have stop: "doe \<le> year_end ?y"
  proof (rule ccontr)
    assume "\<not> doe \<le> year_end ?y"
    then have gt: "year_end ?y < doe" by simp
    have "?y \<noteq> 399" using gt assms(2) by (auto simp: year_end_def)
    then have y1: "0 \<le> ?y + 1" "?y + 1 \<le> 399" using lo hi by simp_all
    have "year_start (?y + 1) \<le> doe" using gt \<open>?y \<noteq> 399\<close> by (simp add: year_end_def)
    from yoe_of_mono [OF this] year_table_at [OF y1] show False by simp
  qed
  from lo hi start stop T(3) show ?thesis by simp
qed

text \<open>The internals of \<open>civil_from_days\<close>, named as in the algorithm, with their ranges.\<close>

lemma civil_from_days_parts:
  obtains era yoe doy mp where
    "civil_from_days z =
       (if mp < 10 then yoe + era * 400 else yoe + era * 400 + 1,
        if mp < 10 then mp + 3 else mp - 9, doy - (153 * mp + 2) div 5 + 1)"
    "era * 146097 + year_start yoe + doy = z + 719468"
    "0 \<le> yoe" "yoe \<le> 399" "0 \<le> doy" "doy \<le> 365" "mp = (5 * doy + 2) div 153" "0 \<le> mp" "mp \<le> 11"
proof -
  define era where "era = (z + 719468) div 146097"
  define doe where "doe = z + 719468 - era * 146097"
  define yoe where "yoe = yoe_of doe"
  define doy where "doy = doe - year_start yoe"
  define mp where "mp = (5 * doy + 2) div 153"
  have doe: "doe = (z + 719468) mod 146097" by (simp add: doe_def era_def minus_div_mult_eq_mod [symmetric])
  then have "0 \<le> doe" "doe \<le> 146096" by simp_all
  from yoe_of_bounds [OF this] have y: "0 \<le> yoe" "yoe \<le> 399" "0 \<le> doy" "doy \<le> 365"
    by (simp_all add: yoe_def doy_def)
  have m0: "0 \<le> mp" using y(3) by (simp add: mp_def)
  have "mp \<le> (5 * 365 + 2) div 153" unfolding mp_def using y(4) by (intro zdiv_mono1) simp_all
  then have m11: "mp \<le> 11" by simp
  have c: "civil_from_days z =
       (if mp < 10 then yoe + era * 400 else yoe + era * 400 + 1,
        if mp < 10 then mp + 3 else mp - 9, doy - (153 * mp + 2) div 5 + 1)"
    unfolding civil_from_days_def Let_def
    unfolding era_def [symmetric]
    unfolding doe_def [symmetric]
    unfolding yoe_of_def [symmetric] yoe_def [symmetric]
    unfolding year_start_def [symmetric] doy_def [symmetric] mp_def [symmetric]
    using m0 m11 by simp
  have "era * 146097 + year_start yoe + doy = z + 719468" by (simp add: doy_def doe_def)
  from that [OF c this y mp_def m0 m11] show thesis .
qed

text \<open>From a day number to its date and back.\<close>

lemma days_from_civil_from_days:
  "days_from_civil (fst (civil_from_days z)) (fst (snd (civil_from_days z))) (snd (snd (civil_from_days z))) = z"
proof -
  obtain era yoe doy mp where c:
    "civil_from_days z =
       (if mp < 10 then yoe + era * 400 else yoe + era * 400 + 1,
        if mp < 10 then mp + 3 else mp - 9, doy - (153 * mp + 2) div 5 + 1)"
    and e: "era * 146097 + year_start yoe + doy = z + 719468"
    and b: "0 \<le> yoe" "yoe \<le> 399" "0 \<le> mp" "mp \<le> 11"
    by (rule civil_from_days_parts)
  have era: "(yoe + era * 400) div 400 = era" using b(1,2) by simp
  have "days_from_civil (fst (civil_from_days z)) (fst (snd (civil_from_days z))) (snd (snd (civil_from_days z)))
        = era * 146097 + year_start yoe + doy - 719468"
  proof (cases "mp < 10")
    case True
    with b era show ?thesis by (simp add: c days_from_civil_def Let_def year_start_def)
  next
    case False
    with b era show ?thesis by (simp add: c days_from_civil_def Let_def year_start_def)
  qed
  with e show ?thesis by simp
qed

lemma civil_from_days_ranges:
  "1 \<le> fst (snd (civil_from_days z)) \<and> fst (snd (civil_from_days z)) \<le> 12
   \<and> 1 \<le> snd (snd (civil_from_days z)) \<and> snd (snd (civil_from_days z)) \<le> 31"
proof -
  obtain era yoe doy mp where c:
    "civil_from_days z =
       (if mp < 10 then yoe + era * 400 else yoe + era * 400 + 1,
        if mp < 10 then mp + 3 else mp - 9, doy - (153 * mp + 2) div 5 + 1)"
    and b: "0 \<le> doy" "mp = (5 * doy + 2) div 153" "0 \<le> mp" "mp \<le> 11"
    by (rule civil_from_days_parts)
  have "153 * mp \<le> 5 * doy + 2" "5 * doy + 2 < 153 * mp + 153" using b(2) by linarith+
  moreover have "5 * ((153 * mp + 2) div 5) \<le> 153 * mp + 2" "153 * mp + 2 < 5 * ((153 * mp + 2) div 5) + 5" by linarith+
  ultimately show ?thesis using b(3,4) by (simp add: c)
qed

lemma days_from_civil_shift: "days_from_civil y m (d + k) = days_from_civil y m d + k"
  by (simp add: days_from_civil_def Let_def)

lemma utc_split: "t = utc_day t * msPerDay + t mod msPerDay"
  by (simp add: utc_day_def)

lemma utc_date_ranges: "0 \<le> getUTCMonth t \<and> getUTCMonth t \<le> 11 \<and> 1 \<le> getUTCDate t \<and> getUTCDate t \<le> 31"
  using civil_from_days_ranges [of "utc_day t"] by (simp add: getUTCMonth_def getUTCDate_def)

text \<open>\<open>Date.UTC\<close> of the year and month of \<open>t\<close> and any day \<open>d\<close> of the month: midnight of the
  day \<open>d - getUTCDate t\<close> days away from the day of \<open>t\<close>.\<close>

lemma Date_UTC_of: "Date_UTC (getUTCFullYear t) (getUTCMonth t) d = (utc_day t + (d - getUTCDate t)) * msPerDay"
proof -
  have m: "1 \<le> fst (snd (civil_from_days (utc_day t)))" "fst (snd (civil_from_days (utc_day t))) \<le> 12"
    using civil_from_days_ranges [of "utc_day t"] by simp_all
  then have "(fst (snd (civil_from_days (utc_day t))) - 1) div 12 = 0"
    "(fst (snd (civil_from_days (utc_day t))) - 1) mod 12 + 1 = fst (snd (civil_from_days (utc_day t)))"
    by simp_all
  moreover have "days_from_civil (getUTCFullYear t) (fst (snd (civil_from_days (utc_day t)))) d
      = days_from_civil (getUTCFullYear t) (fst (snd (civil_from_days (utc_day t)))) (getUTCDate t) + (d - getUTCDate t)"
    using days_from_civil_shift [of _ _ "getUTCDate t" "d - getUTCDate t"] by simp
  ultimately show ?thesis
    by (simp add: Date_UTC_def getUTCMonth_def getUTCFullYear_def getUTCDate_def days_from_civil_from_days)
qed

lemma msPerDay_pos [simp]: "0 < msPerDay"
  by (simp add: msPerDay_def)


lemma time_of_day_split:
  "t mod msPerDay = getUTCHours t * 3600000 + getUTCMinutes t * 60000 + getUTCSeconds t * 1000 + getUTCMilliseconds t"
proof -
  have d: "t mod msPerDay mod 3600000 = t mod 3600000" "t mod 3600000 mod 60000 = t mod 60000"
    "t mod 60000 mod 1000 = t mod 1000"
    by (simp_all add: msPerDay_def mod_mod_cancel)
  have "t mod msPerDay = t mod msPerDay div 3600000 * 3600000 + t mod msPerDay mod 3600000"
    "t mod 3600000 = t mod 3600000 div 60000 * 60000 + t mod 3600000 mod 60000"
    "t mod 60000 = t mod 60000 div 1000 * 1000 + t mod 60000 mod 1000"
    by simp_all
  with d show ?thesis
    by (simp add: getUTCHours_def getUTCMinutes_def getUTCSeconds_def getUTCMilliseconds_def)
qed

lemma time_of_day_ranges:
  "0 \<le> getUTCHours t \<and> getUTCHours t \<le> 23 \<and> 0 \<le> getUTCMinutes t \<and> getUTCMinutes t \<le> 59
   \<and> 0 \<le> getUTCSeconds t \<and> getUTCSeconds t \<le> 59 \<and> 0 \<le> getUTCMilliseconds t \<and> getUTCMilliseconds t \<le> 999"
proof -
  have "t mod msPerDay \<le> 86399999" "t mod 3600000 \<le> 3599999" "t mod 60000 \<le> 59999" "t mod 1000 \<le> 999"
    by (simp_all add: msPerDay_def)
  then have "t mod msPerDay div 3600000 \<le> 86399999 div 3600000" "t mod 3600000 div 60000 \<le> 3599999 div 60000"
    "t mod 60000 div 1000 \<le> 59999 div 1000"
    by (simp_all add: zdiv_mono1)
  moreover have "0 \<le> t mod msPerDay div 3600000" "0 \<le> t mod 3600000 div 60000" "0 \<le> t mod 60000 div 1000"
    by (simp_all add: msPerDay_def)
  ultimately show ?thesis using \<open>t mod 1000 \<le> 999\<close>
    by (simp add: getUTCHours_def getUTCMinutes_def getUTCSeconds_def getUTCMilliseconds_def)
qed


lemma civil_of_utc: "days_from_civil (getUTCFullYear t) (getUTCMonth t + 1) (getUTCDate t) = utc_day t"
  by (simp add: getUTCFullYear_def getUTCMonth_def getUTCDate_def days_from_civil_from_days)

end
