(* ===== verification/Storage.thy ===== *)
theory Storage
  imports Calendar Types "HOL-Library.Monad_Syntax"
begin

text \<open>
  The persistence of the board and the history: \<open>src/services/activeSignalService.ts\<close> and
  \<open>src/services/historyService.ts\<close>, which write the arrays with \<open>JSON.stringify\<close> to
  \<open>localStorage\<close> and read them back with \<open>JSON.parse\<close> and a reviver that turns the date
  strings into \<open>Date\<close> objects. JavaScript values are the datatype \<open>jsval\<close>; a \<open>Date\<close> is
  its time value (\<open>None\<close> for an invalid date). \<open>JSON.stringify\<close> followed by \<open>JSON.parse\<close>
  without a reviver is \<open>json_stringify\<close>: dates become their \<open>toISOString\<close> text, every
  other value comes back as it was (numbers are exact reals here). The text itself is not
  modelled: the store holds the JSON value its text denotes, or \<open>Unparsable\<close> for a text
  \<open>JSON.parse\<close> rejects. The lemmas show that reading back what was written gives the same
  records with the same instants, that what is read back has the shape the TypeScript
  types promise, and that a missing or corrupt entry and a failed write are harmless.
\<close>

section \<open>JavaScript values\<close>

datatype jsval = JNull | JBool bool | JNum real | JStr string | JArr "jsval list"
  | JObj "(string \<times> jsval) list" | JDate "millis option"

section \<open>Dates as ISO strings\<close>

text \<open>A natural number in \<open>w\<close> digits with leading zeros.\<close>

definition pad_digits :: "nat \<Rightarrow> nat \<Rightarrow> string" where
  "pad_digits w n = (let s = nat_digits n in replicate (w - length s) (CHR ''0'') @ s)"

text \<open>The year of \<open>Date.prototype.toISOString\<close>: four digits for 0-9999, otherwise a sign
  and six digits.\<close>

definition iso_year :: "int \<Rightarrow> string" where
  "iso_year y =
     (if 0 \<le> y \<and> y \<le> 9999 then pad_digits 4 (nat y)
      else (if y < 0 then CHR ''-'' else CHR ''+'') # pad_digits 6 (nat \<bar>y\<bar>))"

text \<open>\<open>Date.prototype.toISOString\<close>: \<open>YYYY-MM-DDTHH:mm:ss.sssZ\<close>.\<close>

definition toISOString :: "millis \<Rightarrow> string" where
  "toISOString t =
     iso_year (getUTCFullYear t) @ ''-'' @ pad_digits 2 (nat (getUTCMonth t + 1)) @ ''-''
     @ pad_digits 2 (nat (getUTCDate t)) @ ''T'' @ pad_digits 2 (nat (getUTCHours t)) @ '':''
     @ pad_digits 2 (nat (getUTCMinutes t)) @ '':'' @ pad_digits 2 (nat (getUTCSeconds t)) @ ''.''
     @ pad_digits 3 (nat (getUTCMilliseconds t)) @ ''Z''"

text \<open>A time value is valid when it lies within 8.64e15 ms of the epoch (\<open>TimeClip\<close>).\<close>

definition valid_time :: "millis \<Rightarrow> bool" where
  "valid_time t \<longleftrightarrow> \<bar>t\<bar> \<le> 8640000000000000"

definition time_clip :: "int \<Rightarrow> millis option" where
  "time_clip t = (if valid_time t then Some t else None)"

text \<open>Reading \<open>n\<close> decimal digits, a given character, and the year field.\<close>

definition read_digits :: "nat \<Rightarrow> string \<Rightarrow> (nat \<times> string) option" where
  "read_digits n s =
     (if n \<le> length s \<and> set (take n s) \<subseteq> set ''0123456789'' then Some (digits_value (take n s), drop n s)
      else None)"

definition read_char :: "char \<Rightarrow> string \<Rightarrow> string option" where
  "read_char c s = (case s of d # r \<Rightarrow> if d = c then Some r else None | [] \<Rightarrow> None)"

definition read_year :: "string \<Rightarrow> (int \<times> string) option" where
  "read_year s =
     (case s of
        [] \<Rightarrow> None
      | c # r \<Rightarrow>
          if c = CHR ''+'' \<or> c = CHR ''-'' then
            do { (y, r') \<leftarrow> read_digits 6 r;
                 if c = CHR ''-'' \<and> y = 0 then None
                 else Some (if c = CHR ''-'' then - int y else int y, r') }
          else do { (y, r') \<leftarrow> read_digits 4 s; Some (int y, r') })"

text \<open>The time value of the fields, when they are in range.\<close>

definition date_value :: "int \<Rightarrow> nat \<Rightarrow> nat \<Rightarrow> nat \<Rightarrow> nat \<Rightarrow> nat \<Rightarrow> nat \<Rightarrow> millis option" where
  "date_value y mo d h mi sec ms =
     (if 1 \<le> mo \<and> mo \<le> 12 \<and> 1 \<le> d \<and> d \<le> 31 \<and> h \<le> 23 \<and> mi \<le> 59 \<and> sec \<le> 59 then
        time_clip (days_from_civil y (int mo) (int d) * msPerDay + int h * 3600000 + int mi * 60000
                   + int sec * 1000 + int ms)
      else None)"

text \<open>\<open>new Date(string)\<close> on the date-time string format of ECMAScript in its UTC forms
  \<open>YYYY-MM-DD\<close> and \<open>YYYY-MM-DDTHH:mm:ss.sssZ\<close> (with the extended years \<open>+YYYYYY\<close> and
  \<open>-YYYYYY\<close>); any other text is an invalid date.\<close>

definition date_parse :: "string \<Rightarrow> millis option" where
  "date_parse s =
     do { (y, r) \<leftarrow> read_year s;
          r \<leftarrow> read_char (CHR ''-'') r;
          (mo, r) \<leftarrow> read_digits 2 r;
          r \<leftarrow> read_char (CHR ''-'') r;
          (d, r) \<leftarrow> read_digits 2 r;
          if r = [] then date_value y mo d 0 0 0 0
          else
            do { r \<leftarrow> read_char (CHR ''T'') r;
                 (h, r) \<leftarrow> read_digits 2 r;
                 r \<leftarrow> read_char (CHR '':'') r;
                 (mi, r) \<leftarrow> read_digits 2 r;
                 r \<leftarrow> read_char (CHR '':'') r;
                 (sec, r) \<leftarrow> read_digits 2 r;
                 r \<leftarrow> read_char (CHR ''.'') r;
                 (ms, r) \<leftarrow> read_digits 3 r;
                 if r = ''Z'' then date_value y mo d h mi sec ms else None } }"

section \<open>JSON\<close>

text \<open>\<open>JSON.parse(JSON.stringify(v))\<close> without a reviver: a \<open>Date\<close> is written by its
  \<open>toJSON\<close>, the ISO string (\<open>null\<close> for an invalid date); the rest is kept.\<close>

fun json_stringify :: "jsval \<Rightarrow> jsval" where
  "json_stringify (JDate d) = (case d of Some t \<Rightarrow> JStr (toISOString t) | None \<Rightarrow> JNull)"
| "json_stringify (JArr vs) = JArr (map json_stringify vs)"
| "json_stringify (JObj kvs) = JObj (map (\<lambda>(k, v). (k, json_stringify v)) kvs)"
| "json_stringify v = v"

text \<open>The reviver of both services: a string under one of the date keys becomes a \<open>Date\<close>
  (\<open>historyService.ts\<close> lines 16-21, \<open>activeSignalService.ts\<close> lines 16-21).\<close>

definition date_reviver :: "(string \<Rightarrow> bool) \<Rightarrow> string \<Rightarrow> jsval \<Rightarrow> jsval" where
  "date_reviver is_date_key key value =
     (if is_date_key key then (case value of JStr s \<Rightarrow> JDate (date_parse s) | _ \<Rightarrow> value) else value)"

text \<open>\<open>JSON.parse\<close> calls the reviver bottom-up on every property, and last on the holder's
  empty key. Array elements pass it with their index as key, which no date key is, so they
  are only descended into.\<close>

fun json_revive :: "(string \<Rightarrow> bool) \<Rightarrow> jsval \<Rightarrow> jsval" where
  "json_revive f (JArr vs) = JArr (map (json_revive f) vs)"
| "json_revive f (JObj kvs) = JObj (map (\<lambda>(k, v). (k, date_reviver f k (json_revive f v))) kvs)"
| "json_revive f v = v"

definition json_parse :: "(string \<Rightarrow> bool) \<Rightarrow> jsval \<Rightarrow> jsval" where
  "json_parse f v = date_reviver f [] (json_revive f v)"

section \<open>Signals as JavaScript objects\<close>

fun direction_name :: "signal_direction \<Rightarrow> string" where
  "direction_name LONG = ''LONG''"
| "direction_name SHORT = ''SHORT''"

fun status_name :: "signal_status \<Rightarrow> string" where
  "status_name WIN = ''WIN''"
| "status_name LOSS = ''LOSS''"
| "status_name PARTIAL_WIN = ''PARTIAL_WIN''"

text \<open>The properties of a \<open>TradingSignal\<close> object, in the order of \<open>src/types.ts\<close>; an
  absent optional field is no property (\<open>JSON.stringify\<close> skips \<open>undefined\<close>).\<close>

definition signal_fields :: "'a trading_signal_scheme \<Rightarrow> (string \<times> jsval) list" where
  "signal_fields s =
     [(''id'', JStr (sig_id s)), (''symbol'', JStr (symbol s)), (''pair'', JStr (pair s)),
      (''change24h'', JNum (change24h s)), (''price'', JNum (price s)),
      (''direction'', JStr (direction_name (direction s))), (''probability'', JNum (of_int (probability s))),
      (''entryZone'', JArr [JNum (fst (entryZone s)), JNum (snd (entryZone s))]),
      (''stopLoss'', JNum (stopLoss s)), (''takeProfit'', JArr (map JNum (takeProfit s))),
      (''confidence'', JStr (confidence s)), (''riskNotes'', JStr (riskNotes s)),
      (''timestamp'', JDate (Some (timestamp s)))]
     @ (case tpsHit s of None \<Rightarrow> [] | Some hs \<Rightarrow> [(''tpsHit'', JArr (map JBool hs))])
     @ [(''safeLeverage'', JNum (of_int (safeLeverage s)))]
     @ (case quoteVolume s of None \<Rightarrow> [] | Some v \<Rightarrow> [(''quoteVolume'', JNum v)])"

definition to_js_signal :: "trading_signal \<Rightarrow> jsval" where
  "to_js_signal s = JObj (signal_fields s)"

text \<open>A \<open>HistoricalSignal\<close> is \<open>{...signal, status, resultPercent, resolvedAt}\<close>.\<close>

definition to_js_historical :: "historical_signal \<Rightarrow> jsval" where
  "to_js_historical h =
     JObj (signal_fields h @ [(''status'', JStr (status_name (status h))),
       (''resultPercent'', JNum (resultPercent h)), (''resolvedAt'', JDate (Some (resolvedAt h)))])"

section \<open>The types of \<open>src/types.ts\<close>\<close>

datatype jstype = TNumber | TString | TBoolean | TDate | TEnum "string list" | TTuple "jstype list"
  | TArray jstype | TObject "(string \<times> jstype \<times> bool) list"

text \<open>A value of a type: a \<open>Date\<close> must be valid; an object has every required property and
  every property it has is of its type (the flag says required).\<close>

fun has_type :: "jstype \<Rightarrow> jsval \<Rightarrow> bool" where
  "has_type TNumber v = (case v of JNum _ \<Rightarrow> True | _ \<Rightarrow> False)"
| "has_type TString v = (case v of JStr _ \<Rightarrow> True | _ \<Rightarrow> False)"
| "has_type TBoolean v = (case v of JBool _ \<Rightarrow> True | _ \<Rightarrow> False)"
| "has_type TDate v = (case v of JDate (Some _) \<Rightarrow> True | _ \<Rightarrow> False)"
| "has_type (TEnum ns) v = (case v of JStr s \<Rightarrow> s \<in> set ns | _ \<Rightarrow> False)"
| "has_type (TTuple ts) v = (case v of JArr vs \<Rightarrow> list_all2 has_type ts vs | _ \<Rightarrow> False)"
| "has_type (TArray t) v = (case v of JArr vs \<Rightarrow> list_all (has_type t) vs | _ \<Rightarrow> False)"
| "has_type (TObject fs) v =
     (case v of
        JObj kvs \<Rightarrow> list_all (\<lambda>(k, t, req). case map_of kvs k of None \<Rightarrow> \<not> req | Some u \<Rightarrow> has_type t u) fs
      | _ \<Rightarrow> False)"

definition SignalStatus_type :: jstype where
  "SignalStatus_type = TEnum [''WIN'', ''LOSS'', ''PARTIAL_WIN'']"

text \<open>\<open>interface TradingSignal\<close> (lines 16-38) and \<open>HistoricalSignal\<close> (lines 40-44).\<close>

definition TradingSignal_fields :: "(string \<times> jstype \<times> bool) list" where
  "TradingSignal_fields =
     [(''id'', TString, True), (''symbol'', TString, True), (''pair'', TString, True),
      (''change24h'', TNumber, True), (''price'', TNumber, True), (''direction'', TEnum [''LONG'', ''SHORT''], True),
      (''probability'', TNumber, True), (''entryZone'', TTuple [TNumber, TNumber], True),
      (''stopLoss'', TNumber, True), (''takeProfit'', TTuple (replicate 5 TNumber), True),
      (''confidence'', TString, True), (''riskNotes'', TString, True), (''timestamp'', TDate, True),
      (''tpsHit'', TTuple (replicate 5 TBoolean), False), (''safeLeverage'', TNumber, True),
      (''quoteVolume'', TNumber, False),
      (''resolution'', TObject [(''status'', SignalStatus_type, True), (''message'', TString, True),
         (''timestamp'', TNumber, True)], False)]"

definition TradingSignal_type :: jstype where
  "TradingSignal_type = TObject TradingSignal_fields"

definition HistoricalSignal_type :: jstype where
  "HistoricalSignal_type =
     TObject (TradingSignal_fields @ [(''status'', SignalStatus_type, True), (''resultPercent'', TNumber, True),
       (''resolvedAt'', TDate, True)])"

section \<open>The services\<close>

text \<open>What \<open>localStorage\<close> holds under a key: the JSON value of the text, or a text that
  \<open>JSON.parse\<close> rejects.\<close>

datatype stored = JsonText jsval | Unparsable

type_synonym local_storage = "string \<Rightarrow> stored option"

definition HISTORY_KEY :: string where "HISTORY_KEY = ''cryptoSignalHistory''"

definition ACTIVE_SIGNALS_KEY :: string where "ACTIVE_SIGNALS_KEY = ''cryptoActiveSignals''"

definition history_date_key :: "string \<Rightarrow> bool" where
  "history_date_key k \<longleftrightarrow> k = ''timestamp'' \<or> k = ''resolvedAt''"

definition signal_date_key :: "string \<Rightarrow> bool" where
  "signal_date_key k \<longleftrightarrow> k = ''timestamp''"

text \<open>\<open>getHistory\<close> (\<open>historyService.ts\<close> lines 9-26): no entry, or a text \<open>JSON.parse\<close>
  rejects (the \<open>catch\<close>), reads as \<open>[]\<close>.\<close>

definition getHistory :: "local_storage \<Rightarrow> jsval" where
  "getHistory ls =
     (case ls HISTORY_KEY of
        None \<Rightarrow> JArr []
      | Some Unparsable \<Rightarrow> JArr []
      | Some (JsonText j) \<Rightarrow> json_parse history_date_key j)"

text \<open>\<open>saveHistory\<close> (lines 32-39); \<open>written\<close> says whether \<open>setItem\<close> succeeded (it throws
  when the quota is exceeded, and the \<open>catch\<close> only logs).\<close>

definition saveHistory :: "bool \<Rightarrow> historical_signal list \<Rightarrow> local_storage \<Rightarrow> local_storage" where
  "saveHistory written history ls =
     (if written then ls(HISTORY_KEY \<mapsto> JsonText (json_stringify (JArr (map to_js_historical history)))) else ls)"

text \<open>\<open>getActiveSignals\<close> and \<open>saveActiveSignals\<close> (\<open>activeSignalService.ts\<close>).\<close>

definition getActiveSignals :: "local_storage \<Rightarrow> jsval" where
  "getActiveSignals ls =
     (case ls ACTIVE_SIGNALS_KEY of
        None \<Rightarrow> JArr []
      | Some Unparsable \<Rightarrow> JArr []
      | Some (JsonText j) \<Rightarrow> json_parse signal_date_key j)"

definition saveActiveSignals :: "bool \<Rightarrow> trading_signal list \<Rightarrow> local_storage \<Rightarrow> local_storage" where
  "saveActiveSignals written signals ls =
     (if written then ls(ACTIVE_SIGNALS_KEY \<mapsto> JsonText (json_stringify (JArr (map to_js_signal signals)))) else ls)"

subsection \<open>Specification vocabulary\<close>

text \<open>The reading of a value as the record the TypeScript cast assumes (integers for the
  fields the model keeps as \<open>int\<close>).\<close>

fun js_str :: "jsval \<Rightarrow> string option" where
  "js_str (JStr s) = Some s"
| "js_str _ = None"

fun js_num :: "jsval \<Rightarrow> real option" where
  "js_num (JNum r) = Some r"
| "js_num _ = None"

fun js_bool :: "jsval \<Rightarrow> bool option" where
  "js_bool (JBool b) = Some b"
| "js_bool _ = None"

fun js_date :: "jsval \<Rightarrow> millis option" where
  "js_date (JDate d) = d"
| "js_date _ = None"

definition js_int :: "jsval \<Rightarrow> int option" where
  "js_int v = do { r \<leftarrow> js_num v; if r = of_int \<lfloor>r\<rfloor> then Some \<lfloor>r\<rfloor> else None }"

fun js_list :: "(jsval \<Rightarrow> 'a option) \<Rightarrow> jsval \<Rightarrow> 'a list option" where
  "js_list f (JArr vs) = those (map f vs)"
| "js_list f _ = None"

fun js_pair :: "jsval \<Rightarrow> (real \<times> real) option" where
  "js_pair (JArr [JNum a, JNum b]) = Some (a, b)"
| "js_pair _ = None"

definition direction_of :: "string \<Rightarrow> signal_direction option" where
  "direction_of s = (if s = ''LONG'' then Some LONG else if s = ''SHORT'' then Some SHORT else None)"

definition status_of :: "string \<Rightarrow> signal_status option" where
  "status_of s =
     (if s = ''WIN'' then Some WIN else if s = ''LOSS'' then Some LOSS
      else if s = ''PARTIAL_WIN'' then Some PARTIAL_WIN else None)"

definition field :: "(string \<times> jsval) list \<Rightarrow> string \<Rightarrow> (jsval \<Rightarrow> 'a option) \<Rightarrow> 'a option" where
  "field kvs k f = map_of kvs k \<bind> f"

definition opt_field :: "(string \<times> jsval) list \<Rightarrow> string \<Rightarrow> (jsval \<Rightarrow> 'a option) \<Rightarrow> 'a option option" where
  "opt_field kvs k f = (case map_of kvs k of None \<Rightarrow> Some None | Some v \<Rightarrow> map_option Some (f v))"

definition signal_of :: "(string \<times> jsval) list \<Rightarrow> trading_signal option" where
  "signal_of kvs =
     do { i \<leftarrow> field kvs ''id'' js_str; sy \<leftarrow> field kvs ''symbol'' js_str; pa \<leftarrow> field kvs ''pair'' js_str;
          ch \<leftarrow> field kvs ''change24h'' js_num; pr \<leftarrow> field kvs ''price'' js_num;
          d \<leftarrow> field kvs ''direction'' (\<lambda>v. js_str v \<bind> direction_of);
          pb \<leftarrow> field kvs ''probability'' js_int; ez \<leftarrow> field kvs ''entryZone'' js_pair;
          sl \<leftarrow> field kvs ''stopLoss'' js_num; tp \<leftarrow> field kvs ''takeProfit'' (js_list js_num);
          co \<leftarrow> field kvs ''confidence'' js_str; rn \<leftarrow> field kvs ''riskNotes'' js_str;
          ts \<leftarrow> field kvs ''timestamp'' js_date; th \<leftarrow> opt_field kvs ''tpsHit'' (js_list js_bool);
          lv \<leftarrow> field kvs ''safeLeverage'' js_int; qv \<leftarrow> opt_field kvs ''quoteVolume'' js_num;
          Some \<lparr>sig_id = i, symbol = sy, pair = pa, change24h = ch, price = pr, direction = d,
                probability = pb, entryZone = ez, stopLoss = sl, takeProfit = tp, confidence = co,
                riskNotes = rn, timestamp = ts, tpsHit = th, safeLeverage = lv, quoteVolume = qv\<rparr> }"

definition historical_of :: "(string \<times> jsval) list \<Rightarrow> historical_signal option" where
  "historical_of kvs =
     do { s \<leftarrow> signal_of kvs; st \<leftarrow> field kvs ''status'' (\<lambda>v. js_str v \<bind> status_of);
          r \<leftarrow> field kvs ''resultPercent'' js_num; ra \<leftarrow> field kvs ''resolvedAt'' js_date;
          Some (mk_historical s st r ra) }"

definition objects_of :: "((string \<times> jsval) list \<Rightarrow> 'a option) \<Rightarrow> jsval \<Rightarrow> 'a list option" where
  "objects_of f v = js_list (\<lambda>u. case u of JObj kvs \<Rightarrow> f kvs | _ \<Rightarrow> None) v"

subsection \<open>An example\<close>

text \<open>A LONG signal on BTCUSDT created at the epoch, with two targets already hit.\<close>

definition demo_stored :: trading_signal where
  "demo_stored = \<lparr>sig_id = ''BTCUSDT'', symbol = ''BTC'', pair = ''USDT'', change24h = 1.5, price = 100,
     direction = LONG, probability = 90, entryZone = (99, 101), stopLoss = 95,
     takeProfit = [103, 106, 110, 117.5, 125], confidence = ''Alta'', riskNotes = '''',
     timestamp = 0, tpsHit = Some [True, True, False, False, False], safeLeverage = 5, quoteVolume = None\<rparr>"

section \<open>Lemmas\<close>

subsection \<open>Digits\<close>

lemma length_nat_digits_bound: "n < 10 ^ w \<Longrightarrow> 0 < w \<Longrightarrow> length (nat_digits n) \<le> w"
proof (induction n arbitrary: w rule: nat_digits.induct)
  case (1 n)
  show ?case
  proof (cases "n < 10")
    case True
    then show ?thesis using "1.prems"(2) by (subst nat_digits.simps) simp
  next
    case False
    obtain v where w: "w = Suc v" using "1.prems"(2) by (cases w) simp_all
    have "n div 10 < 10 ^ v" using "1.prems"(1) w by (simp add: div_less_iff_less_mult)
    moreover have "0 < v"
    proof (rule ccontr)
      assume "\<not> 0 < v"
      with w "1.prems"(1) False show False by simp
    qed
    ultimately have "length (nat_digits (n div 10)) \<le> v" using "1.IH" False by blast
    with False w show ?thesis by (subst nat_digits.simps) simp
  qed
qed

lemma pad_digits_read:
  assumes "n < 10 ^ w" "0 < w"
  shows "read_digits w (pad_digits w n @ r) = Some (n, r)"
proof -
  have l: "length (nat_digits n) \<le> w" by (rule length_nat_digits_bound [OF assms])
  have "set (replicate (w - length (nat_digits n)) (CHR ''0'')) \<subseteq> set ''0123456789''" by auto
  with set_nat_digits [of n] l show ?thesis
    by (simp add: read_digits_def pad_digits_def Let_def digits_value_zeros)
qed


subsection \<open>The ISO round trip\<close>

lemma utc_day_valid:
  assumes "valid_time t"
  shows "-100000000 \<le> utc_day t \<and> utc_day t \<le> 100000000"
proof -
  have "-8640000000000000 \<le> t" "t \<le> 8640000000000000" using assms by (simp_all add: valid_time_def)
  then have "-8640000000000000 div msPerDay \<le> t div msPerDay" "t div msPerDay \<le> 8640000000000000 div msPerDay"
    by (simp_all add: zdiv_mono1)
  then show ?thesis by (simp add: utc_day_def msPerDay_def)
qed

lemma year_valid:
  assumes "valid_time t"
  shows "\<bar>getUTCFullYear t\<bar> < 1000000"
proof -
  obtain era yoe doy mp where c:
    "civil_from_days (utc_day t) =
       (if mp < 10 then yoe + era * 400 else yoe + era * 400 + 1,
        if mp < 10 then mp + 3 else mp - 9, doy - (153 * mp + 2) div 5 + 1)"
    and e: "era * 146097 + year_start yoe + doy = utc_day t + 719468"
    and b: "0 \<le> yoe" "yoe \<le> 399" "0 \<le> doy" "doy \<le> 365"
    by (rule civil_from_days_parts)
  have "yoe div 4 \<le> 399 div 4" "yoe div 100 \<le> 399 div 100" using b(2) by (simp_all add: zdiv_mono1)
  moreover have "0 \<le> yoe div 4" "0 \<le> yoe div 100" using b(1) by simp_all
  ultimately have "-3 \<le> year_start yoe" "year_start yoe \<le> 145734"
    using b(1,2) by (simp_all add: year_start_def)
  with e b(3,4) utc_day_valid [OF assms] have "-681 \<le> era" "era \<le> 690" by linarith+
  with b(1,2) have "-1000000 < yoe + era * 400" "yoe + era * 400 + 1 < 1000000" by linarith+
  then show ?thesis by (simp add: getUTCFullYear_def c abs_less_iff)
qed

lemma pad_digits_set:
  assumes "n < 10 ^ w" "0 < w"
  shows "length (pad_digits w n) = w \<and> set (pad_digits w n) \<subseteq> set ''0123456789''"
proof -
  have "length (nat_digits n) \<le> w" by (rule length_nat_digits_bound [OF assms])
  moreover have "set (replicate (w - length (nat_digits n)) (CHR ''0'')) \<subseteq> set ''0123456789''" by auto
  ultimately show ?thesis using set_nat_digits [of n] by (simp add: pad_digits_def Let_def)
qed

lemma read_year_iso:
  assumes "\<bar>y\<bar> < 1000000"
  shows "read_year (iso_year y @ r) = Some (y, r)"
proof (cases "0 \<le> y \<and> y \<le> 9999")
  case True
  then have n: "nat y < 10 ^ 4" by (simp add: nat_less_iff)
  from pad_digits_set [OF n] obtain c cs where p: "pad_digits 4 (nat y) = c # cs" and "c \<in> set ''0123456789''"
    by (cases "pad_digits 4 (nat y)") auto
  then have "c \<noteq> CHR ''+'' \<and> c \<noteq> CHR ''-''" by auto
  moreover have "read_digits 4 (c # cs @ r) = Some (nat y, r)"
    using pad_digits_read [OF n, of r] p by simp
  ultimately show ?thesis using True by (simp add: read_year_def iso_year_def p)
next
  case False
  have n: "nat \<bar>y\<bar> < 10 ^ 6" using assms by simp
  have "y \<noteq> 0" using False by auto
  then show ?thesis using False pad_digits_read [OF n, of r]
    by (auto simp: read_year_def iso_year_def)
qed

lemma date_parse_iso:
  assumes "valid_time t"
  shows "date_parse (toISOString t) = Some t"
proof -
  let ?Y = "getUTCFullYear t" and ?M = "getUTCMonth t" and ?D = "getUTCDate t"
  let ?h = "getUTCHours t" and ?mi = "getUTCMinutes t" and ?s = "getUTCSeconds t" and ?ms = "getUTCMilliseconds t"
  have r: "0 \<le> ?M" "?M \<le> 11" "1 \<le> ?D" "?D \<le> 31" using utc_date_ranges [of t] by simp_all
  have tr: "0 \<le> ?h" "?h \<le> 23" "0 \<le> ?mi" "?mi \<le> 59" "0 \<le> ?s" "?s \<le> 59" "0 \<le> ?ms" "?ms \<le> 999"
    using time_of_day_ranges [of t] by simp_all
  have rd: "read_digits 2 (pad_digits 2 (nat ?M + 1) @ x) = Some (nat ?M + 1, x)"
    "read_digits 2 (pad_digits 2 (nat ?D) @ x) = Some (nat ?D, x)"
    "read_digits 2 (pad_digits 2 (nat ?h) @ x) = Some (nat ?h, x)"
    "read_digits 2 (pad_digits 2 (nat ?mi) @ x) = Some (nat ?mi, x)"
    "read_digits 2 (pad_digits 2 (nat ?s) @ x) = Some (nat ?s, x)"
    "read_digits 3 (pad_digits 3 (nat ?ms) @ x) = Some (nat ?ms, x)" for x
    using r tr by (simp_all add: pad_digits_read)
  have v: "days_from_civil ?Y (?M + 1) ?D * msPerDay + ?h * 3600000 + ?mi * 60000 + ?s * 1000 + ?ms = t"
    using civil_of_utc [of t] time_of_day_split [of t] utc_split [of t] by simp
  have n: "int (nat ?M + 1) = ?M + 1" "int (nat ?D) = ?D" "int (nat ?h) = ?h" "int (nat ?mi) = ?mi"
    "int (nat ?s) = ?s" "int (nat ?ms) = ?ms"
    using r tr by simp_all
  have b: "1 \<le> nat ?M + 1" "nat ?M + 1 \<le> 12" "1 \<le> nat ?D" "nat ?D \<le> 31" "nat ?h \<le> 23"
    "nat ?mi \<le> 59" "nat ?s \<le> 59"
    using r tr by (simp_all add: nat_le_iff le_nat_iff)
  have "date_value ?Y (nat ?M + 1) (nat ?D) (nat ?h) (nat ?mi) (nat ?s) (nat ?ms) = Some t"
    unfolding date_value_def time_clip_def n v using b assms by simp
  moreover have "nat (?M + 1) = nat ?M + 1" using r by simp
  ultimately show ?thesis
    using read_year_iso [OF year_valid [OF assms]] rd
    by (simp add: date_parse_def toISOString_def read_char_def)
qed


subsection \<open>Writing and reading a signal\<close>

definition signal_keys :: "string list" where
  "signal_keys = [''id'', ''symbol'', ''pair'', ''change24h'', ''price'', ''direction'', ''probability'',
     ''entryZone'', ''stopLoss'', ''takeProfit'', ''confidence'', ''riskNotes'', ''tpsHit'', ''safeLeverage'',
     ''quoteVolume'', ''status'', ''resultPercent'']"

lemma json_stringify_nums [simp]: "map json_stringify (map JNum xs) = map JNum xs"
  by (induction xs) simp_all

lemma json_stringify_bools [simp]: "map json_stringify (map JBool xs) = map JBool xs"
  by (induction xs) simp_all

lemma json_revive_nums [simp]: "map (json_revive f) (map JNum xs) = map JNum xs"
  by (induction xs) simp_all

lemma json_revive_bools [simp]: "map (json_revive f) (map JBool xs) = map JBool xs"
  by (induction xs) simp_all

lemma revive_signal_fields:
  assumes "f ''timestamp''" "list_all (\<lambda>k. \<not> f k) signal_keys" "valid_time (timestamp s)"
  shows "map (\<lambda>(k, v). (k, date_reviver f k (json_revive f v))) (map (\<lambda>(k, v). (k, json_stringify v)) (signal_fields s))
         = signal_fields s"
  using assms
  by (cases "tpsHit s"; cases "quoteVolume s")
     (simp_all add: signal_fields_def signal_keys_def date_reviver_def date_parse_iso)

lemma js_int_of_int [simp]: "js_int (JNum (of_int k)) = Some k"
  by (simp add: js_int_def)

lemma those_nums [simp]: "those (map (js_num \<circ> JNum) xs) = Some xs"
  by (induction xs) simp_all

lemma those_bools [simp]: "those (map (js_bool \<circ> JBool) xs) = Some xs"
  by (induction xs) simp_all

lemma direction_of_name [simp]: "direction_of (direction_name d) = Some d"
  by (cases d) (simp_all add: direction_of_def)

lemma status_of_name [simp]: "status_of (status_name st) = Some st"
  by (cases st) (simp_all add: status_of_def)

lemma signal_of_fields:
  assumes "map_of extra ''tpsHit'' = None" "map_of extra ''quoteVolume'' = None"
  shows "signal_of (signal_fields s @ extra) = Some (trading_signal.truncate s)"
  using assms
  by (cases "tpsHit s"; cases "quoteVolume s")
     (simp_all add: signal_of_def signal_fields_def field_def opt_field_def trading_signal.truncate_def)

lemma historical_of_fields:
  "historical_of (signal_fields h @ [(''status'', JStr (status_name (status h))),
       (''resultPercent'', JNum (resultPercent h)), (''resolvedAt'', JDate (Some (resolvedAt h)))]) = Some h"
proof -
  have "mk_historical (trading_signal.truncate h) (status h) (resultPercent h) (resolvedAt h) = h"
    by (cases h) (simp add: mk_historical_def trading_signal.defs historical_signal.defs)
  moreover have "map_of (signal_fields h) ''status'' = None" "map_of (signal_fields h) ''resultPercent'' = None"
    "map_of (signal_fields h) ''resolvedAt'' = None"
    by (cases "tpsHit h"; cases "quoteVolume h"; simp add: signal_fields_def)+
  ultimately show ?thesis
    by (simp add: historical_of_def signal_of_fields field_def map_add_def)
qed


lemma those_Some [simp]: "those (map Some xs) = Some xs"
  by (induction xs) simp_all

lemma truncate_signal [simp]: "trading_signal.truncate (s :: trading_signal) = s"
  by (cases s) (simp add: trading_signal.defs)

lemma signal_of_own_fields [simp]: "signal_of (signal_fields s) = Some (trading_signal.truncate s)"
  using signal_of_fields [of "[]" s] by simp

lemma revive_signal:
  assumes "valid_time (timestamp s)"
  shows "json_revive signal_date_key (json_stringify (to_js_signal s)) = to_js_signal s"
proof -
  have "signal_date_key ''timestamp''" "list_all (\<lambda>k. \<not> signal_date_key k) signal_keys"
    by (simp_all add: signal_keys_def signal_date_key_def)
  from revive_signal_fields [OF this assms] show ?thesis
    by (simp add: to_js_signal_def)
qed

lemma revive_historical:
  assumes "valid_time (timestamp h)" "valid_time (resolvedAt h)"
  shows "json_revive history_date_key (json_stringify (to_js_historical h)) = to_js_historical h"
proof -
  have k: "history_date_key ''timestamp''" "list_all (\<lambda>k. \<not> history_date_key k) signal_keys"
    by (simp_all add: signal_keys_def history_date_key_def)
  have "history_date_key ''resolvedAt''" "\<not> history_date_key ''status''" "\<not> history_date_key ''resultPercent''"
    by (simp_all add: history_date_key_def)
  with revive_signal_fields [OF k assms(1)] assms(2) show ?thesis
    by (simp add: to_js_historical_def date_reviver_def date_parse_iso)
qed

lemma getHistory_saved:
  assumes "\<forall>h\<in>set hs. valid_time (timestamp h) \<and> valid_time (resolvedAt h)"
  shows "getHistory (saveHistory True hs ls) = JArr (map to_js_historical hs)"
proof -
  have "map (json_revive history_date_key \<circ> json_stringify \<circ> to_js_historical) hs = map to_js_historical hs"
    using assms revive_historical by (induction hs) auto
  then show ?thesis
    by (simp add: getHistory_def saveHistory_def json_parse_def date_reviver_def history_date_key_def)
qed

lemma getActiveSignals_saved:
  assumes "\<forall>s\<in>set ss. valid_time (timestamp s)"
  shows "getActiveSignals (saveActiveSignals True ss ls) = JArr (map to_js_signal ss)"
proof -
  have "map (json_revive signal_date_key \<circ> json_stringify \<circ> to_js_signal) ss = map to_js_signal ss"
    using assms revive_signal by (induction ss) auto
  then show ?thesis
    by (simp add: getActiveSignals_def saveActiveSignals_def json_parse_def date_reviver_def signal_date_key_def)
qed

lemma list_all2_replicate_map:
  "list_all2 P (replicate n t) (map f xs) \<longleftrightarrow> length xs = n \<and> (\<forall>x\<in>set xs. P t (f x))"
proof (induction xs arbitrary: n)
  case Nil
  then show ?case by (cases n) auto
next
  case (Cons x xs)
  then show ?case by (cases n) auto
qed

lemma signal_fields_typed:
  assumes "wf_signal s" "map_of extra ''tpsHit'' = None" "map_of extra ''quoteVolume'' = None"
    "map_of extra ''resolution'' = None"
  shows "list_all (\<lambda>(k, t, req). case map_of (signal_fields s @ extra) k of None \<Rightarrow> \<not> req | Some u \<Rightarrow> has_type t u)
           TradingSignal_fields"
  using assms
  by (cases "tpsHit s"; cases "quoteVolume s"; cases "direction s")
     (simp_all add: TradingSignal_fields_def signal_fields_def wf_signal_def list_all2_replicate_map
)

lemma historical_typed:
  assumes "wf_signal h"
  shows "has_type HistoricalSignal_type (to_js_historical h)"
proof -
  let ?extra = "[(''status'', JStr (status_name (status h))), (''resultPercent'', JNum (resultPercent h)),
      (''resolvedAt'', JDate (Some (resolvedAt h)))]"
  let ?P = "\<lambda>(k, t, req). case map_of (signal_fields h @ ?extra) k of None \<Rightarrow> \<not> req | Some u \<Rightarrow> has_type t u"
  have n: "map_of (signal_fields h) ''status'' = None" "map_of (signal_fields h) ''resultPercent'' = None"
    "map_of (signal_fields h) ''resolvedAt'' = None"
    by (cases "tpsHit h"; cases "quoteVolume h"; simp add: signal_fields_def)+
  have e: "map_of ?extra ''tpsHit'' = None" "map_of ?extra ''quoteVolume'' = None" "map_of ?extra ''resolution'' = None"
    by simp_all
  have "has_type HistoricalSignal_type (to_js_historical h) \<longleftrightarrow>
          list_all ?P TradingSignal_fields \<and> list_all ?P [(''status'', SignalStatus_type, True), (''resultPercent'', TNumber, True),
       (''resolvedAt'', TDate, True)]"
    by (simp only: HistoricalSignal_type_def to_js_historical_def has_type.simps jsval.case list_all_append)
  moreover have "list_all ?P TradingSignal_fields" by (rule signal_fields_typed [OF assms(1) e])
  moreover have "list_all ?P [(''status'', SignalStatus_type, True), (''resultPercent'', TNumber, True),
       (''resolvedAt'', TDate, True)]"
    using n by (cases "status h") (simp_all add: SignalStatus_type_def map_add_def)
  ultimately show ?thesis by blast
qed

lemma signal_typed:
  assumes "wf_signal s"
  shows "has_type TradingSignal_type (to_js_signal s)"
  using signal_fields_typed [OF assms, of "[]"] by (simp add: TradingSignal_type_def to_js_signal_def)

section \<open>Properties of the persistence\<close>

text \<open>C6: reading back what the services wrote gives the same records: the history and the
  board written by \<open>saveHistory\<close> and \<open>saveActiveSignals\<close> and read by \<open>getHistory\<close> and
  \<open>getActiveSignals\<close> are equal lists, with every date at the same instant, for any dates a
  \<open>Date\<close> can hold.\<close>

theorem storage_roundtrip:
  assumes "\<forall>h\<in>set hs. valid_time (timestamp h) \<and> valid_time (resolvedAt h)"
    and "\<forall>s\<in>set ss. valid_time (timestamp s)"
  shows "objects_of historical_of (getHistory (saveHistory True hs ls)) = Some hs
         \<and> objects_of signal_of (getActiveSignals (saveActiveSignals True ss ls)) = Some ss"
  using getHistory_saved [OF assms(1)] getActiveSignals_saved [OF assms(2)]
  by (simp add: objects_of_def comp_def to_js_historical_def historical_of_fields to_js_signal_def)

theorem storage_roundtrip_witness:
  "objects_of historical_of (getHistory (saveHistory True [mk_historical demo_stored WIN 12 1000] Map.empty))
     = Some [mk_historical demo_stored WIN 12 1000]
   \<and> objects_of signal_of (getActiveSignals (saveActiveSignals True [demo_stored] Map.empty)) = Some [demo_stored]"
  using storage_roundtrip [of "[mk_historical demo_stored WIN 12 1000]" "[demo_stored]" Map.empty]
  by (simp add: valid_time_def demo_stored_def)

text \<open>What is read back has the types \<open>src/types.ts\<close> declares, so the casts of
  \<open>getHistory\<close> and \<open>getActiveSignals\<close> are sound for what the services wrote: every
  required property is present, the tuples have two and five elements, the enums are
  among their names, and the dates are valid \<open>Date\<close> objects rather than strings.\<close>

theorem stored_values_typed:
  assumes "\<forall>h\<in>set hs. wf_signal h \<and> valid_time (timestamp h) \<and> valid_time (resolvedAt h)"
    and "\<forall>s\<in>set ss. wf_signal s \<and> valid_time (timestamp s)"
  shows "has_type (TArray HistoricalSignal_type) (getHistory (saveHistory True hs ls))
         \<and> has_type (TArray TradingSignal_type) (getActiveSignals (saveActiveSignals True ss ls))"
proof -
  have "getHistory (saveHistory True hs ls) = JArr (map to_js_historical hs)"
    using assms(1) by (intro getHistory_saved) simp
  moreover have "getActiveSignals (saveActiveSignals True ss ls) = JArr (map to_js_signal ss)"
    using assms(2) by (intro getActiveSignals_saved) simp
  ultimately show ?thesis
    using assms historical_typed signal_typed by (simp add: list_all_iff)
qed

theorem stored_values_typed_witness:
  "has_type (TArray HistoricalSignal_type) (getHistory (saveHistory True [mk_historical demo_stored LOSS (-5) 7200000] Map.empty))
   \<and> has_type (TArray TradingSignal_type) (getActiveSignals (saveActiveSignals True [demo_stored] Map.empty))"
  using stored_values_typed [of "[mk_historical demo_stored LOSS (-5) 7200000]" "[demo_stored]" Map.empty]
  by (simp add: valid_time_def demo_stored_def wf_signal_def)

text \<open>Persistence failures are harmless: a missing entry or a text \<open>JSON.parse\<close>
  rejects reads as an empty list, a write that \<open>setItem\<close> refuses leaves what was stored
  before, and writing the history never touches the board nor the board the history.\<close>

theorem persistence_failure:
  "((ls HISTORY_KEY = None \<or> ls HISTORY_KEY = Some Unparsable) \<longrightarrow> getHistory ls = JArr [])
   \<and> ((ls ACTIVE_SIGNALS_KEY = None \<or> ls ACTIVE_SIGNALS_KEY = Some Unparsable) \<longrightarrow> getActiveSignals ls = JArr [])
   \<and> getHistory (saveHistory False hs ls) = getHistory ls
   \<and> getActiveSignals (saveActiveSignals False ss ls) = getActiveSignals ls
   \<and> getActiveSignals (saveHistory w hs ls) = getActiveSignals ls
   \<and> getHistory (saveActiveSignals w ss ls) = getHistory ls"
  by (auto simp: getHistory_def getActiveSignals_def saveHistory_def saveActiveSignals_def
      HISTORY_KEY_def ACTIVE_SIGNALS_KEY_def)

theorem persistence_failure_witness:
  "getHistory (Map.empty(HISTORY_KEY \<mapsto> Unparsable)) = JArr []
   \<and> getActiveSignals (saveActiveSignals False [demo_stored] Map.empty) = JArr []"
proof -
  have "getActiveSignals (Map.empty :: local_storage) = JArr []" by (simp add: getActiveSignals_def)
  then show ?thesis
    using persistence_failure [of "Map.empty(HISTORY_KEY \<mapsto> Unparsable)"]
      persistence_failure [where ls = Map.empty and ss = "[demo_stored]"]
    by simp
qed

end
