(* ===== verification/Persistence.thy ===== *)
theory Persistence
  imports Clocks Storage
begin

text \<open>
  The application together with its \<open>localStorage\<close>. \<open>App\<close> (\<open>src/src/App.tsx\<close>) reads the
  board and the history from storage when it mounts (lines 18-19), and two effects write them
  back whenever React commits a new array (lines 24-30): the board after every tick that
  reaches \<open>setSignals\<close>, the history after every tick that sets \<open>historyChanged\<close>. A write may
  fail (\<open>setItem\<close> throws and the service only logs). The inductive set \<open>persisted\<close> pairs the
  states of \<open>Engine.reachable\<close> with the storage they leave, and records whether every write
  that an effect attempted succeeded. The lemmas show that persistence does not change the
  runs of the engine, and that as long as no write failed the storage holds exactly the
  serialised board and history, so that a reload restores them.
\<close>

text \<open>Lines 18-19: the initial values of the \<open>useState\<close> hooks, the stored lists read as
  the record types the casts of \<open>getActiveSignals\<close> and \<open>getHistory\<close> assume.\<close>

definition load_state :: "local_storage \<Rightarrow> trading_signal list option \<times> historical_signal list option" where
  "load_state ls = (objects_of signal_of (getActiveSignals ls), objects_of historical_of (getHistory ls))"

text \<open>Lines 102, 219-229: whether the tick's loop set \<open>historyChanged\<close>, so that
  \<open>setHistoricalSignals\<close> committed a new array.\<close>

definition history_changed :: "millis \<Rightarrow> binance_ticker list option \<Rightarrow> service_state app_state \<Rightarrow> bool" where
  "history_changed now resp a = ts_changed (snd (board_eval svc_remove now resp a))"

text \<open>Line 250: \<open>setSignals(finalSignals)\<close> runs exactly when the tick did not reject.\<close>

fun board_committed :: "tick_outcome \<Rightarrow> bool" where
  "board_committed (Published _) = True"
| "board_committed (Rejected _) = False"

text \<open>Lines 24-30: the two effects after a tick, in their order of declaration; \<open>wS\<close> and
  \<open>wH\<close> say whether their \<open>setItem\<close> succeeded.\<close>

definition tick_effects ::
  "bool \<Rightarrow> bool \<Rightarrow> bool \<Rightarrow> tick_outcome \<Rightarrow> service_state app_state \<Rightarrow> local_storage \<Rightarrow> local_storage" where
  "tick_effects wS wH hc out a ls =
     (let ls1 = (if board_committed out then saveActiveSignals wS (signals a) ls else ls)
      in if hc then saveHistory wH (historicalSignals a) ls1 else ls1)"

text \<open>Whether the writes the effects attempted all succeeded.\<close>

definition effects_ok :: "bool \<Rightarrow> bool \<Rightarrow> bool \<Rightarrow> tick_outcome \<Rightarrow> bool" where
  "effects_ok wS wH hc out \<longleftrightarrow> (wS \<or> \<not> board_committed out) \<and> (wH \<or> \<not> hc)"

text \<open>A stored text is the value \<open>JSON.parse\<close> gives it, so it holds no \<open>Date\<close> object;
  the dates a reviver makes are valid or invalid \<open>Date\<close>s.\<close>

fun json_value :: "jsval \<Rightarrow> bool" where
  "json_value (JDate d) = False"
| "json_value (JArr vs) = list_all json_value vs"
| "json_value (JObj kvs) = list_all (\<lambda>(k, v). json_value v) kvs"
| "json_value v = True"

fun dates_valid :: "jsval \<Rightarrow> bool" where
  "dates_valid (JDate d) = (case d of None \<Rightarrow> True | Some t \<Rightarrow> valid_time t)"
| "dates_valid (JArr vs) = list_all dates_valid vs"
| "dates_valid (JObj kvs) = list_all (\<lambda>(k, v). dates_valid v) kvs"
| "dates_valid v = True"

definition storage_json :: "local_storage \<Rightarrow> bool" where
  "storage_json ls \<longleftrightarrow> (\<forall>k j. ls k = Some (JsonText j) \<longrightarrow> json_value j)"

text \<open>The runs of the application with its storage: the mount reads the stored lists and
  both effects run once; then any sequence of ticks, each followed by its effects. The first
  argument says whether every attempted write so far succeeded; the second whether the
  storage at the mount held JSON values and every clock reading (\<open>Date.now()\<close> of the tick
  and of the service call) was a valid \<open>Date\<close>.\<close>

inductive persisted :: "bool \<Rightarrow> bool \<Rightarrow> service_state app_state \<Rightarrow> local_storage \<Rightarrow> bool" where
  mount: "load_state ls = (Some ss, Some hs) \<Longrightarrow>
    persisted (wS \<and> wH) (storage_json ls) (initial_app ss hs slot) (saveHistory wH hs (saveActiveSignals wS ss ls))"
| tick: "persisted ok clk a ls \<Longrightarrow> app_tick now resp mk a = (a', out) \<Longrightarrow>
    persisted (ok \<and> effects_ok wS wH (history_changed now resp a) out) (clk \<and> valid_time now \<and> valid_time (mk_now mk)) a'
      (tick_effects wS wH (history_changed now resp a) out a' ls)"

text \<open>The storage holds the serialised board and history of a state.\<close>

definition synced :: "service_state app_state \<Rightarrow> local_storage \<Rightarrow> bool" where
  "synced a ls \<longleftrightarrow>
     ls ACTIVE_SIGNALS_KEY = Some (JsonText (json_stringify (JArr (map to_js_signal (signals a)))))
     \<and> ls HISTORY_KEY = Some (JsonText (json_stringify (JArr (map to_js_historical (historicalSignals a)))))"

subsection \<open>Lemmas\<close>

lemma storage_keys_distinct [simp]: "ACTIVE_SIGNALS_KEY \<noteq> HISTORY_KEY" "HISTORY_KEY \<noteq> ACTIVE_SIGNALS_KEY"
  by (simp_all add: ACTIVE_SIGNALS_KEY_def HISTORY_KEY_def)

lemma fetch_signals_history:
  "historicalSignals (fst (fetch_signals rm get now resp a)) = written_history a (snd (board_eval rm now resp a))"
  by (simp add: fetch_signals_def Let_def publish_def split: prod.split sum.split)

lemma fetch_signals_uncommitted:
  "\<not> board_committed (snd (fetch_signals rm get now resp a)) \<Longrightarrow> signals (fst (fetch_signals rm get now resp a)) = signals a"
  by (auto simp: fetch_signals_def Let_def publish_def split: prod.splits sum.splits if_splits)

lemma app_tick_effects:
  assumes "app_tick now resp mk a = (a', out)"
  shows "(\<not> board_committed out \<longrightarrow> signals a' = signals a)
    \<and> (\<not> history_changed now resp a \<longrightarrow> historicalSignals a' = historicalSignals a)"
  using assms fetch_signals_uncommitted [of svc_remove "getTradingSignals mk" now resp a]
    fetch_signals_history [of svc_remove "getTradingSignals mk" now resp a]
  by (auto simp: app_tick_def history_changed_def written_history_def)

lemma tick_effects_synced:
  assumes "synced a ls" and "app_tick now resp mk a = (a', out)"
    and "effects_ok wS wH (history_changed now resp a) out"
  shows "synced a' (tick_effects wS wH (history_changed now resp a) out a' ls)"
  using assms app_tick_effects [OF assms(2)]
  by (auto simp: synced_def tick_effects_def effects_ok_def saveActiveSignals_def saveHistory_def Let_def)

lemma persisted_synced: "persisted ok clk a ls \<Longrightarrow> ok \<Longrightarrow> synced a ls"
proof (induction rule: persisted.induct)
  case (mount ls ss hs wS wH slot)
  then show ?case by (simp add: synced_def initial_app_def saveActiveSignals_def saveHistory_def)
next
  case (tick ok clk a ls now resp mk a' out wS wH)
  then show ?case using tick_effects_synced by blast
qed

lemma persisted_reachable: "persisted ok clk a ls \<Longrightarrow> reachable a"
proof (induction rule: persisted.induct)
  case (mount ls ss hs wS wH slot)
  show ?case by (rule reachable.start)
next
  case (tick ok clk a ls now resp mk a' out wS wH)
  then show ?case using reachable.tick [OF tick.IH, of now resp mk] by simp
qed

lemma date_value_valid: "date_value y mo d h mi sec ms = Some t \<Longrightarrow> valid_time t"
  by (simp add: date_value_def time_clip_def split: if_splits)

lemma date_parse_valid: "date_parse s = Some t \<Longrightarrow> valid_time t"
  by (auto simp: date_parse_def bind_eq_Some_conv split: prod.splits if_splits dest: date_value_valid)

lemma date_reviver_dates: "dates_valid v \<Longrightarrow> dates_valid (date_reviver f k v)"
  by (auto simp: date_reviver_def split: jsval.splits option.splits dest: date_parse_valid)

lemma json_revive_dates: "json_value v \<Longrightarrow> dates_valid (json_revive f v)"
proof (induction f v rule: json_revive.induct)
  case (1 f vs)
  then show ?case by (simp add: list_all_iff)
next
  case (2 f kvs)
  then show ?case by (auto simp: list_all_iff intro!: date_reviver_dates)
qed simp_all

lemma json_stringify_value: "json_value (json_stringify v)"
  by (induction v rule: json_stringify.induct) (auto simp: list_all_iff split: option.splits)

lemma field_date_valid:
  assumes "list_all (\<lambda>(k, v). dates_valid v) kvs" and "field kvs k js_date = Some t"
  shows "valid_time t"
proof -
  obtain v where v: "map_of kvs k = Some v" "js_date v = Some t"
    using assms(2) by (auto simp: field_def bind_eq_Some_conv)
  have "dates_valid v" using assms(1) map_of_SomeD [OF v(1)] by (auto simp: list_all_iff)
  then show ?thesis using v(2) by (cases v) auto
qed

lemma signal_of_valid:
  "list_all (\<lambda>(k, v). dates_valid v) kvs \<Longrightarrow> signal_of kvs = Some s \<Longrightarrow> valid_time (timestamp s)"
  by (auto simp: signal_of_def bind_eq_Some_conv dest: field_date_valid)

lemma historical_of_valid:
  "list_all (\<lambda>(k, v). dates_valid v) kvs \<Longrightarrow> historical_of kvs = Some h
   \<Longrightarrow> valid_time (timestamp h) \<and> valid_time (resolvedAt h)"
  by (auto simp: historical_of_def bind_eq_Some_conv dest: field_date_valid signal_of_valid)

lemma those_map_SomeD: "those (map g vs) = Some xs \<Longrightarrow> x \<in> set xs \<Longrightarrow> \<exists>v\<in>set vs. g v = Some x"
proof (induction vs arbitrary: xs)
  case Nil
  then show ?case by simp
next
  case (Cons v vs)
  then show ?case by (auto split: option.splits)
qed

lemma objects_of_valid:
  assumes "dates_valid v" and "objects_of f v = Some xs"
    and "\<And>kvs x. list_all (\<lambda>(k, v). dates_valid v) kvs \<Longrightarrow> f kvs = Some x \<Longrightarrow> Q x"
  shows "\<forall>x\<in>set xs. Q x"
proof
  fix x assume x: "x \<in> set xs"
  obtain vs where vs: "v = JArr vs" "those (map (\<lambda>u. case u of JObj kvs \<Rightarrow> f kvs | _ \<Rightarrow> None) vs) = Some xs"
    using assms(2) by (cases v) (auto simp: objects_of_def)
  obtain u where u: "u \<in> set vs" "(case u of JObj kvs \<Rightarrow> f kvs | _ \<Rightarrow> None) = Some x"
    using those_map_SomeD [OF vs(2) x] by blast
  obtain kvs where "u = JObj kvs" "f kvs = Some x" using u(2) by (cases u) auto
  moreover have "dates_valid u" using assms(1) vs(1) u(1) by (simp add: list_all_iff)
  ultimately show "Q x" using assms(3) by simp
qed

lemma stored_dates:
  assumes "storage_json ls"
  shows "dates_valid (getActiveSignals ls) \<and> dates_valid (getHistory ls)"
  using assms json_revive_dates date_reviver_dates
  by (auto simp: storage_json_def getActiveSignals_def getHistory_def json_parse_def split: option.splits stored.splits)

lemma load_times:
  assumes "storage_json ls" and "load_state ls = (Some ss, Some hs)"
  shows "app_times valid_time (initial_app ss hs slot)"
proof -
  have d: "dates_valid (getActiveSignals ls)" "dates_valid (getHistory ls)" using stored_dates [OF assms(1)] by simp_all
  have a: "objects_of signal_of (getActiveSignals ls) = Some ss" "objects_of historical_of (getHistory ls) = Some hs"
    using assms(2) by (simp_all add: load_state_def)
  have "\<forall>s\<in>set ss. valid_time (timestamp s)"
    by (rule objects_of_valid [OF d(1) a(1), where Q = "\<lambda>s. valid_time (timestamp s)"]) (rule signal_of_valid)
  moreover have "\<forall>h\<in>set hs. valid_time (timestamp h) \<and> valid_time (resolvedAt h)"
    by (rule objects_of_valid [OF d(2) a(2), where Q = "\<lambda>h. valid_time (timestamp h) \<and> valid_time (resolvedAt h)"])
      (rule historical_of_valid)
  ultimately show ?thesis by (simp add: app_times_def hist_times_def cache_times_def initial_app_def)
qed

lemma persisted_times: "persisted ok clk a ls \<Longrightarrow> clk \<Longrightarrow> app_times valid_time a"
proof (induction rule: persisted.induct)
  case (mount ls ss hs wS wH slot)
  then show ?case using load_times by blast
next
  case (tick ok clk a ls now resp mk a' out wS wH)
  then show ?case using app_tick_times [of valid_time a now mk resp] by simp
qed

lemma synced_load:
  assumes "synced a ls"
    and "\<forall>h\<in>set (historicalSignals a). valid_time (timestamp h) \<and> valid_time (resolvedAt h)"
    and "\<forall>s\<in>set (signals a). valid_time (timestamp s)"
  shows "load_state ls = (Some (signals a), Some (historicalSignals a))"
proof -
  have s: "saveActiveSignals True (signals a) ls = ls" and h: "saveHistory True (historicalSignals a) ls = ls"
    using assms(1) by (simp_all add: synced_def saveActiveSignals_def saveHistory_def fun_upd_idem)
  have "getActiveSignals ls = JArr (map to_js_signal (signals a))"
    using getActiveSignals_saved [OF assms(3), of ls] s by simp
  moreover have "getHistory ls = JArr (map to_js_historical (historicalSignals a))"
    using getHistory_saved [OF assms(2), of ls] h by simp
  ultimately show ?thesis
    by (simp add: load_state_def objects_of_def comp_def to_js_historical_def historical_of_fields to_js_signal_def)
qed

text \<open>C10: in a run of the application that started from JSON texts, whose clock readings
  were all valid \<open>Date\<close>s and in which every write the effects attempted succeeded, the
  storage holds the current board and history, so that reloading the page
  (\<open>getActiveSignals\<close> and \<open>getHistory\<close> at mount) restores exactly them: every time on the
  board and in the history is one \<open>toISOString\<close> can write and \<open>Date.parse\<close> read back.\<close>

theorem reload_restores:
  assumes "persisted True True a ls"
  shows "load_state ls = (Some (signals a), Some (historicalSignals a))"
proof -
  have t: "app_times valid_time a" by (rule persisted_times [OF assms TrueI])
  show ?thesis
    using synced_load [OF persisted_synced [OF assms TrueI]] t by (simp add: app_times_def hist_times_def)
qed

theorem reload_restores_witness:
  "load_state (saveHistory True [mk_historical demo_stored WIN 12 1000] (saveActiveSignals True [demo_stored]
      (saveHistory True [mk_historical demo_stored WIN 12 1000] (saveActiveSignals True [demo_stored] Map.empty))))
   = (Some [demo_stored], Some [mk_historical demo_stored WIN 12 1000])"
proof -
  let ?h = "mk_historical demo_stored WIN 12 1000"
  let ?a = "initial_app [demo_stored] [?h] SlotEmpty"
  let ?l = "saveHistory True [?h] (saveActiveSignals True [demo_stored] Map.empty)"
  have v: "\<forall>h\<in>set (historicalSignals ?a). valid_time (timestamp h) \<and> valid_time (resolvedAt h)"
    "\<forall>s\<in>set (signals ?a). valid_time (timestamp s)"
    by (simp_all add: initial_app_def valid_time_def demo_stored_def)
  have "synced ?a ?l"
    by (simp add: synced_def initial_app_def saveActiveSignals_def saveHistory_def)
  then have "load_state ?l = (Some [demo_stored], Some [?h])"
    using synced_load [OF _ v] by (simp add: initial_app_def)
  moreover have "storage_json (saveHistory True [?h] (saveActiveSignals True [demo_stored] Map.empty))"
    by (simp add: storage_json_def saveHistory_def saveActiveSignals_def json_stringify_value)
  ultimately have "persisted (True \<and> True) True ?a (saveHistory True [?h] (saveActiveSignals True [demo_stored] ?l))"
    using persisted.mount [of ?l "[demo_stored]" "[?h]" True True SlotEmpty] by simp
  then show ?thesis using reload_restores by (simp add: initial_app_def)
qed

end
