(* ===== verification/Display.thy ===== *)
theory Display
  imports PriceFormat Types
begin

text \<open>
  The numeric logic of the signal card (\<open>src/components/SignalCard.tsx\<close>): the price and
  target formatters, the market-data formatter and the leveraged percentages of the card,
  and the level of \<open>src/components/VolatilityMeter.tsx\<close>. A formatted number is modelled
  by what determines its text: \<open>toFixed(d)\<close> and \<open>toLocaleString\<close> with \<open>d\<close> fraction digits
  print the integer nearest to \<open>x * 10^d\<close> (halves away from zero) with \<open>d\<close> decimals, so
  the text is the pair of that integer and \<open>d\<close>. The lemmas show that the card displays the
  very values that \<open>formatPriceValue\<close> stores, as the rounding rule of the specification
  requires.
\<close>

subsection \<open>Formatted numbers\<close>

text \<open>The integer a fixed-point text of \<open>x\<close> with \<open>d\<close> decimals shows (halves away from zero,
  as \<open>Number.prototype.toFixed\<close> and the \<open>halfExpand\<close> mode of \<open>Intl\<close> round).\<close>

definition fixed_mantissa :: "nat \<Rightarrow> real \<Rightarrow> int" where
  "fixed_mantissa d x = (if x < 0 then - \<lfloor>- x * 10 ^ d + 1 / 2\<rfloor> else \<lfloor>x * 10 ^ d + 1 / 2\<rfloor>)"

datatype number_text = NotANumber | FixedText int nat | CurrencyText int nat

text \<open>The number a text denotes.\<close>

fun text_value :: "number_text \<Rightarrow> real option" where
  "text_value NotANumber = None"
| "text_value (FixedText k d) = Some (of_int k / 10 ^ d)"
| "text_value (CurrencyText k d) = Some (of_int k / 10 ^ d)"

subsection \<open>\<open>formatPrice\<close> and \<open>formatTargetPrice\<close>\<close>

text \<open>Lines 31-71: the fraction digits of \<open>formatPrice\<close>.\<close>

definition price_decimals :: "real \<Rightarrow> nat" where
  "price_decimals value =
     (if value \<ge> 1 then (if value > 100 then 2 else 4)
      else if value > 0 then decimal_places (leading_zeros (fixed20_decimals value))
      else 2)"

text \<open>Lines 23-74, for a number (\<open>isNaN\<close> never holds of a real).\<close>

definition formatPrice :: "real \<Rightarrow> number_text" where
  "formatPrice value = CurrencyText (fixed_mantissa (price_decimals value) value) (price_decimals value)"

text \<open>Lines 76-119.\<close>

definition formatTargetPrice :: "real \<Rightarrow> number_text" where
  "formatTargetPrice value =
     (if value \<le> 0 then FixedText 0 2
      else if value \<ge> 1 then
        (let decimals = (if value > 100 then 2 else 4)
         in FixedText (fixed_mantissa decimals value) decimals)
      else
        (let decimalPlaces = decimal_places (leading_zeros (fixed20_decimals value))
         in FixedText (fixed_mantissa decimalPlaces value) decimalPlaces))"

subsection \<open>\<open>formatMarketData\<close>\<close>

datatype market_value = MarketText string | MarketNumber real

datatype market_text = RawText string | NoData | Scaled int char | PlainNumber real

text \<open>Lines 121-138: billions, millions and thousands with two decimals and a suffix.\<close>

definition formatMarketData :: "market_value \<Rightarrow> market_text" where
  "formatMarketData v =
     (case v of
        MarketText s \<Rightarrow> RawText s
      | MarketNumber x \<Rightarrow>
          if x = 0 then NoData
          else if x \<ge> 1000000000 then Scaled (fixed_mantissa 2 (x / 1000000000)) (CHR ''B'')
          else if x \<ge> 1000000 then Scaled (fixed_mantissa 2 (x / 1000000)) (CHR ''M'')
          else if x \<ge> 1000 then Scaled (fixed_mantissa 2 (x / 1000)) (CHR ''K'')
          else PlainNumber x)"

subsection \<open>The leveraged percentages of the card\<close>

text \<open>Lines 291-301: the move to the stop and to each target from the live price, times the
  leverage.\<close>

definition lossPercent :: "trading_signal \<Rightarrow> real" where
  "lossPercent s =
     (if direction s = LONG then (stopLoss s - price s) / price s * 100 * of_int (safeLeverage s)
      else (price s - stopLoss s) / price s * 100 * of_int (safeLeverage s))"

definition profitPercents :: "trading_signal \<Rightarrow> real list" where
  "profitPercents s =
     map (\<lambda>tp. if direction s = LONG then (tp - price s) / price s * 100 * of_int (safeLeverage s)
               else (price s - tp) / price s * 100 * of_int (safeLeverage s)) (takeProfit s)"

subsection \<open>The volatility meter\<close>

text \<open>\<open>VolatilityMeter.tsx\<close> lines 8-14.\<close>

definition getLevel :: "real \<Rightarrow> real list \<Rightarrow> nat" where
  "getLevel value thresholds =
     (if value < thresholds ! 0 then 1 else if value < thresholds ! 1 then 2
      else if value < thresholds ! 2 then 3 else if value < thresholds ! 3 then 4 else 5)"

text \<open>Lines 16-27: the level shown, \<open>None\<close> when the volume is absent (nothing is rendered).\<close>

definition meterLevel :: "real \<Rightarrow> real option \<Rightarrow> int option" where
  "meterLevel volatility volume =
     (case volume of
        None \<Rightarrow> None
      | Some vol \<Rightarrow>
          (let volatilityLevel = getLevel \<bar>volatility\<bar> [2, 5, 10, 20];
               volumeLevel = getLevel vol [10000000, 50000000, 200000000, 1000000000]
           in Some (max 1 (js_round (real (volatilityLevel + volumeLevel) / 2)))))"

subsection \<open>Lemmas\<close>

lemma fixed_value: "0 \<le> x \<Longrightarrow> of_int (fixed_mantissa d x) / 10 ^ d = to_fixed d x"
  by (simp add: fixed_mantissa_def to_fixed_def)

lemma getLevel_bounds: "1 \<le> getLevel v ts \<and> getLevel v ts \<le> 5"
  by (simp add: getLevel_def)

subsection \<open>Properties of the card\<close>

text \<open>C28: the target the card prints (\<open>formatTargetPrice\<close>) denotes exactly the stored target
  (\<open>formatPriceValue\<close>), for every number: the two copies of the leading-zero rule agree.\<close>

theorem target_display_matches_storage:
  "text_value (formatTargetPrice x) = Some (formatPriceValue x)"
  by (simp add: formatTargetPrice_def formatPriceValue_def fixed_value Let_def)

text \<open>For a positive price the currency text of \<open>formatPrice\<close> denotes the stored value
  too (zero and negative prices are printed with two decimals but stored as 0).\<close>

theorem card_price_matches_storage:
  assumes "0 < x"
  shows "text_value (formatPrice x) = Some (formatPriceValue x)"
  using assms by (simp add: formatPrice_def price_decimals_def formatPriceValue_def fixed_value)

theorem card_price_matches_storage_witness:
  "0 < (1000045 / 1000000 :: real) \<and>
   text_value (formatPrice (1000045 / 1000000)) = Some (formatPriceValue (1000045 / 1000000))"
  using card_price_matches_storage [of "1000045 / 1000000"] by simp

text \<open>The volatility meter shows a level from 1 to 5.\<close>

theorem meter_level_bounds:
  assumes "meterLevel volatility volume = Some l"
  shows "1 \<le> l \<and> l \<le> 5"
proof -
  obtain vol where "volume = Some vol" using assms by (cases volume) (simp_all add: meterLevel_def)
  let ?a = "getLevel \<bar>volatility\<bar> [2, 5, 10, 20]" and ?b = "getLevel vol [10000000, 50000000, 200000000, 1000000000]"
  have l: "l = max 1 (js_round (real (?a + ?b) / 2))"
    using assms \<open>volume = Some vol\<close> by (simp add: meterLevel_def Let_def)
  have "2 \<le> ?a + ?b" "?a + ?b \<le> 10"
    using getLevel_bounds [of "\<bar>volatility\<bar>" "[2, 5, 10, 20]"]
      getLevel_bounds [of vol "[10000000, 50000000, 200000000, 1000000000]"] by linarith+
  then have "of_int 1 \<le> real (?a + ?b) / 2" "real (?a + ?b) / 2 \<le> of_int 5" by simp_all
  from js_round_bounds [OF this] l show ?thesis by simp
qed

theorem meter_level_bounds_witness:
  "meterLevel 3 (Some 60000000) = Some 3 \<and> 1 \<le> (3::int) \<and> (3::int) \<le> 5"
proof -
  have h: "meterLevel 3 (Some 60000000) = Some 3"
    by (simp add: meterLevel_def getLevel_def js_round_def)
  show ?thesis using meter_level_bounds [OF h] h by simp
qed

end
