(* ===== verification/Sentiment.thy ===== *)
theory Sentiment
  imports Indicators
begin

text \<open>
  \<open>getMarketSentiment\<close> of \<open>src/services/sentimentService.ts\<close>: the thirty USDT altcoins
  with the largest quote volume (Bitcoin and Ether excluded) each vote with their last hour
  of 15-minute candles, up when the last close is above the first open and down when below;
  a strict majority decides and anything else is neutral. The ticker snapshot is
  \<open>None\<close> when \<open>getAllFuturesTickers\<close> throws (the catch returns \<open>NEUTRAL\<close>), and the candles
  of a symbol are \<open>None\<close> when their fetch is rejected by \<open>Promise.allSettled\<close>. The lemmas
  show which symbols are consulted and that the \<open>forEach\<close> tally is the majority of the
  successful fetches.
\<close>

text \<open>Lines 18-21: eligible, by quote volume, largest first (a stable sort), the first thirty.\<close>

definition sentiment_eligible :: "binance_ticker \<Rightarrow> bool" where
  "sentiment_eligible t \<longleftrightarrow>
     js_ends_with (tk_symbol t) ''USDT'' \<and> tk_symbol t \<noteq> ''BTCUSDT'' \<and> tk_symbol t \<noteq> ''ETHUSDT''"

definition topAltcoins :: "binance_ticker list \<Rightarrow> binance_ticker list" where
  "topAltcoins allTickers =
     take 30 (sort_key (\<lambda>t. - tk_quoteVolume t) (filter sentiment_eligible allTickers))"

text \<open>Lines 39-61: the counts after one settled result.\<close>

definition tally :: "nat \<times> nat \<Rightarrow> kline list option \<Rightarrow> nat \<times> nat" where
  "tally counts result =
     (case result of
        Some klines \<Rightarrow>
          if klines \<noteq> [] then
            (let open = k_open (hd klines); close = k_close (last klines)
             in if close > open then (fst counts + 1, snd counts)
                else if close < open then (fst counts, snd counts + 1) else counts)
          else counts
      | None \<Rightarrow> counts)"

text \<open>Lines 13-75.\<close>

definition getMarketSentiment ::
  "binance_ticker list option \<Rightarrow> (sym \<Rightarrow> kline list option) \<Rightarrow> market_sentiment" where
  "getMarketSentiment resp klinesOf =
     (case getAllFuturesTickers resp of
        None \<Rightarrow> NEUTRAL
      | Some allTickers \<Rightarrow>
          (let top = topAltcoins allTickers
           in if top = [] then NEUTRAL
              else
                (let counts = foldl tally (0, 0) (map (\<lambda>t. klinesOf (tk_symbol t)) top);
                     bullishCount = fst counts; bearishCount = snd counts
                 in if bullishCount > bearishCount then BULLISH
                    else if bearishCount > bullishCount then BEARISH else NEUTRAL)))"

subsection \<open>Specification vocabulary\<close>

text \<open>A settled result that shows a rise, or a fall.\<close>

definition rose :: "kline list option \<Rightarrow> bool" where
  "rose r \<longleftrightarrow> (case r of Some ks \<Rightarrow> ks \<noteq> [] \<and> k_close (last ks) > k_open (hd ks) | None \<Rightarrow> False)"

definition fell :: "kline list option \<Rightarrow> bool" where
  "fell r \<longleftrightarrow> (case r of Some ks \<Rightarrow> ks \<noteq> [] \<and> k_close (last ks) < k_open (hd ks) | None \<Rightarrow> False)"

subsection \<open>An example\<close>

text \<open>Thirty-one altcoins ALTA ... with quote volumes 0 to 30: the one of volume 0 is left out.\<close>

definition alt_ticker :: "nat \<Rightarrow> binance_ticker" where
  "alt_ticker k = \<lparr>tk_symbol = ''ALT'' @ [char_of (65 + k)] @ ''USDT'', priceChangePercent = 0,
     lastPrice = 1, tk_quoteVolume = real k\<rparr>"

definition demo_alts :: "binance_ticker list" where
  "demo_alts = map alt_ticker [0..<31]"

subsection \<open>Lemmas\<close>

lemma foldl_tally:
  "foldl tally c rs = (fst c + length (filter rose rs), snd c + length (filter fell rs))"
proof (induction rs arbitrary: c)
  case (Cons r rs)
  have "foldl tally c (r # rs) = foldl tally (tally c r) rs" by simp
  also have "\<dots> = (fst (tally c r) + length (filter rose rs), snd (tally c r) + length (filter fell rs))"
    by (rule Cons.IH)
  also have "\<dots> = (fst c + length (filter rose (r # rs)), snd c + length (filter fell (r # rs)))"
    by (cases r) (auto simp: tally_def rose_def fell_def Let_def)
  finally show ?case .
qed simp

lemma sorted_take_drop:
  assumes "sorted (map f xs)" and "u \<in> set (take n xs)" and "v \<in> set (drop n xs)"
  shows "f u \<le> f v"
proof -
  have "sorted (map f (take n xs) @ map f (drop n xs))"
    using assms(1) by (simp flip: map_append)
  with assms(2,3) show ?thesis by (auto simp: sorted_append)
qed

subsection \<open>Properties of the sentiment\<close>

text \<open>C31: the vote consults at most thirty tickers, all eligible (USDT, neither BTCUSDT nor
  ETHUSDT), and no eligible ticker left out has a larger quote volume than one consulted.\<close>

theorem sentiment_sample:
  "length (topAltcoins ts) \<le> 30 \<and> set (topAltcoins ts) \<subseteq> {t \<in> set ts. sentiment_eligible t}
   \<and> (\<forall>t\<in>set ts. sentiment_eligible t \<and> t \<notin> set (topAltcoins ts) \<longrightarrow>
        (\<forall>u\<in>set (topAltcoins ts). tk_quoteVolume t \<le> tk_quoteVolume u))"
proof -
  let ?ys = "sort_key (\<lambda>t. - tk_quoteVolume t) (filter sentiment_eligible ts)"
  have top: "topAltcoins ts = take 30 ?ys" by (simp add: topAltcoins_def)
  have s: "sorted (map (\<lambda>t. - tk_quoteVolume t) ?ys)" by (rule sorted_sort_key)
  have split: "set ?ys = set (take 30 ?ys) \<union> set (drop 30 ?ys)"
    by (metis append_take_drop_id set_append)
  have sub: "set (topAltcoins ts) \<subseteq> {t \<in> set ts. sentiment_eligible t}"
    unfolding top using set_take_subset by fastforce
  have "tk_quoteVolume t \<le> tk_quoteVolume u"
    if "t \<in> set ts" "sentiment_eligible t" "t \<notin> set (topAltcoins ts)" "u \<in> set (topAltcoins ts)" for t u
  proof -
    have "t \<in> set (drop 30 ?ys)" using that(1-3) split unfolding top by auto
    with sorted_take_drop [OF s, of u 30] that(4) show ?thesis unfolding top by simp
  qed
  with sub show ?thesis by (auto simp: top)
qed

theorem sentiment_sample_witness:
  "alt_ticker 0 \<in> set demo_alts \<and> sentiment_eligible (alt_ticker 0) \<and> alt_ticker 0 \<notin> set (topAltcoins demo_alts)
   \<and> alt_ticker 30 \<in> set (topAltcoins demo_alts) \<and> length (topAltcoins demo_alts) \<le> 30
   \<and> tk_quoteVolume (alt_ticker 0) \<le> tk_quoteVolume (alt_ticker 30)"
proof -
  have f: "alt_ticker 0 \<in> set demo_alts" "sentiment_eligible (alt_ticker 0)"
    "alt_ticker 0 \<notin> set (topAltcoins demo_alts)" "alt_ticker 30 \<in> set (topAltcoins demo_alts)"
    by (simp_all add: topAltcoins_def demo_alts_def alt_ticker_def sentiment_eligible_def js_ends_with_def upt_rec)
  show ?thesis using sentiment_sample [of demo_alts] f by blast
qed

text \<open>The \<open>forEach\<close> tally is the majority vote of the settled results: bullish exactly
  when more fetched candle series rose than fell, bearish in the mirror case, neutral on a tie,
  when every fetch failed, and when the ticker snapshot failed.\<close>

theorem sentiment_majority:
  "getMarketSentiment resp klinesOf =
     (case getAllFuturesTickers resp of
        None \<Rightarrow> NEUTRAL
      | Some ts \<Rightarrow>
          (let rs = map (\<lambda>t. klinesOf (tk_symbol t)) (topAltcoins ts)
           in if length (filter rose rs) > length (filter fell rs) then BULLISH
              else if length (filter fell rs) > length (filter rose rs) then BEARISH else NEUTRAL))"
  by (auto simp: getMarketSentiment_def foldl_tally Let_def split: option.splits)

end
