(* ===== verification/Proxy.thy ===== *)
theory Proxy
  imports Prelude
begin

text \<open>
  The proxy layer in front of the Binance futures API: the response cache and the per-IP
  rate limiter of \<open>src/api/_lib/proxy-helpers.ts\<close> (a verbatim copy is
  \<open>src/functions/src/proxy-helpers.ts\<close>, whose limiter is an Express middleware), and the
  route handlers of \<open>src/api/ticker.ts\<close>, \<open>src/api/exchangeInfo.ts\<close>,
  \<open>src/api/klines/index.ts\<close> and \<open>src/functions/src/index.ts\<close>. The two module maps
  \<open>cache\<close> and \<open>ipRequests\<close> are the record \<open>proxy_state\<close>; the JSON payloads are a type
  parameter \<open>'d\<close>. A handler runs in two synchronous halves separated by the \<open>await\<close> of
  the upstream \<open>fetch\<close>: the first checks the limit, validates the query and looks up the
  cache; the second stores and returns the upstream answer. Other requests may run between
  the halves, which the inductive set \<open>proxy_reachable\<close> allows. The lemmas show that every
  HIT is Binance's answer to a request with the same cache key fetched less than fifteen
  seconds before, that the limiter admits at most 89 requests of one client in any minute,
  that it never locks a client out for good, and that the client address it keys on is a
  header the client chooses.
\<close>

section \<open>The cache and the rate limiter\<close>

text \<open>Lines 1-3 and 22-25.\<close>

definition CACHE_DURATION_MS :: int where
  "CACHE_DURATION_MS = 15 * 1000"

definition RATE_LIMIT_WINDOW_MS :: int where
  "RATE_LIMIT_WINDOW_MS = 60 * 1000"

definition RATE_LIMIT_MAX_REQUESTS :: int where
  "RATE_LIMIT_MAX_REQUESTS = 45"

record 'd cache_entry =
  ce_data :: 'd
  ce_timestamp :: millis

record rate_entry =
  re_count :: int
  re_startTime :: millis

record 'd proxy_state =
  cache :: "string \<Rightarrow> 'd cache_entry option"
  ipRequests :: "string \<Rightarrow> rate_entry option"

text \<open>Lines 5-15: a fresh entry is returned, an expired one is deleted. The handlers test
  the result with \<open>if (cachedData)\<close>; Binance answers with JSON arrays and objects, which are
  truthy, so a stored payload counts as a hit.\<close>

definition getFromCache :: "string \<Rightarrow> millis \<Rightarrow> 'd proxy_state \<Rightarrow> 'd option \<times> 'd proxy_state" where
  "getFromCache key now st =
     (case cache st key of
        Some entry \<Rightarrow>
          if now - ce_timestamp entry < CACHE_DURATION_MS then (Some (ce_data entry), st)
          else (None, st\<lparr>cache := (cache st)(key := None)\<rparr>)
      | None \<Rightarrow> (None, st))"

text \<open>Lines 17-19.\<close>

definition setInCache :: "string \<Rightarrow> 'd \<Rightarrow> millis \<Rightarrow> 'd proxy_state \<Rightarrow> 'd proxy_state" where
  "setInCache key d now st = st\<lparr>cache := (cache st)(key \<mapsto> \<lparr>ce_data = d, ce_timestamp = now\<rparr>)\<rparr>"

text \<open>Lines 31-50 for the entry of one address: a first request opens a window with count 1,
  a request more than a minute after the window opened opens a new one, any other request
  increments the count in place (\<open>entry.count++\<close> on the object the map holds) and is
  refused once the count exceeds 45.\<close>

definition limiter_step :: "rate_entry option \<Rightarrow> millis \<Rightarrow> bool \<times> rate_entry" where
  "limiter_step e now =
     (case e of
        None \<Rightarrow> (True, \<lparr>re_count = 1, re_startTime = now\<rparr>)
      | Some entry \<Rightarrow>
          if now - re_startTime entry > RATE_LIMIT_WINDOW_MS then (True, \<lparr>re_count = 1, re_startTime = now\<rparr>)
          else (let entry' = entry\<lparr>re_count := re_count entry + 1\<rparr>
                in (\<not> re_count entry' > RATE_LIMIT_MAX_REQUESTS, entry')))"

text \<open>Lines 27-52: \<open>checkRateLimit\<close> for the client address \<open>ip\<close>; \<open>False\<close> means the function
  has answered 429 and the handler returns.\<close>

definition checkRateLimit :: "string \<Rightarrow> millis \<Rightarrow> 'd proxy_state \<Rightarrow> bool \<times> 'd proxy_state" where
  "checkRateLimit ip now st =
     (let r = limiter_step (ipRequests st ip) now
      in (fst r, st\<lparr>ipRequests := (ipRequests st)(ip \<mapsto> snd r)\<rparr>))"

text \<open>JavaScript's \<open>a || b\<close> on an optional string: an absent or empty string is falsy.\<close>

fun js_or :: "string option \<Rightarrow> string \<Rightarrow> string" where
  "js_or None d = d"
| "js_or (Some s) d = (if s = [] then d else s)"

text \<open>Line 29: the client address, the \<open>X-Forwarded-For\<close> header first, then the socket's
  remote address.\<close>

definition client_ip :: "string option \<Rightarrow> string option \<Rightarrow> string" where
  "client_ip forwardedFor remoteAddress = js_or forwardedFor (js_or remoteAddress ''unknown'')"

section \<open>Responses and upstream answers\<close>

datatype 'd body = Payload 'd | ErrorMessage string

record 'd response =
  rs_status :: nat
  rs_body :: "'d body"
  rs_xcache :: "string option"

text \<open>What \<open>fetch\<close> of a Binance endpoint gives: a rejected promise, a response that is
  not ok with its status, or an ok one; the payload is \<open>None\<close> when \<open>response.json()\<close>
  throws.\<close>

datatype 'd upstream = FetchFailed | HttpError nat "'d option" | HttpOk "'d option"

text \<open>The three upstream requests; the klines request carries \<open>symbol\<close>, \<open>interval\<close> and
  the \<open>limit\<close> parameter when one is appended.\<close>

datatype binance_request = TickerReq | ExchangeInfoReq | KlinesReq string string "string option"

text \<open>A handler after its first half: answered, or waiting for the upstream request, with
  the cache key and the message of its 502 answer.\<close>

datatype 'd phase = Responded "'d response" | Awaiting binance_request string string

definition json_response :: "nat \<Rightarrow> 'd body \<Rightarrow> 'd response" where
  "json_response code b = \<lparr>rs_status = code, rs_body = b, rs_xcache = None\<rparr>"

definition TOO_MANY_REQUESTS :: "'d response" where
  "TOO_MANY_REQUESTS = json_response 429 (ErrorMessage ''Too Many Requests'')"

section \<open>The handlers\<close>

text \<open>\<open>src/api/ticker.ts\<close> lines 8-14: the cache lookup every handler makes after its checks.\<close>

definition cached_or_fetch ::
  "binance_request \<Rightarrow> string \<Rightarrow> string \<Rightarrow> millis \<Rightarrow> 'd proxy_state \<Rightarrow> 'd phase \<times> 'd proxy_state" where
  "cached_or_fetch req key msg now st =
     (case getFromCache key now st of
        (Some cachedData, st') \<Rightarrow> (Responded \<lparr>rs_status = 200, rs_body = Payload cachedData, rs_xcache = Some ''HIT''\<rparr>, st')
      | (None, st') \<Rightarrow> (Awaiting req key msg, st'))"

text \<open>\<open>src/api/ticker.ts\<close> lines 16-31, after the \<open>await\<close>: a response that is not ok is
  passed through with its status, an ok one is cached and returned as a MISS, and a
  rejection (or a body that is not JSON) is answered 502.\<close>

definition complete_fetch ::
  "string \<Rightarrow> string \<Rightarrow> millis \<Rightarrow> 'd upstream \<Rightarrow> 'd proxy_state \<Rightarrow> 'd response \<times> 'd proxy_state" where
  "complete_fetch key msg now up st =
     (case up of
        HttpError code (Some b) \<Rightarrow> (json_response code (Payload b), st)
      | HttpOk (Some data) \<Rightarrow>
          (\<lparr>rs_status = 200, rs_body = Payload data, rs_xcache = Some ''MISS''\<rparr>, setInCache key data now st)
      | _ \<Rightarrow> (json_response 502 (ErrorMessage msg), st))"

text \<open>\<open>src/api/ticker.ts\<close> lines 4-6, the guard every Vercel handler opens with:
  \<open>if (!checkRateLimit(req, res)) return;\<close>.\<close>

definition with_rate_limit ::
  "string \<Rightarrow> millis \<Rightarrow> 'd proxy_state \<Rightarrow> ('d proxy_state \<Rightarrow> 'd phase \<times> 'd proxy_state) \<Rightarrow> 'd phase \<times> 'd proxy_state" where
  "with_rate_limit ip now st body =
     (let r = checkRateLimit ip now st
      in if \<not> fst r then (Responded TOO_MANY_REQUESTS, snd r) else body (snd r))"

text \<open>\<open>src/api/ticker.ts\<close> lines 3-13.\<close>

definition ticker_start :: "string \<Rightarrow> millis \<Rightarrow> 'd proxy_state \<Rightarrow> 'd phase \<times> 'd proxy_state" where
  "ticker_start ip now st =
     with_rate_limit ip now st
       (cached_or_fetch TickerReq ''ticker_24hr'' ''Failed to fetch data from upstream API'' now)"

text \<open>\<open>src/api/exchangeInfo.ts\<close> lines 6-17.\<close>

definition exchangeInfo_start :: "string \<Rightarrow> millis \<Rightarrow> 'd proxy_state \<Rightarrow> 'd phase \<times> 'd proxy_state" where
  "exchangeInfo_start ip now st =
     with_rate_limit ip now st
       (cached_or_fetch ExchangeInfoReq ''exchange_info'' ''Failed to fetch exchange info from upstream API'' now)"

text \<open>\<open>src/api/klines/index.ts\<close> line 14: the cache key of a klines query.\<close>

definition klines_key :: "string \<Rightarrow> string \<Rightarrow> string option \<Rightarrow> string" where
  "klines_key symbol interval limit = ''klines_'' @ symbol @ ''_'' @ interval @ ''_'' @ js_or limit ''default''"

text \<open>Lines 23-28: the query string sent upstream, \<open>limit\<close> only when it is truthy.\<close>

definition klines_request :: "string \<Rightarrow> string \<Rightarrow> string option \<Rightarrow> binance_request" where
  "klines_request symbol interval limit =
     KlinesReq symbol interval (if js_or limit [] = [] then None else limit)"

text \<open>\<open>src/api/klines/index.ts\<close> lines 3-20, with the query's \<open>symbol\<close>, \<open>interval\<close> and
  \<open>limit\<close> (\<open>None\<close> when absent).\<close>

definition klines_start ::
  "string \<Rightarrow> string option \<Rightarrow> string option \<Rightarrow> string option \<Rightarrow> millis \<Rightarrow> 'd proxy_state \<Rightarrow> 'd phase \<times> 'd proxy_state" where
  "klines_start ip symbol interval limit now st =
     with_rate_limit ip now st (\<lambda>st'.
       if js_or symbol [] = [] \<or> js_or interval [] = [] then
         (Responded (json_response 400 (ErrorMessage ''Missing required query parameters: symbol, interval'')), st')
       else
         (let s = the symbol; i = the interval
          in cached_or_fetch (klines_request s i limit) (klines_key s i limit)
               (''Failed to fetch kline data for '' @ s) now st'))"

text \<open>A handler run without interleaving: the first half at \<open>t0\<close>, the upstream answer
  \<open>up\<close> and the second half at \<open>t1\<close>.\<close>

definition run_handler ::
  "('d phase \<times> 'd proxy_state) \<Rightarrow> millis \<Rightarrow> 'd upstream \<Rightarrow> 'd response \<times> 'd proxy_state" where
  "run_handler first t1 up =
     (case first of
        (Responded r, st) \<Rightarrow> (r, st)
      | (Awaiting req key msg, st) \<Rightarrow> complete_fetch key msg t1 up st)"

subsection \<open>The Express deployment\<close>

text \<open>\<open>src/functions/src/proxy-helpers.ts\<close> lines 29-58: the same limiter as middleware;
  the address is \<open>req.ip\<close>, and an admitted request continues with \<open>next()\<close>.\<close>

datatype 'd middleware_result = Next | Respond "'d response"

definition checkRateLimit_middleware ::
  "string option \<Rightarrow> millis \<Rightarrow> 'd proxy_state \<Rightarrow> 'd middleware_result \<times> 'd proxy_state" where
  "checkRateLimit_middleware reqIp now st =
     (let r = checkRateLimit (js_or reqIp ''unknown'') now st
      in (if fst r then Next else Respond TOO_MANY_REQUESTS, snd r))"

datatype route = RouteTicker | RouteKlines "string option" "string option" "string option" | RouteExchangeInfo

text \<open>\<open>src/functions/src/index.ts\<close> lines 13-114: the middleware of line 13, then the route.\<close>

definition express_start :: "string option \<Rightarrow> route \<Rightarrow> millis \<Rightarrow> 'd proxy_state \<Rightarrow> 'd phase \<times> 'd proxy_state" where
  "express_start reqIp rt now st =
     (case checkRateLimit_middleware reqIp now st of
        (Respond r, st') \<Rightarrow> (Responded r, st')
      | (Next, st') \<Rightarrow>
          (case rt of
             RouteTicker \<Rightarrow> cached_or_fetch TickerReq ''ticker_24hr'' ''Failed to fetch data from upstream API'' now st'
           | RouteExchangeInfo \<Rightarrow>
               cached_or_fetch ExchangeInfoReq ''exchange_info'' ''Failed to fetch exchange info from upstream API'' now st'
           | RouteKlines symbol interval limit \<Rightarrow>
               if js_or symbol [] = [] \<or> js_or interval [] = [] then
                 (Responded (json_response 400 (ErrorMessage ''Missing required query parameters: symbol, interval'')), st')
               else
                 (let s = the symbol; i = the interval
                  in cached_or_fetch (klines_request s i limit) (klines_key s i limit)
                       (''Failed to fetch kline data for '' @ s) now st')))"

section \<open>Runs with interleaved requests\<close>

text \<open>The cache key of an upstream request.\<close>

fun request_key :: "binance_request \<Rightarrow> string" where
  "request_key TickerReq = ''ticker_24hr''"
| "request_key ExchangeInfoReq = ''exchange_info''"
| "request_key (KlinesReq s i l) = klines_key s i l"

text \<open>A first half of any of the handlers.\<close>

inductive handler_start :: "'d proxy_state \<Rightarrow> millis \<Rightarrow> 'd phase \<times> 'd proxy_state \<Rightarrow> bool" where
  ticker: "handler_start st now (ticker_start ip now st)"
| exchangeInfo: "handler_start st now (exchangeInfo_start ip now st)"
| klines: "handler_start st now (klines_start ip symbol interval limit now st)"
| express: "handler_start st now (express_start reqIp rt now st)"

text \<open>States of one server instance: the proxy state and the requests awaiting their upstream
  answer. Binance's answer to request \<open>q\<close> at time \<open>t\<close> is \<open>up q t\<close>; any first half
  may run at any time, and any pending request may complete at any time.\<close>

inductive proxy_reachable ::
  "(binance_request \<Rightarrow> millis \<Rightarrow> 'd upstream) \<Rightarrow> 'd proxy_state \<Rightarrow> (binance_request \<times> string \<times> string) list \<Rightarrow> bool"
  for up where
  init: "proxy_reachable up \<lparr>cache = Map.empty, ipRequests = Map.empty\<rparr> []"
| answered: "proxy_reachable up st P \<Longrightarrow> handler_start st now (Responded r, st') \<Longrightarrow> proxy_reachable up st' P"
| awaiting: "proxy_reachable up st P \<Longrightarrow> handler_start st now (Awaiting q key msg, st') \<Longrightarrow>
             proxy_reachable up st' ((q, key, msg) # P)"
| completed: "proxy_reachable up st P \<Longrightarrow> (q, key, msg) \<in> set P \<Longrightarrow>
             proxy_reachable up (snd (complete_fetch key msg now (up q now) st)) (remove1 (q, key, msg) P)"

section \<open>Specification vocabulary\<close>

text \<open>The cache holds only answers Binance gave: every entry is the payload of an ok answer
  to a request with the entry's key, at the entry's time; and every pending request awaits
  under its own key.\<close>

definition cache_coherent ::
  "(binance_request \<Rightarrow> millis \<Rightarrow> 'd upstream) \<Rightarrow> 'd proxy_state \<Rightarrow> (binance_request \<times> string \<times> string) list \<Rightarrow> bool" where
  "cache_coherent up st P \<longleftrightarrow>
     (\<forall>k e. cache st k = Some e \<longrightarrow> (\<exists>q. request_key q = k \<and> up q (ce_timestamp e) = HttpOk (Some (ce_data e))))
     \<and> (\<forall>p\<in>set P. fst (snd p) = request_key (fst p))"

text \<open>Requests Binance answers: intervals are names such as \<open>1h\<close> (no underscore) and a
  limit is a decimal number. Symbols may contain underscores (\<open>BTCUSDT_250627\<close>).\<close>

definition decimal_digits :: "string \<Rightarrow> bool" where
  "decimal_digits x \<longleftrightarrow> x \<noteq> [] \<and> set x \<subseteq> set ''0123456789''"

fun valid_request :: "binance_request \<Rightarrow> bool" where
  "valid_request (KlinesReq s i l) \<longleftrightarrow> CHR ''_'' \<notin> set i \<and> (case l of None \<Rightarrow> True | Some x \<Rightarrow> decimal_digits x)"
| "valid_request _ = True"

text \<open>What the first half of a handler may do to the cache: drop entries, never add one;
  and a request it leaves waiting waits under its own key.\<close>

definition phase_ok :: "'d proxy_state \<Rightarrow> 'd phase \<times> 'd proxy_state \<Rightarrow> bool" where
  "phase_ok st r \<longleftrightarrow>
     cache (snd r) \<subseteq>\<^sub>m cache st \<and> (\<forall>q key msg. fst r = Awaiting q key msg \<longrightarrow> key = request_key q)"

subsection \<open>Runs of the rate limiter\<close>

text \<open>The module's maps at a cold start of the server instance.\<close>

definition empty_proxy :: "'d proxy_state" where
  "empty_proxy = \<lparr>cache = Map.empty, ipRequests = Map.empty\<rparr>"

text \<open>A sequence of requests, each a client address and its arrival time, through
  \<open>checkRateLimit\<close>: the answers, and the state after them.\<close>

fun rate_run :: "(string \<times> millis) list \<Rightarrow> 'd proxy_state \<Rightarrow> bool list" where
  "rate_run [] st = []"
| "rate_run ((ip, t) # rs) st = fst (checkRateLimit ip t st) # rate_run rs (snd (checkRateLimit ip t st))"

fun rate_state :: "(string \<times> millis) list \<Rightarrow> 'd proxy_state \<Rightarrow> 'd proxy_state" where
  "rate_state [] st = st"
| "rate_state ((ip, t) # rs) st = rate_state rs (snd (checkRateLimit ip t st))"

text \<open>The answers to the requests of one address, from its entry.\<close>

fun limiter_run :: "rate_entry option \<Rightarrow> millis list \<Rightarrow> bool list" where
  "limiter_run e [] = []"
| "limiter_run e (t # ts) = fst (limiter_step e t) # limiter_run (Some (snd (limiter_step e t))) ts"

text \<open>How many requests of \<open>ip\<close> arriving in the minute from \<open>a\<close> to \<open>a + 60000\<close> were admitted.\<close>

definition admitted_in :: "string \<Rightarrow> millis \<Rightarrow> (string \<times> millis) list \<Rightarrow> bool list \<Rightarrow> nat" where
  "admitted_in ip a rs oks =
     length (filter (\<lambda>(r, ok). fst r = ip \<and> ok \<and> a \<le> snd r \<and> snd r \<le> a + RATE_LIMIT_WINDOW_MS) (zip rs oks))"

text \<open>The same count over the times of one address.\<close>

definition admitted_times :: "millis \<Rightarrow> millis list \<Rightarrow> bool list \<Rightarrow> nat" where
  "admitted_times a ts oks = length (filter (\<lambda>(t, ok). ok \<and> a \<le> t \<and> t \<le> a + RATE_LIMIT_WINDOW_MS) (zip ts oks))"

text \<open>What an entry can still admit in the minute from \<open>a\<close>: the rest of its window, and
  one more window when the entry's window opened before \<open>a\<close>.\<close>

definition window_bound :: "millis \<Rightarrow> rate_entry option \<Rightarrow> int" where
  "window_bound a e =
     (case e of
        None \<Rightarrow> RATE_LIMIT_MAX_REQUESTS
      | Some en \<Rightarrow>
          if a \<le> re_startTime en then max 0 (RATE_LIMIT_MAX_REQUESTS - re_count en)
          else max 0 (RATE_LIMIT_MAX_REQUESTS - re_count en) + RATE_LIMIT_MAX_REQUESTS)"

text \<open>One client sends a request at time 0, 44 at time 1 and 45 at time 60001.\<close>

definition demo_burst :: "(string \<times> millis) list" where
  "demo_burst = (''198.51.100.7'', 0) # replicate 44 (''198.51.100.7'', 1) @ replicate 45 (''198.51.100.7'', 60001)"

subsection \<open>An example run\<close>

text \<open>An exchange that answers every well-formed request with the payload 7, and a client
  that asks twice for the hourly BTCUSDT candles, at times 0 and 10; the first request
  completes at time 5.\<close>

definition demo_upstream :: "binance_request \<Rightarrow> millis \<Rightarrow> nat upstream" where
  "demo_upstream q t = (if valid_request q then HttpOk (Some 7) else HttpError 400 None)"

definition demo_klines_first :: "nat phase \<times> nat proxy_state" where
  "demo_klines_first =
     klines_start ''203.0.113.9'' (Some ''BTCUSDT'') (Some ''1h'') None 0 \<lparr>cache = Map.empty, ipRequests = Map.empty\<rparr>"

definition demo_klines_cached :: "nat proxy_state" where
  "demo_klines_cached =
     snd (complete_fetch (klines_key ''BTCUSDT'' ''1h'' None) (''Failed to fetch kline data for '' @ ''BTCUSDT'') 5
       (demo_upstream (KlinesReq ''BTCUSDT'' ''1h'' None) 5) (snd demo_klines_first))"

section \<open>Lemmas\<close>

subsection \<open>The cache\<close>

lemma checkRateLimit_cache [simp]: "cache (snd (checkRateLimit ip now st)) = cache st"
  by (simp add: checkRateLimit_def Let_def)

lemma getFromCache_le: "cache (snd (getFromCache key now st)) \<subseteq>\<^sub>m cache st"
  by (auto simp: getFromCache_def map_le_def split: option.splits)

lemma getFromCache_Some:
  "fst (getFromCache key now st) = Some d \<Longrightarrow>
   \<exists>e. cache st key = Some e \<and> ce_data e = d \<and> now - ce_timestamp e < CACHE_DURATION_MS"
  by (auto simp: getFromCache_def split: option.splits if_splits)

lemma cached_or_fetch_cases:
  assumes "cached_or_fetch req key msg now st = (ph, st')"
  obtains (hit) d e where "ph = Responded \<lparr>rs_status = 200, rs_body = Payload d, rs_xcache = Some ''HIT''\<rparr>"
      "cache st key = Some e" "ce_data e = d" "now - ce_timestamp e < CACHE_DURATION_MS"
      "cache st' \<subseteq>\<^sub>m cache st"
  | (miss) "ph = Awaiting req key msg" "cache st' \<subseteq>\<^sub>m cache st"
proof (cases "getFromCache key now st")
  case (Pair r st1)
  have le: "cache st' \<subseteq>\<^sub>m cache st"
    using assms getFromCache_le [of key now st] Pair by (auto simp: cached_or_fetch_def split: option.splits)
  show ?thesis
  proof (cases r)
    case None
    with assms Pair le show ?thesis by (intro miss) (simp_all add: cached_or_fetch_def)
  next
    case (Some d)
    with getFromCache_Some [of key now st d] Pair obtain e where
      "cache st key = Some e" "ce_data e = d" "now - ce_timestamp e < CACHE_DURATION_MS" by auto
    with assms Pair Some le show ?thesis by (intro hit [of d e]) (simp_all add: cached_or_fetch_def)
  qed
qed

lemma request_key_klines [simp]: "request_key (klines_request s i limit) = klines_key s i limit"
  by (cases limit) (simp_all add: klines_request_def klines_key_def)

lemma phase_ok_cached_or_fetch:
  assumes "key = request_key req"
  shows "phase_ok st (cached_or_fetch req key msg now st)"
proof -
  obtain ph st' where r: "cached_or_fetch req key msg now st = (ph, st')" by (metis surj_pair)
  from r have "phase_ok st (ph, st')"
    by (cases rule: cached_or_fetch_cases) (simp_all add: phase_ok_def assms)
  with r show ?thesis by simp
qed

lemma phase_ok_responded: "cache st' \<subseteq>\<^sub>m cache st \<Longrightarrow> phase_ok st (Responded r, st')"
  by (simp add: phase_ok_def)

lemma phase_ok_with_rate_limit:
  assumes "\<And>st'. cache st' = cache st \<Longrightarrow> phase_ok st' (body st')"
  shows "phase_ok st (with_rate_limit ip now st body)"
proof -
  have "phase_ok (snd (checkRateLimit ip now st)) (body (snd (checkRateLimit ip now st)))"
    using assms by simp
  then show ?thesis by (simp add: with_rate_limit_def Let_def phase_ok_def)
qed

lemma handler_start_phase_ok: "handler_start st now r \<Longrightarrow> phase_ok st r"
proof (induction rule: handler_start.induct)
  case (ticker st now ip)
  then show ?case
    unfolding ticker_start_def by (intro phase_ok_with_rate_limit phase_ok_cached_or_fetch) simp
next
  case (exchangeInfo st now ip)
  then show ?case
    unfolding exchangeInfo_start_def by (intro phase_ok_with_rate_limit phase_ok_cached_or_fetch) simp
next
  case (klines st now ip symbol interval limit)
  then show ?case
    unfolding klines_start_def Let_def
    by (intro phase_ok_with_rate_limit) (simp add: phase_ok_cached_or_fetch phase_ok_responded)
next
  case (express st now reqIp rt)
  have "phase_ok st' (case rt of
             RouteTicker \<Rightarrow> cached_or_fetch TickerReq ''ticker_24hr'' ''Failed to fetch data from upstream API'' now st'
           | RouteExchangeInfo \<Rightarrow>
               cached_or_fetch ExchangeInfoReq ''exchange_info'' ''Failed to fetch exchange info from upstream API'' now st'
           | RouteKlines symbol interval limit \<Rightarrow>
               if js_or symbol [] = [] \<or> js_or interval [] = [] then
                 (Responded (json_response 400 (ErrorMessage ''Missing required query parameters: symbol, interval'')), st')
               else
                 (let s = the symbol; i = the interval
                  in cached_or_fetch (klines_request s i limit) (klines_key s i limit)
                       (''Failed to fetch kline data for '' @ s) now st'))" for st'
    by (cases rt) (simp_all add: phase_ok_cached_or_fetch phase_ok_responded Let_def)
  from this [of "snd (checkRateLimit (js_or reqIp ''unknown'') now st)"] show ?case
    by (simp add: express_start_def checkRateLimit_middleware_def Let_def phase_ok_def split: if_splits)
qed

lemma complete_fetch_cache:
  "cache (snd (complete_fetch key msg now up st)) =
     (case up of HttpOk (Some d) \<Rightarrow> (cache st)(key \<mapsto> \<lparr>ce_data = d, ce_timestamp = now\<rparr>) | _ \<Rightarrow> cache st)"
  by (simp add: complete_fetch_def setInCache_def split: upstream.splits option.splits)

lemma cache_coherent_shrink:
  assumes "cache_coherent up st P" and "cache st' \<subseteq>\<^sub>m cache st" and "set P' \<subseteq> set P"
  shows "cache_coherent up st' P'"
  unfolding cache_coherent_def
proof (intro conjI allI impI ballI)
  fix k e
  assume "cache st' k = Some e"
  then have "cache st k = Some e" by (rule map_le_Some [OF assms(2)])
  then show "\<exists>q. request_key q = k \<and> up q (ce_timestamp e) = HttpOk (Some (ce_data e))"
    using assms(1) by (simp add: cache_coherent_def)
next
  fix p
  assume "p \<in> set P'"
  then show "fst (snd p) = request_key (fst p)" using assms(1,3) by (auto simp: cache_coherent_def)
qed

lemma cache_coherent_store:
  assumes "cache_coherent up st P" and "cache st' = (cache st)(key \<mapsto> \<lparr>ce_data = d, ce_timestamp = t\<rparr>)"
    and "up q t = HttpOk (Some d)" and "request_key q = key" and "set P' \<subseteq> set P"
  shows "cache_coherent up st' P'"
  unfolding cache_coherent_def
proof (intro conjI allI impI ballI)
  fix k e
  assume e: "cache st' k = Some e"
  show "\<exists>q. request_key q = k \<and> up q (ce_timestamp e) = HttpOk (Some (ce_data e))"
  proof (cases "k = key")
    case True
    with e assms(2) have "e = \<lparr>ce_data = d, ce_timestamp = t\<rparr>" by simp
    with True assms(3,4) show ?thesis by auto
  next
  case False
    with e assms(2) have "cache st k = Some e" by simp
    then show ?thesis using assms(1) by (simp add: cache_coherent_def)
  qed
next
  fix p
  assume "p \<in> set P'"
  then show "fst (snd p) = request_key (fst p)" using assms(1,5) by (auto simp: cache_coherent_def)
qed

lemma proxy_reachable_coherent: "proxy_reachable up st P \<Longrightarrow> cache_coherent up st P"
proof (induction rule: proxy_reachable.induct)
  case init
  then show ?case by (simp add: cache_coherent_def)
next
  case (answered st P now r st')
  from handler_start_phase_ok [OF answered(2)] have "cache st' \<subseteq>\<^sub>m cache st" by (simp add: phase_ok_def)
  from cache_coherent_shrink [OF answered(3) this] show ?case by simp
next
  case (awaiting st P now q key msg st')
  from handler_start_phase_ok [OF awaiting(2)]
  have le: "cache st' \<subseteq>\<^sub>m cache st" and k: "key = request_key q" by (simp_all add: phase_ok_def)
  have "cache_coherent up st' P" using cache_coherent_shrink [OF awaiting(3) le] by simp
  with k show ?case by (simp add: cache_coherent_def)
next
  case (completed st P q key msg now)
  have k: "request_key q = key" using completed(2,3) by (auto simp: cache_coherent_def)
  have P: "set (remove1 (q, key, msg) P) \<subseteq> set P" by (rule set_remove1_subset)
  show ?case
  proof (cases "\<exists>d. up q now = HttpOk (Some d)")
    case True
    then obtain d where d: "up q now = HttpOk (Some d)" by blast
    show ?thesis
      by (rule cache_coherent_store [OF completed(3) _ d k P]) (simp add: complete_fetch_cache d)
  next
    case False
    then have "cache (snd (complete_fetch key msg now (up q now) st)) = cache st"
      by (auto simp: complete_fetch_cache split: upstream.splits option.splits)
    then show ?thesis by (intro cache_coherent_shrink [OF completed(3) _ P]) simp
  qed
qed

subsection \<open>The cache key\<close>

lemma js_or_default_valid:
  "(case l of None \<Rightarrow> True | Some x \<Rightarrow> decimal_digits x) \<Longrightarrow> CHR ''_'' \<notin> set (js_or l ''default'')"
  by (cases l) (auto simp: decimal_digits_def)

lemma js_or_default_inj:
  assumes "case l1 of None \<Rightarrow> True | Some x \<Rightarrow> decimal_digits x"
    and "case l2 of None \<Rightarrow> True | Some x \<Rightarrow> decimal_digits x"
    and "js_or l1 ''default'' = js_or l2 ''default''"
  shows "l1 = l2"
  using assms by (cases l1; cases l2) (auto simp: decimal_digits_def)

lemma underscore_split_inj:
  assumes "CHR ''_'' \<notin> set i1" "CHR ''_'' \<notin> set i2" "CHR ''_'' \<notin> set x1" "CHR ''_'' \<notin> set x2"
    and "s1 @ CHR ''_'' # i1 @ CHR ''_'' # x1 = s2 @ CHR ''_'' # i2 @ CHR ''_'' # x2"
  shows "s1 = s2 \<and> i1 = i2 \<and> x1 = x2"
proof -
  have "rev x1 @ CHR ''_'' # (rev i1 @ CHR ''_'' # rev s1) = rev x2 @ CHR ''_'' # (rev i2 @ CHR ''_'' # rev s2)"
    using arg_cong [OF assms(5), of rev] by simp
  from append_sep_eq [OF _ _ this] assms(3,4)
  have x: "rev x1 = rev x2" and r: "rev i1 @ CHR ''_'' # rev s1 = rev i2 @ CHR ''_'' # rev s2" by auto
  from append_sep_eq [OF _ _ r] assms(1,2) have "rev i1 = rev i2" "rev s1 = rev s2" by auto
  with x show ?thesis by simp
qed

lemma request_key_inj:
  assumes "valid_request q1" and "valid_request q2" and "request_key q1 = request_key q2"
  shows "q1 = q2"
proof (cases q1)
  case (KlinesReq s1 i1 l1)
  show ?thesis
  proof (cases q2)
    case (KlinesReq s2 i2 l2)
    have "s1 @ CHR ''_'' # i1 @ CHR ''_'' # js_or l1 ''default'' = s2 @ CHR ''_'' # i2 @ CHR ''_'' # js_or l2 ''default''"
      using assms(3) \<open>q1 = KlinesReq s1 i1 l1\<close> KlinesReq by (simp add: klines_key_def)
    from underscore_split_inj [OF _ _ js_or_default_valid js_or_default_valid this]
      assms(1,2) \<open>q1 = KlinesReq s1 i1 l1\<close> KlinesReq js_or_default_inj [of l1 l2]
    show ?thesis by auto
  qed (use assms(3) \<open>q1 = KlinesReq s1 i1 l1\<close> in \<open>simp_all add: klines_key_def\<close>)
qed (use assms(3) in \<open>cases q2; simp add: klines_key_def\<close>)+

lemma klines_start_hit:
  assumes "klines_start ip (Some s) (Some i) limit now st = (Responded r, st')" and "rs_xcache r = Some ''HIT''"
  shows "\<exists>e. cache st (klines_key s i limit) = Some e \<and> rs_body r = Payload (ce_data e)
           \<and> now - ce_timestamp e < CACHE_DURATION_MS"
proof -
  have ok: "fst (checkRateLimit ip now st)" and ne: "s \<noteq> [] \<and> i \<noteq> []"
    using assms by (auto simp: klines_start_def with_rate_limit_def Let_def TOO_MANY_REQUESTS_def
        json_response_def split: if_splits)
  with assms(1) have "cached_or_fetch (klines_request s i limit) (klines_key s i limit)
      (''Failed to fetch kline data for '' @ s) now (snd (checkRateLimit ip now st)) = (Responded r, st')"
    by (simp add: klines_start_def with_rate_limit_def Let_def)
  then show ?thesis using assms(2) by (cases rule: cached_or_fetch_cases) auto
qed

subsection \<open>Properties of the proxy\<close>

text \<open>C33: under any interleaving of requests to the proxy routes and completions of their
  upstream fetches, a klines request answered from the cache (X-Cache HIT) receives exactly
  the payload Binance returned for that same request, fetched less than fifteen seconds
  earlier, provided Binance answers only well-formed requests and the request is one.\<close>

theorem klines_hit_is_upstream_answer:
  assumes "proxy_reachable up st P"
    and "\<forall>q t d. up q t = HttpOk (Some d) \<longrightarrow> valid_request q"
    and "valid_request (klines_request s i limit)"
    and "klines_start ip (Some s) (Some i) limit now st = (Responded r, st')"
    and "rs_xcache r = Some ''HIT''"
  shows "\<exists>d ts. rs_body r = Payload d \<and> up (klines_request s i limit) ts = HttpOk (Some d)
           \<and> now - ts < CACHE_DURATION_MS"
proof -
  obtain e where e: "cache st (klines_key s i limit) = Some e" "rs_body r = Payload (ce_data e)"
      "now - ce_timestamp e < CACHE_DURATION_MS"
    using klines_start_hit [OF assms(4,5)] by blast
  obtain q where q: "request_key q = klines_key s i limit" "up q (ce_timestamp e) = HttpOk (Some (ce_data e))"
    using proxy_reachable_coherent [OF assms(1)] e(1) unfolding cache_coherent_def by blast
  have "valid_request q" using assms(2) q(2) by blast
  from request_key_inj [OF this assms(3)] q(1) have "q = klines_request s i limit" by simp
  with q e show ?thesis by blast
qed

theorem klines_hit_is_upstream_answer_witness:
  "proxy_reachable demo_upstream demo_klines_cached [] \<and>
   valid_request (klines_request ''BTCUSDT'' ''1h'' None) \<and>
   klines_start ''203.0.113.9'' (Some ''BTCUSDT'') (Some ''1h'') None 10 demo_klines_cached
     = (Responded \<lparr>rs_status = 200, rs_body = Payload 7, rs_xcache = Some ''HIT''\<rparr>,
        snd (klines_start ''203.0.113.9'' (Some ''BTCUSDT'') (Some ''1h'') None 10 demo_klines_cached)) \<and>
   (\<exists>ts. demo_upstream (klines_request ''BTCUSDT'' ''1h'' None) ts = HttpOk (Some 7) \<and> 10 - ts < CACHE_DURATION_MS)"
proof -
  let ?k = "klines_key ''BTCUSDT'' ''1h'' None" and ?m = "''Failed to fetch kline data for '' @ ''BTCUSDT''"
  have first: "demo_klines_first = (Awaiting (KlinesReq ''BTCUSDT'' ''1h'' None) ?k ?m, snd demo_klines_first)"
    by (simp add: demo_klines_first_def klines_start_def with_rate_limit_def checkRateLimit_def limiter_step_def
        cached_or_fetch_def getFromCache_def klines_request_def Let_def)
  have "handler_start \<lparr>cache = Map.empty, ipRequests = Map.empty\<rparr> 0 demo_klines_first"
    unfolding demo_klines_first_def by (rule handler_start.klines)
  then have "handler_start \<lparr>cache = Map.empty, ipRequests = Map.empty\<rparr> 0
      (Awaiting (KlinesReq ''BTCUSDT'' ''1h'' None) ?k ?m, snd demo_klines_first)"
    by (subst (asm) first)
  from proxy_reachable.awaiting [OF proxy_reachable.init this]
  have r1: "proxy_reachable demo_upstream (snd demo_klines_first) [(KlinesReq ''BTCUSDT'' ''1h'' None, ?k, ?m)]" .
  have r2: "proxy_reachable demo_upstream demo_klines_cached []"
    using proxy_reachable.completed [OF r1, of "KlinesReq ''BTCUSDT'' ''1h'' None" ?k ?m 5]
    by (simp add: demo_klines_cached_def)
  have v: "valid_request (klines_request ''BTCUSDT'' ''1h'' None)"
    by (simp add: klines_request_def)
  have up: "\<forall>q t d. demo_upstream q t = HttpOk (Some d) \<longrightarrow> valid_request q"
    by (simp add: demo_upstream_def)
  have h: "klines_start ''203.0.113.9'' (Some ''BTCUSDT'') (Some ''1h'') None 10 demo_klines_cached
     = (Responded \<lparr>rs_status = 200, rs_body = Payload 7, rs_xcache = Some ''HIT''\<rparr>,
        snd (klines_start ''203.0.113.9'' (Some ''BTCUSDT'') (Some ''1h'') None 10 demo_klines_cached))"
    by (simp add: demo_klines_cached_def demo_klines_first_def klines_start_def with_rate_limit_def
        checkRateLimit_def limiter_step_def cached_or_fetch_def getFromCache_def complete_fetch_def
        setInCache_def demo_upstream_def klines_request_def klines_key_def CACHE_DURATION_MS_def
        RATE_LIMIT_WINDOW_MS_def RATE_LIMIT_MAX_REQUESTS_def Let_def)
  from klines_hit_is_upstream_answer [OF r2 up v h] r2 v h show ?thesis by simp
qed

text \<open>The key collision the hypothesis on the request excludes: \<open>limit=default\<close> and an
  absent limit share the key \<open>klines_BTCUSDT_1h_default\<close>, so after the run above a
  request with \<open>limit=default\<close> is a HIT carrying the payload fetched for the request
  without a limit, which the exchange never returned for it.\<close>

lemma klines_default_limit_collision:
  "klines_key ''BTCUSDT'' ''1h'' (Some ''default'') = klines_key ''BTCUSDT'' ''1h'' None
   \<and> klines_start ''203.0.113.9'' (Some ''BTCUSDT'') (Some ''1h'') (Some ''default'') 10 demo_klines_cached
     = (Responded \<lparr>rs_status = 200, rs_body = Payload 7, rs_xcache = Some ''HIT''\<rparr>,
        snd (klines_start ''203.0.113.9'' (Some ''BTCUSDT'') (Some ''1h'') (Some ''default'') 10 demo_klines_cached))
   \<and> (\<forall>ts. demo_upstream (klines_request ''BTCUSDT'' ''1h'' (Some ''default'')) ts \<noteq> HttpOk (Some 7))"
  by (simp add: demo_klines_cached_def demo_klines_first_def klines_start_def with_rate_limit_def
      checkRateLimit_def limiter_step_def cached_or_fetch_def getFromCache_def complete_fetch_def
      setInCache_def demo_upstream_def klines_request_def klines_key_def CACHE_DURATION_MS_def
      RATE_LIMIT_WINDOW_MS_def RATE_LIMIT_MAX_REQUESTS_def decimal_digits_def Let_def)

subsection \<open>The rate limiter\<close>

lemma checkRateLimit_sel [simp]:
  "fst (checkRateLimit ip t st) = fst (limiter_step (ipRequests st ip) t)"
  "ipRequests (snd (checkRateLimit ip t st)) = (ipRequests st)(ip \<mapsto> snd (limiter_step (ipRequests st ip) t))"
  by (simp_all add: checkRateLimit_def Let_def)

lemma limiter_run_length [simp]: "length (limiter_run e ts) = length ts"
  by (induction ts arbitrary: e) simp_all

lemma limiter_step_count: "1 \<le> re_count (snd (limiter_step e t)) \<or> (\<exists>en. e = Some en \<and> re_count en < 0)"
  by (auto simp: limiter_step_def Let_def split: option.splits)

lemma rate_run_isolation:
  "filter (\<lambda>(r, ok). fst r = ip) (zip rs (rate_run rs st)) =
   zip (filter (\<lambda>r. fst r = ip) rs) (limiter_run (ipRequests st ip) (map snd (filter (\<lambda>r. fst r = ip) rs)))"
proof (induction rs arbitrary: st)
  case (Cons r rs)
  obtain ip' t where r: "r = (ip', t)" by (cases r)
  show ?case
  proof (cases "ip' = ip")
    case True
    with Cons.IH [of "snd (checkRateLimit ip t st)"] r show ?thesis by simp
  next
    case False
    with Cons.IH [of "snd (checkRateLimit ip' t st)"] r show ?thesis by simp
  qed
qed simp

lemma admitted_in_times:
  "admitted_in ip a rs (rate_run rs st) =
   admitted_times a (map snd (filter (\<lambda>r. fst r = ip) rs)) (limiter_run (ipRequests st ip) (map snd (filter (\<lambda>r. fst r = ip) rs)))"
proof -
  let ?P = "\<lambda>(r, ok). fst r = ip" and ?Q = "\<lambda>(t, ok). ok \<and> a \<le> t \<and> t \<le> a + RATE_LIMIT_WINDOW_MS"
  let ?rs = "filter (\<lambda>r. fst r = ip) rs" and ?oks = "limiter_run (ipRequests st ip) (map snd (filter (\<lambda>r. fst r = ip) rs))"
  have "admitted_in ip a rs (rate_run rs st) = length (filter (\<lambda>x. ?Q (snd (fst x), snd x)) (filter ?P (zip rs (rate_run rs st))))"
    unfolding admitted_in_def filter_filter by (rule arg_cong [where f = length], rule filter_cong) auto
  also have "\<dots> = length (filter (\<lambda>x. ?Q (snd (fst x), snd x)) (zip ?rs ?oks))"
    by (simp only: rate_run_isolation)
  also have "\<dots> = length (filter ?Q (map (\<lambda>x. (snd (fst x), snd x)) (zip ?rs ?oks)))"
    by (simp add: filter_map comp_def)
  also have "map (\<lambda>x. (snd (fst x), snd x)) (zip ?rs ?oks) = zip (map snd ?rs) ?oks"
    by (simp add: zip_map1 case_prod_beta)
  finally show ?thesis by (simp add: admitted_times_def)
qed

lemma admitted_times_Cons [simp]:
  "admitted_times a (t # ts) (ok # oks) =
     (if ok \<and> a \<le> t \<and> t \<le> a + RATE_LIMIT_WINDOW_MS then 1 else 0) + admitted_times a ts oks"
  by (simp add: admitted_times_def)

lemma admitted_times_after:
  assumes "\<forall>t\<in>set ts. a + RATE_LIMIT_WINDOW_MS < t"
  shows "admitted_times a ts oks = 0"
proof -
  have "\<not> (ok \<and> a \<le> t \<and> t \<le> a + RATE_LIMIT_WINDOW_MS)" if "(t, ok) \<in> set (zip ts oks)" for t ok
    using set_zip_leftD [OF that] assms by force
  then show ?thesis unfolding admitted_times_def by (auto simp: filter_empty_conv)
qed

text \<open>The step of the limiter inside the minute from \<open>a\<close>: an admission is paid for by the
  bound of the entry.\<close>

lemma limiter_step_window:
  assumes "a \<le> t" and "t \<le> a + RATE_LIMIT_WINDOW_MS" and "\<forall>en. e = Some en \<longrightarrow> 1 \<le> re_count en"
  shows "(if fst (limiter_step e t) then 1 else 0) + window_bound a (Some (snd (limiter_step e t))) \<le> window_bound a e"
  using assms
  by (auto simp: limiter_step_def window_bound_def RATE_LIMIT_WINDOW_MS_def RATE_LIMIT_MAX_REQUESTS_def Let_def
      split: option.splits)

lemma window_bound_le: "\<forall>en. e = Some en \<longrightarrow> 1 \<le> re_count en \<Longrightarrow> window_bound a e \<le> 89"
  by (auto simp: window_bound_def RATE_LIMIT_MAX_REQUESTS_def split: option.splits)

lemma limiter_run_minute:
  assumes "sorted ts" and "\<forall>en. e = Some en \<longrightarrow> 1 \<le> re_count en"
  shows "int (admitted_times a ts (limiter_run e ts)) \<le> (if ts \<noteq> [] \<and> hd ts < a then 89 else window_bound a e)"
  using assms
proof (induction ts arbitrary: e)
  case Nil
  then show ?case by (auto simp: admitted_times_def window_bound_def RATE_LIMIT_MAX_REQUESTS_def split: option.splits)
next
  case (Cons t ts)
  let ?e' = "Some (snd (limiter_step e t))"
  have c: "\<forall>en. ?e' = Some en \<longrightarrow> 1 \<le> re_count en" using limiter_step_count [of e t] Cons.prems(2) by auto
  have s: "sorted ts" and le: "\<forall>u\<in>set ts. t \<le> u" using Cons.prems(1) by simp_all
  have IH: "int (admitted_times a ts (limiter_run ?e' ts)) \<le> (if ts \<noteq> [] \<and> hd ts < a then 89 else window_bound a ?e')"
    using Cons.IH [OF s c] .
  have wb: "window_bound a ?e' \<le> 89" using window_bound_le [OF c] .
  show ?case
  proof (cases "t < a")
    case True
    with IH wb show ?thesis by (auto split: if_splits)
  next
    case False
    show ?thesis
    proof (cases "t \<le> a + RATE_LIMIT_WINDOW_MS")
      case True
      have "ts = [] \<or> \<not> hd ts < a" using le False by (cases ts) auto
      with IH have "int (admitted_times a ts (limiter_run ?e' ts)) \<le> window_bound a ?e'" by auto
      with limiter_step_window [of a t e] True False Cons.prems(2) show ?thesis by (auto split: if_splits)
    next
      case out: False
      have "\<forall>u\<in>set (t # ts). a + RATE_LIMIT_WINDOW_MS < u" using le out by force
      then have "admitted_times a (t # ts) (limiter_run e (t # ts)) = 0" by (rule admitted_times_after)
      moreover have "0 \<le> window_bound a e"
        by (auto simp: window_bound_def RATE_LIMIT_MAX_REQUESTS_def split: option.splits)
      ultimately show ?thesis using False by simp
    qed
  qed
qed

lemma rate_state_start:
  assumes "ipRequests (rate_state rs st) ip = Some en"
  shows "(\<exists>en0. ipRequests st ip = Some en0 \<and> re_startTime en = re_startTime en0)
         \<or> re_startTime en \<in> set (map snd (filter (\<lambda>r. fst r = ip) rs))"
  using assms
proof (induction rs arbitrary: st)
  case (Cons r rs)
  obtain ip' t where r: "r = (ip', t)" by (cases r)
  from Cons.IH [of "snd (checkRateLimit ip' t st)"] Cons.prems r show ?case
    by (auto simp: limiter_step_def Let_def split: if_splits option.splits)
qed simp

subsection \<open>Properties of the rate limiter\<close>

text \<open>C34: from a cold start, whatever the interleaving of clients, a client gets at most 89
  requests admitted in any minute (a window of 60000 ms, bounds included): the limiter
  counts fixed windows of 45, so a burst at the end of one window and one at the start of
  the next pass together.\<close>

theorem rate_limit_89_per_minute:
  assumes "sorted (map snd rs)"
  shows "admitted_in ip a rs (rate_run rs empty_proxy) \<le> 89"
proof -
  have s: "sorted (map snd (filter (\<lambda>r. fst r = ip) rs))" using sorted_filter [OF assms] .
  have "int (admitted_times a (map snd (filter (\<lambda>r. fst r = ip) rs)) (limiter_run None (map snd (filter (\<lambda>r. fst r = ip) rs)))) \<le> 89"
    using limiter_run_minute [OF s, of None a]
    by (auto simp: window_bound_def RATE_LIMIT_MAX_REQUESTS_def split: if_splits)
  then show ?thesis by (simp add: admitted_in_times empty_proxy_def)
qed

theorem rate_limit_89_per_minute_witness:
  "sorted (map snd demo_burst) \<and> admitted_in ''198.51.100.7'' 1 demo_burst (rate_run demo_burst (empty_proxy :: nat proxy_state)) \<le> 89"
proof -
  have s: "sorted (map snd demo_burst)" by (simp add: demo_burst_def sorted_append)
  show ?thesis using rate_limit_89_per_minute [OF s, of "''198.51.100.7''" 1] s by simp
qed

text \<open>The bound is reached: the burst of \<open>demo_burst\<close> gets 89 requests admitted between
  times 1 and 60001, although the code's comment promises 45 requests per minute.\<close>

lemma rate_limit_burst_89:
  "admitted_in ''198.51.100.7'' 1 demo_burst (rate_run demo_burst (empty_proxy :: nat proxy_state)) = 89"
  by (simp add: demo_burst_def empty_proxy_def admitted_in_def checkRateLimit_def limiter_step_def
      RATE_LIMIT_WINDOW_MS_def RATE_LIMIT_MAX_REQUESTS_def Let_def replicate_numeral_Cons)

text \<open>C35: the limiter never locks a client out for good: from a cold start, whatever was
  sent before, a request that comes more than a minute after every earlier request of the
  same client is admitted.\<close>

theorem rate_limit_recovers:
  assumes "list_all (\<lambda>t'. t' + RATE_LIMIT_WINDOW_MS < t) (map snd (filter (\<lambda>r. fst r = ip) rs))"
  shows "fst (checkRateLimit ip t (rate_state rs (empty_proxy :: 'd proxy_state)))"
proof (cases "ipRequests (rate_state rs (empty_proxy :: 'd proxy_state)) ip")
  case None
  then show ?thesis by (simp add: limiter_step_def)
next
  case (Some en)
  from rate_state_start [OF Some]
  have "re_startTime en \<in> set (map snd (filter (\<lambda>r. fst r = ip) rs))" by (simp add: empty_proxy_def)
  with assms have "re_startTime en + RATE_LIMIT_WINDOW_MS < t" by (force simp: list_all_iff)
  with Some show ?thesis by (simp add: limiter_step_def)
qed

theorem rate_limit_recovers_witness:
  "list_all (\<lambda>t'. t' + RATE_LIMIT_WINDOW_MS < 60001)
     (map snd (filter (\<lambda>r. fst r = ''198.51.100.7'') (replicate 46 (''198.51.100.7'', 0))))
   \<and> \<not> last (rate_run (replicate 46 (''198.51.100.7'', 0)) (empty_proxy :: nat proxy_state))
   \<and> fst (checkRateLimit ''198.51.100.7'' 60001 (rate_state (replicate 46 (''198.51.100.7'', 0)) (empty_proxy :: nat proxy_state)))"
proof -
  have h: "list_all (\<lambda>t'. t' + RATE_LIMIT_WINDOW_MS < 60001)
     (map snd (filter (\<lambda>r. fst r = ''198.51.100.7'') (replicate 46 (''198.51.100.7'', 0))))"
    by (simp add: RATE_LIMIT_WINDOW_MS_def list_all_iff)
  have b: "\<not> last (rate_run (replicate 46 (''198.51.100.7'', 0)) (empty_proxy :: nat proxy_state))"
    by (simp add: empty_proxy_def checkRateLimit_def limiter_step_def RATE_LIMIT_WINDOW_MS_def
        RATE_LIMIT_MAX_REQUESTS_def Let_def replicate_numeral_Cons)
  show ?thesis using rate_limit_recovers [OF h] h b by simp
qed

text \<open>Requests from addresses without an entry are all admitted.\<close>

lemma rate_run_fresh:
  assumes "distinct (map fst rs)" and "\<forall>r\<in>set rs. ipRequests st (fst r) = None"
  shows "rate_run rs st = replicate (length rs) True"
  using assms
proof (induction rs arbitrary: st)
  case (Cons r rs)
  obtain ip t where r: "r = (ip, t)" by (cases r)
  have "\<forall>r'\<in>set rs. fst r' \<noteq> ip" using Cons.prems(1) r by auto
  then have fresh: "\<forall>r'\<in>set rs. ipRequests (snd (checkRateLimit ip t st)) (fst r') = None"
    using Cons.prems(2) by simp
  have d: "distinct (map fst rs)" using Cons.prems(1) by simp
  have "rate_run rs (snd (checkRateLimit ip t st)) = replicate (length rs) True"
    by (rule Cons.IH [OF d fresh])
  moreover have "fst (checkRateLimit ip t st)" using Cons.prems(2) r by (simp add: limiter_step_def)
  ultimately show ?case using r by simp
qed simp

text \<open>The address is the \<open>X-Forwarded-For\<close> header whenever the client sends one, so a
  client that sends a different value with each request is never limited: here a hundred
  requests in the same millisecond are all admitted.\<close>

lemma forwarded_for_bypass:
  "rate_run (map (\<lambda>n. (client_ip (Some (replicate n (CHR ''9''))) (Some ''203.0.113.5''), 0)) [1..<101])
     (empty_proxy :: nat proxy_state) = replicate 100 True"
proof -
  have "inj_on (\<lambda>n. replicate n (CHR ''9'')) {1..<101}"
    by (rule inj_onI) (metis length_replicate)
  then have "distinct (map (\<lambda>n. replicate n (CHR ''9'')) [1..<101])"
    by (simp add: distinct_map)
  moreover have "map (\<lambda>n. client_ip (Some (replicate n (CHR ''9''))) (Some ''203.0.113.5'')) [1..<101]
      = map (\<lambda>n. replicate n (CHR ''9'')) [1..<101]"
    by (rule map_cong) (simp_all add: client_ip_def)
  ultimately have "distinct (map fst (map (\<lambda>n. (client_ip (Some (replicate n (CHR ''9''))) (Some ''203.0.113.5''), 0::int)) [1..<101]))"
    by (simp only: map_map comp_def fst_conv)
  from rate_run_fresh [OF this, of "empty_proxy :: nat proxy_state"] show ?thesis by (simp add: empty_proxy_def)
qed

end
