(* ===== verification/History.thy ===== *)
theory History
  imports Calendar Types "HOL-Library.Multiset" "HOL-Library.List_Lexorder" "HOL-Library.Char_ord"
begin

text \<open>
  The performance report of the history page: \<open>historyReport\<close> of \<open>src/src/App.tsx\<close>
  (lines 283-382), which filters the archived signals by period, summarises the completed
  ones and groups the selected ones by UTC day under a \<open>YYYY-MM-DD\<close> key, and the date
  helpers of \<open>src/components/HistoryView.tsx\<close> that pick the custom day and order the days.
  Dates are read through the calendar of \<open>Calendar\<close>. A JavaScript object used as a
  dictionary keeps its string keys in insertion order, so \<open>groupedByDay\<close> is an association
  list in that order. The lemmas show that the key of a time decodes back to its UTC day, that
  the groups partition the selected records by day with per-day totals, that the summary's
  best trade is the first record of maximal result, and that the custom filter with a date
  typed into the view selects exactly that day's group.
\<close>

section \<open>Filtering\<close>

text \<open>Line 297: \<open>signal.resolvedAt || signal.timestamp\<close>; a \<open>Date\<close> object is truthy, so the
  resolution time is taken and the check of line 298 never fails.\<close>

definition signal_date :: "historical_signal \<Rightarrow> millis" where
  "signal_date s = resolvedAt s"

text \<open>Lines 285-318: the period bounds from the current time \<open>now\<close> and the test of one
  record; the custom day ends where \<open>setUTCDate(getUTCDate() + 1)\<close> moves its start.\<close>

definition in_history_filter :: "history_filter \<Rightarrow> millis option \<Rightarrow> millis \<Rightarrow> historical_signal \<Rightarrow> bool" where
  "in_history_filter historyFilter customHistoryDate now signal =
     (let today = Date_UTC (getUTCFullYear now) (getUTCMonth now) (getUTCDate now);
          dayOfWeek = getUTCDay now;
          startOfWeek = Date_UTC (getUTCFullYear now) (getUTCMonth now) (getUTCDate now - dayOfWeek);
          startOfMonth = Date_UTC (getUTCFullYear now) (getUTCMonth now) 1;
          startOfYear = Date_UTC (getUTCFullYear now) 0 1;
          signalDate = signal_date signal
      in case historyFilter of
           HDay \<Rightarrow> signalDate \<ge> today
         | HWeek \<Rightarrow> signalDate \<ge> startOfWeek
         | HMonth \<Rightarrow> signalDate \<ge> startOfMonth
         | HYear \<Rightarrow> signalDate \<ge> startOfYear
         | HCustom \<Rightarrow>
             (case customHistoryDate of
                None \<Rightarrow> False
              | Some selectedDayStart \<Rightarrow>
                  (let selectedDayEnd =
                         Date_UTC (getUTCFullYear selectedDayStart) (getUTCMonth selectedDayStart)
                           (getUTCDate selectedDayStart + 1) + selectedDayStart mod msPerDay
                   in signalDate \<ge> selectedDayStart \<and> signalDate < selectedDayEnd))
         | HAll \<Rightarrow> True)"

section \<open>The summary\<close>

text \<open>Line 320: the completed records.\<close>

definition is_completed :: "historical_signal \<Rightarrow> bool" where
  "is_completed s \<longleftrightarrow> status s = WIN \<or> status s = LOSS"

text \<open>Lines 337-342: the loop keeps the first record of largest result (a later one
  replaces it only when strictly larger).\<close>

fun best_from :: "historical_signal \<Rightarrow> historical_signal list \<Rightarrow> historical_signal" where
  "best_from bestTrade [] = bestTrade"
| "best_from bestTrade (s # ss) = best_from (if resultPercent s > resultPercent bestTrade then s else bestTrade) ss"

text \<open>Lines 335-343.\<close>

definition best_trade :: "historical_signal list \<Rightarrow> historical_signal option" where
  "best_trade completedSignals =
     (case completedSignals of [] \<Rightarrow> None | c # cs \<Rightarrow> Some (best_from c cs))"

record history_summary =
  totalPnl :: real
  winRate :: real
  totalTrades :: nat
  bestTrade :: "historical_signal option"
  sm_wins :: nat
  sm_losses :: nat

text \<open>Lines 320-333 and 377-378, for a non-empty selection.\<close>

definition summarize :: "historical_signal list \<Rightarrow> history_summary" where
  "summarize filteredSignals =
     (let completedSignals = filter is_completed filteredSignals;
          wins = length (filter (\<lambda>s. status s = WIN) completedSignals);
          losses = length (filter (\<lambda>s. status s = LOSS) completedSignals);
          totalTrades = length completedSignals;
          winRate = (if totalTrades > 0 then real wins / real totalTrades * 100 else 0);
          totalPnl = foldl (\<lambda>acc s. acc + resultPercent s) 0 completedSignals
      in \<lparr>totalPnl = totalPnl, winRate = winRate, totalTrades = totalTrades,
          bestTrade = best_trade completedSignals, sm_wins = wins, sm_losses = losses\<rparr>)"

text \<open>Lines 325-329: the summary of an empty selection.\<close>

definition empty_summary :: history_summary where
  "empty_summary = \<lparr>totalPnl = 0, winRate = 0, totalTrades = 0, bestTrade = None, sm_wins = 0, sm_losses = 0\<rparr>"

section \<open>Grouping by day\<close>

text \<open>\<open>n.toString().padStart(2, '0')\<close>.\<close>

definition pad2 :: "int \<Rightarrow> string" where
  "pad2 n = (let s = js_int_string n in replicate (2 - length s) (CHR ''0'') @ s)"

text \<open>Lines 346-350: the key of a record's day.\<close>

definition dateKey :: "millis \<Rightarrow> string" where
  "dateKey signalDate =
     js_int_string (getUTCFullYear signalDate) @ ''-'' @ pad2 (getUTCMonth signalDate + 1) @ ''-''
       @ pad2 (getUTCDate signalDate)"

record day_group =
  dg_signals :: "historical_signal list"
  dailyPnl :: real
  dg_wins :: nat
  dg_losses :: nat

text \<open>Lines 352-365: a new group is empty; a record is pushed, and its result and outcome
  counted when its status is one of the three (every status is).\<close>

definition empty_group :: day_group where
  "empty_group = \<lparr>dg_signals = [], dailyPnl = 0, dg_wins = 0, dg_losses = 0\<rparr>"

definition add_signal :: "day_group \<Rightarrow> historical_signal \<Rightarrow> day_group" where
  "add_signal g signal =
     (let g' = g\<lparr>dg_signals := dg_signals g @ [signal]\<rparr>
      in if status signal = WIN \<or> status signal = LOSS \<or> status signal = PARTIAL_WIN then
           g'\<lparr>dailyPnl := dailyPnl g' + resultPercent signal,
              dg_wins := (if status signal = WIN then dg_wins g' + 1 else dg_wins g'),
              dg_losses := (if status signal \<noteq> WIN \<and> status signal = LOSS then dg_losses g' + 1 else dg_losses g')\<rparr>
         else g')"

text \<open>\<open>acc[dateKey]\<close> on the insertion-ordered dictionary: the group of the key, created at
  the end when missing, updated in place.\<close>

fun group_update :: "string \<Rightarrow> historical_signal \<Rightarrow> (string \<times> day_group) list \<Rightarrow> (string \<times> day_group) list" where
  "group_update k s [] = [(k, add_signal empty_group s)]"
| "group_update k s ((k', g) # gs) =
     (if k = k' then (k', add_signal g s) # gs else (k', g) # group_update k s gs)"

text \<open>Lines 345-367: the \<open>reduce\<close> over the selected records.\<close>

definition group_by_day :: "historical_signal list \<Rightarrow> (string \<times> day_group) list" where
  "group_by_day filteredSignals =
     foldl (\<lambda>acc signal. group_update (dateKey (signal_date signal)) signal acc) [] filteredSignals"

text \<open>Lines 369-375: each day's records newest first (\<open>Array.prototype.sort\<close> is stable).\<close>

definition sort_groups :: "(string \<times> day_group) list \<Rightarrow> (string \<times> day_group) list" where
  "sort_groups groups =
     map (\<lambda>(k, g). (k, g\<lparr>dg_signals := sort_key (\<lambda>s. - signal_date s) (dg_signals g)\<rparr>)) groups"

record history_report =
  summary :: history_summary
  groupedByDay :: "(string \<times> day_group) list"

text \<open>Lines 283-382: \<open>historyReport\<close> for the archive, the filter, the custom date and the
  current time.\<close>

definition historyReport ::
  "historical_signal list \<Rightarrow> history_filter \<Rightarrow> millis option \<Rightarrow> millis \<Rightarrow> history_report" where
  "historyReport historicalSignals historyFilter customHistoryDate now =
     (let filteredSignals = filter (in_history_filter historyFilter customHistoryDate now) historicalSignals
      in if filteredSignals = [] then \<lparr>summary = empty_summary, groupedByDay = []\<rparr>
         else \<lparr>summary = summarize filteredSignals,
               groupedByDay = sort_groups (group_by_day filteredSignals)\<rparr>)"

section \<open>The date helpers of the view\<close>

text \<open>\<open>HistoryView.tsx\<close> lines 188-194: the value of the date input for a date.\<close>

definition formatDateForInput :: "millis option \<Rightarrow> string" where
  "formatDateForInput date =
     (case date of
        None \<Rightarrow> []
      | Some d \<Rightarrow>
          js_int_string (getUTCFullYear d) @ ''-'' @ pad2 (getUTCMonth d + 1) @ ''-'' @ pad2 (getUTCDate d))"

text \<open>\<open>value.split('-')\<close>.\<close>

fun split_dash :: "string \<Rightarrow> string list" where
  "split_dash [] = [[]]"
| "split_dash (c # cs) =
     (if c = CHR ''-'' then [] # split_dash cs
      else (case split_dash cs of p # ps \<Rightarrow> (c # p) # ps | [] \<Rightarrow> [[c]]))"

text \<open>\<open>HistoryView.tsx\<close> lines 174-182: the date typed into the input, at UTC midnight; an
  empty input clears it. The input gives \<open>yyyy-mm-dd\<close> with decimal fields, which
  \<open>Number\<close> reads as \<open>digits_value\<close> does.\<close>

definition date_input_value :: "string \<Rightarrow> millis option" where
  "date_input_value v =
     (if v = [] then None
      else (case split_dash v of
              year # month # day # _ \<Rightarrow>
                Some (Date_UTC (int (digits_value year)) (int (digits_value month) - 1) (int (digits_value day)))
            | _ \<Rightarrow> None))"

text \<open>Line 147: the day keys in descending string order.\<close>

definition sortedDays :: "history_report \<Rightarrow> string list" where
  "sortedDays report = rev (sort (map fst (groupedByDay report)))"

subsection \<open>Specification vocabulary\<close>

text \<open>The day a key names: the year before the last six characters, the month and the day
  in the two-digit fields.\<close>

definition key_day :: "string \<Rightarrow> int" where
  "key_day k =
     (let n = length k
      in days_from_civil (int_value (take (n - 6) k)) (int (digits_value (take 2 (drop (n - 5) k))))
           (int (digits_value (drop (n - 2) k))))"

text \<open>The first record of largest result.\<close>

definition first_max :: "historical_signal list \<Rightarrow> historical_signal option" where
  "first_max cs = find (\<lambda>s. \<forall>x\<in>set cs. resultPercent x \<le> resultPercent s) cs"

text \<open>A day group under key \<open>k\<close>: non-empty, every record of that day, and its totals those
  of its records.\<close>

definition group_ok :: "string \<Rightarrow> day_group \<Rightarrow> bool" where
  "group_ok k g \<longleftrightarrow>
     dg_signals g \<noteq> [] \<and> (\<forall>s\<in>set (dg_signals g). dateKey (signal_date s) = k)
     \<and> dailyPnl g = sum_list (map resultPercent (dg_signals g))
     \<and> dg_wins g = length (filter (\<lambda>s. status s = WIN) (dg_signals g))
     \<and> dg_losses g = length (filter (\<lambda>s. status s = LOSS) (dg_signals g))"

text \<open>The records of all groups, in order.\<close>

definition members :: "(string \<times> day_group) list \<Rightarrow> historical_signal list" where
  "members gs = concat (map (dg_signals \<circ> snd) gs)"

subsection \<open>An example\<close>

text \<open>Three archived BTCUSDT records: a WIN of 12\% and a LOSS of -5\% on 1 January 1970,
  and a PARTIAL\_WIN of 3\% on the next day.\<close>

definition demo_record :: "signal_status \<Rightarrow> real \<Rightarrow> millis \<Rightarrow> historical_signal" where
  "demo_record st r t = \<lparr>sig_id = ''BTCUSDT'', symbol = ''BTC'', pair = ''USDT'', change24h = 0, price = 100,
     direction = LONG, probability = 90, entryZone = (99, 101), stopLoss = 95,
     takeProfit = [103, 106, 110, 117.5, 125], confidence = ''Alta'', riskNotes = '''',
     timestamp = 0, tpsHit = None, safeLeverage = 5, quoteVolume = None,
     status = st, resultPercent = r, resolvedAt = t\<rparr>"

definition demo_history :: "historical_signal list" where
  "demo_history = [demo_record WIN 12 1000, demo_record LOSS (-5) 2000, demo_record PARTIAL_WIN 3 86400005]"

section \<open>Lemmas\<close>

subsection \<open>Keys\<close>

lemma length_nat_digits_small:
  assumes "n < 100"
  shows "1 \<le> length (nat_digits n) \<and> length (nat_digits n) \<le> 2"
proof (cases "n < 10")
  case True
  then have "nat_digits n = [''0123456789'' ! n]" by (subst nat_digits.simps) simp
  then show ?thesis by simp
next
  case False
  have "n div 10 < 10" using assms by simp
  then have "length (nat_digits (n div 10)) = 1" by (subst nat_digits.simps) simp
  moreover have "nat_digits n = nat_digits (n div 10) @ [''0123456789'' ! (n mod 10)]"
    using False by (subst nat_digits.simps) simp
  ultimately show ?thesis by simp
qed

lemma pad2_value:
  assumes "0 \<le> n" "n < 100"
  shows "length (pad2 n) = 2 \<and> digits_value (pad2 n) = nat n \<and> set (pad2 n) \<subseteq> set ''0123456789''"
proof -
  have l: "1 \<le> length (nat_digits (nat n))" "length (nat_digits (nat n)) \<le> 2"
    using length_nat_digits_small [of "nat n"] assms by simp_all
  have "set (replicate (2 - length (nat_digits (nat n))) (CHR ''0'')) \<subseteq> set ''0123456789''" by auto
  then show ?thesis
    using l assms set_nat_digits [of "nat n"]
    by (simp add: pad2_def js_int_string_def digits_value_zeros Let_def)
qed

lemma pad2_fields:
  "length (pad2 (getUTCMonth t + 1)) = 2 \<and> digits_value (pad2 (getUTCMonth t + 1)) = nat (getUTCMonth t + 1)
   \<and> set (pad2 (getUTCMonth t + 1)) \<subseteq> set ''0123456789''
   \<and> length (pad2 (getUTCDate t)) = 2 \<and> digits_value (pad2 (getUTCDate t)) = nat (getUTCDate t)
   \<and> set (pad2 (getUTCDate t)) \<subseteq> set ''0123456789''"
proof -
  have r: "0 \<le> getUTCMonth t + 1" "getUTCMonth t + 1 < 100" "0 \<le> getUTCDate t" "getUTCDate t < 100"
    using utc_date_ranges [of t] by simp_all
  show ?thesis using pad2_value [OF r(1,2)] pad2_value [OF r(3,4)] by simp
qed

lemma key_day_dateKey: "key_day (dateKey t) = utc_day t"
proof -
  have r: "0 \<le> getUTCMonth t + 1" "0 \<le> getUTCDate t" using utc_date_ranges [of t] by simp_all
  have "key_day (dateKey t) = days_from_civil (getUTCFullYear t) (getUTCMonth t + 1) (getUTCDate t)"
    using pad2_fields [of t] r by (simp add: dateKey_def key_day_def Let_def)
  then show ?thesis by (simp add: civil_of_utc)
qed

lemma dateKey_utc_day: "utc_day a = utc_day b \<Longrightarrow> dateKey a = dateKey b"
  by (simp add: dateKey_def getUTCFullYear_def getUTCMonth_def getUTCDate_def)

lemma dateKey_eq_iff: "dateKey a = dateKey b \<longleftrightarrow> utc_day a = utc_day b"
  by (metis dateKey_utc_day key_day_dateKey)

subsection \<open>The custom day\<close>

lemma div_window:
  assumes "0 < (m::int)"
  shows "t div m = q \<longleftrightarrow> q * m \<le> t \<and> t < q * m + m"
proof
  assume "t div m = q"
  then have "t = q * m + t mod m" by (metis div_mult_mod_eq)
  moreover have "0 \<le> t mod m" "t mod m < m" using assms by simp_all
  ultimately show "q * m \<le> t \<and> t < q * m + m" by linarith
next
  assume w: "q * m \<le> t \<and> t < q * m + m"
  have "t = (t - q * m) + q * m" by simp
  then have "t div m = q + (t - q * m) div m" using assms by (metis div_mult_self1 less_irrefl add.commute)
  moreover have "(t - q * m) div m = 0" using w by (intro div_pos_pos_trivial) simp_all
  ultimately show "t div m = q" by simp
qed

text \<open>The custom filter selects the 24 hours from the chosen instant.\<close>

lemma custom_window:
  "in_history_filter HCustom (Some c) now s \<longleftrightarrow> c \<le> signal_date s \<and> signal_date s < c + msPerDay"
proof -
  have "Date_UTC (getUTCFullYear c) (getUTCMonth c) (getUTCDate c + 1) + c mod msPerDay = c + msPerDay"
    using utc_split [of c] by (simp add: Date_UTC_of algebra_simps)
  then show ?thesis by (simp add: in_history_filter_def Let_def)
qed

lemma date_input_midnight: "date_input_value v = Some c \<Longrightarrow> c mod msPerDay = 0"
  by (auto simp: date_input_value_def Date_UTC_def split: if_splits list.splits)

text \<open>From a UTC midnight the custom filter selects the records of that day.\<close>

lemma midnight_day_filter:
  assumes "c mod msPerDay = 0"
  shows "in_history_filter HCustom (Some c) now s \<longleftrightarrow> utc_day (signal_date s) = utc_day c"
proof -
  have c: "c = utc_day c * msPerDay"
    using assms utc_split [of c] by simp
  have "in_history_filter HCustom (Some c) now s \<longleftrightarrow> utc_day c * msPerDay \<le> signal_date s \<and> signal_date s < utc_day c * msPerDay + msPerDay"
    using custom_window [of c now s] c by simp
  also have "\<dots> \<longleftrightarrow> utc_day (signal_date s) = utc_day c"
    unfolding utc_day_def [of "signal_date s"] by (rule div_window [symmetric]) simp
  finally show ?thesis .
qed

lemma split_dash_digits: "CHR ''-'' \<notin> set a \<Longrightarrow> split_dash (a @ CHR ''-'' # r) = a # split_dash r"
  by (induction a) auto

lemma split_dash_last: "CHR ''-'' \<notin> set a \<Longrightarrow> split_dash a = [a]"
  by (induction a) auto

lemma date_input_formatted:
  assumes "0 \<le> getUTCFullYear d"
  shows "date_input_value (formatDateForInput (Some d)) = Some (utc_day d * msPerDay)"
proof -
  let ?a = "pad2 (getUTCMonth d + 1)" and ?b = "pad2 (getUTCDate d)"
  have p: "digits_value ?a = nat (getUTCMonth d + 1)" "digits_value ?b = nat (getUTCDate d)"
    "set ?a \<subseteq> set ''0123456789''" "set ?b \<subseteq> set ''0123456789''"
    using pad2_fields [of d] by simp_all
  have y: "js_int_string (getUTCFullYear d) = nat_digits (nat (getUTCFullYear d))"
    using assms by (simp add: js_int_string_def)
  have nd: "CHR ''-'' \<notin> set (nat_digits (nat (getUTCFullYear d)))" "CHR ''-'' \<notin> set ?a" "CHR ''-'' \<notin> set ?b"
    using set_nat_digits [of "nat (getUTCFullYear d)"] p(3,4) by auto
  have f: "formatDateForInput (Some d) = nat_digits (nat (getUTCFullYear d)) @ CHR ''-'' # ?a @ CHR ''-'' # ?b"
    using y by (simp add: formatDateForInput_def)
  have r: "0 \<le> getUTCMonth d + 1" "0 \<le> getUTCDate d" using utc_date_ranges [of d] by simp_all
  have "Date_UTC (getUTCFullYear d) (getUTCMonth d) (getUTCDate d) = utc_day d * msPerDay"
    by (simp add: Date_UTC_of)
  then show ?thesis
    using assms r p(1,2) by (simp add: f date_input_value_def split_dash_digits split_dash_last nd)
qed

subsection \<open>Grouping\<close>

lemma add_signal_sel:
  "dg_signals (add_signal g s) = dg_signals g @ [s]
   \<and> dailyPnl (add_signal g s) = dailyPnl g + resultPercent s
   \<and> dg_wins (add_signal g s) = dg_wins g + (if status s = WIN then 1 else 0)
   \<and> dg_losses (add_signal g s) = dg_losses g + (if status s = LOSS then 1 else 0)"
  by (cases "status s") (simp_all add: add_signal_def Let_def)

lemma group_ok_add: "group_ok k g \<Longrightarrow> dateKey (signal_date s) = k \<Longrightarrow> group_ok k (add_signal g s)"
  by (auto simp: group_ok_def add_signal_sel)

lemma group_ok_new: "group_ok (dateKey (signal_date s)) (add_signal empty_group s)"
  by (simp add: group_ok_def add_signal_sel empty_group_def)

lemma group_update_keys:
  "map fst (group_update k s gs) = (if k \<in> set (map fst gs) then map fst gs else map fst gs @ [k])"
  by (induction gs) (auto simp: rev_image_eqI)

lemma group_update_members: "mset (members (group_update k s gs)) = mset (members gs) + {#s#}"
  by (induction gs) (auto simp: members_def add_signal_sel empty_group_def)

lemma group_update_ok:
  assumes "\<forall>(k', g)\<in>set gs. group_ok k' g"
  shows "\<forall>(k', g)\<in>set (group_update (dateKey (signal_date s)) s gs). group_ok k' g"
  using assms by (induction gs) (auto simp: group_ok_add group_ok_new split: if_splits)

lemma group_by_day_foldl:
  assumes "distinct (map fst gs)" "\<forall>(k, g)\<in>set gs. group_ok k g"
  shows "distinct (map fst (foldl (\<lambda>acc signal. group_update (dateKey (signal_date signal)) signal acc) gs xs))
     \<and> mset (members (foldl (\<lambda>acc signal. group_update (dateKey (signal_date signal)) signal acc) gs xs))
         = mset (members gs) + mset xs
     \<and> (\<forall>(k, g)\<in>set (foldl (\<lambda>acc signal. group_update (dateKey (signal_date signal)) signal acc) gs xs). group_ok k g)"
  using assms
proof (induction xs arbitrary: gs)
  case (Cons x xs)
  let ?gs = "group_update (dateKey (signal_date x)) x gs"
  have "distinct (map fst ?gs)" using Cons.prems(1) by (simp add: group_update_keys)
  moreover have "\<forall>(k, g)\<in>set ?gs. group_ok k g" using group_update_ok [OF Cons.prems(2)] .
  ultimately show ?case using Cons.IH [of ?gs] by (simp add: group_update_members)
qed (simp add: members_def)

lemma group_by_day_spec:
  "distinct (map fst (group_by_day fs)) \<and> mset (members (group_by_day fs)) = mset fs
   \<and> (\<forall>(k, g)\<in>set (group_by_day fs). group_ok k g)"
  using group_by_day_foldl [of "[]" fs] by (simp add: group_by_day_def members_def)

lemma group_ok_perm:
  assumes "mset xs = mset (dg_signals g)" "group_ok k g"
  shows "group_ok k (g\<lparr>dg_signals := xs\<rparr>)"
proof -
  have "set xs = set (dg_signals g)" using assms(1) by (metis set_mset_mset)
  moreover have "sum_list (map f xs) = sum_list (map f (dg_signals g))" for f :: "historical_signal \<Rightarrow> real"
    using assms(1) by (metis mset_map sum_mset_sum_list)
  moreover have "length (filter P xs) = length (filter P (dg_signals g))" for P
    using assms(1) by (metis mset_filter size_mset)
  ultimately show ?thesis using assms(2) by (auto simp: group_ok_def)
qed

lemma sort_groups_members:
  "map fst (sort_groups gs) = map fst gs \<and> mset (members (sort_groups gs)) = mset (members gs)"
  by (induction gs) (auto simp: sort_groups_def members_def)

lemma sort_groups_spec:
  "map fst (sort_groups gs) = map fst gs \<and> mset (members (sort_groups gs)) = mset (members gs)
   \<and> (\<forall>(k, g)\<in>set (sort_groups gs). sorted (map (\<lambda>s. - signal_date s) (dg_signals g)))
   \<and> ((\<forall>(k, g)\<in>set gs. group_ok k g) \<longrightarrow> (\<forall>(k, g)\<in>set (sort_groups gs). group_ok k g))"
  by (induction gs) (auto simp: sort_groups_def members_def group_ok_perm)

subsection \<open>The summary\<close>

lemma best_from_find:
  "find (\<lambda>s. \<forall>x\<in>set (b # cs). resultPercent x \<le> resultPercent s) (b # cs) = Some (best_from b cs)"
proof (induction cs arbitrary: b)
  case Nil
  then show ?case by simp
next
  case (Cons c cs)
  show ?case
  proof (cases "resultPercent c > resultPercent b")
    case True
    have "find (\<lambda>s. \<forall>x\<in>set (b # c # cs). resultPercent x \<le> resultPercent s) (b # c # cs)
        = find (\<lambda>s. \<forall>x\<in>set (c # cs). resultPercent x \<le> resultPercent s) (c # cs)"
      using True by (auto intro!: find_cong)
    with True Cons.IH [of c] show ?thesis by simp
  next
    case False
    have "find (\<lambda>s. \<forall>x\<in>set (b # c # cs). resultPercent x \<le> resultPercent s) (b # c # cs)
        = find (\<lambda>s. \<forall>x\<in>set (b # cs). resultPercent x \<le> resultPercent s) (b # cs)"
      using False by (auto intro!: find_cong)
    with False Cons.IH [of b] show ?thesis by simp
  qed
qed

lemma best_trade_first_max: "best_trade cs = first_max cs"
proof (cases cs)
  case Nil
  then show ?thesis by (simp add: best_trade_def first_max_def)
next
  case (Cons c cs')
  show ?thesis unfolding best_trade_def first_max_def Cons by (simp only: list.case best_from_find)
qed

lemma foldl_pnl: "foldl (\<lambda>acc s. acc + resultPercent s) a cs = a + sum_list (map resultPercent cs)"
  by (induction cs arbitrary: a) (simp_all add: algebra_simps)

lemma completed_counts:
  "length (filter (\<lambda>s. status s = WIN) (filter is_completed fs))
     + length (filter (\<lambda>s. status s = LOSS) (filter is_completed fs)) = length (filter is_completed fs)"
proof -
  have "filter (\<lambda>s. status s = LOSS) (filter is_completed fs) = filter (\<lambda>s. \<not> status s = WIN) (filter is_completed fs)"
    by (auto simp: is_completed_def intro!: filter_cong)
  then show ?thesis using sum_length_filter_compl by metis
qed

lemma ratio_percent_le: "w \<le> n \<Longrightarrow> real w / real n * 100 \<le> 100"
proof (cases "n = 0")
  case False
  assume "w \<le> n"
  with False show ?thesis by (simp add: divide_le_eq)
qed simp

lemma summarize_counts: "sm_wins (summarize fs) + sm_losses (summarize fs) = totalTrades (summarize fs)"
  by (simp add: summarize_def Let_def completed_counts del: filter_filter)

lemma summarize_spec:
  "bestTrade (summarize fs) = first_max (filter is_completed fs)
   \<and> totalTrades (summarize fs) = length (filter is_completed fs)
   \<and> sm_wins (summarize fs) + sm_losses (summarize fs) = totalTrades (summarize fs)
   \<and> totalPnl (summarize fs) = sum_list (map resultPercent (filter is_completed fs))
   \<and> 0 \<le> winRate (summarize fs) \<and> winRate (summarize fs) \<le> 100"
proof -
  let ?cs = "filter is_completed fs"
  have "real (length (filter (\<lambda>s. status s = WIN) ?cs)) / real (length ?cs) * 100 \<le> 100"
    by (rule ratio_percent_le [OF length_filter_le])
  then show ?thesis
    by (simp add: summarize_def Let_def best_trade_first_max foldl_pnl completed_counts del: filter_filter)
qed

section \<open>Properties of the report\<close>

text \<open>C3: the key \<open>YYYY-MM-DD\<close> under which the report groups a record names its UTC day:
  read back (year before the last six characters, two-digit month and day) it gives the day
  of the record's time, and two times share a key exactly when they fall on the same UTC day.\<close>

theorem dateKey_roundtrip:
  "key_day (dateKey t) = utc_day t \<and> (dateKey a = dateKey b \<longleftrightarrow> utc_day a = utc_day b)"
  by (simp add: key_day_dateKey dateKey_eq_iff)

text \<open>C18: the day groups of the report partition the selected records: the keys are
  distinct, the groups hold exactly the selected records (as a multiset), every group is
  non-empty, holds only records of its day, is sorted newest first, and its \<open>dailyPnl\<close>,
  \<open>wins\<close> and \<open>losses\<close> are the sum of its results and its counts of WIN and LOSS records.\<close>

theorem history_groups:
  "distinct (map fst (groupedByDay (historyReport hs f c now)))
   \<and> mset (members (groupedByDay (historyReport hs f c now))) = mset (filter (in_history_filter f c now) hs)
   \<and> (\<forall>(k, g)\<in>set (groupedByDay (historyReport hs f c now)).
        group_ok k g \<and> sorted (map (\<lambda>s. - signal_date s) (dg_signals g)))"
proof (cases "filter (in_history_filter f c now) hs = []")
  case True
  then show ?thesis by (simp add: historyReport_def members_def)
next
  case False
  let ?fs = "filter (in_history_filter f c now) hs"
  have g: "groupedByDay (historyReport hs f c now) = sort_groups (group_by_day ?fs)"
    using False by (simp add: historyReport_def Let_def)
  show ?thesis
    using group_by_day_spec [of ?fs] sort_groups_spec [of "group_by_day ?fs"] unfolding g by auto
qed

theorem history_groups_witness:
  "distinct (map fst (groupedByDay (historyReport demo_history HAll None 0)))
   \<and> mset (members (groupedByDay (historyReport demo_history HAll None 0))) = mset demo_history
   \<and> list_all (\<lambda>(k, g). group_ok k g \<and> sorted (map (\<lambda>s. - signal_date s) (dg_signals g)))
       (groupedByDay (historyReport demo_history HAll None 0))"
  using history_groups [of demo_history HAll None 0] by (simp add: in_history_filter_def list_all_iff)

text \<open>C36: the summary of the report counts the completed (WIN or LOSS) selected records:
  its best trade is the first of largest result, its total P\&L their sum, its trade count
  theirs and the sum of its wins and losses, and its win rate a percentage.\<close>

theorem history_summary:
  "bestTrade (summary (historyReport hs f c now)) = first_max (filter is_completed (filter (in_history_filter f c now) hs))
   \<and> totalTrades (summary (historyReport hs f c now)) = length (filter is_completed (filter (in_history_filter f c now) hs))
   \<and> sm_wins (summary (historyReport hs f c now)) + sm_losses (summary (historyReport hs f c now))
       = totalTrades (summary (historyReport hs f c now))
   \<and> totalPnl (summary (historyReport hs f c now))
       = sum_list (map resultPercent (filter is_completed (filter (in_history_filter f c now) hs)))
   \<and> 0 \<le> winRate (summary (historyReport hs f c now)) \<and> winRate (summary (historyReport hs f c now)) \<le> 100"
proof (cases "filter (in_history_filter f c now) hs = []")
  case True
  then show ?thesis by (simp add: historyReport_def empty_summary_def first_max_def del: filter_filter)
next
  case False
  then show ?thesis using summarize_spec [of "filter (in_history_filter f c now) hs"]
    by (simp add: historyReport_def Let_def del: filter_filter)
qed

theorem history_summary_witness:
  "bestTrade (summary (historyReport demo_history HAll None 0)) = Some (demo_record WIN 12 1000)
   \<and> totalPnl (summary (historyReport demo_history HAll None 0)) = 7"
proof -
  have c: "filter is_completed (filter (in_history_filter HAll None 0) demo_history)
             = [demo_record WIN 12 1000, demo_record LOSS (-5) 2000]"
    by (simp add: demo_history_def in_history_filter_def is_completed_def demo_record_def)
  have "first_max [demo_record WIN 12 1000, demo_record LOSS (-5) 2000] = Some (demo_record WIN 12 1000)"
    by (simp add: first_max_def demo_record_def)
  then show ?thesis using history_summary [of demo_history HAll None 0] unfolding c by (simp add: demo_record_def)
qed

text \<open>C29: a day typed into the view's date input (\<open>handleDateInputChange\<close>) is midnight
  UTC, and the custom filter with it selects exactly the records whose day key is that
  day's key: the records of one calendar day, as the view's single-day picker promises.\<close>

theorem custom_day_filter:
  assumes "date_input_value v = Some c"
  shows "in_history_filter HCustom (Some c) now s \<longleftrightarrow> dateKey (signal_date s) = dateKey c"
  using midnight_day_filter [OF date_input_midnight [OF assms]] by (simp add: dateKey_eq_iff)

theorem custom_day_filter_witness:
  "date_input_value ''2024-05-09'' = Some (Date_UTC 2024 4 9)
   \<and> (in_history_filter HCustom (Some (Date_UTC 2024 4 9)) 0 (demo_record WIN 12 1000)
        \<longleftrightarrow> dateKey 1000 = dateKey (Date_UTC 2024 4 9))"
proof -
  have d: "date_input_value ''2024-05-09'' = Some (Date_UTC 2024 4 9)"
    by (simp add: date_input_value_def digits_value_def digit_value_def)
  show ?thesis using custom_day_filter [OF d, of 0 "demo_record WIN 12 1000"] d
    by (simp add: signal_date_def demo_record_def)
qed

end
