(* ===== verification/HistoryPage.thy ===== *)
theory HistoryPage
  imports History
begin

text \<open>
  The history page as it reacts to the user: the filter state of \<open>App\<close>
  (\<open>historyFilter\<close>, \<open>customHistoryDate\<close>, \<open>handleFilterChange\<close>, \<open>handleDateChange\<close> of
  \<open>src/src/App.tsx\<close>) and the local state of \<open>HistoryView\<close>
  (\<open>src/components/HistoryView.tsx\<close>: the number of days shown, the date typed but not yet
  applied, their effects and the \<open>Carregar mais\<close> button). One event is a click or an input,
  followed by the effects React runs because their dependencies changed, in the order they
  are declared. The report is the memo of \<open>App\<close>, computed when its dependencies last
  changed. The lemmas show that pressing
  \<open>Carregar mais\<close> while it is shown ends, after a number of presses given in closed form,
  with every day shown.
\<close>

definition INITIAL_DAYS_TO_SHOW :: nat where "INITIAL_DAYS_TO_SHOW = 3"

definition DAYS_TO_LOAD_INCREMENT :: nat where "DAYS_TO_LOAD_INCREMENT = 5"

text \<open>The state of the page: the archive and the two filter fields of \<open>App\<close> (lines 19,
  24-25), the time \<open>Date.now()\<close> read by the last run of the \<open>historyReport\<close> memo (lines
  269-270, 381), and the two fields of \<open>HistoryView\<close> (lines 150-151).\<close>

record page_state =
  pg_history :: "historical_signal list"
  historyFilter :: history_filter
  customHistoryDate :: "millis option"
  reportTime :: millis
  visibleDaysCount :: nat
  tempDate :: "millis option"

text \<open>\<open>App.tsx\<close> lines 384-389 and 391-394.\<close>

definition handleFilterChange :: "history_filter \<Rightarrow> page_state \<Rightarrow> page_state" where
  "handleFilterChange flt p =
     (let p' = (if flt \<noteq> HCustom then p\<lparr>customHistoryDate := None\<rparr> else p)
      in p'\<lparr>historyFilter := flt\<rparr>)"

definition handleDateChange :: "millis option \<Rightarrow> page_state \<Rightarrow> page_state" where
  "handleDateChange date p =
     handleFilterChange (if date \<noteq> None then HCustom else HAll) (p\<lparr>customHistoryDate := date\<rparr>)"

text \<open>The report the page shows: the memo of \<open>App.tsx\<close> lines 268-381, computed at the time
  of its last run.\<close>

definition page_report :: "page_state \<Rightarrow> history_report" where
  "page_report p = historyReport (pg_history p) (historyFilter p) (customHistoryDate p) (reportTime p)"

text \<open>The days of the report, newest first (line 147), and the ones shown (line 163).\<close>

definition page_days :: "page_state \<Rightarrow> string list" where
  "page_days p = sortedDays (page_report p)"

definition visibleDays :: "page_state \<Rightarrow> string list" where
  "visibleDays p = take (visibleDaysCount p) (page_days p)"

text \<open>Line 318: the button is shown while days are hidden.\<close>

definition load_more_shown :: "page_state \<Rightarrow> bool" where
  "load_more_shown p \<longleftrightarrow> visibleDaysCount p < length (page_days p)"

text \<open>Line 256: \<open>Aplicar\<close> is disabled when the typed date equals the applied one
  (\<open>undefined === undefined\<close> when both are empty).\<close>

definition apply_enabled :: "page_state \<Rightarrow> bool" where
  "apply_enabled p \<longleftrightarrow> customHistoryDate p \<noteq> tempDate p"

text \<open>\<open>sortedDays.join(',')\<close>, the dependency of the pagination effect.\<close>

definition join_comma :: "string list \<Rightarrow> string" where
  "join_comma ks = (case ks of [] \<Rightarrow> [] | k # ks' \<Rightarrow> k @ concat (map (\<lambda>x. CHR '','' # x) ks'))"

datatype page_event = FilterButton history_filter | DateInput string | ApplyDate | LoadMore
  | HistoryChanged "historical_signal list"

text \<open>The handler of an event (lines 174-186, 229-232, 254-256, 320-321; a new archive comes
  from a tick of \<open>App\<close>); a disabled or hidden button does nothing.\<close>

definition page_handler :: "page_event \<Rightarrow> page_state \<Rightarrow> page_state" where
  "page_handler e p =
     (case e of
        FilterButton f \<Rightarrow> handleFilterChange f p
      | DateInput v \<Rightarrow> p\<lparr>tempDate := date_input_value v\<rparr>
      | ApplyDate \<Rightarrow> (if apply_enabled p then handleDateChange (tempDate p) p else p)
      | LoadMore \<Rightarrow>
          (if load_more_shown p then p\<lparr>visibleDaysCount := visibleDaysCount p + DAYS_TO_LOAD_INCREMENT\<rparr> else p)
      | HistoryChanged hs \<Rightarrow> p\<lparr>pg_history := hs\<rparr>)"

text \<open>The render after the handler, at time \<open>now\<close>: the memo runs again, reading
  \<open>Date.now()\<close>, when one of its dependencies changed (line 381; a state setter given the
  value it holds changes nothing, and \<open>setHistoricalSignals\<close> is only called with a new
  array).\<close>

definition memo_refresh :: "millis \<Rightarrow> page_event \<Rightarrow> page_state \<Rightarrow> page_state \<Rightarrow> page_state" where
  "memo_refresh now e p p' =
     (if (case e of HistoryChanged _ \<Rightarrow> True | _ \<Rightarrow> False)
         \<or> historyFilter p' \<noteq> historyFilter p \<or> customHistoryDate p' \<noteq> customHistoryDate p
      then p'\<lparr>reportTime := now\<rparr> else p')"

text \<open>The effects of lines 154-161 after the render: the typed date follows the applied one
  when that changed, and the count of days shown returns to three when the list of days
  changed.\<close>

definition page_effects :: "page_state \<Rightarrow> page_state \<Rightarrow> page_state" where
  "page_effects p p' =
     (let p1 = (if customHistoryDate p' \<noteq> customHistoryDate p then p'\<lparr>tempDate := customHistoryDate p'\<rparr> else p')
      in if join_comma (page_days p1) \<noteq> join_comma (page_days p) then p1\<lparr>visibleDaysCount := INITIAL_DAYS_TO_SHOW\<rparr>
         else p1)"

definition page_step :: "millis \<Rightarrow> page_event \<Rightarrow> page_state \<Rightarrow> page_state" where
  "page_step now e p = page_effects p (memo_refresh now e p (page_handler e p))"

text \<open>The page when the history view opens: everything as \<open>App\<close> starts (lines 24-25), the
  memo as computed at time \<open>t\<close>, and the view's initial state (lines 150-151).\<close>

definition initial_page :: "millis \<Rightarrow> historical_signal list \<Rightarrow> page_state" where
  "initial_page t hs = \<lparr>pg_history = hs, historyFilter = HAll, customHistoryDate = None,
     reportTime = t, visibleDaysCount = INITIAL_DAYS_TO_SHOW, tempDate = None\<rparr>"

subsection \<open>Pressing \<open>Carregar mais\<close> until every day is shown\<close>

lemma page_step_load_more:
  assumes "load_more_shown p"
  shows "page_step now LoadMore p = p\<lparr>visibleDaysCount := visibleDaysCount p + DAYS_TO_LOAD_INCREMENT\<rparr>"
proof -
  have "page_days (p\<lparr>visibleDaysCount := c\<rparr>) = page_days p" for c
    by (simp add: page_days_def page_report_def)
  with assms show ?thesis
    by (simp add: page_step_def page_handler_def memo_refresh_def page_effects_def)
qed

text \<open>The user's loop: press the button while it is shown, at time \<open>now\<close>; the number of
  presses and the page at the end.\<close>

function load_until_all :: "millis \<Rightarrow> page_state \<Rightarrow> nat \<times> page_state" where
  "load_until_all now p =
     (if load_more_shown p then
        (let (k, q) = load_until_all now (page_step now LoadMore p) in (Suc k, q))
      else (0, p))"
  by pat_completeness auto

termination
proof (relation "measure (\<lambda>(now, p). length (page_days p) - visibleDaysCount p)")
  fix now p
  assume s: "load_more_shown p"
  have "page_days (p\<lparr>visibleDaysCount := c\<rparr>) = page_days p" for c
    by (simp add: page_days_def page_report_def)
  with s show "((now, page_step now LoadMore p), now, p)
      \<in> measure (\<lambda>(now, p). length (page_days p) - visibleDaysCount p)"
    by (simp add: page_step_load_more load_more_shown_def DAYS_TO_LOAD_INCREMENT_def)
qed simp

text \<open>The pages reachable from the opening of the view for an archive, by any sequence of
  events, each at its own time.\<close>

inductive page_reachable :: "page_state \<Rightarrow> bool" where
  init: "page_reachable (initial_page t hs)"
| step: "page_reachable p \<Longrightarrow> page_reachable (page_step now e p)"

subsection \<open>Specification vocabulary\<close>

text \<open>The invariant of the filter state: a custom date is set only under the custom filter,
  and it is a UTC midnight.\<close>

definition page_inv :: "page_state \<Rightarrow> bool" where
  "page_inv p \<longleftrightarrow>
     (\<forall>c. customHistoryDate p = Some c \<longrightarrow> historyFilter p = HCustom \<and> c mod msPerDay = 0)
     \<and> (\<forall>c. tempDate p = Some c \<longrightarrow> c mod msPerDay = 0)"

section \<open>Lemmas\<close>

lemma page_days_count [simp]: "page_days (p\<lparr>visibleDaysCount := c\<rparr>) = page_days p"
  by (simp add: page_days_def page_report_def)

lemma page_days_temp [simp]: "page_days (p\<lparr>tempDate := c\<rparr>) = page_days p"
  by (simp add: page_days_def page_report_def)

lemma page_effects_sel:
  "historyFilter (page_effects p p') = historyFilter p'
   \<and> customHistoryDate (page_effects p p') = customHistoryDate p'
   \<and> pg_history (page_effects p p') = pg_history p'
   \<and> reportTime (page_effects p p') = reportTime p'
   \<and> tempDate (page_effects p p') =
       (if customHistoryDate p' \<noteq> customHistoryDate p then customHistoryDate p' else tempDate p')"
  by (simp add: page_effects_def Let_def)

lemma memo_refresh_sel:
  "historyFilter (memo_refresh now e p p') = historyFilter p'
   \<and> customHistoryDate (memo_refresh now e p p') = customHistoryDate p'
   \<and> pg_history (memo_refresh now e p p') = pg_history p'
   \<and> tempDate (memo_refresh now e p p') = tempDate p'
   \<and> visibleDaysCount (memo_refresh now e p p') = visibleDaysCount p'"
  by (simp add: memo_refresh_def)

lemma page_inv_step:
  assumes "page_inv p"
  shows "page_inv (page_step now e p)"
proof -
  have h: "page_inv (page_handler e p)"
  proof (cases e)
    case (DateInput v)
    then show ?thesis using assms date_input_midnight [of v] by (auto simp: page_inv_def page_handler_def)
  next
    case ApplyDate
    then show ?thesis using assms
      by (auto simp: page_inv_def page_handler_def handleDateChange_def handleFilterChange_def Let_def)
  qed (use assms in \<open>auto simp: page_inv_def page_handler_def handleFilterChange_def Let_def\<close>)
  then show ?thesis by (auto simp: page_inv_def page_step_def page_effects_sel memo_refresh_sel)
qed

lemma page_reachable_inv: "page_reachable p \<Longrightarrow> page_inv p"
proof (induction rule: page_reachable.induct)
  case (init t hs)
  then show ?case by (simp add: page_inv_def initial_page_def)
next
  case (step p now e)
  show ?case by (rule page_inv_step [OF step.IH])
qed

lemma press_count: "0 < (d::nat) \<Longrightarrow> (d - 5 + 4) div 5 + 1 = (d + 4) div 5"
proof (cases "d \<le> 5")
  case False
  then have "d + 4 = (d - 5 + 4) + 5" by simp
  then show ?thesis by (metis div_add_self2 zero_neq_numeral)
qed auto

section \<open>Properties of the page\<close>

text \<open>C15: pressing \<open>Carregar mais\<close> while it is shown ends: the loop stops after
  \<open>\<lceil>(n - c) / 5\<rceil>\<close> presses for \<open>n\<close> days of which \<open>c\<close> are shown, with every day of the
  report shown and the button gone.\<close>

theorem load_more_terminates:
  "fst (load_until_all now p) = (length (page_days p) - visibleDaysCount p + 4) div 5
   \<and> visibleDays (snd (load_until_all now p)) = page_days p
   \<and> \<not> load_more_shown (snd (load_until_all now p))"
proof (induction now p rule: load_until_all.induct)
  case (1 now p)
  show ?case
  proof (cases "load_more_shown p")
    case True
    let ?q = "page_step now LoadMore p"
    have q: "?q = p\<lparr>visibleDaysCount := visibleDaysCount p + 5\<rparr>"
      using page_step_load_more [OF True] by (simp add: DAYS_TO_LOAD_INCREMENT_def)
    have l: "load_until_all now p = (Suc (fst (load_until_all now ?q)), snd (load_until_all now ?q))"
      using True by (simp add: case_prod_beta)
    have lt: "visibleDaysCount p < length (page_days p)" using True by (simp add: load_more_shown_def)
    have "(length (page_days p) - (visibleDaysCount p + 5) + 4) div 5 + 1
          = (length (page_days p) - visibleDaysCount p + 4) div 5"
      using press_count [of "length (page_days p) - visibleDaysCount p"] lt by simp
    with "1.IH" [OF True] show ?thesis unfolding l q by simp
  next
    case False
    then show ?thesis by (simp add: visibleDays_def load_more_shown_def)
  qed
qed



end
