(* ===== verification/HistoryRender.thy ===== *)
theory HistoryRender
  imports HistoryPage Storage Display Lifecycle
begin

text \<open>
  What the history page shows (\<open>src/components/HistoryView.tsx\<close> and
  \<open>src/components/PieChart.tsx\<close>), as data rather than markup: the summary cards with the
  win-rate chart, one section per visible day with a card (mobile) and a table row (desktop)
  per record, the React keys of those rows, and the day's totals. Colours are the
  \<open>tone\<close> of the Tailwind class; dates printed by \<open>toLocale*String\<close> are kept as the time
  they print. The lemmas show that the chart and the win-rate card agree, that the rows of a
  day have distinct keys whenever the archive has one record per signal, and what each
  record's badge says.
\<close>

subsection \<open>Records\<close>

text \<open>The colour classes the page uses: \<open>text-brand-green\<close>, \<open>text-brand-red\<close>,
  \<open>text-brand-blue\<close> and the grey and white of neutral values.\<close>

datatype tone = BrandGreen | BrandRed | BrandBlue | Neutral

text \<open>\<open>x.toFixed(d)\<close> as a text.\<close>

definition toFixed_text :: "nat \<Rightarrow> real \<Rightarrow> number_text" where
  "toFixed_text d x = FixedText (fixed_mantissa d x) d"

text \<open>Line 29 (and 83): the colour of the result.\<close>

definition result_tone :: "historical_signal \<Rightarrow> tone" where
  "result_tone s = (if status s = WIN then BrandGreen else if status s = LOSS then BrandRed else Neutral)"

text \<open>Lines 31-38 (and 85-92): the status badge, \<open>VITORIA\<close> (with an accented O), \<open>DERROTA\<close> or \<open>ATIVO\<close>.\<close>

definition VITORIA :: string where
  "VITORIA = ''VIT'' @ [char_of (211::nat)] @ ''RIA''"

definition status_badge :: "historical_signal \<Rightarrow> string \<times> tone" where
  "status_badge s =
     (if status s = WIN then (VITORIA, BrandGreen)
      else if status s = LOSS then (''DERROTA'', BrandRed)
      else (''ATIVO'', BrandBlue))"

text \<open>Line 39 (and 93): \<open>signal.tpsHit?.filter(Boolean).length || 0\<close>.\<close>

definition hit_targets :: "historical_signal \<Rightarrow> nat" where
  "hit_targets s = (case tpsHit s of None \<Rightarrow> 0 | Some h \<Rightarrow> length (filter id h))"

text \<open>Lines 53-55 (and 113-115): the \<open>n/5 Alvos\<close> line under the badge.\<close>

definition targets_label :: "historical_signal \<Rightarrow> string option" where
  "targets_label s =
     (if (status s = PARTIAL_WIN \<or> status s = WIN) \<and> 0 < hit_targets s
      then Some (nat_digits (hit_targets s) @ ''/5 Alvos'') else None)"

text \<open>What \<open>MemoizedSignalCard\<close> (lines 24-75) and \<open>MemoizedSignalRow\<close> (lines 78-119) show
  of a record; only the card shows the start time.\<close>

record record_view =
  rv_pair :: string
  rv_start :: "millis option"
  rv_updated :: millis
  rv_direction :: string
  rv_direction_tone :: tone
  rv_leverage :: string
  rv_result :: number_text
  rv_result_tone :: tone
  rv_badge :: "string \<times> tone"
  rv_targets :: "string option"

definition record_fields :: "historical_signal \<Rightarrow> millis option \<Rightarrow> record_view" where
  "record_fields s start =
     \<lparr>rv_pair = symbol s @ ''/'' @ pair s, rv_start = start, rv_updated = resolvedAt s,
      rv_direction = direction_name (direction s),
      rv_direction_tone = (if direction s = LONG then BrandGreen else BrandRed),
      rv_leverage = js_int_string (safeLeverage s) @ ''x'',
      rv_result = toFixed_text 2 (resultPercent s), rv_result_tone = result_tone s,
      rv_badge = status_badge s, rv_targets = targets_label s\<rparr>"

definition MemoizedSignalCard :: "historical_signal \<Rightarrow> record_view" where
  "MemoizedSignalCard s = record_fields s (Some (timestamp s))"

definition MemoizedSignalRow :: "historical_signal \<Rightarrow> record_view" where
  "MemoizedSignalRow s = record_fields s None"

text \<open>Lines 284 and 302: the React key of a record's card and row.\<close>

definition row_key :: "historical_signal \<Rightarrow> string" where
  "row_key s = sig_id s @ ''-'' @ toISOString (timestamp s)"

subsection \<open>Days\<close>

text \<open>Lines 270-316: the section of a day, none when the day has no records.\<close>

record day_view =
  dv_date :: string
  dv_keys :: "string list"
  dv_cards :: "record_view list"
  dv_rows :: "record_view list"
  dv_wins :: nat
  dv_losses :: nat
  dv_pnl :: number_text
  dv_pnl_tone :: tone

definition day_section :: "(string \<times> day_group) list \<Rightarrow> string \<Rightarrow> day_view option" where
  "day_section groups date =
     (case map_of groups date of
        None \<Rightarrow> None
      | Some dayData \<Rightarrow>
          if dg_signals dayData = [] then None
          else Some \<lparr>dv_date = date, dv_keys = map row_key (dg_signals dayData),
            dv_cards = map MemoizedSignalCard (dg_signals dayData),
            dv_rows = map MemoizedSignalRow (dg_signals dayData),
            dv_wins = dg_wins dayData, dv_losses = dg_losses dayData,
            dv_pnl = toFixed_text 2 (dailyPnl dayData),
            dv_pnl_tone = (if dailyPnl dayData \<ge> 0 then BrandGreen else BrandRed)\<rparr>)"

subsection \<open>Summary\<close>

text \<open>\<open>PieChart\<close> (\<open>PieChart.tsx\<close> lines 9-62): \<open>N/A\<close> without completed trades, otherwise
  the share of wins in percent (drawn as the dash length and printed with \<open>toFixed(0)\<close>).\<close>

definition PieChart :: "nat \<Rightarrow> nat \<Rightarrow> real option" where
  "PieChart wins losses =
     (let total = wins + losses
      in if total = 0 then None else Some (real wins / real total * 100))"

definition pie_label :: "real option \<Rightarrow> string + number_text" where
  "pie_label p = (case p of None \<Rightarrow> Inl ''N/A'' | Some w \<Rightarrow> Inr (toFixed_text 0 w))"

text \<open>Lines 199-228: the five summary cards.\<close>

record summary_view =
  sv_chart :: "real option"
  sv_pnl :: number_text
  sv_pnl_tone :: tone
  sv_wins :: string
  sv_losses :: string
  sv_best :: string
  sv_best_help :: "number_text option"

definition summary_cards :: "history_summary \<Rightarrow> summary_view" where
  "summary_cards sm =
     \<lparr>sv_chart = PieChart (sm_wins sm) (sm_losses sm),
      sv_pnl = toFixed_text 2 (totalPnl sm),
      sv_pnl_tone = (if totalPnl sm \<ge> 0 then BrandGreen else BrandRed),
      sv_wins = nat_digits (sm_wins sm), sv_losses = nat_digits (sm_losses sm),
      sv_best = (case bestTrade sm of None \<Rightarrow> ''N/A'' | Some b \<Rightarrow> symbol b),
      sv_best_help = map_option (toFixed_text 2 \<circ> resultPercent) (bestTrade sm)\<rparr>"

text \<open>Lines 146-163 and 264-329: the body of the page, the empty-state text or the
  visible days' sections and whether \<open>Carregar mais\<close> is offered.\<close>

datatype history_body = NoHistory | DaySections "day_view list" bool

definition history_body :: "history_report \<Rightarrow> nat \<Rightarrow> history_body" where
  "history_body report shown =
     (if groupedByDay report = [] then NoHistory
      else DaySections (List.map_filter (day_section (groupedByDay report)) (take shown (sortedDays report)))
             (shown < length (sortedDays report)))"


subsection \<open>An example\<close>

text \<open>Two records of one symbol opened five milliseconds apart.\<close>

definition demo_archive :: "historical_signal list" where
  "demo_archive = [demo_record WIN 12 1000, (demo_record LOSS (-5) 2000)\<lparr>timestamp := 5\<rparr>]"

section \<open>Lemmas\<close>

lemma toISOString_inj:
  assumes "valid_time t1" and "valid_time t2" and "toISOString t1 = toISOString t2"
  shows "t1 = t2"
proof -
  have "Some t1 = Some t2" using date_parse_iso [OF assms(1)] date_parse_iso [OF assms(2)] assms(3) by metis
  then show ?thesis by simp
qed

lemma row_key_inj:
  assumes "CHR ''-'' \<notin> set (sig_id s1)" and "CHR ''-'' \<notin> set (sig_id s2)"
    and "valid_time (timestamp s1)" and "valid_time (timestamp s2)" and "row_key s1 = row_key s2"
  shows "signal_key s1 = signal_key s2"
proof -
  have "sig_id s1 = sig_id s2 \<and> toISOString (timestamp s1) = toISOString (timestamp s2)"
    using append_sep_eq [OF assms(1,2)] assms(5) by (simp add: row_key_def)
  then show ?thesis using toISOString_inj [OF assms(3,4)] by (simp add: signal_key_def)
qed

lemma distinct_row_keys:
  assumes "distinct (map signal_key xs)"
    and "\<forall>s\<in>set xs. valid_time (timestamp s) \<and> CHR ''-'' \<notin> set (sig_id s)"
  shows "distinct (map row_key xs)"
proof -
  have "inj_on row_key (set xs)"
  proof (rule inj_onI)
    fix s1 s2 assume "s1 \<in> set xs" "s2 \<in> set xs" "row_key s1 = row_key s2"
    then show "s1 = s2" using row_key_inj [of s1 s2] assms distinct_map [of signal_key xs]
      by (auto dest: inj_onD)
  qed
  then show ?thesis using assms(1) by (simp add: distinct_map)
qed

lemma report_members:
  "mset (members (groupedByDay (historyReport hs f c now))) = mset (filter (in_history_filter f c now) hs)"
  using sort_groups_members [of "group_by_day (filter (in_history_filter f c now) hs)"]
    group_by_day_spec [of "filter (in_history_filter f c now) hs"]
  by (simp add: historyReport_def Let_def members_def filter_empty_conv del: filter_filter)

lemma distinct_concat_member: "distinct (concat xss) \<Longrightarrow> xs \<in> set xss \<Longrightarrow> distinct xs"
  by (simp add: distinct_concat_iff)

lemma day_section_keys:
  "day_section G d = Some v \<Longrightarrow> \<exists>g. (d, g) \<in> set G \<and> dv_keys v = map row_key (dg_signals g)"
  by (auto simp: day_section_def split: option.splits if_splits dest: map_of_SomeD)

lemma map_filter_SomeE: "v \<in> set (List.map_filter f xs) \<Longrightarrow> \<exists>x\<in>set xs. f x = Some v"
  by (induction xs) (auto simp: List.map_filter_simps split: option.splits)

lemma summarize_win_rate:
  "winRate (summarize fs) =
     (if 0 < totalTrades (summarize fs) then real (sm_wins (summarize fs)) / real (totalTrades (summarize fs)) * 100 else 0)"
  by (simp add: summarize_def Let_def)

text \<open>C9: on the history page, the cards and rows of every day shown have distinct React
  keys (\<open>id\<close>, a dash and the ISO start time), whenever the archive holds one record per
  signal (as every tick keeps it, C5), the symbols contain no dash and the start times are
  valid \<open>Date\<close>s; so React never conflates two records of a day.\<close>

theorem rendered_keys_distinct:
  assumes "distinct (map signal_key hs)"
    and "\<forall>s\<in>set hs. valid_time (timestamp s) \<and> CHR ''-'' \<notin> set (sig_id s)"
  shows "case history_body (historyReport hs f c now) n of
           NoHistory \<Rightarrow> True
         | DaySections vs _ \<Rightarrow> list_all (\<lambda>v. distinct (dv_keys v)) vs"
proof -
  let ?G = "groupedByDay (historyReport hs f c now)"
  let ?sel = "filter (in_history_filter f c now) hs"
  have "distinct (map row_key ?sel)"
    using distinct_row_keys [of ?sel] assms distinct_map_filter [OF assms(1)] by auto
  then have "distinct (map row_key (members ?G))"
    using mset_eq_imp_distinct_iff [of "map row_key (members ?G)" "map row_key ?sel"] report_members
    by (metis mset_map)
  moreover have "map row_key (members ?G) = concat (map (map row_key \<circ> dg_signals \<circ> snd) ?G)"
    by (simp add: members_def map_concat comp_def)
  ultimately have d: "distinct (concat (map (map row_key \<circ> dg_signals \<circ> snd) ?G))" by simp
  have g: "distinct (map row_key (dg_signals g))" if "(d, g) \<in> set ?G" for d g
  proof -
    have "map row_key (dg_signals g) \<in> set (map (map row_key \<circ> dg_signals \<circ> snd) ?G)"
      using that by force
    then show ?thesis by (rule distinct_concat_member [OF d])
  qed
  show ?thesis
    by (auto simp: history_body_def list_all_iff dest!: map_filter_SomeE day_section_keys intro: g)
qed

theorem rendered_keys_distinct_witness:
  "distinct (map signal_key demo_archive)
   \<and> list_all (\<lambda>s. valid_time (timestamp s) \<and> CHR ''-'' \<notin> set (sig_id s)) demo_archive
   \<and> (case history_body (historyReport demo_archive HAll None 0) 3 of
         NoHistory \<Rightarrow> True
       | DaySections vs _ \<Rightarrow> list_all (\<lambda>v. distinct (dv_keys v)) vs)"
proof -
  have a: "nat_digits 0 = ''0''" and b: "nat_digits 5 = ''5''"
    by (subst nat_digits.simps, simp)+
  have h1: "distinct (map signal_key demo_archive)"
    by (simp add: demo_archive_def demo_record_def signal_key_def js_int_string_def a b)
  have h2: "\<forall>s\<in>set demo_archive. valid_time (timestamp s) \<and> CHR ''-'' \<notin> set (sig_id s)"
    by (simp add: demo_archive_def demo_record_def valid_time_def)
  show ?thesis using rendered_keys_distinct [OF h1 h2] h1 h2 by (simp add: list_all_iff)
qed

text \<open>C12: the win-rate chart of the history page (\<open>PieChart\<close> fed with the summary's wins
  and losses) shows \<open>N/A\<close> exactly when there is no completed trade, and otherwise the same
  percentage as the summary's \<open>winRate\<close>, for every archive, filter and date.\<close>

theorem pie_matches_win_rate:
  "sv_chart (summary_cards (summary (historyReport hs f c now)))
   = (if totalTrades (summary (historyReport hs f c now)) = 0 then None
      else Some (winRate (summary (historyReport hs f c now))))"
proof (cases "filter (in_history_filter f c now) hs = []")
  case True
  then show ?thesis by (simp add: historyReport_def empty_summary_def summary_cards_def PieChart_def del: filter_filter)
next
  case False
  let ?s = "summarize (filter (in_history_filter f c now) hs)"
  have "sm_wins ?s + sm_losses ?s = totalTrades ?s" by (rule summarize_counts)
  then show ?thesis using False summarize_win_rate [of "filter (in_history_filter f c now) hs"]
    by (simp add: historyReport_def summary_cards_def PieChart_def Let_def del: filter_filter)
qed

end
