(* ===== verification/CryptoInfo.thy ===== *)
theory CryptoInfo
  imports Display
begin

text \<open>
  The two services behind the buttons of the signal card. \<open>src/services/geminiService.ts\<close>
  looks up an asset on CoinGecko: \<open>getCoingeckoIdMap\<close> builds the map from lower-case symbol
  to coin id from \<open>/coins/list\<close> and caches its entries in \<open>sessionStorage\<close>,
  \<open>getCryptoInfoWithCoinGecko\<close> reads \<open>/coins/{id}\<close> into a \<open>CryptoInfo\<close>, and
  \<open>getCryptoInfo\<close> caches that per symbol. \<open>src/services/geminiValidationService.ts\<close> asks
  Gemini for a second opinion and turns every failure into a message. The network answers
  are parameters (\<open>fetch_result\<close>), \<open>sessionStorage\<close> is a map from keys to the values
  whose JSON text it holds, and whether a \<open>setItem\<close> succeeds is a parameter too. Thrown
  errors are \<open>Inl\<close> messages. The lemmas show that the id map keeps the first coin of each
  symbol, as the comment of line 41 says, and that a symbol looked up once is served from
  the session cache, in any letter case, without the network.
\<close>

section \<open>Strings\<close>

text \<open>\<open>toLowerCase\<close> and \<open>toUpperCase\<close> on ASCII letters (tickers are ASCII; other
  characters are left as they are).\<close>

definition js_lower_char :: "char \<Rightarrow> char" where
  "js_lower_char c = (let n = (of_char c :: nat) in if 65 \<le> n \<and> n \<le> 90 then char_of (n + 32) else c)"

definition js_upper_char :: "char \<Rightarrow> char" where
  "js_upper_char c = (let n = (of_char c :: nat) in if 97 \<le> n \<and> n \<le> 122 then char_of (n - 32) else c)"

definition js_lower :: "string \<Rightarrow> string" where
  "js_lower s = map js_lower_char s"

definition js_upper :: "string \<Rightarrow> string" where
  "js_upper s = map js_upper_char s"

text \<open>\<open>String.prototype.includes\<close>.\<close>

definition js_includes :: "string \<Rightarrow> string \<Rightarrow> bool" where
  "js_includes s t = list_ex (\<lambda>i. take (length t) (drop i s) = t) [0..<Suc (length s)]"

text \<open>The messages of the services (\<open>N\~ao foi poss\'ivel ...\<close>).\<close>

definition nao_foi_possivel :: string where
  "nao_foi_possivel = ''N'' @ [a_tilde] @ ''o foi poss'' @ [i_acute] @ ''vel ''"

section \<open>CoinGecko\<close>

text \<open>A network answer: the request failed or its body was not JSON, the status was not
  ok, or the parsed body.\<close>

datatype 'a fetch_result = FetchFailed | NotOk nat | Ok 'a

text \<open>\<open>interface CoinGeckoCoin\<close> (lines 5-9).\<close>

record coin =
  coin_id :: string
  coin_symbol :: string
  coin_name :: string

text \<open>The text of \<open>formatSupply\<close> (lines 78-81): \<open>N/A\<close> for \<open>null\<close>, else the number as
  \<open>Intl.NumberFormat('en-US')\<close> prints it.\<close>

datatype supply_text = SupplyNA | SupplyNumber real

definition formatSupply :: "real option \<Rightarrow> supply_text" where
  "formatSupply value = (case value of None \<Rightarrow> SupplyNA | Some v \<Rightarrow> SupplyNumber v)"

text \<open>\<open>interface CryptoInfo\<close> of \<open>src/types.ts\<close> (lines 46-57); the two supplies are the
  texts \<open>formatSupply\<close> makes.\<close>

record crypto_info =
  ci_symbol :: string
  ci_name :: string
  ath :: real
  atl :: real
  maxSupply :: supply_text
  totalSupply :: supply_text
  marketCap :: real
  launchDate :: string
  category :: string
  website :: string

text \<open>The fields of the \<open>/coins/{id}\<close> body the code reads; \<open>None\<close> where an optional
  chain ends in \<open>null\<close> or \<open>undefined\<close>.\<close>

record coin_data =
  cd_symbol :: string
  cd_name :: string
  ath_usd :: "real option"
  atl_usd :: "real option"
  max_supply :: "real option"
  total_supply :: "real option"
  market_cap_usd :: "real option"
  genesis_date :: "string option"
  categories :: "string option list option"
  homepage :: "string option list option"

text \<open>A string is truthy when it is not empty.\<close>

definition truthy_str :: "string option \<Rightarrow> bool" where
  "truthy_str v \<longleftrightarrow> (case v of None \<Rightarrow> False | Some s \<Rightarrow> s \<noteq> [])"

text \<open>\<open>xs.join(', ')\<close>.\<close>

definition join_comma_space :: "string list \<Rightarrow> string" where
  "join_comma_space xs = (case xs of [] \<Rightarrow> [] | x # ys \<Rightarrow> x @ concat (map (\<lambda>y. '', '' @ y) ys))"

text \<open>Lines 83-94: the \<open>CryptoInfo\<close> of a body, with its defaults.\<close>

definition build_info :: "coin_data \<Rightarrow> crypto_info" where
  "build_info data =
     \<lparr>ci_symbol = js_upper (cd_symbol data), ci_name = cd_name data,
      ath = (case ath_usd data of Some v \<Rightarrow> v | None \<Rightarrow> 0),
      atl = (case atl_usd data of Some v \<Rightarrow> v | None \<Rightarrow> 0),
      maxSupply = formatSupply (max_supply data), totalSupply = formatSupply (total_supply data),
      marketCap = (case market_cap_usd data of Some v \<Rightarrow> v | None \<Rightarrow> 0),
      launchDate = (case genesis_date data of Some d \<Rightarrow> d | None \<Rightarrow> ''N/A''),
      category =
        (let joined = (case categories data of
                         None \<Rightarrow> []
                       | Some cs \<Rightarrow> join_comma_space (map the (filter truthy_str cs)))
         in if joined = [] then ''N/A'' else joined),
      website =
        (case homepage data of
           None \<Rightarrow> []
         | Some hs \<Rightarrow> (case find truthy_str hs of Some (Some h) \<Rightarrow> h | _ \<Rightarrow> []))\<rparr>"

text \<open>What \<open>sessionStorage\<close> holds under a key: the entries of the id map, a
  \<open>CryptoInfo\<close>, or a text that \<open>JSON.parse\<close> (or \<open>new Map\<close>) rejects.\<close>

datatype session_value = SessionIdMap "(string \<times> string) list" | SessionInfo crypto_info | SessionBad

type_synonym session = "string \<Rightarrow> session_value option"

definition COINGECKO_ID_MAP_KEY :: string where "COINGECKO_ID_MAP_KEY = ''coingeckoIdMap''"

text \<open>\<open>new Map(entries)\<close>: a later entry of a key overrides an earlier one.\<close>

definition map_of_entries :: "(string \<times> string) list \<Rightarrow> string \<rightharpoonup> string" where
  "map_of_entries es = map_of (rev es)"

text \<open>Lines 38-45: the loop over the coins, as the entries of the \<open>Map\<close> in insertion
  order; a symbol already present keeps its first coin.\<close>

fun id_map_loop :: "(string \<times> string) list \<Rightarrow> coin list \<Rightarrow> (string \<times> string) list" where
  "id_map_loop idMap [] = idMap"
| "id_map_loop idMap (c # cs) =
     (if map_of idMap (js_lower (coin_symbol c)) = None
      then id_map_loop (idMap @ [(js_lower (coin_symbol c), coin_id c)]) cs
      else id_map_loop idMap cs)"

definition COIN_LIST_ERROR :: string where
  "COIN_LIST_ERROR = nao_foi_possivel @ ''carregar a lista de moedas da CoinGecko.''"

text \<open>\<open>getCoingeckoIdMap\<close> (lines 19-54): the cached entries if they parse; otherwise the
  list is fetched, the map built and cached. A failed fetch, a status that is not ok and a
  failed \<open>setItem\<close> all end in the \<open>catch\<close>, which throws the one message.\<close>

definition getCoingeckoIdMap ::
  "coin list fetch_result \<Rightarrow> bool \<Rightarrow> session \<Rightarrow> (string + (string \<rightharpoonup> string)) \<times> session" where
  "getCoingeckoIdMap coinsResp stored ss =
     (case ss COINGECKO_ID_MAP_KEY of
        Some (SessionIdMap es) \<Rightarrow> (Inr (map_of_entries es), ss)
      | _ \<Rightarrow>
          (case coinsResp of
             Ok coins \<Rightarrow>
               (let idMap = id_map_loop [] coins
                in if stored then (Inr (map_of_entries idMap), ss(COINGECKO_ID_MAP_KEY \<mapsto> SessionIdMap idMap))
                   else (Inl COIN_LIST_ERROR, ss))
           | _ \<Rightarrow> (Inl COIN_LIST_ERROR, ss)))"

text \<open>\<open>getCryptoInfoWithCoinGecko\<close> (lines 63-102); \<open>detailsResp\<close> answers \<open>/coins/{id}\<close>.\<close>

definition getCryptoInfoWithCoinGecko ::
  "string \<Rightarrow> coin list fetch_result \<Rightarrow> (string \<Rightarrow> coin_data fetch_result) \<Rightarrow> bool \<Rightarrow> session
   \<Rightarrow> (string + crypto_info) \<times> session" where
  "getCryptoInfoWithCoinGecko sy coinsResp detailsResp stored ss =
     (case getCoingeckoIdMap coinsResp stored ss of
        (Inl e, ss') \<Rightarrow> (Inl e, ss')
      | (Inr idMap, ss') \<Rightarrow>
          (case idMap (js_lower sy) of
             None \<Rightarrow> (Inl (nao_foi_possivel @ ''encontrar o ativo \"'' @ sy @ ''\" na base de dados da CoinGecko.''), ss')
           | Some coinId \<Rightarrow>
               (case detailsResp coinId of
                  Ok data \<Rightarrow> (Inr (build_info data), ss')
                | _ \<Rightarrow> (Inl (nao_foi_possivel @ ''buscar os detalhes para '' @ sy @ '' na CoinGecko.''), ss'))))"

text \<open>\<open>getCryptoInfo\<close> (lines 110-131): the session cache under the lower-case symbol; a
  failed \<open>setItem\<close> of the result is rethrown by the \<open>catch\<close>.\<close>

definition info_cache_key :: "string \<Rightarrow> string" where
  "info_cache_key sy = ''crypto_info_coingecko_'' @ js_lower sy"

definition QUOTA_ERROR :: string where "QUOTA_ERROR = ''QuotaExceededError''"

definition getCryptoInfo ::
  "string \<Rightarrow> coin list fetch_result \<Rightarrow> (string \<Rightarrow> coin_data fetch_result) \<Rightarrow> bool \<Rightarrow> bool \<Rightarrow> session
   \<Rightarrow> (string + crypto_info) \<times> session" where
  "getCryptoInfo sy coinsResp detailsResp mapStored infoStored ss =
     (case ss (info_cache_key sy) of
        Some (SessionInfo info) \<Rightarrow> (Inr info, ss)
      | _ \<Rightarrow>
          (case getCryptoInfoWithCoinGecko sy coinsResp detailsResp mapStored ss of
             (Inl e, ss') \<Rightarrow> (Inl e, ss')
           | (Inr info, ss') \<Rightarrow>
               if infoStored then (Inr info, ss'(info_cache_key sy \<mapsto> SessionInfo info))
               else (Inl QUOTA_ERROR, ss')))"

section \<open>Gemini\<close>

text \<open>\<open>formatPriceForPrompt\<close> (lines 15-25): the number in the prompt; \<open>toPrecision(4)\<close>
  below 0.0001, else fixed decimals (the \<open>toFixed\<close> text of \<open>Display\<close>).\<close>

datatype prompt_number = PromptZero | PromptPrecision4 real | PromptFixed number_text

definition formatPriceForPrompt :: "real \<Rightarrow> prompt_number" where
  "formatPriceForPrompt p =
     (if p = 0 then PromptZero
      else if p < 0.0001 then PromptPrecision4 p
      else if p < 1 then PromptFixed (FixedText (fixed_mantissa 6 p) 6)
      else if p < 1000 then PromptFixed (FixedText (fixed_mantissa 4 p) 4)
      else PromptFixed (FixedText (fixed_mantissa 2 p) 2))"

text \<open>How the call to \<open>generateContent\<close> ends: the answer's text, or a rejection with an
  \<open>Error\<close> of some message, or with a value that is not an \<open>Error\<close>.\<close>

datatype gemini_outcome = Answer string | FailedWith string | FailedNonError

definition api_key_missing_msg :: string where
  "api_key_missing_msg = ''Erro de Configura'' @ [c_cedil, a_tilde] @ ''o: A chave da API do Gemini n'' @ [a_tilde]
     @ ''o foi definida.''"

definition api_key_invalid_msg :: string where
  "api_key_invalid_msg = ''Erro: A chave da API do Gemini '' @ [e_acute] @ '' inv'' @ [a_acute] @ ''lida ou expirou.''"

definition contact_error_msg :: string where
  "contact_error_msg = ''Erro ao contatar a A.I. de valida'' @ [c_cedil, a_tilde]
     @ ''o. Por favor, tente novamente mais tarde.''"

definition unknown_error_msg :: string where
  "unknown_error_msg = ''Ocorreu um erro desconhecido durante a valida'' @ [c_cedil, a_tilde] @ ''o.''"

text \<open>\<open>validateSignalAnalysis\<close> (lines 33-84): without a key the configuration message;
  otherwise the prompt built from the signal (lines 39-59) is sent and the answer's text
  returned, every failure becoming a message.\<close>

definition validateSignalAnalysis :: "bool \<Rightarrow> gemini_outcome \<Rightarrow> string" where
  "validateSignalAnalysis hasApiKey outcome =
     (if \<not> hasApiKey then api_key_missing_msg
      else (case outcome of
              Answer text \<Rightarrow> text
            | FailedWith message \<Rightarrow>
                if js_includes message ''API key not valid'' then api_key_invalid_msg else contact_error_msg
            | FailedNonError \<Rightarrow> unknown_error_msg))"

subsection \<open>An example\<close>

text \<open>Two coins with the symbol BTC in different cases; the first is Bitcoin.\<close>

definition demo_coins :: "coin list" where
  "demo_coins = [\<lparr>coin_id = ''bitcoin'', coin_symbol = ''btc'', coin_name = ''Bitcoin''\<rparr>,
     \<lparr>coin_id = ''batcat'', coin_symbol = ''BTC'', coin_name = ''Batcat''\<rparr>]"

definition demo_data :: coin_data where
  "demo_data = \<lparr>cd_symbol = ''btc'', cd_name = ''Bitcoin'', ath_usd = Some 73000, atl_usd = Some 67,
     max_supply = Some 21000000, total_supply = None, market_cap_usd = None, genesis_date = None,
     categories = Some [None, Some ''Layer 1''], homepage = Some [Some ''https://bitcoin.org'']\<rparr>"

definition demo_details :: "string \<Rightarrow> coin_data fetch_result" where
  "demo_details cid = (if cid = ''bitcoin'' then Ok demo_data else NotOk 404)"

section \<open>Lemmas\<close>

lemma map_of_append_shadow:
  assumes "map_of xs k \<noteq> None"
  shows "map_of (xs @ (k, v) # ys) = map_of (xs @ ys)"
  using assms by (auto simp: map_add_def fun_eq_iff split: option.splits)

lemma id_map_loop_map_of:
  "map_of (id_map_loop acc cs) = map_of (acc @ map (\<lambda>c. (js_lower (coin_symbol c), coin_id c)) cs)"
proof (induction cs arbitrary: acc)
  case (Cons c cs)
  show ?case
  proof (cases "map_of acc (js_lower (coin_symbol c)) = None")
    case True
    then show ?thesis using Cons.IH [of "acc @ [(js_lower (coin_symbol c), coin_id c)]"] by simp
  next
    case False
    then have "id_map_loop acc (c # cs) = id_map_loop acc cs" by (simp only: id_map_loop.simps if_False)
    moreover have "map_of (acc @ map (\<lambda>c. (js_lower (coin_symbol c), coin_id c)) (c # cs))
        = map_of (acc @ map (\<lambda>c. (js_lower (coin_symbol c), coin_id c)) cs)"
      using map_of_append_shadow [OF False] by (simp del: map_of_append)
    ultimately show ?thesis using Cons.IH [of acc] by simp
  qed
qed simp

lemma id_map_loop_distinct:
  "distinct (map fst acc) \<Longrightarrow> distinct (map fst (id_map_loop acc cs))"
proof (induction cs arbitrary: acc)
  case (Cons c cs)
  have "map_of acc k = None \<Longrightarrow> k \<notin> fst ` set acc" for k by (simp add: map_of_eq_None_iff)
  with Cons show ?case by simp
qed simp

lemma map_of_entries_distinct:
  "distinct (map fst es) \<Longrightarrow> map_of_entries es = map_of es"
  unfolding map_of_entries_def by (rule map_of_inject_set [THEN iffD2]) (simp_all add: rev_map [symmetric])

lemma getCryptoInfo_cached:
  assumes "getCryptoInfo sy coinsResp detailsResp a b ss = (Inr info, ss')"
  shows "ss' (info_cache_key sy) = Some (SessionInfo info)"
  using assms
  by (auto simp: getCryptoInfo_def split: option.splits session_value.splits sum.splits prod.splits if_splits)

lemma info_cache_key_case: "js_lower sy' = js_lower sy \<Longrightarrow> info_cache_key sy' = info_cache_key sy"
  by (simp add: info_cache_key_def)

section \<open>Properties of the lookups\<close>

text \<open>C24: the id map keeps, for each lower-case symbol, the id of the first coin of the list
  with that symbol (the comment of line 41): it is the map of the list read first to last,
  and its entries, which go to the session cache, have distinct keys, so the map restored
  by \<open>new Map(...)\<close> from the cache is the same.\<close>

theorem id_map_first_coin:
  "map_of_entries (id_map_loop [] coins) = map_of (map (\<lambda>c. (js_lower (coin_symbol c), coin_id c)) coins)
   \<and> distinct (map fst (id_map_loop [] coins))"
  using id_map_loop_map_of [of "[]" coins] id_map_loop_distinct [of "[]" coins] map_of_entries_distinct
  by simp

text \<open>Once \<open>getCryptoInfo\<close> has returned an asset's information, every later lookup of
  the same symbol, in any letter case, returns the same information from the session cache,
  whatever the network would answer, and leaves the session as it is.\<close>

theorem crypto_info_cached:
  assumes "getCryptoInfo sy coinsResp detailsResp a b ss = (Inr info, ss')"
    and "js_lower sy' = js_lower sy"
  shows "getCryptoInfo sy' coinsResp' detailsResp' a' b' ss' = (Inr info, ss')"
  using getCryptoInfo_cached [OF assms(1)] info_cache_key_case [OF assms(2)]
  by (simp add: getCryptoInfo_def)

theorem crypto_info_cached_witness:
  "js_lower ''btc'' = js_lower ''BTC''
   \<and> getCryptoInfo ''btc'' FetchFailed (\<lambda>_. FetchFailed) False False
       (Map.empty(COINGECKO_ID_MAP_KEY \<mapsto> SessionIdMap [(''btc'', ''bitcoin'')],
                  info_cache_key ''BTC'' \<mapsto> SessionInfo (build_info demo_data)))
     = (Inr (build_info demo_data),
        Map.empty(COINGECKO_ID_MAP_KEY \<mapsto> SessionIdMap [(''btc'', ''bitcoin'')],
                  info_cache_key ''BTC'' \<mapsto> SessionInfo (build_info demo_data)))"
proof -
  have l: "js_lower ''BTC'' = ''btc''" "js_lower ''btc'' = ''btc''" by code_simp+
  have m: "id_map_loop [] demo_coins = [(''btc'', ''bitcoin'')]" by code_simp
  have k: "info_cache_key ''BTC'' \<noteq> COINGECKO_ID_MAP_KEY" by (simp add: info_cache_key_def COINGECKO_ID_MAP_KEY_def)
  have h: "getCryptoInfo ''BTC'' (Ok demo_coins) demo_details True True Map.empty
     = (Inr (build_info demo_data),
        Map.empty(COINGECKO_ID_MAP_KEY \<mapsto> SessionIdMap [(''btc'', ''bitcoin'')],
                  info_cache_key ''BTC'' \<mapsto> SessionInfo (build_info demo_data)))"
    using l m k by (simp add: getCryptoInfo_def getCryptoInfoWithCoinGecko_def getCoingeckoIdMap_def
        map_of_entries_def demo_details_def)
  have e: "js_lower ''btc'' = js_lower ''BTC''" using l by simp
  from crypto_info_cached [OF h e] e show ?thesis by simp
qed

end
