(* ===== verification/SignalCardPanels.thy ===== *)
theory SignalCardPanels
  imports CryptoInfo
begin

text \<open>
  The three panels of the signal card (\<open>src/components/SignalCard.tsx\<close>): metrics, asset
  information and AI validation, opened and closed by their buttons, filled by
  \<open>getCryptoInfo\<close> and \<open>validateSignalAnalysis\<close> of \<open>CryptoInfo\<close>, and all closed by the
  50-second timer. An asynchronous handler is two events: the click, which runs until the
  \<open>await\<close>, and the completion, which runs the rest with the awaited result; the events
  may come in any order, so completions may interleave with clicks (completions of
  requests never made are allowed too, an over-approximation). The lemmas show that at most
  one panel is open in every state, and how each outcome of the validation is displayed.
\<close>

text \<open>The state of the card (lines 154-161).\<close>

record card_state =
  isMetricsVisible :: bool
  isInfoVisible :: bool
  isValidationVisible :: bool
  validationResult :: "string option"
  isValidationLoading :: bool
  validationError :: "string option"
  cryptoInfo :: "crypto_info option"
  isInfoLoading :: bool

definition initial_card :: card_state where
  "initial_card = \<lparr>isMetricsVisible = False, isInfoVisible = False, isValidationVisible = False,
     validationResult = None, isValidationLoading = False, validationError = None, cryptoInfo = None,
     isInfoLoading = False\<rparr>"

text \<open>\<open>handleMetricsClick\<close> (lines 221-229).\<close>

definition handleMetricsClick :: "card_state \<Rightarrow> card_state" where
  "handleMetricsClick c =
     (if isMetricsVisible c then c\<lparr>isMetricsVisible := False\<rparr>
      else c\<lparr>isMetricsVisible := True, isInfoVisible := False, isValidationVisible := False\<rparr>)"

text \<open>\<open>handleInfoClick\<close> up to the \<open>await\<close> (lines 231-243).\<close>

definition handleInfoClick :: "card_state \<Rightarrow> card_state" where
  "handleInfoClick c =
     (if isInfoVisible c then c\<lparr>isInfoVisible := False\<rparr>
      else
        (let c' = c\<lparr>isMetricsVisible := False, isInfoVisible := True, isValidationVisible := False\<rparr>
         in if cryptoInfo c = None then c'\<lparr>isInfoLoading := True\<rparr> else c'))"

text \<open>The text the fallback shows (line 251), as the file encodes it: each accented letter
  appears as the two characters of its UTF-8 bytes.\<close>

definition fallback_category :: string where
  "fallback_category = ''N'' @ [char_of (195::nat), char_of (163::nat)] @ ''o foi poss''
     @ [char_of (195::nat), char_of (173::nat)] @ ''vel carregar os dados.''"

text \<open>The rest of \<open>handleInfoClick\<close> (lines 244-256): the information, or on a rejection
  the fallback record.\<close>

definition infoDone :: "string \<Rightarrow> string + crypto_info \<Rightarrow> card_state \<Rightarrow> card_state" where
  "infoDone sy result c =
     (case result of
        Inr info \<Rightarrow> c\<lparr>cryptoInfo := Some info, isInfoLoading := False\<rparr>
      | Inl _ \<Rightarrow>
          c\<lparr>cryptoInfo := Some \<lparr>ci_symbol = sy, ci_name = ''Erro'', ath = 0, atl = 0, maxSupply = SupplyNA,
              totalSupply = SupplyNA, marketCap = 0, launchDate = ''N/A'', category = fallback_category,
              website = []\<rparr>,
            isInfoLoading := False\<rparr>)"

text \<open>\<open>handleValidationClick\<close> up to the \<open>await\<close> (lines 260-273); an empty result is
  falsy and asks again.\<close>

definition handleValidationClick :: "card_state \<Rightarrow> card_state" where
  "handleValidationClick c =
     (if isValidationVisible c then c\<lparr>isValidationVisible := False\<rparr>
      else
        (let c' = c\<lparr>isMetricsVisible := False, isInfoVisible := False, isValidationVisible := True\<rparr>
         in if validationResult c = None \<or> validationResult c = Some [] then
              c'\<lparr>isValidationLoading := True, validationError := None\<rparr>
            else c'))"

text \<open>The rest (lines 274-287): a result that starts with \<open>Erro\<close> is an error.\<close>

definition validationDone :: "string \<Rightarrow> card_state \<Rightarrow> card_state" where
  "validationDone result c =
     (if js_starts_with result ''Erro'' then
        c\<lparr>validationError := Some result, validationResult := None, isValidationLoading := False\<rparr>
      else c\<lparr>validationResult := Some result, isValidationLoading := False\<rparr>)"

text \<open>The \<open>catch\<close> of lines 281-284, for an exception thrown after the call (the text of
  the answer missing), with the message as the file encodes it.\<close>

definition validation_failed_prefix :: string where
  "validation_failed_prefix = ''Falha na valida'' @ [char_of (195::nat), char_of (167::nat), char_of (195::nat),
     char_of (163::nat)] @ ''o: ''"

definition validationThrew :: "string \<Rightarrow> card_state \<Rightarrow> card_state" where
  "validationThrew message c =
     c\<lparr>validationError := Some (validation_failed_prefix @ message), isValidationLoading := False\<rparr>"

text \<open>The timer of lines 167-185 closes every panel.\<close>

definition panelsTimeout :: "card_state \<Rightarrow> card_state" where
  "panelsTimeout c = c\<lparr>isMetricsVisible := False, isInfoVisible := False, isValidationVisible := False\<rparr>"

datatype card_event = MetricsClick | InfoClick | InfoDone "string + crypto_info" | ValidationClick
  | ValidationDone string | ValidationThrew string | PanelsTimeout

definition card_step :: "trading_signal \<Rightarrow> card_event \<Rightarrow> card_state \<Rightarrow> card_state" where
  "card_step signal e c =
     (case e of
        MetricsClick \<Rightarrow> handleMetricsClick c
      | InfoClick \<Rightarrow> handleInfoClick c
      | InfoDone r \<Rightarrow> infoDone (symbol signal) r c
      | ValidationClick \<Rightarrow> handleValidationClick c
      | ValidationDone r \<Rightarrow> validationDone r c
      | ValidationThrew m \<Rightarrow> validationThrew m c
      | PanelsTimeout \<Rightarrow> panelsTimeout c)"

inductive card_reachable :: "trading_signal \<Rightarrow> card_state \<Rightarrow> bool" for signal where
  init: "card_reachable signal initial_card"
| step: "card_reachable signal c \<Longrightarrow> card_reachable signal (card_step signal e c)"

subsection \<open>Specification vocabulary\<close>

definition open_panels :: "card_state \<Rightarrow> nat" where
  "open_panels c = of_bool (isMetricsVisible c) + of_bool (isInfoVisible c) + of_bool (isValidationVisible c)"

subsection \<open>An example\<close>

definition demo_card_signal :: trading_signal where
  "demo_card_signal = \<lparr>sig_id = ''ETHUSDT'', symbol = ''ETH'', pair = ''USDT'', change24h = 0, price = 3000,
     direction = SHORT, probability = 85, entryZone = (3000, 3020), stopLoss = 3100,
     takeProfit = [2950, 2900, 2850, 2800, 2700], confidence = ''Alta'', riskNotes = '''',
     timestamp = 0, tpsHit = None, safeLeverage = 10, quoteVolume = None\<rparr>"

section \<open>Lemmas\<close>

lemma open_panels_step: "open_panels c \<le> 1 \<Longrightarrow> open_panels (card_step signal e c) \<le> 1"
  by (cases e)
     (auto simp: card_step_def open_panels_def handleMetricsClick_def handleInfoClick_def infoDone_def
       handleValidationClick_def validationDone_def validationThrew_def panelsTimeout_def Let_def
       split: sum.splits)

section \<open>Properties of the card\<close>

text \<open>C16: in every state the card reaches, by any sequence of clicks, completions of the
  two requests and timeouts, at most one of the three panels is open.\<close>

theorem card_one_panel:
  assumes "card_reachable signal c"
  shows "open_panels c \<le> 1"
  using assms
proof (induction rule: card_reachable.induct)
  case init
  then show ?case by (simp add: open_panels_def initial_card_def)
next
  case (step c e)
  show ?case by (rule open_panels_step [OF step.IH])
qed

theorem card_one_panel_witness:
  "card_reachable demo_card_signal (card_step demo_card_signal ValidationClick (card_step demo_card_signal InfoClick initial_card))
   \<and> open_panels (card_step demo_card_signal ValidationClick (card_step demo_card_signal InfoClick initial_card)) \<le> 1"
proof -
  have r: "card_reachable demo_card_signal (card_step demo_card_signal ValidationClick (card_step demo_card_signal InfoClick initial_card))"
    by (intro card_reachable.step card_reachable.init)
  from card_one_panel [OF r] r show ?thesis by simp
qed

text \<open>C30: how the validation ends on the card: a missing API key and every rejection with
  an \<open>Error\<close> are shown as an error (their messages start with \<open>Erro\<close>), an answer that does
  not start with \<open>Erro\<close> as the analysis; but a rejection with a value that is not an
  \<open>Error\<close> becomes the message \<open>Ocorreu um erro desconhecido ...\<close>, which does not start with
  \<open>Erro\<close>, and is shown as the analysis.\<close>

theorem validation_display:
  "(validationError (card_step sg (ValidationDone (validateSignalAnalysis False out)) c) = Some api_key_missing_msg
    \<and> validationResult (card_step sg (ValidationDone (validateSignalAnalysis False out)) c) = None)
   \<and> (validationError (card_step sg (ValidationDone (validateSignalAnalysis True (FailedWith m))) c) \<noteq> None
    \<and> validationResult (card_step sg (ValidationDone (validateSignalAnalysis True (FailedWith m))) c) = None)
   \<and> (\<not> js_starts_with t ''Erro'' \<longrightarrow>
        validationResult (card_step sg (ValidationDone (validateSignalAnalysis True (Answer t))) c) = Some t)
   \<and> (validationResult (card_step sg (ValidationDone (validateSignalAnalysis True FailedNonError)) c) = Some unknown_error_msg
    \<and> validationError (card_step sg (ValidationDone (validateSignalAnalysis True FailedNonError)) c) = validationError c)"
proof -
  have e: "js_starts_with api_key_missing_msg ''Erro''" "js_starts_with api_key_invalid_msg ''Erro''"
    "js_starts_with contact_error_msg ''Erro''" "\<not> js_starts_with unknown_error_msg ''Erro''"
    by (simp_all add: js_starts_with_def api_key_missing_msg_def api_key_invalid_msg_def contact_error_msg_def
        unknown_error_msg_def)
  then show ?thesis
    by (simp add: card_step_def validationDone_def validateSignalAnalysis_def)
qed

theorem validation_display_witness:
  "validationResult (card_step demo_card_signal (ValidationDone (validateSignalAnalysis True (Answer ''Manter Plano''))) initial_card)
     = Some ''Manter Plano''"
proof -
  have "\<not> js_starts_with ''Manter Plano'' ''Erro''" by (simp add: js_starts_with_def)
  then show ?thesis using validation_display [where t = "''Manter Plano''" and sg = demo_card_signal and c = initial_card]
    by blast
qed

end
