(* ===== verification/SignalCardView.thy ===== *)
theory SignalCardView
  imports SignalCardPanels Lifecycle
begin

text \<open>
  What the signal card (\<open>src/components/SignalCard.tsx\<close>) shows, as data rather than markup,
  and its share button. The card's panels and their state come from \<open>SignalCardPanels\<close>;
  here the card is rendered from a signal and that state: the header, the probability bar,
  the entry zone, stop and the five targets with a rocket on each target hit, the open
  panel's contents and the button labels. \<open>handleShare\<close> either hands the text to the
  platform's share sheet or copies it and shows \<open>Copiado!\<close> for 2.5 s; its timers are never
  cancelled, which the lemmas show cuts the label short after a second copy.
\<close>

subsection \<open>The card\<close>

text \<open>Lines 164-165: the colour of the probability bar.\<close>

datatype bar_color = BarBlue | BarGreen | BarYellow

definition probabilityColor :: "int \<Rightarrow> bar_color" where
  "probabilityColor p = (if p \<ge> 90 then BarBlue else if p \<ge> 80 then BarGreen else BarYellow)"

text \<open>Line 455: the site without its scheme and \<open>www.\<close>, the regular expression
  \<open>^(https?:\/\/)?(www\.)?\<close> replaced by nothing.\<close>

definition strip_site :: "string \<Rightarrow> string" where
  "strip_site w =
     (let w1 = (if js_starts_with w ''https://'' then drop 8 w
                else if js_starts_with w ''http://'' then drop 7 w else w)
      in if js_starts_with w1 ''www.'' then drop 4 w1 else w1)"

text \<open>Lines 462-464: the supply values as \<open>formatMarketData\<close> receives them.\<close>

fun supply_value :: "supply_text \<Rightarrow> market_value" where
  "supply_value SupplyNA = MarketText ''N/A''"
| "supply_value (SupplyNumber x) = MarketNumber x"

text \<open>Lines 438-468: the body of the info panel.\<close>

datatype info_body = InfoLoading | InfoRows "(string \<times> string) list" "string option"
  "market_text list" "number_text \<times> number_text" | InfoEmpty

definition info_body :: "card_state \<Rightarrow> info_body" where
  "info_body c =
     (if isInfoLoading c then InfoLoading
      else case cryptoInfo c of
        None \<Rightarrow> InfoEmpty
      | Some i \<Rightarrow> InfoRows [(''Nome'', ci_name i @ '' ('' @ ci_symbol i @ '')''), (''Categoria'', category i)]
          (if website i = [] then None else Some (strip_site (website i)))
          [formatMarketData (MarketNumber (marketCap i)), formatMarketData (supply_value (totalSupply i)),
           formatMarketData (supply_value (maxSupply i))]
          (formatPrice (ath i), formatPrice (atl i)))"

text \<open>Lines 475-490: the body of the validation panel.\<close>

datatype validation_body = Analysing | ValidationError string | ValidationText string | ValidationEmpty

definition validation_body :: "card_state \<Rightarrow> validation_body" where
  "validation_body c =
     (if isValidationLoading c then Analysing
      else case validationError c of
        Some e \<Rightarrow> ValidationError e
      | None \<Rightarrow> (case validationResult c of Some r \<Rightarrow> ValidationText r | None \<Rightarrow> ValidationEmpty))"

text \<open>Lines 406-432: the metrics panel, the leveraged loss and, per target, the profit with
  its reward-to-risk ratio (\<open>0\<close> when the loss is zero).\<close>

definition rr_ratio :: "real \<Rightarrow> real \<Rightarrow> real" where
  "rr_ratio profit loss = (if loss \<noteq> 0 then \<bar>profit / loss\<bar> else 0)"

definition metrics_rows :: "trading_signal \<Rightarrow> number_text \<times> (number_text \<times> number_text) list" where
  "metrics_rows s =
     (FixedText (fixed_mantissa 2 (lossPercent s)) 2,
      map (\<lambda>profit. (FixedText (fixed_mantissa 2 profit) 2,
                      FixedText (fixed_mantissa 1 (rr_ratio profit (lossPercent s))) 1)) (profitPercents s))"

datatype panel_view = MetricsPanel "number_text \<times> (number_text \<times> number_text) list"
  | InfoPanel info_body | ValidationPanel validation_body

definition open_panel_views :: "trading_signal \<Rightarrow> card_state \<Rightarrow> panel_view list" where
  "open_panel_views s c =
     (if isMetricsVisible c then [MetricsPanel (metrics_rows s)] else [])
     @ (if isInfoVisible c then [InfoPanel (info_body c)] else [])
     @ (if isValidationVisible c then [ValidationPanel (validation_body c)] else [])"

text \<open>Lines 493-511: the labels of the three buttons.\<close>

definition button_labels :: "card_state \<Rightarrow> string list" where
  "button_labels c =
     [if isMetricsVisible c then ''Ocultar'' else ''M'' @ [char_of (195::nat), char_of (169::nat)] @ ''trica'',
      if isInfoVisible c then ''Ocultar'' else ''Info'',
      if isValidationVisible c then ''Ocultar'' else ''Validar'']"

text \<open>Lines 345-395: a target row, its price and whether the rocket is drawn; the first
  row also carries \<open>PROTEJA ENTRADA\<close> once the first target was hit.\<close>

definition target_rows :: "trading_signal \<Rightarrow> (number_text \<times> bool) list" where
  "target_rows s = map (\<lambda>k. (formatTargetPrice (takeProfit s ! k), flag s k)) [0..<5]"

record card_view =
  cv_pair :: string
  cv_price :: number_text
  cv_direction :: signal_direction
  cv_probability :: int
  cv_bar :: bar_color
  cv_zone :: "number_text \<times> number_text"
  cv_stop :: number_text
  cv_leverage :: string
  cv_targets :: "(number_text \<times> bool) list"
  cv_protect :: bool
  cv_confidence :: string
  cv_notes :: string
  cv_panels :: "panel_view list"
  cv_buttons :: "string list"

text \<open>Lines 303-530, without the share button and the launch date.\<close>

definition SignalCard :: "trading_signal \<Rightarrow> card_state \<Rightarrow> card_view" where
  "SignalCard s c =
     \<lparr>cv_pair = symbol s @ ''/'' @ pair s, cv_price = formatPrice (price s), cv_direction = direction s,
      cv_probability = probability s, cv_bar = probabilityColor (probability s),
      cv_zone = (formatTargetPrice (fst (entryZone s)), formatTargetPrice (snd (entryZone s))),
      cv_stop = formatTargetPrice (stopLoss s), cv_leverage = js_int_string (safeLeverage s) @ ''x'',
      cv_targets = target_rows s, cv_protect = flag s 0,
      cv_confidence = confidence s, cv_notes = riskNotes s,
      cv_panels = open_panel_views s c, cv_buttons = button_labels c\<rparr>"

subsection \<open>Sharing\<close>

text \<open>Lines 190-206: the text shared, with the numbers as \<open>num\<close> prints them
  (\<open>Number.prototype.toString\<close>, not modelled).\<close>

definition shareContent :: "(real \<Rightarrow> string) \<Rightarrow> trading_signal \<Rightarrow> string" where
  "shareContent num s =
     ''ALERTA SNIPER A.I.'' @ ''\<newline>'' @ ''('' @ symbol s @ ''/USDT)'' @ ''\<newline>''
     @ ''Entrada: '' @ num (fst (entryZone s)) @ '' - '' @ num (snd (entryZone s)) @ ''\<newline>\<newline>''
     @ ''Alvos:'' @ ''\<newline>'' @ concat (map (\<lambda>k. num (takeProfit s ! k) @ ''\<newline>'') [0..<5])
     @ ''\<newline>'' @ ''Stop Loss: '' @ num (stopLoss s) @ ''\<newline>''
     @ ''Alavancagem: '' @ js_int_string (safeLeverage s) @ ''x'' @ ''\<newline>\<newline>''
     @ ''bit.ly/GrupoGratuitoTROPA-TOKEN'' @ ''\<newline>'' @ ''+ GRUPO TROPA TOKEN +''"

text \<open>How the platform answers: \<open>navigator.share\<close> present and resolving or rejecting, or
  absent and \<open>clipboard.writeText\<close> resolving or rejecting.\<close>

datatype share_outcome = Shared | ShareRejected | Copied | CopyRejected

text \<open>The share state: the label and the deadlines of the pending \<open>setTimeout\<close>s.\<close>

datatype share_status = ShareIdle | ShareCopied

record share_state =
  shareStatus :: share_status
  share_timers :: "millis list"

definition share_initial :: share_state where
  "share_initial = \<lparr>shareStatus = ShareIdle, share_timers = []\<rparr>"

definition SHARE_FAILED :: string where
  "SHARE_FAILED = ''N'' @ [char_of (195::nat), char_of (163::nat)] @ ''o foi poss''
     @ [char_of (195::nat), char_of (173::nat)] @ ''vel compartilhar ou copiar. Por favor, copie o texto manualmente se necess''
     @ [char_of (195::nat), char_of (161::nat)] @ ''rio.''"

text \<open>Lines 187-219: \<open>handleShare\<close> at time \<open>now\<close>; the second component is the \<open>alert\<close>.\<close>

definition handleShare :: "millis \<Rightarrow> share_outcome \<Rightarrow> share_state \<Rightarrow> share_state \<times> string option" where
  "handleShare now r st =
     (case r of
        Shared \<Rightarrow> (st, None)
      | Copied \<Rightarrow> (st\<lparr>shareStatus := ShareCopied, share_timers := share_timers st @ [now + 2500]\<rparr>, None)
      | _ \<Rightarrow> (st, Some SHARE_FAILED))"

text \<open>Time passing to \<open>t\<close>: every timer due fires \<open>setShareStatus('idle')\<close>.\<close>

definition share_advance :: "millis \<Rightarrow> share_state \<Rightarrow> share_state" where
  "share_advance t st =
     (if \<exists>d\<in>set (share_timers st). d \<le> t
      then \<lparr>shareStatus = ShareIdle, share_timers = filter (\<lambda>d. t < d) (share_timers st)\<rparr> else st)"

text \<open>A run: clicks at the given times with their outcomes, observed at time \<open>t\<close>.\<close>

fun share_run :: "(millis \<times> share_outcome) list \<Rightarrow> share_state \<Rightarrow> share_state" where
  "share_run [] st = st"
| "share_run ((t, r) # cs) st = share_run cs (fst (handleShare t r (share_advance t st)))"

text \<open>What the share invariant records: while \<open>Copiado!\<close> is shown a timer is pending, and
  every pending timer is due 2.5 s after a successful copy.\<close>

definition share_inv :: "millis set \<Rightarrow> share_state \<Rightarrow> bool" where
  "share_inv C st \<longleftrightarrow> (shareStatus st = ShareCopied \<longrightarrow> share_timers st \<noteq> [])
     \<and> (\<forall>d\<in>set (share_timers st). \<exists>t\<in>C. d = t + 2500)"

section \<open>Lemmas\<close>

lemma share_advance_inv: "share_inv C st \<Longrightarrow> share_inv C (share_advance t st)"
  by (auto simp: share_inv_def share_advance_def)

lemma handleShare_inv:
  "share_inv C st \<Longrightarrow> share_inv (C \<union> (if r = Copied then {t} else {})) (fst (handleShare t r st))"
  by (cases r) (auto simp: share_inv_def handleShare_def)

lemma share_run_inv:
  "share_inv C st \<Longrightarrow> share_inv (C \<union> {t. (t, Copied) \<in> set cs}) (share_run cs st)"
proof (induction cs arbitrary: C st)
  case Nil
  then show ?case by (simp add: share_inv_def)
next
  case (Cons c cs)
  obtain t r where c: "c = (t, r)" by (cases c)
  have "share_inv (C \<union> (if r = Copied then {t} else {})) (fst (handleShare t r (share_advance t st)))"
    by (rule handleShare_inv [OF share_advance_inv [OF Cons.prems]])
  from Cons.IH [OF this] show ?case
    by (simp add: c) (auto simp: share_inv_def split: if_splits)
qed

lemma share_label_bounded:
  assumes "shareStatus (share_advance T (share_run cs share_initial)) = ShareCopied"
  shows "\<exists>t. (t, Copied) \<in> set cs \<and> T < t + 2500"
proof -
  have "share_inv {} share_initial" by (simp add: share_inv_def share_initial_def)
  then have i: "share_inv {t. (t, Copied) \<in> set cs} (share_run cs share_initial)"
    using share_run_inv by fastforce
  show ?thesis
    using assms i by (auto simp: share_advance_def share_inv_def split: if_splits) (metis not_le neq_Nil_conv list.set_intros(1))
qed

lemma share_label_cut_short:
  "shareStatus (share_run [(0, Copied), (2000, Copied)] share_initial) = ShareCopied
   \<and> shareStatus (share_advance 2500 (share_run [(0, Copied), (2000, Copied)] share_initial)) = ShareIdle"
  by (simp add: share_initial_def handleShare_def share_advance_def)

end
