(* ===== verification/AppShell.thy ===== *)
theory AppShell
  imports Lifecycle
begin

text \<open>
  The application's frame around the board: the display state of \<open>App\<close>
  (\<open>src/src/App.tsx\<close>: the view, \<open>loading\<close>, \<open>error\<close>, the market sentiment and the time
  of the last update) with \<open>renderSignalCards\<close>, the header
  (\<open>src/components/Header.tsx\<close>: the sentiment indicator, the view button and the
  explanation popup that closes on an outside click or after ten seconds), the bottom
  navigation (\<open>BottomNav.tsx\<close>) and the copy blocker around each card
  (\<open>CopyBlocker.tsx\<close>: copying is prevented and a toast shown for three seconds, the timer
  restarted on every attempt). Timers are explicit: a state records the deadline of its
  pending \<open>setTimeout\<close>, and a run is a list of timed events, time advancing to each event
  (firing the timers due) before the event is handled.
\<close>

subsection \<open>Views\<close>

datatype app_view = ViewSignals | ViewHistory

text \<open>\<open>App.tsx\<close> line 464: the header's button toggles the view.\<close>

definition toggle_view :: "app_view \<Rightarrow> app_view" where
  "toggle_view v = (if v = ViewSignals then ViewHistory else ViewSignals)"

text \<open>\<open>Header.tsx\<close> lines 169-176: the label of that button.\<close>

definition view_button_label :: "app_view \<Rightarrow> string" where
  "view_button_label v =
     (if v = ViewSignals then ''Ver Hist'' @ [char_of (243::nat)] @ ''rico'' else ''Sinais ao Vivo'')"

text \<open>\<open>BottomNav.tsx\<close> lines 33-50: the two buttons, their labels, whether each is the active
  one, and the view each selects (\<open>onViewChange\<close> is \<open>setView\<close>, \<open>App.tsx\<close> line 496).\<close>

definition BottomNav :: "app_view \<Rightarrow> (string \<times> bool \<times> app_view) list" where
  "BottomNav currentView =
     [(''Sinais'', currentView = ViewSignals, ViewSignals),
      (''Hist'' @ [char_of (243::nat)] @ ''rico'', currentView = ViewHistory, ViewHistory)]"

subsection \<open>The header's sentiment indicator\<close>

datatype sentiment_dot = GreenDot | RedDot | YellowDot

text \<open>\<open>Header.tsx\<close> lines 15-40: the dot, the title and the label of each sentiment.\<close>

definition SentimentIndicator :: "market_sentiment \<Rightarrow> sentiment_dot \<times> string \<times> string" where
  "SentimentIndicator sentiment =
     (case sentiment of
        BULLISH \<Rightarrow> (GreenDot, ''Sentimento do Mercado: Alta'', ''Mercado Comprador'')
      | BEARISH \<Rightarrow> (RedDot, ''Sentimento do Mercado: Baixa'', ''Mercado Vendedor'')
      | NEUTRAL \<Rightarrow> (YellowDot, ''Sentimento do Mercado: Neutro'', ''Mercado Lateralizado''))"

subsection \<open>The signal area\<close>

text \<open>\<open>App.tsx\<close> lines 253-259: the error message of a published board.\<close>

definition board_error_text :: "board_error \<Rightarrow> string" where
  "board_error_text e =
     (case e of
        ConnectionError \<Rightarrow> ''N'' @ [char_of (227::nat)] @ ''o foi poss'' @ [char_of (237::nat)]
          @ ''vel conectar '' @ [char_of (224::nat)] @ '' Binance. Verificando novamente...''
      | NoActiveSignals \<Rightarrow> ''Nenhum sinal ativo no momento. O sistema est'' @ [char_of (225::nat)]
          @ '' buscando novas oportunidades.'')"

record app_display =
  view :: app_view
  loading :: bool
  error :: "string option"
  marketSentiment :: market_sentiment
  lastUpdated :: millis

text \<open>Lines 16-23: the display state at start-up.\<close>

definition initial_display :: "millis \<Rightarrow> app_display" where
  "initial_display now = \<lparr>view = ViewSignals, loading = True, error = None, marketSentiment = NEUTRAL,
     lastUpdated = now\<rparr>"

text \<open>Lines 50-52 and 248-262: the display state a tick leaves, given the board before the
  tick and its outcome. A rejected tick stops at the awaited call, after \<open>setLoading(true)\<close>
  and before \<open>setLoading(false)\<close>.\<close>

definition display_tick ::
  "millis \<Rightarrow> trading_signal list \<Rightarrow> tick_outcome \<Rightarrow> app_display \<Rightarrow> app_display" where
  "display_tick now board out d =
     (let d1 = (if board = [] then d\<lparr>loading := True\<rparr> else d)
      in case out of
           Rejected _ \<Rightarrow> d1
         | Published e \<Rightarrow> d1\<lparr>lastUpdated := now, error := map_option board_error_text e, loading := False\<rparr>)"

text \<open>Lines 37-41: the hourly sentiment effect stores what \<open>getMarketSentiment\<close> returned.\<close>

definition sentiment_update :: "market_sentiment \<Rightarrow> app_display \<Rightarrow> app_display" where
  "sentiment_update s d = d\<lparr>marketSentiment := s\<rparr>"

text \<open>Lines 397-458: eight placeholders while loading an empty board, the error box when an
  empty board has an error, and the cards otherwise.\<close>

datatype signal_area = Skeletons nat | ErrorBox string | Cards "trading_signal list"

definition renderSignalCards :: "app_display \<Rightarrow> trading_signal list \<Rightarrow> signal_area" where
  "renderSignalCards d board =
     (if loading d \<and> board = [] then Skeletons 8
      else case error d of
        Some e \<Rightarrow> if board = [] then ErrorBox e else Cards board
      | None \<Rightarrow> Cards board)"

subsection \<open>The header's popup\<close>

record popup_state =
  isInfoVisible :: bool
  popup_timer :: "millis option"

definition popup_initial :: popup_state where
  "popup_initial = \<lparr>isInfoVisible = False, popup_timer = None\<rparr>"

datatype header_event = InfoButton | MouseDownOutside | MouseDownInside

text \<open>Lines 46-66 and 149: the button toggles the popup, a \<open>mousedown\<close> outside the
  popup's box closes it; when the visibility changes the effect's cleanup clears the pending
  timer and, when it became visible, a new one is set for ten seconds.\<close>

definition popup_effect :: "millis \<Rightarrow> bool \<Rightarrow> popup_state \<Rightarrow> popup_state" where
  "popup_effect now before st =
     (if isInfoVisible st = before then st
      else st\<lparr>popup_timer := (if isInfoVisible st then Some (now + 10000) else None)\<rparr>)"

definition header_handler :: "header_event \<Rightarrow> popup_state \<Rightarrow> popup_state" where
  "header_handler e st =
     (case e of
        InfoButton \<Rightarrow> st\<lparr>isInfoVisible := \<not> isInfoVisible st\<rparr>
      | MouseDownOutside \<Rightarrow> st\<lparr>isInfoVisible := False\<rparr>
      | MouseDownInside \<Rightarrow> st)"

text \<open>Time passing to \<open>t\<close>: a due timer hides the popup (line 62), and the effect finds
  nothing more to do.\<close>

definition popup_advance :: "millis \<Rightarrow> popup_state \<Rightarrow> popup_state" where
  "popup_advance t st =
     (case popup_timer st of
        Some d \<Rightarrow> if d \<le> t then \<lparr>isInfoVisible = False, popup_timer = None\<rparr> else st
      | None \<Rightarrow> st)"

definition header_step :: "millis \<Rightarrow> header_event \<Rightarrow> popup_state \<Rightarrow> popup_state" where
  "header_step t e st =
     (let st1 = popup_advance t st in popup_effect t (isInfoVisible st1) (header_handler e st1))"

fun popup_run :: "(millis \<times> header_event) list \<Rightarrow> popup_state \<Rightarrow> popup_state" where
  "popup_run [] st = st"
| "popup_run ((t, e) # es) st = popup_run es (header_step t e st)"

subsection \<open>The copy blocker\<close>

record toast_state =
  isToastVisible :: bool
  toast_timer :: "millis option"

definition toast_initial :: toast_state where
  "toast_initial = \<lparr>isToastVisible = False, toast_timer = None\<rparr>"

datatype block_event = CopyEvent | CutEvent | ContextMenuEvent

text \<open>\<open>CopyBlocker.tsx\<close> lines 12-21: \<open>showToast\<close> clears the pending timer, shows the toast
  and sets a new timer for three seconds.\<close>

definition showToast :: "millis \<Rightarrow> toast_state \<Rightarrow> toast_state" where
  "showToast now st = \<lparr>isToastVisible = True, toast_timer = Some (now + 3000)\<rparr>"

text \<open>Lines 23-36: each of the three events is prevented (the first component) and shows the
  toast.\<close>

definition preventDefaultActions :: "millis \<Rightarrow> block_event \<Rightarrow> toast_state \<Rightarrow> bool \<times> toast_state" where
  "preventDefaultActions now e st = (True, showToast now st)"

text \<open>Line 19: a due timer hides the toast.\<close>

definition toast_advance :: "millis \<Rightarrow> toast_state \<Rightarrow> toast_state" where
  "toast_advance t st =
     (case toast_timer st of
        Some d \<Rightarrow> if d \<le> t then \<lparr>isToastVisible = False, toast_timer = None\<rparr> else st
      | None \<Rightarrow> st)"

fun toast_run :: "(millis \<times> block_event) list \<Rightarrow> toast_state \<Rightarrow> toast_state" where
  "toast_run [] st = st"
| "toast_run ((t, e) # es) st = toast_run es (snd (preventDefaultActions t e (toast_advance t st)))"

text \<open>What the header's popup invariant records: while the popup is shown, the pending
  timer is due ten seconds after a press of the button; otherwise no timer is pending.\<close>

definition popup_inv :: "millis set \<Rightarrow> popup_state \<Rightarrow> bool" where
  "popup_inv Op st \<longleftrightarrow>
     (if isInfoVisible st then \<exists>t\<in>Op. popup_timer st = Some (t + 10000) else popup_timer st = None)"

text \<open>An empty board, for the examples.\<close>

definition demo_empty_app :: "unit app_state" where
  "demo_empty_app = \<lparr>signals = [], historicalSignals = [], services = ()\<rparr>"

section \<open>Lemmas\<close>

lemma toast_run_last:
  "es \<noteq> [] \<Longrightarrow> toast_run es st = \<lparr>isToastVisible = True, toast_timer = Some (fst (last es) + 3000)\<rparr>"
proof (induction es arbitrary: st)
  case Nil
  then show ?case by simp
next
  case (Cons c es)
  obtain t e where c: "c = (t, e)" by (cases c)
  show ?case
  proof (cases "es = []")
    case True
    then show ?thesis by (simp add: c preventDefaultActions_def showToast_def)
  next
    case False
    then show ?thesis using Cons.IH by (simp add: c)
  qed
qed

lemma popup_advance_inv: "popup_inv Op st \<Longrightarrow> popup_inv Op (popup_advance t st)"
  by (auto simp: popup_inv_def popup_advance_def split: option.splits if_splits)

lemma header_step_inv:
  assumes "popup_inv Op st"
  shows "popup_inv (Op \<union> (if e = InfoButton then {t} else {})) (header_step t e st)"
proof -
  have a: "popup_inv Op (popup_advance t st)" by (rule popup_advance_inv [OF assms])
  show ?thesis
    using a by (cases e) (auto simp: popup_inv_def header_step_def header_handler_def popup_effect_def Let_def)
qed

lemma popup_run_inv:
  "popup_inv Op st \<Longrightarrow> popup_inv (Op \<union> {t. (t, InfoButton) \<in> set es}) (popup_run es st)"
proof (induction es arbitrary: Op st)
  case Nil
  then show ?case by (auto simp: popup_inv_def)
next
  case (Cons c es)
  obtain t e where c: "c = (t, e)" by (cases c)
  from Cons.IH [OF header_step_inv [OF Cons.prems, of e t]] show ?case
    by (simp add: c) (auto simp: popup_inv_def split: if_splits)
qed


lemma fetch_signals_published_error:
  assumes "snd (fetch_signals rm get now resp a) = Published e" and "signals (fst (fetch_signals rm get now resp a)) = []"
  shows "e \<noteq> None"
  using assms by (auto simp: fetch_signals_def Let_def publish_def split: prod.splits sum.splits if_splits)

lemma fetch_signals_rejected_board:
  "snd (fetch_signals rm get now resp a) = Rejected m \<Longrightarrow> signals (fst (fetch_signals rm get now resp a)) = signals a"
  by (auto simp: fetch_signals_def Let_def publish_def split: prod.splits sum.splits if_splits)

lemma rejected_tick_placeholders:
  assumes "signals a = []" and "snd (fetch_signals rm get now resp a) = Rejected m"
  shows "renderSignalCards (display_tick now (signals a) (Rejected m) d) (signals (fst (fetch_signals rm get now resp a)))
    = Skeletons 8"
  using fetch_signals_rejected_board [OF assms(2)] assms(1)
  by (simp add: renderSignalCards_def display_tick_def)

text \<open>C11: the header's information popup closes by itself: whatever sequence of button
  presses and clicks inside or outside it happened, if the popup is shown at time \<open>T\<close>
  then the button was pressed less than ten seconds before \<open>T\<close> (each opening sets a new
  ten-second timer and each closing clears the pending one).\<close>

theorem popup_auto_hides:
  assumes "isInfoVisible (popup_advance T (popup_run es popup_initial))"
  shows "\<exists>t. (t, InfoButton) \<in> set es \<and> T < t + 10000"
proof -
  have "popup_inv {} popup_initial" by (simp add: popup_inv_def popup_initial_def)
  then have "popup_inv {t. (t, InfoButton) \<in> set es} (popup_run es popup_initial)"
    using popup_run_inv by fastforce
  then show ?thesis using assms
    by (auto simp: popup_inv_def popup_advance_def split: option.splits if_splits)
qed

theorem popup_auto_hides_witness:
  "isInfoVisible (popup_advance 9000 (popup_run [(0, MouseDownOutside), (1000, InfoButton)] popup_initial))
   \<and> (\<exists>t. (t, InfoButton) \<in> set [(0::millis, MouseDownOutside), (1000, InfoButton)] \<and> 9000 < t + 10000)"
proof -
  have h: "isInfoVisible (popup_advance 9000 (popup_run [(0, MouseDownOutside), (1000, InfoButton)] popup_initial))"
    by (simp add: popup_initial_def header_step_def popup_advance_def header_handler_def popup_effect_def)
  from popup_auto_hides [OF h] h show ?thesis by blast
qed

text \<open>C26: after a tick that publishes its board, the signal area never shows the loading
  placeholders: it shows the cards of the new board, or, when that board is empty, the error
  box with the message of the tick's outcome (no connection, or no active signal).\<close>

theorem published_tick_area:
  assumes "snd (fetch_signals rm get now resp a) = Published e"
  shows "renderSignalCards (display_tick now (signals a) (Published e) d) (signals (fst (fetch_signals rm get now resp a)))
    = (if signals (fst (fetch_signals rm get now resp a)) = [] then ErrorBox (board_error_text (the e))
       else Cards (signals (fst (fetch_signals rm get now resp a))))"
  using fetch_signals_published_error [OF assms]
  by (auto simp: renderSignalCards_def display_tick_def Let_def split: option.split)

theorem published_tick_area_witness:
  "snd (fetch_signals (\<lambda>x c. c) (\<lambda>n ex c. (Inr [], c)) 1000 None demo_empty_app) = Published (Some ConnectionError)
   \<and> renderSignalCards (display_tick 1000 (signals demo_empty_app) (Published (Some ConnectionError)) (initial_display 0))
       (signals (fst (fetch_signals (\<lambda>x c. c) (\<lambda>n ex c. (Inr [], c)) 1000 None demo_empty_app)))
     = (if signals (fst (fetch_signals (\<lambda>x c. c) (\<lambda>n ex c. (Inr [], c)) 1000 None demo_empty_app)) = []
        then ErrorBox (board_error_text (the (Some ConnectionError)))
        else Cards (signals (fst (fetch_signals (\<lambda>x c. c) (\<lambda>n ex c. (Inr [], c)) 1000 None demo_empty_app))))"
proof -
  have p: "snd (fetch_signals (\<lambda>x c. c) (\<lambda>n ex c. (Inr [], c)) 1000 None demo_empty_app) = Published (Some ConnectionError)"
    by (simp add: demo_empty_app_def fetch_signals_def board_eval_def evaluate_board_def still_active_def publish_def
        getAllFuturesTickers_def)
  show ?thesis by (rule conjI [OF p published_tick_area [OF p]])
qed

text \<open>C32: the copy blocker's toast is shown at time \<open>T\<close> exactly when some copy, cut or
  context-menu attempt happened and the last one was less than three seconds before \<open>T\<close>:
  each attempt restarts the timer (\<open>clearTimeout\<close> before \<open>setTimeout\<close>).\<close>

theorem toast_visible_iff:
  "isToastVisible (toast_advance T (toast_run es toast_initial)) \<longleftrightarrow> es \<noteq> [] \<and> T < fst (last es) + 3000"
proof (cases "es = []")
  case True
  then show ?thesis by (simp add: toast_advance_def toast_initial_def)
next
  case False
  then show ?thesis by (auto simp: toast_run_last toast_advance_def)
qed

end
