(* ===== verification/AppView.thy ===== *)
theory AppView
  imports AppShell HistoryRender
begin

text \<open>
  What the remaining widgets of the page show: the bars and tooltip of
  \<open>src/components/VolatilityMeter.tsx\<close>, the BTC and dollar quotes of
  \<open>src/components/Header.tsx\<close> with the state \<open>fetchSignals\<close> keeps for them
  (\<open>src/src/App.tsx\<close> lines 56-79), the filter bar of \<open>src/components/HistoryView.tsx\<close> and
  the whole history page. Numbers are printed as the \<open>number_text\<close> of \<open>Display\<close>. The lemmas
  show that the meter lights as many bars as its level, that a quote shows the ticker's
  price to the cent with the arrow of its change, and that exactly one control of the filter
  bar is highlighted.
\<close>

subsection \<open>The volatility meter\<close>

text \<open>\<open>VolatilityMeter.tsx\<close> lines 29-45: the colour and the label of each level, index 0
  for a bar that is off.\<close>

definition levelColors :: "string list" where
  "levelColors = [''bg-gray-600'', ''bg-cyan-500'', ''bg-green-500'', ''bg-yellow-400'',
     ''bg-orange-500'', ''bg-red-600'']"

definition levelLabels :: "string list" where
  "levelLabels = [''Desconhecido'', ''Muito Baixo'', ''Baixo'', ''Moderado'', ''Alto'', ''Extremo'']"

text \<open>Lines 47-49: the volume in billions above a billion, in millions otherwise.\<close>

definition formattedVolume :: "real \<Rightarrow> number_text \<times> char" where
  "formattedVolume volume =
     (if volume > 1000000000 then (toFixed_text 2 (volume / 1000000000), CHR ''B'')
      else (toFixed_text 2 (volume / 1000000), CHR ''M''))"

text \<open>Line 51: the parts of the tooltip that vary.\<close>

record meter_tooltip =
  mt_label :: string
  mt_volatility :: number_text
  mt_volume :: "number_text \<times> char"

text \<open>Lines 53-68: five bars, each with its colour and height class; bar \<open>index\<close> is lit
  in the level's colour when \<open>index + 1 \<le> finalLevel\<close>.\<close>

definition barHeights :: "string list" where
  "barHeights = [''h-2'', ''h-2.5'', ''h-3'', ''h-3.5'', ''h-4'']"

definition meter_bars :: "int \<Rightarrow> (string \<times> string) list" where
  "meter_bars finalLevel =
     map (\<lambda>index. let barLevel = int index + 1
                   in (if barLevel \<le> finalLevel then levelColors ! nat finalLevel else levelColors ! 0,
                       barHeights ! index))
       [0..<5]"

text \<open>Lines 16-68: nothing without a volume, the tooltip and the bars otherwise.\<close>

definition VolatilityMeter :: "real \<Rightarrow> real option \<Rightarrow> (meter_tooltip \<times> (string \<times> string) list) option" where
  "VolatilityMeter volatility volume =
     (case (volume, meterLevel volatility volume) of
        (Some vol, Some finalLevel) \<Rightarrow>
          Some (\<lparr>mt_label = levelLabels ! nat finalLevel, mt_volatility = toFixed_text 2 \<bar>volatility\<bar>,
                 mt_volume = formattedVolume vol\<rparr>, meter_bars finalLevel)
      | _ \<Rightarrow> None)"

subsection \<open>The header's quotes\<close>

text \<open>\<open>App.tsx\<close> lines 22-23: the price and 24h change kept for a quote.\<close>

record ticker_data =
  td_price :: real
  td_change :: real

text \<open>Lines 68-79: the spot request for USDT/BRL throws, answers with an error status, or
  answers with the ticker (its decimal strings read by \<open>parseFloat\<close>).\<close>

datatype spot_response = SpotThrown | SpotNotOk | SpotOk ticker_data

record header_prices =
  bitcoinData :: "ticker_data option"
  usdtBrlData :: "ticker_data option"

definition no_prices :: header_prices where
  "no_prices = \<lparr>bitcoinData = None, usdtBrlData = None\<rparr>"

text \<open>Lines 56-79 of a tick: when the futures tickers arrive, the BTCUSDT ticker, if listed,
  replaces the BTC quote, and then the spot answer, if it is one, replaces the dollar quote;
  a failed request leaves the quotes it would have set as they were.\<close>

definition prices_tick :: "binance_ticker list option \<Rightarrow> spot_response \<Rightarrow> header_prices \<Rightarrow> header_prices" where
  "prices_tick resp spot hp =
     (case getAllFuturesTickers resp of
        None \<Rightarrow> hp
      | Some allTickers \<Rightarrow>
          (let hp1 = (case find (\<lambda>t. tk_symbol t = ''BTCUSDT'') allTickers of
                        None \<Rightarrow> hp
                      | Some btcTicker \<Rightarrow> hp\<lparr>bitcoinData := Some \<lparr>td_price = lastPrice btcTicker,
                                                 td_change = priceChangePercent btcTicker\<rparr>\<rparr>)
           in case spot of SpotOk d \<Rightarrow> hp1\<lparr>usdtBrlData := Some d\<rparr> | _ \<Rightarrow> hp1))"

text \<open>\<open>Header.tsx\<close> lines 122-143: a quote shows its price with two decimals
  (\<open>toLocaleString\<close>, en-US with two fraction digits for BTC, BRL currency for the dollar),
  a green up arrow for a non-negative change (red down arrow otherwise) and the absolute
  change with two decimals.\<close>

datatype quote_badge = QuoteBadge number_text bool number_text

definition price_badge :: "ticker_data \<Rightarrow> quote_badge" where
  "price_badge d = QuoteBadge (CurrencyText (fixed_mantissa 2 (td_price d)) 2) (td_change d \<ge> 0)
     (toFixed_text 2 \<bar>td_change d\<bar>)"

definition header_badges :: "header_prices \<Rightarrow> quote_badge option \<times> quote_badge option" where
  "header_badges hp = (map_option price_badge (bitcoinData hp), map_option price_badge (usdtBrlData hp))"

subsection \<open>The history page\<close>

text \<open>\<open>HistoryView.tsx\<close> lines 166-172: the period filters and their labels.\<close>

definition filters :: "(history_filter \<times> string) list" where
  "filters = [(HDay, ''Hoje''), (HWeek, ''Esta Semana''), (HMonth, ''Este M'' @ [char_of (234::nat)] @ ''s''),
     (HYear, ''Este Ano''), (HAll, ''Tudo'')]"

text \<open>Lines 228-262: one button per filter (its label, whether it is highlighted, the filter
  it selects), the date input (its text and whether it is highlighted), and whether
  \<open>Aplicar\<close> is enabled.\<close>

record filter_bar_view =
  fb_buttons :: "(string \<times> bool \<times> history_filter) list"
  fb_date_value :: string
  fb_date_active :: bool
  fb_apply_enabled :: bool

definition filter_bar :: "page_state \<Rightarrow> filter_bar_view" where
  "filter_bar p =
     \<lparr>fb_buttons = map (\<lambda>(key, label). (label, historyFilter p = key, key)) filters,
      fb_date_value = formatDateForInput (tempDate p),
      fb_date_active = (historyFilter p = HCustom),
      fb_apply_enabled = apply_enabled p\<rparr>"

text \<open>Lines 196-331: the summary cards, the filter bar and the body of the page, all from
  the report of the \<open>App\<close> memo.\<close>

record history_page_view =
  hv_summary :: summary_view
  hv_filters :: filter_bar_view
  hv_body :: history_body

definition HistoryView :: "page_state \<Rightarrow> history_page_view" where
  "HistoryView p =
     \<lparr>hv_summary = summary_cards (summary (page_report p)), hv_filters = filter_bar p,
      hv_body = history_body (page_report p) (visibleDaysCount p)\<rparr>"

text \<open>A futures ticker of BTCUSDT, for the examples.\<close>

definition demo_btc_ticker :: binance_ticker where
  "demo_btc_ticker = \<lparr>tk_symbol = ''BTCUSDT'', priceChangePercent = -(3 / 2), lastPrice = 6543210 / 100,
     tk_quoteVolume = 1000000000\<rparr>"

section \<open>Lemmas\<close>

lemma find_filter_weaker: "(\<And>x. P x \<Longrightarrow> Q x) \<Longrightarrow> find P (filter Q xs) = find P xs"
  by (induction xs) auto

lemma btc_is_usdt: "js_ends_with ''BTCUSDT'' ''USDT''"
  by (simp add: js_ends_with_def)

lemma meter_bars_length: "length (meter_bars l) = 5"
  by (simp add: meter_bars_def)

lemma meter_bars_lit:
  assumes "1 \<le> l" and "l \<le> 5"
  shows "length (filter (\<lambda>b. fst b \<noteq> ''bg-gray-600'') (meter_bars l)) = nat l"
proof -
  have "l = 1 \<or> l = 2 \<or> l = 3 \<or> l = 4 \<or> l = 5" using assms by arith
  then show ?thesis
    by (elim disjE) (simp_all add: meter_bars_def levelColors_def upt_rec)
qed

lemma level_label_known:
  assumes "1 \<le> l" and "l \<le> (5::int)"
  shows "levelLabels ! nat l \<noteq> ''Desconhecido''"
proof -
  have "l = 1 \<or> l = 2 \<or> l = 3 \<or> l = 4 \<or> l = 5" using assms by arith
  then show ?thesis by (elim disjE) (simp_all add: levelLabels_def)
qed

lemma quotes_kept_on_failure: "prices_tick None spot hp = hp"
  by (simp add: prices_tick_def getAllFuturesTickers_def)

lemma badge_price_close:
  assumes "0 \<le> x"
  shows "text_value (CurrencyText (fixed_mantissa 2 x) 2) = Some (to_fixed 2 x) \<and> \<bar>to_fixed 2 x - x\<bar> \<le> 1 / 200"
  using fixed_value [OF assms, of 2] to_fixed_error_le [of 2 x] by simp

lemma filter_button_selects:
  "historyFilter (page_step now (FilterButton k) p) = k"
  by (simp add: page_step_def page_handler_def handleFilterChange_def Let_def memo_refresh_sel page_effects_sel)

lemma history_body_load_more:
  "hv_body (HistoryView p) = DaySections vs b \<Longrightarrow> b = load_more_shown p"
  by (simp add: HistoryView_def history_body_def load_more_shown_def page_days_def split: if_splits)

section \<open>Properties of the widgets\<close>

text \<open>C20: the volatility meter lights as many of its five bars as the level it shows, and
  names that level (never \<open>Desconhecido\<close>).\<close>

theorem meter_shows_level:
  assumes "VolatilityMeter volatility volume = Some (tt, bars)"
  shows "\<exists>l. meterLevel volatility volume = Some l \<and> length bars = 5
           \<and> length (filter (\<lambda>b. fst b \<noteq> ''bg-gray-600'') bars) = nat l
           \<and> mt_label tt = levelLabels ! nat l \<and> mt_label tt \<noteq> ''Desconhecido''"
proof -
  obtain vol l where v: "volume = Some vol" and l: "meterLevel volatility volume = Some l"
    and b: "bars = meter_bars l" and t: "mt_label tt = levelLabels ! nat l"
    using assms by (auto simp: VolatilityMeter_def split: option.splits)
  have "1 \<le> l \<and> l \<le> 5" using meter_level_bounds [OF l] .
  then show ?thesis using l b t meter_bars_lit [of l] meter_bars_length [of l] level_label_known [of l]
    by auto
qed

theorem meter_shows_level_witness:
  "VolatilityMeter 3 (Some 60000000) = Some (fst (the (VolatilityMeter 3 (Some 60000000))), meter_bars 3)
   \<and> meterLevel 3 (Some 60000000) = Some 3 \<and> length (meter_bars 3) = 5
   \<and> length (filter (\<lambda>b. fst b \<noteq> ''bg-gray-600'') (meter_bars 3)) = nat 3"
proof -
  have l: "meterLevel 3 (Some 60000000) = Some 3"
    by (simp add: meterLevel_def getLevel_def js_round_def)
  then have m: "VolatilityMeter 3 (Some 60000000) = Some (fst (the (VolatilityMeter 3 (Some 60000000))), meter_bars 3)"
    by (simp add: VolatilityMeter_def)
  from meter_shows_level [OF m] l show ?thesis using m by auto
qed

text \<open>C13: after a tick whose futures snapshot lists BTCUSDT, the header's BTC quote shows that
  ticker's last price to within half a cent, a green up arrow exactly when its change is
  non-negative, and the change's absolute value with two decimals.\<close>

theorem btc_quote_shown:
  assumes "resp = Some ts" and "find (\<lambda>t. tk_symbol t = ''BTCUSDT'') ts = Some t" and "0 \<le> lastPrice t"
  shows "\<exists>p v. fst (header_badges (prices_tick resp spot hp))
                 = Some (QuoteBadge p (0 \<le> priceChangePercent t) (toFixed_text 2 \<bar>priceChangePercent t\<bar>))
               \<and> text_value p = Some v \<and> \<bar>v - lastPrice t\<bar> \<le> 1 / 200"
proof -
  have f: "find (\<lambda>t. tk_symbol t = ''BTCUSDT'') (filter (\<lambda>t. js_ends_with (tk_symbol t) ''USDT'') ts) = Some t"
    using find_filter_weaker [of "\<lambda>t. tk_symbol t = ''BTCUSDT''" "\<lambda>t. js_ends_with (tk_symbol t) ''USDT''" ts]
      btc_is_usdt assms(2) by auto
  have b: "bitcoinData (prices_tick resp spot hp) = Some \<lparr>td_price = lastPrice t, td_change = priceChangePercent t\<rparr>"
    using f assms(1) by (simp add: prices_tick_def getAllFuturesTickers_def Let_def split: spot_response.split)
  show ?thesis
    using b badge_price_close [OF assms(3)] by (simp add: header_badges_def price_badge_def)
qed

theorem btc_quote_shown_witness:
  "find (\<lambda>t. tk_symbol t = ''BTCUSDT'') [demo_btc_ticker] = Some demo_btc_ticker \<and> 0 \<le> lastPrice demo_btc_ticker
   \<and> (\<exists>p v. fst (header_badges (prices_tick (Some [demo_btc_ticker]) SpotThrown no_prices))
                 = Some (QuoteBadge p (0 \<le> priceChangePercent demo_btc_ticker) (toFixed_text 2 \<bar>priceChangePercent demo_btc_ticker\<bar>))
               \<and> text_value p = Some v \<and> \<bar>v - lastPrice demo_btc_ticker\<bar> \<le> 1 / 200)"
proof -
  have f: "find (\<lambda>t. tk_symbol t = ''BTCUSDT'') [demo_btc_ticker] = Some demo_btc_ticker" and
    l: "0 \<le> lastPrice demo_btc_ticker"
    by (simp_all add: demo_btc_ticker_def)
  show ?thesis using btc_quote_shown [OF refl f l, of SpotThrown no_prices] f l by blast
qed

text \<open>Exactly one control of the history page's filter bar is highlighted: the button of
  the current period filter, or the date input under the custom filter.\<close>

theorem one_filter_highlighted:
  "length (filter (\<lambda>b. fst (snd b)) (fb_buttons (filter_bar p)))
     + (if fb_date_active (filter_bar p) then 1 else 0) = (1::nat)"
  by (cases "historyFilter p") (simp_all add: filter_bar_def filters_def)

end
