(* ===== verification/AppSession.thy ===== *)
theory AppSession
  imports AppView Engine Sentiment
begin

text \<open>
  The whole page of \<open>src/src/App.tsx\<close> as one state machine: the board, archive and service
  caches of \<open>Engine\<close>, the display state of \<open>AppShell\<close>, the header's quotes and the filter
  and pagination state of the history page (\<open>HistoryPage\<close>), changed by the ticks of the
  five-second interval, the hourly sentiment fetch, the view buttons of \<open>Header\<close> and
  \<open>BottomNav\<close>, and the inputs of \<open>HistoryView\<close>. The interval calls the latest
  \<open>fetchSignals\<close> through \<open>savedFetchSignals\<close> (lines 265-282), so each tick acts on the
  state of that moment. \<open>HistoryView\<close> is mounted only in the history view: its local
  state starts afresh each time the view opens, while the memo of \<open>historyReport\<close> lives
  in \<open>App\<close>. The lemmas show that the page always renders the current archive, that the
  navigation agrees with what is shown, and that a tick that resolves nothing leaves the
  report, and the time it was computed at, as they were.
\<close>

record session =
  core :: "service_state app_state"
  disp :: app_display
  prices :: header_prices
  page :: page_state

text \<open>Lines 13-23 and the first render: the board and archive read back, the display state
  and no quotes, the memo computed at time \<open>now\<close> with the filter \<open>all\<close>.\<close>

definition initial_session ::
  "millis \<Rightarrow> trading_signal list \<Rightarrow> historical_signal list \<Rightarrow> alerts_slot \<Rightarrow> session" where
  "initial_session now stored hist slot =
     \<lparr>core = initial_app stored hist slot, disp = initial_display now, prices = no_prices,
      page = initial_page now hist\<rparr>"

text \<open>The events: a tick of the interval with the futures snapshot, the spot answer and
  the market its \<open>getTradingSignals\<close> call reads; the hourly sentiment fetch with the
  snapshot and klines \<open>getMarketSentiment\<close> reads; the header's toggle; a button of the
  bottom bar; an input of the history page.\<close>

datatype session_event =
    Tick "binance_ticker list option" spot_response market
  | SentimentTick "binance_ticker list option" "sym \<Rightarrow> kline list option"
  | ToggleView
  | NavSelect app_view
  | PageInput page_event

text \<open>\<open>setView(v)\<close> (lines 464 and 496): nothing when the view is already \<open>v\<close>; opening
  the history view mounts \<open>HistoryView\<close>, whose state starts as on lines 150-151
  (\<open>tempDate\<close> is the applied date).\<close>

definition set_view :: "app_view \<Rightarrow> session \<Rightarrow> session" where
  "set_view v s =
     (if v = view (disp s) then s
      else s\<lparr>disp := (disp s)\<lparr>view := v\<rparr>,
             page := (if v = ViewHistory
                      then (page s)\<lparr>visibleDaysCount := INITIAL_DAYS_TO_SHOW, tempDate := customHistoryDate (page s)\<rparr>
                      else page s)\<rparr>)"

text \<open>One tick (lines 49-262): \<open>fetchSignals\<close> on the board and archive, the display state,
  the quotes; when the tick wrote a new archive (line 229) the memo runs again, and the
  mounted history page reacts to the new report.\<close>

definition session_tick ::
  "millis \<Rightarrow> binance_ticker list option \<Rightarrow> spot_response \<Rightarrow> market \<Rightarrow> session \<Rightarrow> session" where
  "session_tick now resp spot mk s =
     (let r = app_tick now resp mk (core s);
          changed = ts_changed (snd (board_eval svc_remove now resp (core s)));
          hs = historicalSignals (fst r);
          p' = (if \<not> changed then page s
                else if view (disp s) = ViewHistory then page_step now (HistoryChanged hs) (page s)
                else (page s)\<lparr>pg_history := hs, reportTime := now\<rparr>)
      in s\<lparr>core := fst r, disp := display_tick now (signals (core s)) (snd r) (disp s),
           prices := prices_tick resp spot (prices s), page := p'\<rparr>)"

text \<open>The step of an event at time \<open>now\<close>. Inputs of the history page reach it only while it
  is mounted; a new archive comes from ticks only.\<close>

definition session_step :: "millis \<Rightarrow> session_event \<Rightarrow> session \<Rightarrow> session" where
  "session_step now e s =
     (case e of
        Tick resp spot mk \<Rightarrow> session_tick now resp spot mk s
      | SentimentTick resp klinesOf \<Rightarrow> s\<lparr>disp := sentiment_update (getMarketSentiment resp klinesOf) (disp s)\<rparr>
      | ToggleView \<Rightarrow> set_view (toggle_view (view (disp s))) s
      | NavSelect v \<Rightarrow> set_view v s
      | PageInput pe \<Rightarrow>
          (case pe of
             HistoryChanged _ \<Rightarrow> s
           | _ \<Rightarrow> if view (disp s) = ViewHistory then s\<lparr>page := page_step now pe (page s)\<rparr> else s))"

fun session_run :: "(millis \<times> session_event) list \<Rightarrow> session \<Rightarrow> session" where
  "session_run [] s = s"
| "session_run ((t, e) # es) s = session_run es (session_step t e s)"

text \<open>Lines 459-502: the header (its button label, quotes and sentiment), the title shown
  over the cards, the main area and the bottom bar.\<close>

datatype main_view = SignalsMain signal_area | HistoryMain history_page_view

record app_render =
  r_toggle_label :: string
  r_quotes :: "quote_badge option \<times> quote_badge option"
  r_sentiment :: "sentiment_dot \<times> string \<times> string"
  r_title :: "string option"
  r_main :: main_view
  r_nav :: "(string \<times> bool \<times> app_view) list"

definition App_render :: "session \<Rightarrow> app_render" where
  "App_render s =
     \<lparr>r_toggle_label = view_button_label (view (disp s)),
      r_quotes = header_badges (prices s),
      r_sentiment = SentimentIndicator (marketSentiment (disp s)),
      r_title = (if view (disp s) = ViewSignals then Some ''Top 8 Ativos do Mercado Futuro (USDT)'' else None),
      r_main = (if view (disp s) = ViewSignals then SignalsMain (renderSignalCards (disp s) (signals (core s)))
                else HistoryMain (HistoryView (page s))),
      r_nav = BottomNav (view (disp s))\<rparr>"

text \<open>The sessions the page reaches from a start by any events at any times.\<close>

inductive session_reachable :: "session \<Rightarrow> bool" where
  start: "session_reachable (initial_session now stored hist slot)"
| step: "session_reachable s \<Longrightarrow> session_reachable (session_step now e s)"

text \<open>The invariant: the page's archive is the application's, and the filter state keeps
  the invariant of \<open>HistoryPage\<close>.\<close>

definition session_inv :: "session \<Rightarrow> bool" where
  "session_inv s \<longleftrightarrow> pg_history (page s) = historicalSignals (core s) \<and> page_inv (page s)"

text \<open>A start with an empty board and archive, for the examples.\<close>

definition demo_session :: session where
  "demo_session = initial_session 0 [] [] SlotEmpty"

section \<open>Lemmas\<close>

lemma app_tick_history:
  "historicalSignals (fst (app_tick now resp mk a)) = written_history a (snd (board_eval svc_remove now resp a))"
  unfolding app_tick_def
  by (cases rule: fetch_signals_cases [of svc_remove "getTradingSignals mk" now resp a]) simp_all

lemma page_step_history:
  "pg_history (page_step now e p) = (case e of HistoryChanged hs \<Rightarrow> hs | _ \<Rightarrow> pg_history p)"
  by (cases e) (simp_all add: page_step_def page_effects_sel memo_refresh_sel page_handler_def
      handleFilterChange_def handleDateChange_def Let_def)

lemma set_view_page:
  "pg_history (page (set_view v s)) = pg_history (page s) \<and> (page_inv (page s) \<longrightarrow> page_inv (page (set_view v s)))"
  by (auto simp: set_view_def page_inv_def)

lemma set_view_core: "core (set_view v s) = core s"
  by (simp add: set_view_def)

lemma session_tick_inv:
  assumes "session_inv s"
  shows "session_inv (session_tick now resp spot mk s)"
proof -
  let ?st = "snd (board_eval svc_remove now resp (core s))"
  have h: "historicalSignals (fst (app_tick now resp mk (core s))) = written_history (core s) ?st"
    by (rule app_tick_history)
  show ?thesis
  proof (cases "ts_changed ?st")
    case False
    then show ?thesis using assms h by (simp add: session_tick_def session_inv_def written_history_def Let_def)
  next
    case True
    have "page_inv ((page s)\<lparr>pg_history := hs, reportTime := t\<rparr>)" for hs t
      using assms by (simp add: session_inv_def page_inv_def)
    with True assms h show ?thesis
      by (simp add: session_tick_def session_inv_def Let_def page_step_history page_inv_step)
  qed
qed

lemma session_step_inv:
  assumes "session_inv s"
  shows "session_inv (session_step now e s)"
proof (cases e)
  case (Tick resp spot mk)
  then show ?thesis using session_tick_inv [OF assms] by (simp add: session_step_def)
next
  case (SentimentTick resp k)
  then show ?thesis using assms by (simp add: session_step_def session_inv_def sentiment_update_def)
next
  case ToggleView
  then show ?thesis using assms set_view_page set_view_core by (simp add: session_step_def session_inv_def)
next
  case (NavSelect v)
  then show ?thesis using assms set_view_page set_view_core by (simp add: session_step_def session_inv_def)
next
  case (PageInput pe)
  then show ?thesis using assms
    by (cases pe) (simp_all add: session_step_def session_inv_def page_step_history page_inv_step)
qed

lemma session_reachable_inv: "session_reachable s \<Longrightarrow> session_inv s"
proof (induction rule: session_reachable.induct)
  case (start now stored hist slot)
  then show ?case
    by (simp add: session_inv_def initial_session_def initial_app_def initial_page_def page_inv_def)
next
  case (step s now e)
  from step.IH show ?case by (rule session_step_inv)
qed

lemma demo_session_quiet: "\<not> ts_changed (snd (board_eval svc_remove now resp (core demo_session)))"
  by (simp add: demo_session_def initial_session_def initial_app_def board_eval_def evaluate_board_def)

lemma nav_matches_main:
  "list_all (\<lambda>(l, a, v). a \<longleftrightarrow> (case r_main (App_render s) of SignalsMain _ \<Rightarrow> v = ViewSignals | HistoryMain _ \<Rightarrow> v = ViewHistory))
     (r_nav (App_render s))
   \<and> (r_title (App_render s) \<noteq> None \<longleftrightarrow> (case r_main (App_render s) of SignalsMain _ \<Rightarrow> True | HistoryMain _ \<Rightarrow> False))"
  by (cases "view (disp s)") (simp_all add: App_render_def BottomNav_def)

section \<open>Properties of the whole page\<close>

text \<open>C17: in every session the page reaches, the history page renders the report of the
  application's current archive (under the applied filter, at the time the memo last ran):
  no sequence of ticks, view changes and inputs leaves it showing an older archive.\<close>

theorem history_page_current_archive:
  assumes "session_reachable s"
  shows "HistoryView (page s) =
     (let R = historyReport (historicalSignals (core s)) (historyFilter (page s)) (customHistoryDate (page s))
                (reportTime (page s))
      in \<lparr>hv_summary = summary_cards (summary R), hv_filters = filter_bar (page s),
          hv_body = history_body R (visibleDaysCount (page s))\<rparr>)"
  using session_reachable_inv [OF assms] by (simp add: session_inv_def HistoryView_def page_report_def Let_def)

theorem history_page_current_archive_witness:
  "HistoryView (page demo_session) =
     (let R = historyReport (historicalSignals (core demo_session)) (historyFilter (page demo_session))
                (customHistoryDate (page demo_session)) (reportTime (page demo_session))
      in \<lparr>hv_summary = summary_cards (summary R), hv_filters = filter_bar (page demo_session),
          hv_body = history_body R (visibleDaysCount (page demo_session))\<rparr>)"
proof -
  have "session_reachable demo_session" unfolding demo_session_def by (rule session_reachable.start)
  from history_page_current_archive [OF this] show ?thesis .
qed

text \<open>A tick that resolves, records and expires nothing leaves the history page as it was,
  the time of its report included: the memo of \<open>historyReport\<close> depends on the archive and
  the filter only, so the \<open>Hoje\<close>, week, month and year filters keep the period of the
  last time one of those changed, however much later the page is looked at.\<close>

theorem quiet_tick_keeps_report:
  assumes "\<not> ts_changed (snd (board_eval svc_remove now resp (core s)))"
  shows "page (session_tick now resp spot mk s) = page s"
  using assms by (simp add: session_tick_def Let_def)

theorem quiet_tick_keeps_report_witness:
  "\<not> ts_changed (snd (board_eval svc_remove 86400000 None (core demo_session)))
   \<and> page (session_tick 86400000 None SpotThrown \<lparr>mk_now = 86400000, mk_exchange = None, mk_tickers = None, mk_ticker_error = [],
       mk_klines = (\<lambda>_. None), mk_random = (\<lambda>_. 0)\<rparr> demo_session) = page demo_session"
  using quiet_tick_keeps_report [OF demo_session_quiet [of 86400000 None]] demo_session_quiet by blast

end
