(* ===== verification/Spec2Isabelle.thy ===== *)
theory Spec2Isabelle
  imports Persistence Display Sentiment Proxy HistoryRender SignalCardView AppShell AppView AppSession
begin

text \<open>
  \<^bold>\<open>A verification library for Sniper-a.i.\<close>

  The program is a React single-page application (\<open>src/src/App.tsx\<close>) that keeps a board of
  at most eight trade signals on Binance USDT perpetual futures. Every five seconds the tick
  \<open>fetchSignals\<close> reads a ticker snapshot, evicts signals older than two hours, resolves
  stop-loss and take-profit hits into a history of results, and refills the board from the
  signal service of \<open>src/services/mockSignalService.ts\<close>. That service selects tradable,
  volatile symbols not alerted today (\<open>dailyAlertsService.ts\<close>), and for each computes a plan
  from hourly candles: indicators (EMA, MACD, ATR, RSI), price-action levels (fair value gaps,
  support and resistance), a trend gate, an entry zone, a stop, five targets, a leverage and a
  probability, with prices rounded by a leading-zero rule. Board and history are persisted in
  \<open>localStorage\<close> (\<open>activeSignalService.ts\<close>, \<open>historyService.ts\<close>) and the history page
  reports them by UTC day. A separate hourly loop computes a market sentiment
  (\<open>sentimentService.ts\<close>). The signal card (\<open>SignalCard.tsx\<close>) shows prices with the same
  rounding rule and opens one of three panels, two of them filled by the CoinGecko and Gemini
  services (\<open>geminiService.ts\<close>, \<open>geminiValidationService.ts\<close>). All Binance traffic goes
  through the proxy routes of \<open>src/api\<close> (and their copy in \<open>src/functions\<close>), with a
  response cache and a per-client rate limiter.

  \<^bold>\<open>Theories.\<close>
  \<^item> \<open>Prelude\<close>: the JavaScript library operations the sources use (\<open>Math.max(...xs)\<close> as an
    option, \<open>Math.round\<close>, \<open>findIndex\<close>, \<open>lastIndexOf\<close>, \<open>endsWith\<close>, \<open>startsWith\<close>,
    \<open>replace\<close>, the decimal string of an integer and its value) and their laws (collection
    \<open>js_simps\<close>).
  \<^item> \<open>Types\<close>: \<open>src/types.ts\<close> (enums as datatypes, \<open>TradingSignal\<close> as a record and
    \<open>HistoricalSignal\<close> as its extension), the ticker and cached-parameter types, and
    \<open>getAllFuturesTickers\<close>.
  \<^item> \<open>Indicators\<close>, \<open>PriceAction\<close>: \<open>calculateEMA\<close>, \<open>calculateEMASeries\<close>, \<open>calculateMACD\<close>,
    \<open>calculateATR\<close>, \<open>calculateRSI\<close>, \<open>findFairValueGaps\<close>, \<open>findSupportResistance\<close>
    (lines 116-297) over real numbers.
  \<^item> \<open>PriceFormat\<close>: \<open>formatPriceValue\<close> (lines 502-544), \<open>toFixed\<close> read on exact values.
  \<^item> \<open>SignalGen\<close>: \<open>generateSignalParameters\<close> (lines 306-563), split as the code is into
    \<open>analyse\<close> (indicators of the closed candles) and \<open>raw_plan\<close> (the decision), then
    \<open>format_params\<close>.
  \<^item> \<open>Service\<close>: \<open>removeSignalFromCache\<close>, \<open>getTradableFuturesSymbols\<close> with its one-hour
    cache, the daily alert ledger, and \<open>getTradingSignals\<close> (lines 580-644); the module
    caches and the \<open>localStorage\<close> slot form \<open>service_state\<close>, the exchange data of a call
    form \<open>market\<close>.
  \<^item> \<open>Lifecycle\<close>: \<open>fetchSignals\<close> (App.tsx lines 49-264) over an abstract service state
    \<open>'c\<close>, with \<open>removeSignalFromCache\<close> and \<open>getTradingSignals\<close> as parameters and their
    contract \<open>get_contract\<close>/\<open>rm_contract\<close> relative to an invariant of \<open>'c\<close>. The loop locals
    are the record \<open>tick_state\<close>; a tick returns the new React state and whether it published
    the board or its promise rejected.
  \<^item> \<open>Engine\<close>: the tick with the concrete service (\<open>app_tick\<close>), the start state read back
    from storage, and the inductive set \<open>reachable\<close> of states after any sequence of ticks.
  \<^item> \<open>Clocks\<close>: where the times of signals and records come from, and that ticks with
    valid clock readings keep every stored time valid.
  \<^item> \<open>Persistence\<close>: the application with its \<open>localStorage\<close>: the mount reads the
    stored board and history (App.tsx lines 18-19), two effects save them after every tick
    that commits a new array (lines 24-30), and the inductive set \<open>persisted\<close> runs ticks
    and effects; its states are the states of \<open>reachable\<close>.
  \<^item> \<open>Calendar\<close>: the UTC calendar of \<open>Date\<close> (day number to civil date and back, the
    \<open>getUTC*\<close> accessors, \<open>Date.UTC\<close>, \<open>toISOString\<close> and the ISO forms of \<open>Date.parse\<close>).
  \<^item> \<open>Storage\<close>: JavaScript values (\<open>jsval\<close>), \<open>JSON.stringify\<close> followed by \<open>JSON.parse\<close>
    with the date reviver, the TypeScript types as predicates on values, and
    \<open>getHistory\<close>/\<open>saveHistory\<close>, \<open>getActiveSignals\<close>/\<open>saveActiveSignals\<close> over a
    \<open>localStorage\<close> map whose writes may fail.
  \<^item> \<open>History\<close>: \<open>historyReport\<close> of App.tsx (filters, \<open>dateKey\<close> day groups, summary and
    best trade); \<open>HistoryPage\<close>: the page's filter state and its handlers
    (\<open>HistoryView.tsx\<close>) as an event step, with \<open>Carregar mais\<close> and the date input; the
    report is App's \<open>useMemo\<close>, computed at the time (\<open>reportTime\<close>) its dependencies last
    changed.
  \<^item> \<open>Display\<close>: the numeric helpers of the signal card and the volatility meter.
  \<^item> \<open>CryptoInfo\<close>: \<open>getCoingeckoIdMap\<close>, \<open>getCryptoInfo\<close> with its \<open>sessionStorage\<close> cache,
    and \<open>validateSignalAnalysis\<close> with the Gemini answer as a parameter; \<open>SignalCardPanels\<close>:
    the card's panel state, its click handlers and request completions as the inductive set
    \<open>card_reachable\<close>.
  \<^item> \<open>HistoryRender\<close>: what the history page renders, as data: the summary cards and
    \<open>PieChart\<close>, one section per visible day with a card and a row per record, their React
    keys and the day's totals.
  \<^item> \<open>SignalCardView\<close>: the signal card rendered from a signal and the panel state (targets
    with rockets, panel contents, button labels) and \<open>handleShare\<close> with its timers.
  \<^item> \<open>AppShell\<close>: App's display state and \<open>renderSignalCards\<close>, the header (sentiment
    indicator, view button, popup with outside click and ten-second timer), \<open>BottomNav\<close>,
    and \<open>CopyBlocker\<close> with its three-second toast. Timers are explicit deadlines and a
    run is a list of timed events.
  \<^item> \<open>AppView\<close>: the bars and tooltip of \<open>VolatilityMeter\<close>, the BTC and USDT/BRL quotes
    (the state \<open>fetchSignals\<close> keeps for them and the header's badges), the history filter
    bar and the whole \<open>HistoryView\<close> page as data.
  \<^item> \<open>AppSession\<close>: \<open>App\<close> as one state machine: interval ticks, the hourly sentiment
    fetch, \<open>setView\<close> from the header and \<open>BottomNav\<close> (with \<open>HistoryView\<close> remounted),
    history-page inputs, and App's render; the inductive set \<open>session_reachable\<close>.
  \<^item> \<open>Sentiment\<close>: \<open>getMarketSentiment\<close>.
  \<^item> \<open>Proxy\<close>: the response cache and rate limiter of \<open>proxy-helpers.ts\<close> and the routes
    that use them, with requests and upstream completions interleaved as an event step.

  \<^bold>\<open>What is proved.\<close> Lifecycle (C1, C2, C4, C5, C7): target flags are sticky, a
  fifth target resolves as WIN, expired signals are evicted whether or not prices arrived, the
  history holds one record per signal, and the board is refilled up to eight with well-formed
  signals of new symbols. Persistence (C6, C10): what is saved is read back unchanged (for
  times \<open>toISOString\<close> can write), and while no write fails a reload restores the board and
  history of any run whose clock readings are valid \<open>Date\<close>s (through \<open>Clocks\<close>: every time
  on the board, in the history and in the parameter cache comes from such a reading).
  Indicators, price action and formatting (C14, C28): levels are pivots, and the target text
  of the card denotes the value stored. Plans (C19, C21): ordered LONG ladders and an
  unreachable breakout fallback. Service and application (C22-C25, C27): the returned batch is
  bounded, well-formed, new for the day and recorded; ledger round trip; the id map keeps the
  first coin of a symbol; the tradable cache serves for an hour; every cached symbol is on the
  board in every reachable state. History (C3, C8, C15, C18, C29, C36): day keys decode to
  their day, typing a date and pressing \<open>Aplicar\<close> applies it on every reachable page, the
  groups partition the selected records newest first, the custom date selects exactly its
  day, \<open>Carregar mais\<close> shows every day after a computed number of presses, and the summary
  and best trade are those of the records. Pages (C9, C11, C12, C13, C16, C17, C20, C26, C30,
  C32): the rows of a day have distinct React keys when the archive has one record per signal,
  the header's popup closes within ten seconds of its last opening, the pie chart agrees with
  the win-rate card, the BTC quote shows the ticker's price to the cent with the arrow of its
  change, at most one card panel is open, in every state of the whole page the history page
  renders the current archive, the volatility meter lights as many bars as its level, a
  published tick never leaves the loading placeholders on screen, validation failures are
  displayed as the code words them, and the copy blocker's toast shows exactly within three
  seconds of the last attempt. Sentiment and proxy (C31, C33-C35): the vote samples the thirty
  largest volumes; a cache hit for a well-formed request is Binance's answer to it (a
  \<open>limit=default\<close> request shares the no-limit key, \<open>Proxy.klines_default_limit_collision\<close>);
  at most 89 requests per client per minute are admitted and a quiet minute restores
  admission. Lemmas beyond the claims show, among others, that a rejected service call leaves
  the board unpublished (\<open>Lifecycle.rejected_tick_keeps_board\<close>), that missing or corrupt
  entries read as empty (\<open>Storage.persistence_failure\<close>), that the share label can vanish
  half a second after a copy (\<open>SignalCardView.share_label_cut_short\<close>), that an empty board
  keeps its placeholders after a rejected tick (\<open>AppShell.rejected_tick_placeholders\<close>), and
  that a tick resolving nothing leaves the history report at the time it was computed
  (\<open>AppSession.quiet_tick_keeps_report\<close>), so the period filters go stale across midnight.

  \<^bold>\<open>Modelling choices.\<close> JavaScript numbers are reals: no floating-point rounding, no NaN
  or infinity (\<open>Math.max()\<close> of nothing is \<open>None\<close>); \<open>toFixed\<close> rounds the exact value, halves
  away from zero. Dates are integer milliseconds; the ISO round trip holds for times of
  magnitude at most 8.64e15, the range of a valid \<open>Date\<close>. Every network response is a
  parameter (\<open>None\<close> when the request fails or is not ok), as are \<open>Math.random()\<close>,
  \<open>Date.now()\<close>, the Gemini answer and whether a \<open>setItem\<close> succeeds. Exceptions are \<open>Inl\<close>
  values carrying the message. There is no fuel: every function is total, by structural
  recursion except the target scan \<open>tp_scan\<close> (measure \<open>5 - j\<close>) and the press loop
  \<open>load_until_all\<close> (measure: days not yet shown), both \<open>function\<close>s with a termination proof.
  Ticks, page events, card events and proxy events are sequential steps of inductive
  reachable sets.

  \<^bold>\<open>Not modelled.\<close> Markup, icons and styles (the SVG logo), and the digits of
  \<open>toLocaleString\<close> (the quotes are two-decimal numbers); \<open>HistoryTable.tsx\<close>, which no module imports; the prompt
  text sent to Gemini and the generative model itself; the character level of JSON text
  (stored entries are values or unparsable) and \<open>Date.parse\<close> forms other than the UTC ISO
  ones; \<open>Number.prototype.toString\<close> and \<open>toLocale*String\<close> (the shared text takes the
  printer as a parameter, dates are kept as times); case mapping beyond ASCII; and the
  scheduling of asynchronous ticks: \<open>setInterval\<close> does not wait for a tick to finish, so
  overlapping ticks are outside the sequential model.
\<close>

end
